(* ===== verification/Relay_Prelude.thy ===== *)
theory Relay_Prelude
  imports Main "HOL-Library.AList" "HOL-Library.Sublist"
    "HOL-Library.List_Lexorder" "HOL-Library.Char_ord"
begin

text \<open>
  What every component shares: Go's 64-bit integers written out on int, durations,
  buffered channels with a non-blocking send, Go maps as association lists in iteration
  order with the laws of update, delete and the sorted snapshot, and the stable
  sort behind \<^verbatim>\<open>sort.SliceStable\<close>. The collections declared here are filled by the
  component theories and used as \<open>simp add:\<close> bundles.
\<close>

named_theorems store_ops \<open>definitions of the request store's operations\<close>
named_theorems audit_simps \<open>what an operation appends to the audit log\<close>
named_theorems handler_simps \<open>definitions of the web handler's steps\<close>
named_theorems tool_simps \<open>definitions of the tool handlers' argument parsing\<close>

section \<open>Machine integers and durations\<close>

text \<open>A Go int or time.Duration is 64 bits wide. The model keeps the value in int and
  writes out where it wraps (arithmetic) or saturates (time.Time.Sub).\<close>

definition max_int64 :: int where "max_int64 = 9223372036854775807"
definition min_int64 :: int where "min_int64 = - 9223372036854775808"

definition wrap64 :: "int \<Rightarrow> int" where
  "wrap64 x = (x + 9223372036854775808) mod 18446744073709551616 - 9223372036854775808"

definition sat64 :: "int \<Rightarrow> int" where
  "sat64 x = max min_int64 (min max_int64 x)"

definition in_int64 :: "int \<Rightarrow> bool" where
  "in_int64 x \<longleftrightarrow> min_int64 \<le> x \<and> x \<le> max_int64"

lemma wrap64_id [simp]: "in_int64 x \<Longrightarrow> wrap64 x = x"
  by (simp add: wrap64_def in_int64_def min_int64_def max_int64_def)

lemma wrap64_in_int64: "in_int64 (wrap64 x)"
proof -
  have "0 \<le> (x + 9223372036854775808) mod 18446744073709551616"
    and "(x + 9223372036854775808) mod 18446744073709551616 < 18446744073709551616"
    by simp_all
  then show ?thesis
    by (simp add: wrap64_def in_int64_def min_int64_def max_int64_def)
qed

lemma sat64_in_int64: "in_int64 (sat64 x)"
  by (simp add: sat64_def in_int64_def min_int64_def max_int64_def)

lemma sat64_id [simp]: "in_int64 x \<Longrightarrow> sat64 x = x"
  by (auto simp: sat64_def in_int64_def)

lemma sat64_mono: "x \<le> y \<Longrightarrow> sat64 x \<le> sat64 y"
  by (auto simp: sat64_def min_int64_def max_int64_def)

definition second :: int where "second = 1000000000"
definition minute :: int where "minute = 60000000000"
definition millisecond :: int where "millisecond = 1000000"

text \<open>Go's integer division truncates towards zero.\<close>

definition quot :: "int \<Rightarrow> int \<Rightarrow> int" where
  "quot a b = sgn a * sgn b * (\<bar>a\<bar> div \<bar>b\<bar>)"

lemma quot_nonneg [simp]: "0 \<le> a \<Longrightarrow> 0 < b \<Longrightarrow> quot a b = a div b"
  by (cases "a = 0") (auto simp: quot_def)

text \<open>A time.Time is its number of nanoseconds on some clock; the zero Time is told apart
  (\<^verbatim>\<open>IsZero\<close>), so an instant is optional where the code tests for it. \<^verbatim>\<open>time.Since\<close> of the
  zero Time saturates.\<close>

definition since_opt :: "int \<Rightarrow> int option \<Rightarrow> int" where
  "since_opt now t = (case t of None \<Rightarrow> max_int64 | Some u \<Rightarrow> sat64 (now - u))"

section \<open>Buffered channels\<close>

text \<open>\<^verbatim>\<open>select { case c <- x: default: }\<close> on a channel with a buffer of \<open>cap\<close>.\<close>

definition chan_send :: "nat \<Rightarrow> 'a \<Rightarrow> 'a list \<Rightarrow> 'a list" where
  "chan_send cap x q = (if length q < cap then q @ [x] else q)"

lemma chan_send_bound: "length q \<le> cap \<Longrightarrow> length (chan_send cap x q) \<le> cap"
  by (simp add: chan_send_def)

lemma set_chan_send: "set (chan_send cap x q) \<subseteq> insert x (set q)"
  by (auto simp: chan_send_def)

section \<open>Go maps as association lists\<close>

text \<open>A Go map whose iteration order the code uses is an association list with distinct
  keys in the order one iteration would take. \<open>AList.update\<close> is \<^verbatim>\<open>m[k] = v\<close> and
  \<open>AList.delete\<close> is \<^verbatim>\<open>delete(m, k)\<close>.\<close>

type_synonym ('k, 'v) gomap = "('k \<times> 'v) list"

abbreviation gomap_ok :: "('k, 'v) gomap \<Rightarrow> bool" where
  "gomap_ok m \<equiv> distinct (map fst m)"

abbreviation gomap_get :: "('k, 'v) gomap \<Rightarrow> 'k \<Rightarrow> 'v option" where
  "gomap_get \<equiv> map_of"

text \<open>\<^verbatim>\<open>m[k]\<close> of a string map: a missing key reads as the zero value.\<close>

definition gomap_str :: "('k, string) gomap \<Rightarrow> 'k \<Rightarrow> string" where
  "gomap_str m k = (case map_of m k of None \<Rightarrow> [] | Some v \<Rightarrow> v)"

lemma gomap_ok_update [simp]: "gomap_ok m \<Longrightarrow> gomap_ok (AList.update k v m)"
  by (rule distinct_update)

lemma gomap_ok_delete [simp]: "gomap_ok m \<Longrightarrow> gomap_ok (AList.delete k m)"
  by (rule distinct_delete)

lemma gomap_get_update [simp]:
  "gomap_get (AList.update k v m) k' = (if k' = k then Some v else gomap_get m k')"
  by (simp add: update_conv')

lemma gomap_get_delete [simp]:
  "gomap_get (AList.delete k m) k' = (if k' = k then None else gomap_get m k')"
  by (simp add: delete_conv')

text \<open>The snapshot sorted by key, as \<^verbatim>\<open>sort.Slice\<close> over distinct keys returns it.\<close>

definition sorted_values :: "('k::linorder, 'v) gomap \<Rightarrow> 'v list" where
  "sorted_values m = map snd (sort_key fst m)"

lemma set_sorted_values [simp]: "set (sorted_values m) = snd ` set m"
  by (simp add: sorted_values_def)

lemma length_sorted_values [simp]: "length (sorted_values m) = length m"
  by (simp add: sorted_values_def)

lemma sorted_values_empty [simp]: "sorted_values [] = []"
  by (simp add: sorted_values_def)

lemma map_insort_key: "map f (insort_key f x xs) = insort (f x) (map f xs)"
  by (induction xs) auto

lemma map_sort_key: "map f (sort_key f xs) = sort (map f xs)"
  by (induction xs) (simp_all add: map_insort_key)

lemma sorted_values_keys:
  assumes "\<And>k v. (k, v) \<in> set m \<Longrightarrow> key v = k"
  shows "map key (sorted_values m) = sort (map fst m)"
proof -
  have "map key (map snd (sort_key fst m)) = map fst (sort_key fst m)"
    using assms by (auto simp: in_set_conv_nth)
  also have "\<dots> = sort (map fst m)"
    by (rule map_sort_key)
  finally show ?thesis by (simp add: sorted_values_def)
qed

text \<open>Inserting the elements of a list one after the other, as the loaders do after
  decoding the file: a later element with the same key wins.\<close>

definition load_list :: "('v \<Rightarrow> 'k) \<Rightarrow> 'v list \<Rightarrow> ('k, 'v) gomap" where
  "load_list key vs = fold (\<lambda>v m. AList.update (key v) v m) vs []"

lemma gomap_ok_load: "gomap_ok (load_list key vs)"
proof -
  have "gomap_ok m \<Longrightarrow> gomap_ok (fold (\<lambda>v m. AList.update (key v) v m) vs m)" for m
    by (induction vs arbitrary: m) simp_all
  then show ?thesis by (simp add: load_list_def)
qed

lemma load_list_get:
  "gomap_get (load_list key vs) k = map_of (map (\<lambda>v. (key v, v)) (rev vs)) k"
proof -
  have "gomap_get (fold (\<lambda>v m. AList.update (key v) v m) vs m) k
      = (case map_of (map (\<lambda>v. (key v, v)) (rev vs)) k of
           None \<Rightarrow> gomap_get m k | Some v \<Rightarrow> Some v)" for m
  proof (induction vs arbitrary: m)
    case Nil
    then show ?case by simp
  next
    case (Cons v vs)
    show ?case
      by (simp add: Cons.IH map_add_def split: option.splits)
  qed
  from this [of "[]"] show ?thesis
    by (simp add: load_list_def split: option.splits)
qed

text \<open>Saving a snapshot and loading it back gives the same map.\<close>

lemma load_sorted_values:
  assumes ok: "gomap_ok m" and keys: "\<And>k v. (k, v) \<in> set m \<Longrightarrow> key v = k"
  shows "gomap_get (load_list key (sorted_values m)) k = gomap_get m k"
proof -
  let ?s = "sort_key fst m"
  have pairs: "map (\<lambda>v. (key v, v)) (rev (sorted_values m)) = rev ?s"
  proof -
    have "map (\<lambda>v. (key v, v)) (map snd ?s) = ?s"
      using keys by (auto intro!: map_idI)
    then show ?thesis
      by (simp add: sorted_values_def rev_map [symmetric])
  qed
  have dist: "distinct (map fst (rev ?s))"
  proof -
    have "distinct (map fst ?s)"
      using ok by (metis distinct_map distinct_sort set_sort)
    then show ?thesis by (simp add: rev_map [symmetric])
  qed
  have "gomap_get (rev ?s) k = gomap_get m k"
    by (rule map_of_eqI [THEN fun_cong]) (use dist ok in \<open>auto simp: map_of_eq_Some_iff
      Some_eq_map_of_iff\<close>)
  then show ?thesis by (simp add: load_list_get pairs)
qed

section \<open>Stable sorting by a comparison\<close>

text \<open>\<^verbatim>\<open>sort.SliceStable(xs, less)\<close>: an element moves in front of another one only when it is
  less. For a strict weak order the stable result is unique; insertion computes it.\<close>

fun insert_stable :: "('a \<Rightarrow> 'a \<Rightarrow> bool) \<Rightarrow> 'a \<Rightarrow> 'a list \<Rightarrow> 'a list" where
  "insert_stable lt x [] = [x]"
| "insert_stable lt x (y # ys) =
     (if lt y x then y # insert_stable lt x ys else x # y # ys)"

fun sort_stable :: "('a \<Rightarrow> 'a \<Rightarrow> bool) \<Rightarrow> 'a list \<Rightarrow> 'a list" where
  "sort_stable lt [] = []"
| "sort_stable lt (x # xs) = insert_stable lt x (sort_stable lt xs)"

lemma set_insert_stable [simp]: "set (insert_stable lt x xs) = insert x (set xs)"
  by (induction xs) auto

lemma set_sort_stable [simp]: "set (sort_stable lt xs) = set xs"
  by (induction xs) auto

lemma length_insert_stable [simp]: "length (insert_stable lt x xs) = Suc (length xs)"
  by (induction xs) auto

lemma length_sort_stable [simp]: "length (sort_stable lt xs) = length xs"
  by (induction xs) auto

text \<open>The elements that satisfy a predicate keep their order when the comparison never
  tells two of them apart: the stability of the sort.\<close>

lemma filter_insert_stable:
  assumes "\<And>y. y \<in> set xs \<Longrightarrow> P x \<Longrightarrow> P y \<Longrightarrow> \<not> lt y x"
  shows "filter P (insert_stable lt x xs) = (if P x then x # filter P xs else filter P xs)"
  using assms by (induction xs) auto

lemma filter_sort_stable:
  assumes "\<And>x y. x \<in> set xs \<Longrightarrow> y \<in> set xs \<Longrightarrow> P x \<Longrightarrow> P y \<Longrightarrow> \<not> lt y x"
  shows "filter P (sort_stable lt xs) = filter P xs"
  using assms
proof (induction xs)
  case Nil
  then show ?case by simp
next
  case (Cons x xs)
  have "filter P (insert_stable lt x (sort_stable lt xs)) =
      (if P x then x # filter P (sort_stable lt xs) else filter P (sort_stable lt xs))"
    by (rule filter_insert_stable) (simp add: Cons.prems)
  with Cons show ?case by simp
qed

lemma sorted_insert_stable:
  assumes trans: "\<And>x y z. \<not> lt y x \<Longrightarrow> \<not> lt z y \<Longrightarrow> \<not> lt z x"
    and asym: "\<And>x y. lt x y \<Longrightarrow> \<not> lt y x"
    and srt: "sorted_wrt (\<lambda>x y. \<not> lt y x) xs"
  shows "sorted_wrt (\<lambda>x y. \<not> lt y x) (insert_stable lt x xs)"
  using srt
proof (induction xs)
  case Nil
  then show ?case by simp
next
  case (Cons y ys)
  show ?case
  proof (cases "lt y x")
    case True
    then have "\<not> lt x y" by (rule asym)
    with Cons True show ?thesis by simp
  next
    case False
    have "\<forall>z\<in>set ys. \<not> lt z x"
      using Cons.prems False by (meson sorted_wrt.simps(2) trans)
    with Cons.prems False show ?thesis by simp
  qed
qed

lemma sorted_sort_stable:
  assumes "\<And>x y z. \<not> lt y x \<Longrightarrow> \<not> lt z y \<Longrightarrow> \<not> lt z x"
    and "\<And>x y. lt x y \<Longrightarrow> \<not> lt y x"
  shows "sorted_wrt (\<lambda>x y. \<not> lt y x) (sort_stable lt xs)"
proof (induction xs)
  case Nil
  then show ?case by simp
next
  case (Cons x xs)
  show ?case
    unfolding sort_stable.simps by (rule sorted_insert_stable [OF assms Cons.IH]) assumption+
qed

end
