(* ===== verification/Go_Lib.thy ===== *)
theory Go_Lib
  imports Go_Strings
begin

text \<open>
  JSON values as \<^verbatim>\<open>encoding/json\<close> decodes them into \<^verbatim>\<open>interface{}\<close>, the tool arguments read
  from them (mcp/tools.go intArg, intArgStrict and the type assertions), and the record of
  those library functions the model takes as arguments: SHA-256, \<^verbatim>\<open>%q\<close> quoting, shortest
  float formatting, time formatting and the JSON text syntax.
\<close>

section \<open>JSON values\<close>

text \<open>A finite float64 is \<open>m * 2 ^ e\<close>.\<close>

datatype f64 = F64 int int

datatype jval = JNull | JBool bool | JNum f64 | JInt int | JStr string
  | JArr "jval list" | JObj "(string \<times> jval) list"

text \<open>Go's \<^verbatim>\<open>int(f)\<close>: truncation towards zero. Out of the 64-bit range the result is
  implementation-defined; amd64 gives the most negative integer.\<close>

fun f64_trunc :: "f64 \<Rightarrow> int" where
  "f64_trunc (F64 m e) = (if 0 \<le> e then m * 2 ^ nat e else quot m (2 ^ nat (- e)))"

definition f64_int :: "f64 \<Rightarrow> int" where
  "f64_int f = (if in_int64 (f64_trunc f) then f64_trunc f else min_int64)"

definition f64_of_int :: "int \<Rightarrow> f64" where
  "f64_of_int i = F64 i 0"

lemma f64_int_of_int [simp]: "in_int64 i \<Longrightarrow> f64_int (f64_of_int i) = i"
  by (simp add: f64_int_def f64_of_int_def)

lemma f64_int_range: "in_int64 (f64_int f)"
  by (simp add: f64_int_def) (simp add: in_int64_def min_int64_def max_int64_def)

text \<open>Whether two of these dyadic numbers are the same real number.\<close>

fun f64_eq :: "f64 \<Rightarrow> f64 \<Rightarrow> bool" where
  "f64_eq (F64 m e) (F64 n d) =
     (if d \<le> e then m * 2 ^ nat (e - d) = n else m = n * 2 ^ nat (d - e))"

section \<open>Library functions taken as arguments\<close>

record golib =
  lib_sha256 :: "string \<Rightarrow> string"
  lib_quote :: "string \<Rightarrow> string"
  lib_float :: "f64 \<Rightarrow> string"
  lib_time :: "int \<Rightarrow> string"
  lib_unmarshal :: "string \<Rightarrow> string + jval"
  lib_marshal :: "jval \<Rightarrow> string"

section \<open>Tool arguments\<close>

type_synonym tool_args = "(string, jval) gomap"

text \<open>\<^verbatim>\<open>x, _ := args[k].(string)\<close> and its companions: a missing key or another type reads
  as the zero value.\<close>

definition arg_str :: "tool_args \<Rightarrow> string \<Rightarrow> string" where
  "arg_str args k = (case map_of args k of Some (JStr s) \<Rightarrow> s | _ \<Rightarrow> '''')"

definition arg_bool :: "tool_args \<Rightarrow> string \<Rightarrow> bool" where
  "arg_bool args k = (case map_of args k of Some (JBool b) \<Rightarrow> b | _ \<Rightarrow> False)"

text \<open>\<^verbatim>\<open>if t, ok := args["timeout"].(float64); ok { timeout = int(t) }\<close>\<close>

definition arg_float_int :: "tool_args \<Rightarrow> string \<Rightarrow> int" where
  "arg_float_int args k = (case map_of args k of Some (JNum f) \<Rightarrow> f64_int f | _ \<Rightarrow> 0)"

text \<open>The string elements of an array argument; the loop skips the others.\<close>

fun json_strings :: "jval list \<Rightarrow> string list" where
  "json_strings [] = []"
| "json_strings (JStr s # vs) = s # json_strings vs"
| "json_strings (_ # vs) = json_strings vs"

definition arg_strings :: "tool_args \<Rightarrow> string \<Rightarrow> string list" where
  "arg_strings args k = (case map_of args k of Some (JArr vs) \<Rightarrow> json_strings vs | _ \<Rightarrow> [])"

text \<open>The string members of an object argument, keyed as in the object.\<close>

fun json_string_map :: "(string \<times> jval) list \<Rightarrow> (string, string) gomap" where
  "json_string_map [] = []"
| "json_string_map ((k, JStr s) # vs) = (k, s) # json_string_map vs"
| "json_string_map (_ # vs) = json_string_map vs"

definition int_arg :: "tool_args \<Rightarrow> string \<Rightarrow> int" where
  "int_arg args k = (case map_of args k of
       Some (JNum f) \<Rightarrow> f64_int f
     | Some (JInt i) \<Rightarrow> i
     | _ \<Rightarrow> 0)"

text \<open>Present but not a number is an error; absent or null reads as 0. The error text is
  rendered from the key and the JSON type where the tools answer.\<close>

definition int_arg_strict :: "tool_args \<Rightarrow> string \<Rightarrow> jval + int" where
  "int_arg_strict args k = (case map_of args k of
       None \<Rightarrow> Inr 0
     | Some JNull \<Rightarrow> Inr 0
     | Some (JNum f) \<Rightarrow> Inr (f64_int f)
     | Some (JInt i) \<Rightarrow> Inr i
     | Some v \<Rightarrow> Inl v)"

lemma int_arg_strict_agrees: "int_arg_strict args k = Inr i \<Longrightarrow> int_arg args k = i"
  by (auto simp: int_arg_strict_def int_arg_def split: option.splits jval.splits)

lemmas arg_defs = arg_str_def arg_bool_def arg_float_int_def arg_strings_def int_arg_def
  int_arg_strict_def

end
