(* ===== verification/Registry.thy ===== *)
theory Registry
  imports Go_Lib
begin

text \<open>
  The contract the three JSON-backed registries (containers, machines, client tokens)
  share, and the disk they persist to. A client of a registry may rely on: lookup after an
  update or a deletion, the listing being exactly the entries in increasing key order, and a
  restart reading back what was saved.
\<close>

section \<open>Files\<close>

text \<open>What os.ReadFile followed by json.Unmarshal finds.\<close>

datatype 'a disk = NoFile | File 'a | Corrupt string | Unreadable string

text \<open>How os.WriteFile ended. A failed write may leave anything behind.\<close>

datatype 'a write_outcome = WriteOK | WriteErr string "'a disk"

datatype registry_error =
    ParseError string string
  | ReadError string string
  | WriteError string string
  | UpsertContainer int registry_error
  | ContainerNotFound int
  | UpsertMachine string registry_error
  | MachineNotFound string

text \<open>The texts \<^verbatim>\<open>Error()\<close> returns.\<close>

fun registry_error_text :: "golib \<Rightarrow> registry_error \<Rightarrow> string" where
  "registry_error_text lib (ParseError p e) = ''parse '' @ p @ '': '' @ e"
| "registry_error_text lib (ReadError p e) = ''read '' @ p @ '': '' @ e"
| "registry_error_text lib (WriteError p e) = ''write '' @ p @ '': '' @ e"
| "registry_error_text lib (UpsertContainer c e) =
     ''upsert container '' @ itoa c @ '': '' @ registry_error_text lib e"
| "registry_error_text lib (ContainerNotFound c) = ''container '' @ itoa c @ '' not found''"
| "registry_error_text lib (UpsertMachine m e) =
     ''upsert machine '' @ lib_quote lib m @ '': '' @ registry_error_text lib e"
| "registry_error_text lib (MachineNotFound m) = ''machine '' @ lib_quote lib m @ '' not found''"

section \<open>The interface\<close>

locale registry =
  fixes wf :: "'s \<Rightarrow> bool"
    and lookup :: "'s \<Rightarrow> 'k::linorder \<Rightarrow> 'v option"
    and entries :: "'s \<Rightarrow> 'v list"
    and key :: "'v \<Rightarrow> 'k"
  assumes entries_keys: "wf s \<Longrightarrow> sorted (map key (entries s)) \<and> distinct (map key (entries s))"
    and entries_lookup: "wf s \<Longrightarrow> v \<in> set (entries s) \<longleftrightarrow> lookup s (key v) = Some v"
begin

lemma entries_strictly_sorted: "wf s \<Longrightarrow> sorted_wrt (<) (map key (entries s))"
  by (simp add: strict_sorted_iff entries_keys)

lemma entry_unique:
  "wf s \<Longrightarrow> u \<in> set (entries s) \<Longrightarrow> v \<in> set (entries s) \<Longrightarrow> key u = key v \<Longrightarrow> u = v"
  using entries_lookup by fastforce

end

locale mutable_registry = registry wf lookup entries key
  for wf :: "'s \<Rightarrow> bool"
    and lookup :: "'s \<Rightarrow> 'k::linorder \<Rightarrow> 'v option"
    and entries :: "'s \<Rightarrow> 'v list"
    and key :: "'v \<Rightarrow> 'k" +
  fixes put :: "'v \<Rightarrow> 's \<Rightarrow> 's"
    and del :: "'k \<Rightarrow> 's \<Rightarrow> 's"
  assumes wf_put: "wf s \<Longrightarrow> wf (put v s)"
    and wf_del: "wf s \<Longrightarrow> wf (del k s)"
    and lookup_put: "lookup (put v s) k = (if k = key v then Some v else lookup s k)"
    and lookup_del: "lookup (del k s) k' = (if k' = k then None else lookup s k')"
    and lookup_key: "wf s \<Longrightarrow> lookup s k = Some v \<Longrightarrow> key v = k"
begin

lemma entries_put:
  "wf s \<Longrightarrow> set (entries (put v s)) = insert v {u \<in> set (entries s). key u \<noteq> key v}"
  by (auto simp: entries_lookup wf_put lookup_put split: if_splits)

lemma entries_del: "wf s \<Longrightarrow> set (entries (del k s)) = {u \<in> set (entries s). key u \<noteq> k}"
  by (auto simp: entries_lookup wf_del lookup_del split: if_splits)

lemma put_put: "lookup (put v (put u s)) k = (if key u = key v then lookup (put v s) k
    else lookup (put u (put v s)) k)"
  by (auto simp: lookup_put)

end

locale persistent_registry = mutable_registry wf lookup entries key put del
  for wf :: "'s \<Rightarrow> bool"
    and lookup :: "'s \<Rightarrow> 'k::linorder \<Rightarrow> 'v option"
    and entries :: "'s \<Rightarrow> 'v list"
    and key :: "'v \<Rightarrow> 'k"
    and put :: "'v \<Rightarrow> 's \<Rightarrow> 's"
    and del :: "'k \<Rightarrow> 's \<Rightarrow> 's" +
  fixes load :: "'v list \<Rightarrow> 's"
  assumes wf_load: "wf (load vs)"
    and lookup_load: "wf s \<Longrightarrow> lookup (load (entries s)) k = lookup s k"
begin

text \<open>A restart: what was listed at the last save is what the new process finds.\<close>

lemma set_entries_load: "wf s \<Longrightarrow> set (entries (load (entries s))) = set (entries s)"
  by (auto simp: entries_lookup wf_load lookup_load)

lemma entries_load:
  assumes "wf s"
  shows "entries (load (entries s)) = entries s"
proof -
  let ?es = "entries (load (entries s))"
  have keys: "sorted (map key ?es) \<and> distinct (map key ?es)"
    by (rule entries_keys [OF wf_load])
  have "map key ?es = map key (entries s)"
    using keys entries_keys [OF assms] set_entries_load [OF assms]
    by (intro sorted_distinct_set_unique) (auto simp: distinct_map)
  then have len: "length ?es = length (entries s)"
    and nth: "key (?es ! i) = key (entries s ! i)" if "i < length (entries s)" for i
    using that by (auto dest: map_eq_imp_length_eq) (metis nth_map map_eq_imp_length_eq)
  show ?thesis
  proof (rule nth_equalityI)
    show "length ?es = length (entries s)"
      using \<open>map key ?es = map key (entries s)\<close> by (rule map_eq_imp_length_eq)
    fix i assume i: "i < length ?es"
    then have i': "i < length (entries s)"
      using \<open>length ?es = length (entries s)\<close> by simp
    show "?es ! i = entries s ! i"
      using entry_unique [OF assms] nth [OF i'] i i' set_entries_load [OF assms]
      by (metis nth_mem)
  qed
qed

end

text \<open>The generic provider: a Go map with its sorted snapshot.\<close>

definition gomap_wf :: "('v \<Rightarrow> 'k) \<Rightarrow> ('k, 'v) gomap \<Rightarrow> bool" where
  "gomap_wf key m \<longleftrightarrow> gomap_ok m \<and> (\<forall>k v. map_of m k = Some v \<longrightarrow> key v = k)"

lemma gomap_wf_in: "gomap_wf key m \<Longrightarrow> (k, v) \<in> set m \<longleftrightarrow> map_of m k = Some v"
  by (auto simp: gomap_wf_def map_of_eq_Some_iff)

lemma gomap_wf_key: "gomap_wf key m \<Longrightarrow> (k, v) \<in> set m \<Longrightarrow> key v = k"
  unfolding gomap_wf_in by (unfold gomap_wf_def) blast

lemma gomap_wf_put: "gomap_wf key m \<Longrightarrow> gomap_wf key (AList.update (key v) v m)"
  by (auto simp: gomap_wf_def)

lemma gomap_wf_put_at [simp]: "key v = k \<Longrightarrow> gomap_wf key m \<Longrightarrow> gomap_wf key (AList.update k v m)"
  by (auto simp: gomap_wf_def)

lemma gomap_wf_del [simp]: "gomap_wf key m \<Longrightarrow> gomap_wf key (AList.delete k m)"
  by (auto simp: gomap_wf_def)

lemma gomap_wf_load [simp]: "gomap_wf key (load_list (key :: 'v \<Rightarrow> 'k) vs)"
proof -
  have "gomap_wf key (fold (\<lambda>v m. AList.update (key v) v m) vs m)" if "gomap_wf key m" for m
    using that
  proof (induction vs arbitrary: m)
    case Nil
    then show ?case by simp
  next
    case (Cons v vs)
    have "gomap_wf key (AList.update (key v) v m)" by (rule gomap_wf_put [OF Cons.prems])
    then show ?case unfolding fold_simps by (rule Cons.IH)
  qed
  moreover have "gomap_wf key ([] :: ('k, 'v) gomap)" by (simp add: gomap_wf_def)
  ultimately show ?thesis unfolding load_list_def .
qed

interpretation gomap_registry:
  persistent_registry "gomap_wf key" gomap_get sorted_values key
    "\<lambda>v. AList.update (key v) v" AList.delete "load_list key"
  for key :: "'v \<Rightarrow> 'k::linorder"
proof
  fix m :: "('k, 'v) gomap" and v :: 'v and k k' :: 'k
  show "gomap_wf key m \<Longrightarrow> sorted (map key (sorted_values m)) \<and> distinct (map key (sorted_values m))"
  proof -
    assume wf: "gomap_wf key m"
    have "map key (sorted_values m) = sort (map fst m)"
      by (rule sorted_values_keys) (rule gomap_wf_key [OF wf])
    moreover have "distinct (map fst m)" using wf by (simp add: gomap_wf_def)
    ultimately show "sorted (map key (sorted_values m)) \<and> distinct (map key (sorted_values m))"
      by simp
  qed
  show "gomap_wf key m \<Longrightarrow> v \<in> set (sorted_values m) \<longleftrightarrow> gomap_get m (key v) = Some v"
  proof -
    assume wf: "gomap_wf key m"
    have "v \<in> set (sorted_values m) \<longleftrightarrow> (\<exists>k. (k, v) \<in> set m)" by force
    also have "\<dots> \<longleftrightarrow> (key v, v) \<in> set m" using gomap_wf_key [OF wf] by blast
    also have "\<dots> \<longleftrightarrow> gomap_get m (key v) = Some v" by (rule gomap_wf_in [OF wf])
    finally show "v \<in> set (sorted_values m) \<longleftrightarrow> gomap_get m (key v) = Some v" .
  qed
  show "gomap_wf key m \<Longrightarrow> gomap_get m k = Some v \<Longrightarrow> key v = k"
    by (simp add: gomap_wf_def)
  show "gomap_wf key m \<Longrightarrow> gomap_get (load_list key (sorted_values m)) k = gomap_get m k"
    by (rule load_sorted_values) (simp add: gomap_wf_def, rule gomap_wf_key)
qed simp_all

end
