(* ===== verification/Containers.thy ===== *)
theory Containers
  imports Registry
begin

text \<open>
  containers/store.go: the registry of LXC containers, keyed by CTID. \<open>container_store\<close>
  is Store without its lock, with the file it persists to made explicit; the clock and the
  outcome of os.WriteFile are arguments.
\<close>

record container =
  c_ctid :: int
  c_ip :: string
  c_hostname :: string
  c_has_relay_ssh :: bool
  c_ssh_user :: string
  c_created_at :: int
  c_updated_at :: int

record container_store =
  cs_path :: string
  cs_containers :: "(int, container) gomap"
  cs_disk :: "container list disk"

definition new_container_store :: "string \<Rightarrow> container list disk \<Rightarrow> registry_error + container_store" where
  "new_container_store path d =
     (case d of
        File l \<Rightarrow> Inr \<lparr>cs_path = path, cs_containers = load_list c_ctid l, cs_disk = d\<rparr>
      | Corrupt e \<Rightarrow> Inl (ParseError path e)
      | NoFile \<Rightarrow> Inr \<lparr>cs_path = path, cs_containers = [], cs_disk = d\<rparr>
      | Unreadable e \<Rightarrow> Inl (ReadError path e))"

definition cs_sorted :: "container_store \<Rightarrow> container list" where
  "cs_sorted s = sorted_values (cs_containers s)"

definition cs_save :: "container list write_outcome \<Rightarrow> container_store
    \<Rightarrow> registry_error option \<times> container_store" where
  "cs_save w s = (case w of
       WriteOK \<Rightarrow> (None, s\<lparr>cs_disk := File (cs_sorted s)\<rparr>)
     | WriteErr e d \<Rightarrow> (Some (WriteError (cs_path s) e), s\<lparr>cs_disk := d\<rparr>))"

definition cs_register :: "int \<Rightarrow> container list write_outcome \<Rightarrow> int \<Rightarrow> string \<Rightarrow> string \<Rightarrow> bool
    \<Rightarrow> string \<Rightarrow> container_store \<Rightarrow> (registry_error + container) \<times> container_store" where
  "cs_register now w ctid ip hostname hasRelaySSH sshUser s =
     (let c0 = \<lparr>c_ctid = ctid, c_ip = ip, c_hostname = hostname, c_has_relay_ssh = hasRelaySSH,
               c_ssh_user = sshUser, c_created_at = 0, c_updated_at = now\<rparr>;
          c = (case gomap_get (cs_containers s) ctid of
                 Some existing \<Rightarrow>
                   (let c1 = c0\<lparr>c_created_at := c_created_at existing\<rparr>
                    in if c_ssh_user c1 = '''' then c1\<lparr>c_ssh_user := c_ssh_user existing\<rparr> else c1)
               | None \<Rightarrow> c0\<lparr>c_created_at := now\<rparr>);
          s1 = s\<lparr>cs_containers := AList.update ctid c (cs_containers s)\<rparr>
      in case cs_save w s1 of
           (Some e, s2) \<Rightarrow> (Inl (UpsertContainer ctid e), s2)
         | (None, s2) \<Rightarrow> (Inr c, s2))"

definition cs_get :: "container_store \<Rightarrow> int \<Rightarrow> container option" where
  "cs_get s ctid = gomap_get (cs_containers s) ctid"

definition cs_list :: "container_store \<Rightarrow> container list" where
  "cs_list s = cs_sorted s"

definition cs_delete :: "container list write_outcome \<Rightarrow> int \<Rightarrow> container_store
    \<Rightarrow> registry_error option \<times> container_store" where
  "cs_delete w ctid s =
     (case gomap_get (cs_containers s) ctid of
        None \<Rightarrow> (Some (ContainerNotFound ctid), s)
      | Some _ \<Rightarrow> cs_save w (s\<lparr>cs_containers := AList.delete ctid (cs_containers s)\<rparr>))"

section \<open>The registry contract\<close>

definition cs_wf :: "container_store \<Rightarrow> bool" where
  "cs_wf s \<longleftrightarrow> gomap_wf c_ctid (cs_containers s)"

definition cs_put :: "container \<Rightarrow> container_store \<Rightarrow> container_store" where
  "cs_put c s = s\<lparr>cs_containers := AList.update (c_ctid c) c (cs_containers s)\<rparr>"

definition cs_del :: "int \<Rightarrow> container_store \<Rightarrow> container_store" where
  "cs_del ctid s = s\<lparr>cs_containers := AList.delete ctid (cs_containers s)\<rparr>"

definition cs_load :: "container list \<Rightarrow> container_store" where
  "cs_load l = \<lparr>cs_path = [], cs_containers = load_list c_ctid l, cs_disk = File l\<rparr>"

interpretation creg: persistent_registry cs_wf cs_get cs_list c_ctid cs_put cs_del cs_load
proof
  fix s :: container_store and c :: container and k k' :: int
  show "cs_wf s \<Longrightarrow> sorted (map c_ctid (cs_list s)) \<and> distinct (map c_ctid (cs_list s))"
    by (simp add: cs_wf_def cs_list_def cs_sorted_def gomap_registry.entries_keys)
  show "cs_wf s \<Longrightarrow> c \<in> set (cs_list s) \<longleftrightarrow> cs_get s (c_ctid c) = Some c"
    by (simp only: cs_wf_def cs_list_def cs_sorted_def cs_get_def gomap_registry.entries_lookup)
  show "cs_wf s \<Longrightarrow> cs_get s k = Some c \<Longrightarrow> c_ctid c = k"
    by (simp add: cs_wf_def cs_get_def gomap_registry.lookup_key)
  show "cs_wf s \<Longrightarrow> cs_get (cs_load (cs_list s)) k = cs_get s k"
    by (simp add: cs_wf_def cs_get_def cs_load_def cs_list_def cs_sorted_def
        gomap_registry.lookup_load)
qed (simp_all add: cs_wf_def cs_put_def cs_del_def cs_get_def cs_load_def)

lemma cs_save_frame [simp]:
  "cs_containers (snd (cs_save w s)) = cs_containers s"
  "cs_path (snd (cs_save w s)) = cs_path s"
  "fst (cs_save WriteOK s) = None"
  "cs_disk (snd (cs_save WriteOK s)) = File (cs_sorted s)"
  by (simp_all add: cs_save_def split: write_outcome.split)

lemma cs_save_reload:
  assumes "cs_wf s" and "fst (cs_save w s) = None"
  shows "\<exists>t. new_container_store p (cs_disk (snd (cs_save w s))) = Inr t
    \<and> (\<forall>k. cs_get t k = cs_get s k) \<and> cs_list t = cs_list s"
proof -
  from assms(2) have "w = WriteOK" by (simp add: cs_save_def split: write_outcome.splits)
  moreover have "cs_get (cs_load (cs_list s)) k = cs_get s k" for k
    by (rule creg.lookup_load [OF assms(1)])
  moreover have "cs_list (cs_load (cs_list s)) = cs_list s"
    by (rule creg.entries_load [OF assms(1)])
  ultimately show ?thesis
    by (simp add: new_container_store_def cs_get_def cs_list_def cs_sorted_def cs_load_def)
qed

text \<open>The record Register builds, and the state it leaves whatever became of the file.\<close>

definition merged_container :: "int \<Rightarrow> int \<Rightarrow> string \<Rightarrow> string \<Rightarrow> bool \<Rightarrow> string
    \<Rightarrow> container option \<Rightarrow> container" where
  "merged_container now ctid ip hostname hasRelaySSH sshUser old =
     \<lparr>c_ctid = ctid, c_ip = ip, c_hostname = hostname, c_has_relay_ssh = hasRelaySSH,
      c_ssh_user = (case old of None \<Rightarrow> sshUser
                    | Some o' \<Rightarrow> if sshUser = '''' then c_ssh_user o' else sshUser),
      c_created_at = (case old of None \<Rightarrow> now | Some o' \<Rightarrow> c_created_at o'),
      c_updated_at = now\<rparr>"

lemma merged_container_ctid [simp]:
  "c_ctid (merged_container now ctid ip hostname rs u old) = ctid"
  by (simp add: merged_container_def)

lemma cs_register_eq:
  "cs_register now w ctid ip hostname rs u s =
     (let c = merged_container now ctid ip hostname rs u (cs_get s ctid);
          r = cs_save w (cs_put c s)
      in (case fst r of Some e \<Rightarrow> Inl (UpsertContainer ctid e) | None \<Rightarrow> Inr c, snd r))"
  by (auto simp: cs_register_def merged_container_def cs_get_def cs_put_def Let_def
      split: option.split prod.split)

lemma cs_register_get:
  "cs_get (snd (cs_register now w ctid ip hostname rs u s)) k =
     (if k = ctid then Some (merged_container now ctid ip hostname rs u (cs_get s ctid))
      else cs_get s k)"
  by (simp add: cs_register_eq Let_def cs_get_def cs_put_def merged_container_def)

lemma cs_register_wf: "cs_wf s \<Longrightarrow> cs_wf (snd (cs_register now w ctid ip hostname rs u s))"
  by (simp add: cs_register_eq Let_def cs_wf_def cs_put_def)

lemma cs_delete_get:
  "cs_get (snd (cs_delete w ctid s)) k = (if k = ctid then None else cs_get s k)"
  by (auto simp: cs_delete_def cs_get_def split: option.split)

lemma cs_delete_wf: "cs_wf s \<Longrightarrow> cs_wf (snd (cs_delete w ctid s))"
  by (simp add: cs_delete_def cs_wf_def split: option.split)

section \<open>Properties\<close>

text \<open>A container registration or deletion that reported success survives a
  restart: a registry loaded from the file it left answers every lookup, and lists the
  containers, exactly as the running one does.\<close>

theorem container_registry_restart:
  assumes "cs_wf s"
    and "cs_register now w ctid ip hostname rs u s = (Inr c, s1)"
    and "cs_delete w' ctid' s1 = (None, s2)"
  shows "(\<exists>t. new_container_store p (cs_disk s1) = Inr t
           \<and> (\<forall>k. cs_get t k = cs_get s1 k) \<and> cs_list t = cs_list s1)
       \<and> (\<exists>t. new_container_store p (cs_disk s2) = Inr t
           \<and> (\<forall>k. cs_get t k = cs_get s2 k) \<and> cs_list t = cs_list s2)"
proof
  let ?c = "merged_container now ctid ip hostname rs u (cs_get s ctid)"
  have s1: "s1 = snd (cs_save w (cs_put ?c s))" and ok: "fst (cs_save w (cs_put ?c s)) = None"
    using assms(2) by (auto simp: cs_register_eq Let_def split: option.splits)
  have eq1: "cs_get s1 = cs_get (cs_put ?c s)" "cs_list s1 = cs_list (cs_put ?c s)"
    by (simp_all add: s1 cs_get_def cs_list_def cs_sorted_def fun_eq_iff)
  show "\<exists>t. new_container_store p (cs_disk s1) = Inr t
      \<and> (\<forall>k. cs_get t k = cs_get s1 k) \<and> cs_list t = cs_list s1"
    using cs_save_reload [OF creg.wf_put [OF assms(1)] ok] unfolding eq1 by (simp add: s1)
  have wf1: "cs_wf s1" using cs_register_wf [OF assms(1)] assms(2) by (metis snd_conv)
  have s2: "s2 = snd (cs_save w' (cs_del ctid' s1))" and ok2: "fst (cs_save w' (cs_del ctid' s1)) = None"
    using assms(3) by (auto simp: cs_delete_def cs_del_def split: option.splits)
  have eq2: "cs_get s2 = cs_get (cs_del ctid' s1)" "cs_list s2 = cs_list (cs_del ctid' s1)"
    by (simp_all add: s2 cs_get_def cs_list_def cs_sorted_def fun_eq_iff)
  show "\<exists>t. new_container_store p (cs_disk s2) = Inr t
      \<and> (\<forall>k. cs_get t k = cs_get s2 k) \<and> cs_list t = cs_list s2"
    using cs_save_reload [OF creg.wf_del [OF wf1] ok2] unfolding eq2 by (simp add: s2)
qed

definition demo_containers :: container_store where
  "demo_containers = \<lparr>cs_path = ''containers.json'', cs_containers = [], cs_disk = NoFile\<rparr>"

theorem container_registry_restart_witness:
  "\<exists>c s1 s2. cs_register 7 WriteOK 133 ''10.0.0.5'' ''web'' True '''' demo_containers = (Inr c, s1)
     \<and> cs_delete WriteOK 133 s1 = (None, s2)
     \<and> (\<exists>t. new_container_store ''p'' (cs_disk s1) = Inr t \<and> cs_list t = cs_list s1)"
proof -
  obtain c s1 where r: "cs_register 7 WriteOK 133 ''10.0.0.5'' ''web'' True '''' demo_containers = (Inr c, s1)"
    by (simp add: cs_register_def cs_save_def demo_containers_def Let_def)
  then have "gomap_get (cs_containers s1) 133 = Some c"
    by (auto simp: cs_register_def cs_save_def demo_containers_def Let_def)
  then obtain s2 where d: "cs_delete WriteOK 133 s1 = (None, s2)"
    by (simp add: cs_delete_def cs_save_def)
  have "cs_wf demo_containers" by (simp add: cs_wf_def gomap_wf_def demo_containers_def)
  from container_registry_restart [OF this r d, of "''p''"] r d show ?thesis by blast
qed

text \<open>A registration whose file write fails reports an error and is nevertheless in
  force in memory: the container is listed and routed to until the relay restarts, and the
  same holds of a deletion that reported an error.\<close>

theorem container_failed_save_still_applies:
  "fst (cs_register now (WriteErr e d) ctid ip hostname rs u s)
      = Inl (UpsertContainer ctid (WriteError (cs_path s) e))
   \<and> cs_get (snd (cs_register now (WriteErr e d) ctid ip hostname rs u s)) ctid
      = Some (merged_container now ctid ip hostname rs u (cs_get s ctid))
   \<and> (cs_get s ctid \<noteq> None \<longrightarrow>
        fst (cs_delete (WriteErr e d) ctid s) = Some (WriteError (cs_path s) e)
        \<and> cs_get (snd (cs_delete (WriteErr e d) ctid s)) ctid = None)"
  by (auto simp: cs_register_get cs_delete_get cs_register_eq Let_def cs_save_def cs_put_def
      cs_delete_def cs_get_def split: option.split)

theorem container_failed_save_still_applies_witness:
  "fst (cs_register 1 (WriteErr ''disk full'' NoFile) 5 ''10.0.0.5'' ''web'' True ''root'' demo_containers)
      = Inl (UpsertContainer 5 (WriteError ''containers.json'' ''disk full''))
   \<and> cs_get (snd (cs_register 1 (WriteErr ''disk full'' NoFile) 5 ''10.0.0.5'' ''web'' True ''root''
        demo_containers)) 5 \<noteq> None"
  using container_failed_save_still_applies
    [of 1 "''disk full''" NoFile 5 "''10.0.0.5''" "''web''" True "''root''" demo_containers]
  by (simp add: demo_containers_def)

end
