(* ===== verification/Machines.thy ===== *)
theory Machines
  imports Registry
begin

text \<open>
  machines/store.go: the registry of SSH targets that are not containers, keyed by name.
  \<open>machine_store\<close> is Store without its lock and with its file.
\<close>

definition shell_posix :: string where "shell_posix = ''posix''"
definition shell_powershell :: string where "shell_powershell = ''powershell''"

record machine =
  m_name :: string
  m_host :: string
  m_ssh_user :: string
  m_shell :: string
  m_identity_file :: string
  m_created_at :: int
  m_updated_at :: int

record machine_store =
  ms_path :: string
  ms_machines :: "(string, machine) gomap"
  ms_disk :: "machine list disk"

definition new_machine_store :: "string \<Rightarrow> machine list disk \<Rightarrow> registry_error + machine_store" where
  "new_machine_store path d =
     (case d of
        File l \<Rightarrow> Inr \<lparr>ms_path = path, ms_machines = load_list m_name l, ms_disk = d\<rparr>
      | Corrupt e \<Rightarrow> Inl (ParseError path e)
      | NoFile \<Rightarrow> Inr \<lparr>ms_path = path, ms_machines = [], ms_disk = d\<rparr>
      | Unreadable e \<Rightarrow> Inl (ReadError path e))"

definition ms_sorted :: "machine_store \<Rightarrow> machine list" where
  "ms_sorted s = sorted_values (ms_machines s)"

definition ms_save :: "machine list write_outcome \<Rightarrow> machine_store
    \<Rightarrow> registry_error option \<times> machine_store" where
  "ms_save w s = (case w of
       WriteOK \<Rightarrow> (None, s\<lparr>ms_disk := File (ms_sorted s)\<rparr>)
     | WriteErr e d \<Rightarrow> (Some (WriteError (ms_path s) e), s\<lparr>ms_disk := d\<rparr>))"

definition ms_register :: "int \<Rightarrow> machine list write_outcome \<Rightarrow> string \<Rightarrow> string \<Rightarrow> string
    \<Rightarrow> string \<Rightarrow> string \<Rightarrow> machine_store \<Rightarrow> (registry_error + machine) \<times> machine_store" where
  "ms_register now w name host sshUser shell identityFile s =
     (let m0 = \<lparr>m_name = name, m_host = host, m_ssh_user = sshUser, m_shell = shell,
               m_identity_file = identityFile, m_created_at = 0, m_updated_at = now\<rparr>;
          m1 = (case gomap_get (ms_machines s) name of
                  Some existing \<Rightarrow>
                    (let a = m0\<lparr>m_created_at := m_created_at existing\<rparr>;
                         b = (if m_ssh_user a = '''' then a\<lparr>m_ssh_user := m_ssh_user existing\<rparr> else a);
                         c = (if m_shell b = '''' then b\<lparr>m_shell := m_shell existing\<rparr> else b)
                     in if m_identity_file c = ''''
                        then c\<lparr>m_identity_file := m_identity_file existing\<rparr> else c)
                | None \<Rightarrow> m0\<lparr>m_created_at := now\<rparr>);
          m = (if m_shell m1 = '''' then m1\<lparr>m_shell := shell_posix\<rparr> else m1);
          s1 = s\<lparr>ms_machines := AList.update name m (ms_machines s)\<rparr>
      in case ms_save w s1 of
           (Some e, s2) \<Rightarrow> (Inl (UpsertMachine name e), s2)
         | (None, s2) \<Rightarrow> (Inr m, s2))"

definition ms_get :: "machine_store \<Rightarrow> string \<Rightarrow> machine option" where
  "ms_get s name = gomap_get (ms_machines s) name"

definition ms_list :: "machine_store \<Rightarrow> machine list" where
  "ms_list s = ms_sorted s"

definition ms_delete :: "machine list write_outcome \<Rightarrow> string \<Rightarrow> machine_store
    \<Rightarrow> registry_error option \<times> machine_store" where
  "ms_delete w name s =
     (case gomap_get (ms_machines s) name of
        None \<Rightarrow> (Some (MachineNotFound name), s)
      | Some _ \<Rightarrow> ms_save w (s\<lparr>ms_machines := AList.delete name (ms_machines s)\<rparr>))"

section \<open>The registry contract\<close>

definition ms_wf :: "machine_store \<Rightarrow> bool" where
  "ms_wf s \<longleftrightarrow> gomap_wf m_name (ms_machines s)"

definition ms_put :: "machine \<Rightarrow> machine_store \<Rightarrow> machine_store" where
  "ms_put m s = s\<lparr>ms_machines := AList.update (m_name m) m (ms_machines s)\<rparr>"

definition ms_del :: "string \<Rightarrow> machine_store \<Rightarrow> machine_store" where
  "ms_del name s = s\<lparr>ms_machines := AList.delete name (ms_machines s)\<rparr>"

definition ms_load :: "machine list \<Rightarrow> machine_store" where
  "ms_load l = \<lparr>ms_path = [], ms_machines = load_list m_name l, ms_disk = File l\<rparr>"

interpretation mreg: persistent_registry ms_wf ms_get ms_list m_name ms_put ms_del ms_load
proof
  fix s :: machine_store and m :: machine and k k' :: string
  show "ms_wf s \<Longrightarrow> sorted (map m_name (ms_list s)) \<and> distinct (map m_name (ms_list s))"
    by (simp add: ms_wf_def ms_list_def ms_sorted_def gomap_registry.entries_keys)
  show "ms_wf s \<Longrightarrow> m \<in> set (ms_list s) \<longleftrightarrow> ms_get s (m_name m) = Some m"
    by (simp only: ms_wf_def ms_list_def ms_sorted_def ms_get_def gomap_registry.entries_lookup)
  show "ms_wf s \<Longrightarrow> ms_get s k = Some m \<Longrightarrow> m_name m = k"
    by (simp add: ms_wf_def ms_get_def gomap_registry.lookup_key)
  show "ms_wf s \<Longrightarrow> ms_get (ms_load (ms_list s)) k = ms_get s k"
    by (simp add: ms_wf_def ms_get_def ms_load_def ms_list_def ms_sorted_def
        gomap_registry.lookup_load)
qed (simp_all add: ms_wf_def ms_put_def ms_del_def ms_get_def ms_load_def)

text \<open>The record Register builds. A blank field of a re-registration keeps the old value;
  a shell that is still blank becomes posix.\<close>

definition keep_old :: "string \<Rightarrow> string \<Rightarrow> string" where
  "keep_old old new = (if new = '''' then old else new)"

definition merged_machine :: "int \<Rightarrow> string \<Rightarrow> string \<Rightarrow> string \<Rightarrow> string \<Rightarrow> string
    \<Rightarrow> machine option \<Rightarrow> machine" where
  "merged_machine now name host sshUser shell identityFile old =
     \<lparr>m_name = name, m_host = host,
      m_ssh_user = (case old of None \<Rightarrow> sshUser | Some o' \<Rightarrow> keep_old (m_ssh_user o') sshUser),
      m_shell = keep_old shell_posix
        (case old of None \<Rightarrow> shell | Some o' \<Rightarrow> keep_old (m_shell o') shell),
      m_identity_file =
        (case old of None \<Rightarrow> identityFile | Some o' \<Rightarrow> keep_old (m_identity_file o') identityFile),
      m_created_at = (case old of None \<Rightarrow> now | Some o' \<Rightarrow> m_created_at o'),
      m_updated_at = now\<rparr>"

lemma merged_machine_name [simp]: "m_name (merged_machine now name host u sh i old) = name"
  by (simp add: merged_machine_def)

lemma ms_register_eq:
  "ms_register now w name host u sh i s =
     (let m = merged_machine now name host u sh i (ms_get s name);
          r = ms_save w (ms_put m s)
      in (case fst r of Some e \<Rightarrow> Inl (UpsertMachine name e) | None \<Rightarrow> Inr m, snd r))"
  by (cases "gomap_get (ms_machines s) name"; cases "u = ''''"; cases "sh = ''''"; cases "i = ''''";
      simp add: ms_register_def merged_machine_def ms_get_def ms_put_def Let_def keep_old_def
        split: option.split prod.split)

lemma ms_save_frame [simp]:
  "ms_machines (snd (ms_save w s)) = ms_machines s"
  "ms_path (snd (ms_save w s)) = ms_path s"
  "fst (ms_save WriteOK s) = None"
  "ms_disk (snd (ms_save WriteOK s)) = File (ms_sorted s)"
  by (simp_all add: ms_save_def split: write_outcome.split)

lemma ms_save_OK: "fst (ms_save w s) = None \<longleftrightarrow> w = WriteOK"
  by (simp add: ms_save_def split: write_outcome.split)

lemma ms_register_get:
  "ms_get (snd (ms_register now w name host u sh i s)) k =
     (if k = name then Some (merged_machine now name host u sh i (ms_get s name)) else ms_get s k)"
  by (simp add: ms_register_eq Let_def ms_get_def ms_put_def)

lemma ms_register_wf: "ms_wf s \<Longrightarrow> ms_wf (snd (ms_register now w name host u sh i s))"
  by (simp add: ms_register_eq Let_def ms_wf_def ms_put_def)

lemma ms_delete_get:
  "ms_get (snd (ms_delete w name s)) k = (if k = name then None else ms_get s k)"
  by (auto simp: ms_delete_def ms_get_def split: option.split)

lemma ms_delete_wf: "ms_wf s \<Longrightarrow> ms_wf (snd (ms_delete w name s))"
  by (simp add: ms_delete_def ms_wf_def split: option.split)

section \<open>Properties\<close>

text \<open>Registering a machine upserts it: the entry answers with the new host, every
  blank field keeps the value it had, the creation time is the first one, the shell is never
  blank, every other machine is untouched, and a registry loaded from the saved file gives the
  same answers and the same listing in increasing name order.\<close>

theorem machine_register_upserts:
  assumes wf: "ms_wf s" and reg: "ms_register now w name host u sh i s = (Inr m, s')"
  shows "ms_get s' name = Some m \<and> m_host m = host \<and> m_shell m \<noteq> ''''
       \<and> (\<forall>old. ms_get s name = Some old \<longrightarrow>
            m_created_at m = m_created_at old
            \<and> m_ssh_user m = keep_old (m_ssh_user old) u
            \<and> m_identity_file m = keep_old (m_identity_file old) i)
       \<and> (\<forall>k. k \<noteq> name \<longrightarrow> ms_get s' k = ms_get s k)
       \<and> sorted (map m_name (ms_list s'))
       \<and> (\<exists>t. new_machine_store p (ms_disk s') = Inr t
            \<and> (\<forall>k. ms_get t k = ms_get s' k) \<and> ms_list t = ms_list s')"
proof -
  let ?m = "merged_machine now name host u sh i (ms_get s name)"
  have m: "m = ?m" and w: "w = WriteOK" and s': "s' = snd (ms_save w (ms_put ?m s))"
    using reg by (auto simp: ms_register_eq Let_def ms_save_OK split: option.splits)
  have get: "ms_get s' k = (if k = name then Some m else ms_get s k)" for k
    using ms_register_get [of now w name host u sh i s k] reg m by simp
  have wf': "ms_wf s'" using ms_register_wf [OF wf] reg by (metis snd_conv)
  have lst: "ms_list s' = ms_list (ms_put ?m s)" and get': "ms_get s' = ms_get (ms_put ?m s)"
    by (simp_all add: s' ms_list_def ms_sorted_def ms_get_def fun_eq_iff)
  have load: "new_machine_store p (ms_disk s')
      = Inr \<lparr>ms_path = p, ms_machines = ms_machines (ms_load (ms_list s')), ms_disk = File (ms_list s')\<rparr>"
    by (simp add: new_machine_store_def s' w ms_load_def ms_list_def ms_sorted_def)
  have "m_shell m \<noteq> ''''" by (simp add: m merged_machine_def keep_old_def shell_posix_def)
  moreover have "m_host m = host" by (simp add: m merged_machine_def)
  moreover have "\<exists>t. new_machine_store p (ms_disk s') = Inr t
      \<and> (\<forall>k. ms_get t k = ms_get s' k) \<and> ms_list t = ms_list s'"
    using load mreg.lookup_load [OF wf'] mreg.entries_load [OF wf']
    by (simp add: ms_get_def ms_list_def ms_sorted_def)
  ultimately show ?thesis
    using get mreg.entries_keys [OF wf'] by (simp add: m merged_machine_def)
qed

definition demo_machines :: machine_store where
  "demo_machines = \<lparr>ms_path = ''machines.json'',
     ms_machines = [(''win'', \<lparr>m_name = ''win'', m_host = ''h1'', m_ssh_user = ''lara'',
        m_shell = ''powershell'', m_identity_file = '''', m_created_at = 3, m_updated_at = 3\<rparr>)],
     ms_disk = NoFile\<rparr>"

theorem machine_register_upserts_witness:
  "\<exists>m s'. ms_register 9 WriteOK ''win'' ''h2'' '''' '''' '''' demo_machines = (Inr m, s')
     \<and> m_ssh_user m = ''lara'' \<and> m_host m = ''h2'' \<and> m_created_at m = 3"
proof -
  have wf: "ms_wf demo_machines" by (simp add: ms_wf_def gomap_wf_def demo_machines_def)
  obtain m s' where r: "ms_register 9 WriteOK ''win'' ''h2'' '''' '''' '''' demo_machines = (Inr m, s')"
    by (simp add: ms_register_eq Let_def)
  from machine_register_upserts [OF wf r] r show ?thesis
    by (auto simp: demo_machines_def ms_get_def keep_old_def)
qed

end
