(* ===== verification/Decide_Once.thy ===== *)
theory Decide_Once
  imports Relay_Prelude
begin

text \<open>
  Executions of a labelled step relation, and the contract "a decision is granted at most
  once": a step that grants something for an identifier finds it open and closes it, and
  nothing reopens what is closed. The request store and the whole relay both provide it.
\<close>

inductive exec_trace :: "('s \<Rightarrow> 'l \<Rightarrow> 's \<Rightarrow> bool) \<Rightarrow> 's \<Rightarrow> ('s \<times> 'l) list \<Rightarrow> 's \<Rightarrow> bool"
  for step where
  stop: "exec_trace step s [] s"
| next_step: "step s l s' \<Longrightarrow> exec_trace step s' tr t \<Longrightarrow> exec_trace step s ((s, l) # tr) t"

inductive_cases exec_trace_NilE: "exec_trace step s [] t"
inductive_cases exec_trace_ConsE: "exec_trace step s (x # tr) t"
inductive_simps exec_trace_Nil_simp [simp]: "exec_trace step s [] t"

lemma exec_trace_append:
  "exec_trace step s tr t \<Longrightarrow> exec_trace step t tr' u \<Longrightarrow> exec_trace step s (tr @ tr') u"
  by (induction rule: exec_trace.induct) (auto intro: exec_trace.intros)

lemma exec_trace_snoc:
  "exec_trace step s tr t \<Longrightarrow> step t l u \<Longrightarrow> exec_trace step s (tr @ [(t, l)]) u"
  by (rule exec_trace_append) (auto intro: exec_trace.intros)

lemma exec_trace_split:
  "exec_trace step s (tr @ tr') u \<Longrightarrow> \<exists>t. exec_trace step s tr t \<and> exec_trace step t tr' u"
proof (induction tr arbitrary: s)
  case Nil
  then show ?case by auto
next
  case (Cons x tr)
  then obtain l s' where x: "x = (s, l)" and st: "step s l s'"
    and rest: "exec_trace step s' (tr @ tr') u"
    by (auto elim: exec_trace_ConsE)
  from Cons.IH [OF rest] obtain t where "exec_trace step s' tr t" and "exec_trace step t tr' u"
    by blast
  with x st show ?case by (auto intro: exec_trace.next_step)
qed

text \<open>What every step keeps, every execution keeps.\<close>

lemma exec_trace_invariant:
  assumes "exec_trace step s tr t" and "P s"
    and "\<And>s l s'. step s l s' \<Longrightarrow> P s \<Longrightarrow> P s'"
  shows "P t"
  using assms(1,2) by (induction rule: exec_trace.induct) (auto intro: assms(3))

locale decide_once =
  fixes closed :: "'s \<Rightarrow> 'i \<Rightarrow> bool"
    and step :: "'s \<Rightarrow> 'l \<Rightarrow> 's \<Rightarrow> bool"
    and grants :: "'s \<Rightarrow> 'l \<Rightarrow> 'i option"
  assumes grants_open: "step s l s' \<Longrightarrow> grants s l = Some i \<Longrightarrow> \<not> closed s i"
    and grants_closes: "step s l s' \<Longrightarrow> grants s l = Some i \<Longrightarrow> closed s' i"
    and closed_stays: "step s l s' \<Longrightarrow> closed s i \<Longrightarrow> closed s' i"
begin

lemma closed_trace: "exec_trace step s tr t \<Longrightarrow> closed s i \<Longrightarrow> closed t i"
  by (erule exec_trace_invariant [where P = "\<lambda>u. closed u i"]) (auto intro: closed_stays)

lemma no_grant_when_closed:
  "exec_trace step s tr t \<Longrightarrow> closed s i \<Longrightarrow> filter (\<lambda>(u, l). grants u l = Some i) tr = []"
proof (induction rule: exec_trace.induct)
  case (stop s)
  then show ?case by simp
next
  case (next_step s l s' tr t)
  from next_step.hyps(1) next_step.prems have "grants s l \<noteq> Some i"
    using grants_open by blast
  moreover have "closed s' i"
    by (rule closed_stays [OF next_step.hyps(1) next_step.prems])
  ultimately show ?case using next_step.IH by simp
qed

theorem at_most_one_grant:
  "exec_trace step s tr t \<Longrightarrow> length (filter (\<lambda>(u, l). grants u l = Some i) tr) \<le> 1"
proof (induction rule: exec_trace.induct)
  case (stop s)
  then show ?case by simp
next
  case (next_step s l s' tr t)
  show ?case
  proof (cases "grants s l = Some i")
    case True
    then have "closed s' i" by (rule grants_closes [OF next_step.hyps(1)])
    then show ?thesis
      using no_grant_when_closed [OF next_step.hyps(2)] True by simp
  next
    case False
    then show ?thesis using next_step.IH by simp
  qed
qed

text \<open>Whatever is granted at the end of an execution was open all the way to it.\<close>

lemma granted_was_open:
  assumes "exec_trace step s (tr @ (u, l) # tr') t" and "grants u l = Some i"
  shows "\<not> closed s i"
proof
  assume "closed s i"
  obtain v where tr: "exec_trace step s tr v" and "exec_trace step v ((u, l) # tr') t"
    using exec_trace_split [OF assms(1)] by blast
  then obtain v' where "v = u" and "step u l v'"
    by (auto elim!: exec_trace_ConsE)
  moreover have "closed v i" by (rule closed_trace [OF tr \<open>closed s i\<close>])
  ultimately show False using grants_open assms(2) by blast
qed

end

end
