(* ===== verification/Request_Store.thy ===== *)
theory Request_Store
  imports Go_Strings Decide_Once
begin

text \<open>
  store/store.go: the in-memory request queue. \<open>request\<close> and \<open>result\<close> are the structs
  Request and Result, \<open>store\<close> is Store without its mutex (every operation below is one
  critical section), the two channels are lists of at most 100 elements. The identifier
  drawn by generateID, the time read from the clock and SHA-256 are arguments.
\<close>

section \<open>Data\<close>

datatype status = StatusPending | StatusApproved | StatusDenied | StatusRunning
  | StatusComplete | StatusTimeout | StatusError | StatusWithdrawn

primrec status_str :: "status \<Rightarrow> string" where
  "status_str StatusPending = ''pending''"
| "status_str StatusApproved = ''approved''"
| "status_str StatusDenied = ''denied''"
| "status_str StatusRunning = ''running''"
| "status_str StatusComplete = ''complete''"
| "status_str StatusTimeout = ''timeout''"
| "status_str StatusError = ''error''"
| "status_str StatusWithdrawn = ''withdrawn''"

lemma status_str_inject [simp]: "status_str a = status_str b \<longleftrightarrow> a = b"
  by (cases a; cases b) simp_all

record form_file =
  ff_field :: string
  ff_filename :: string
  ff_fetch_cmd :: "string list"
  ff_source :: string

text \<open>\<open>None\<close> for the header map is Go's nil map, which reflect.DeepEqual tells apart
  from an empty one.\<close>

record result =
  res_exit_code :: int
  res_stdout :: string
  res_stderr :: string
  res_status_code :: int
  res_headers :: "(string, string) gomap option"

record request =
  r_id :: string
  r_type :: string
  r_command :: string
  r_args :: "string list"
  r_reason :: string
  r_client :: string
  r_working_dir :: string
  r_shell :: bool
  r_timeout :: int
  r_status :: status
  r_created_at :: int
  r_decided_at :: "int option"
  r_deny_reason :: string
  r_withdraw_reason :: string
  r_result :: "result option"
  r_stdin :: string
  r_stdin_len :: int
  r_stdin_sha256 :: string
  r_display_command :: string
  r_output_gated :: bool
  r_http_method :: string
  r_http_url :: string
  r_http_headers :: "(string, string) gomap"
  r_http_body :: string
  r_http_form_file :: "form_file option"
  r_http_form_fields :: "(string, string) gomap"
  r_script_name :: string
  r_script_args :: "string list"
  r_registry_op :: string
  r_registry_args :: "(string, string) gomap"

record store =
  st_requests :: "string \<rightharpoonup> request"
  st_order :: "string list"
  st_notify :: "string list"
  st_updates :: "string list"

definition new_store :: store where
  "new_store = \<lparr>st_requests = Map.empty, st_order = [], st_notify = [], st_updates = []\<rparr>"

text \<open>A composite literal starts from the zero value of every field it does not name.\<close>

definition pending_request :: "string \<Rightarrow> int \<Rightarrow> request" where
  "pending_request rid now =
     \<lparr>r_id = rid, r_type = '''', r_command = '''', r_args = [], r_reason = '''', r_client = '''',
      r_working_dir = '''', r_shell = False, r_timeout = 0, r_status = StatusPending,
      r_created_at = now, r_decided_at = None, r_deny_reason = '''', r_withdraw_reason = '''',
      r_result = None, r_stdin = '''', r_stdin_len = 0, r_stdin_sha256 = '''',
      r_display_command = '''', r_output_gated = False, r_http_method = '''', r_http_url = '''',
      r_http_headers = [], r_http_body = '''', r_http_form_file = None, r_http_form_fields = [],
      r_script_name = '''', r_script_args = [], r_registry_op = '''', r_registry_args = []\<rparr>"

definition zero_result :: result where
  "zero_result = \<lparr>res_exit_code = 0, res_stdout = '''', res_stderr = '''',
     res_status_code = 0, res_headers = None\<rparr>"

section \<open>Adding requests\<close>

definition stdin_digest :: "(string \<Rightarrow> string) \<Rightarrow> string \<Rightarrow> string" where
  "stdin_digest sha data = (if data = [] then [] else hex_encode (sha data))"

text \<open>The tail every Add function ends with: publish the request under the lock, then
  the non-blocking send on notify.\<close>

definition publish :: "request \<Rightarrow> store \<Rightarrow> store" where
  "publish r s = s\<lparr>st_requests := (st_requests s)(r_id r \<mapsto> r),
                   st_order := st_order s @ [r_id r],
                   st_notify := chan_send 100 (r_id r) (st_notify s)\<rparr>"

definition store_add ::
  "string \<Rightarrow> int \<Rightarrow> string \<Rightarrow> string list \<Rightarrow> string \<Rightarrow> string \<Rightarrow> bool \<Rightarrow> int \<Rightarrow> string
   \<Rightarrow> store \<Rightarrow> request \<times> store" where
  "store_add rid now cmd args reason workingDir shell timeout client s =
     (let r = (pending_request rid now)\<lparr>r_command := cmd, r_args := args, r_reason := reason,
                r_client := client, r_working_dir := workingDir, r_shell := shell,
                r_timeout := timeout\<rparr>
      in (r, publish r s))"

definition store_add_http_form ::
  "string \<Rightarrow> int \<Rightarrow> string \<Rightarrow> string \<Rightarrow> (string, string) gomap \<Rightarrow> string \<Rightarrow> form_file option
   \<Rightarrow> (string, string) gomap \<Rightarrow> string \<Rightarrow> int \<Rightarrow> string \<Rightarrow> store \<Rightarrow> request \<times> store" where
  "store_add_http_form rid now meth url headers body formFile formFields reason timeout client s =
     (let r = (pending_request rid now)\<lparr>r_type := ''http'', r_http_method := meth,
                r_http_url := url, r_http_headers := headers, r_http_body := body,
                r_http_form_file := formFile, r_http_form_fields := formFields,
                r_reason := reason, r_client := client, r_timeout := timeout\<rparr>
      in (r, publish r s))"

definition store_add_http ::
  "string \<Rightarrow> int \<Rightarrow> string \<Rightarrow> string \<Rightarrow> (string, string) gomap \<Rightarrow> string \<Rightarrow> string \<Rightarrow> int
   \<Rightarrow> string \<Rightarrow> store \<Rightarrow> request \<times> store" where
  "store_add_http rid now meth url headers body reason timeout client s =
     store_add_http_form rid now meth url headers body None [] reason timeout client s"

definition store_add_script_typed ::
  "(string \<Rightarrow> string) \<Rightarrow> string \<Rightarrow> int \<Rightarrow> string \<Rightarrow> string \<Rightarrow> string list \<Rightarrow> string \<Rightarrow> int
   \<Rightarrow> string \<Rightarrow> string \<Rightarrow> store \<Rightarrow> request \<times> store" where
  "store_add_script_typed sha rid now typ name args reason timeout stdin client s =
     (let r = (pending_request rid now)\<lparr>r_type := typ, r_script_name := name,
                r_script_args := args, r_reason := reason, r_client := client,
                r_timeout := timeout, r_stdin := stdin, r_stdin_len := int (length stdin),
                r_stdin_sha256 := stdin_digest sha stdin\<rparr>
      in (r, publish r s))"

definition store_add_script ::
  "(string \<Rightarrow> string) \<Rightarrow> string \<Rightarrow> int \<Rightarrow> string \<Rightarrow> string list \<Rightarrow> string \<Rightarrow> int \<Rightarrow> string
   \<Rightarrow> store \<Rightarrow> request \<times> store" where
  "store_add_script sha rid now name args reason timeout client s =
     store_add_script_typed sha rid now ''script'' name args reason timeout [] client s"

definition store_add_registry_op ::
  "string \<Rightarrow> int \<Rightarrow> string \<Rightarrow> (string, string) gomap \<Rightarrow> string \<Rightarrow> string \<Rightarrow> store
   \<Rightarrow> request \<times> store" where
  "store_add_registry_op rid now op args reason client s =
     (let r = (pending_request rid now)\<lparr>r_type := ''registry_op'', r_registry_op := op,
                r_registry_args := args, r_reason := reason, r_client := client\<rparr>
      in (r, publish r s))"

definition store_add_with_stdin ::
  "(string \<Rightarrow> string) \<Rightarrow> string \<Rightarrow> int \<Rightarrow> string \<Rightarrow> string list \<Rightarrow> string \<Rightarrow> string \<Rightarrow> bool \<Rightarrow> int
   \<Rightarrow> string \<Rightarrow> string \<Rightarrow> store \<Rightarrow> request \<times> store" where
  "store_add_with_stdin sha rid now cmd args reason workingDir shell timeout stdin client s =
     (let r = (pending_request rid now)\<lparr>r_command := cmd, r_args := args, r_reason := reason,
                r_client := client, r_working_dir := workingDir, r_shell := shell,
                r_timeout := timeout, r_stdin := stdin, r_stdin_len := int (length stdin),
                r_stdin_sha256 := stdin_digest sha stdin\<rparr>
      in (r, publish r s))"

lemmas store_add_defs = store_add_def store_add_http_form_def store_add_http_def
  store_add_script_typed_def store_add_script_def store_add_registry_op_def
  store_add_with_stdin_def

section \<open>Reading and deciding\<close>

definition store_get :: "store \<Rightarrow> string \<Rightarrow> request option" where
  "store_get s rid = st_requests s rid"

definition put_request :: "string \<Rightarrow> request \<Rightarrow> store \<Rightarrow> store" where
  "put_request rid r s = s\<lparr>st_requests := (st_requests s)(rid \<mapsto> r)\<rparr>"

definition set_status :: "int \<Rightarrow> string \<Rightarrow> status \<Rightarrow> store \<Rightarrow> bool \<times> store" where
  "set_status now rid st s =
     (case st_requests s rid of
        None \<Rightarrow> (False, s)
      | Some r \<Rightarrow>
          let r1 = r\<lparr>r_status := st\<rparr>;
              r2 = (if st = StatusApproved \<or> st = StatusDenied
                    then r1\<lparr>r_decided_at := Some now\<rparr> else r1)
          in (True, put_request rid r2 s))"

definition deny :: "int \<Rightarrow> string \<Rightarrow> string \<Rightarrow> store \<Rightarrow> bool \<times> store" where
  "deny now rid reason s =
     (case st_requests s rid of
        None \<Rightarrow> (False, s)
      | Some r \<Rightarrow> (True, put_request rid
          (r\<lparr>r_status := StatusDenied, r_deny_reason := reason, r_decided_at := Some now\<rparr>) s))"

text \<open>A request that does not exist answers \<open>(False, StatusPending)\<close>.\<close>

definition withdraw :: "int \<Rightarrow> string \<Rightarrow> string \<Rightarrow> store \<Rightarrow> (bool \<times> status) \<times> store" where
  "withdraw now rid reason s =
     (case st_requests s rid of
        None \<Rightarrow> ((False, StatusPending), s)
      | Some r \<Rightarrow>
          if r_status r \<noteq> StatusPending then ((False, r_status r), s)
          else ((True, StatusWithdrawn),
                (put_request rid (r\<lparr>r_status := StatusWithdrawn, r_withdraw_reason := reason,
                                   r_decided_at := Some now\<rparr>) s)
                \<lparr>st_updates := chan_send 100 rid (st_updates s)\<rparr>))"

text \<open>The request is returned exactly when the approval took effect.\<close>

definition approve :: "int \<Rightarrow> string \<Rightarrow> bool \<Rightarrow> store \<Rightarrow> request option \<times> store" where
  "approve now rid gateOutput s =
     (case st_requests s rid of
        None \<Rightarrow> (None, s)
      | Some r \<Rightarrow>
          if r_status r \<noteq> StatusPending then (None, s)
          else let r1 = r\<lparr>r_status := StatusApproved, r_decided_at := Some now\<rparr>;
                   r2 = (if gateOutput then r1\<lparr>r_output_gated := True\<rparr> else r1)
               in (Some r2, put_request rid r2 s))"

definition visible_when_gated :: "result \<Rightarrow> result" where
  "visible_when_gated res =
     zero_result\<lparr>res_exit_code := res_exit_code res, res_status_code := res_status_code res\<rparr>"

definition has_gated_content :: "result \<Rightarrow> bool" where
  "has_gated_content res \<longleftrightarrow> res \<noteq> visible_when_gated res"

definition set_result :: "string \<Rightarrow> result option \<Rightarrow> status \<Rightarrow> store \<Rightarrow> (bool \<times> bool) \<times> store" where
  "set_result rid res st s =
     (case st_requests s rid of
        None \<Rightarrow> ((False, False), s)
      | Some r \<Rightarrow>
          let r1 = r\<lparr>r_result := res, r_status := st\<rparr>;
              releasedEmpty = (r_output_gated r1
                \<and> (case res of None \<Rightarrow> False | Some x \<Rightarrow> \<not> has_gated_content x));
              r2 = (if releasedEmpty then r1\<lparr>r_output_gated := False\<rparr> else r1)
          in ((True, releasedEmpty), put_request rid r2 s))"

text \<open>A nil pointer under a listed id would panic; \<open>store_wf\<close> below rules it out.\<close>

definition list_requests :: "string \<Rightarrow> store \<Rightarrow> request list" where
  "list_requests filt s =
     concat (map (\<lambda>rid. case st_requests s rid of
                   None \<Rightarrow> []
                 | Some r \<Rightarrow> if filt = '''' \<or> status_str (r_status r) = filt then [r] else [])
               (st_order s))"

definition set_display_command :: "string \<Rightarrow> string \<Rightarrow> store \<Rightarrow> bool \<times> store" where
  "set_display_command rid cmd s =
     (case st_requests s rid of
        None \<Rightarrow> (False, s)
      | Some r \<Rightarrow> (True, put_request rid (r\<lparr>r_display_command := cmd\<rparr>) s))"

definition set_output_gated :: "string \<Rightarrow> store \<Rightarrow> bool \<times> store" where
  "set_output_gated rid s =
     (case st_requests s rid of
        None \<Rightarrow> (False, s)
      | Some r \<Rightarrow> (True, put_request rid (r\<lparr>r_output_gated := True\<rparr>) s))"

definition release_output :: "string \<Rightarrow> store \<Rightarrow> bool \<times> store" where
  "release_output rid s =
     (case st_requests s rid of
        None \<Rightarrow> (False, s)
      | Some r \<Rightarrow> (True, (put_request rid (r\<lparr>r_output_gated := False\<rparr>) s)
                         \<lparr>st_updates := chan_send 100 rid (st_updates s)\<rparr>))"

section \<open>Gated output\<close>

text \<open>The dash of the placeholders is U+2014, three bytes in UTF-8.\<close>

definition em_dash :: string where
  "em_dash = [CHR 0xE2, CHR 0x80, CHR 0x94]"

definition gated_stdout_text :: "int \<Rightarrow> string" where
  "gated_stdout_text n = ''[output gated by operator '' @ em_dash @ '' '' @ itoa n
     @ '' bytes. use release button in dashboard to unlock, then re-poll get_result]''"

definition gated_stderr_text :: "int \<Rightarrow> string" where
  "gated_stderr_text n = ''[stderr gated '' @ em_dash @ '' '' @ itoa n @ '' bytes]''"

definition redact_gated_output :: "request \<Rightarrow> request" where
  "redact_gated_output r =
     (case r_result r of
        None \<Rightarrow> r
      | Some res \<Rightarrow>
          if \<not> r_output_gated r then r
          else let gr = visible_when_gated res;
                   gr1 = gr\<lparr>res_stdout := gated_stdout_text (int (length (res_stdout res)))\<rparr>;
                   gr2 = (if length (res_stderr res) > 0
                          then gr1\<lparr>res_stderr := gated_stderr_text (int (length (res_stderr res)))\<rparr>
                          else gr1)
               in r\<lparr>r_result := Some gr2\<rparr>)"

section \<open>Well-formedness\<close>

definition store_wf :: "store \<Rightarrow> bool" where
  "store_wf s \<longleftrightarrow>
     distinct (st_order s) \<and> set (st_order s) = dom (st_requests s)
     \<and> (\<forall>rid r. st_requests s rid = Some r \<longrightarrow> r_id r = rid)
     \<and> length (st_notify s) \<le> 100 \<and> length (st_updates s) \<le> 100"

lemma store_wf_new: "store_wf new_store"
  by (simp add: store_wf_def new_store_def)

lemma store_wf_get: "store_wf s \<Longrightarrow> st_requests s rid = Some r \<Longrightarrow> r_id r = rid"
  by (simp add: store_wf_def)

lemma store_wf_publish:
  "store_wf s \<Longrightarrow> st_requests s (r_id r) = None \<Longrightarrow> store_wf (publish r s)"
  by (auto simp: store_wf_def publish_def chan_send_bound)

lemma store_wf_put:
  "store_wf s \<Longrightarrow> st_requests s rid = Some r0 \<Longrightarrow> r_id r = rid \<Longrightarrow> store_wf (put_request rid r s)"
  by (auto simp: store_wf_def put_request_def)

lemma store_wf_updates_put:
  "store_wf (put_request rid r s) \<Longrightarrow>
     store_wf ((put_request rid r s)\<lparr>st_updates := chan_send 100 k (st_updates s)\<rparr>)"
  by (simp add: store_wf_def put_request_def chan_send_bound)

lemma put_request_get [simp]:
  "st_requests (put_request rid r s) k = (if k = rid then Some r else st_requests s k)"
  by (simp add: put_request_def)

lemma put_request_order [simp]: "st_order (put_request rid r s) = st_order s"
  by (simp add: put_request_def)

lemma put_request_notify [simp]: "st_notify (put_request rid r s) = st_notify s"
  by (simp add: put_request_def)

lemma put_request_updates [simp]: "st_updates (put_request rid r s) = st_updates s"
  by (simp add: put_request_def)

lemmas store_op_defs = set_status_def deny_def withdraw_def approve_def set_result_def
  set_display_command_def set_output_gated_def release_output_def

lemma store_wf_set_status: "store_wf s \<Longrightarrow> store_wf (snd (set_status now rid st s))"
  by (auto simp: set_status_def Let_def dest: store_wf_get split: option.split intro!: store_wf_put)

lemma store_wf_deny: "store_wf s \<Longrightarrow> store_wf (snd (deny now rid reason s))"
  by (auto simp: deny_def dest: store_wf_get split: option.split intro!: store_wf_put)

lemma store_wf_approve: "store_wf s \<Longrightarrow> store_wf (snd (approve now rid g s))"
  by (auto simp: approve_def Let_def dest: store_wf_get split: option.split intro!: store_wf_put)

lemma store_wf_set_result: "store_wf s \<Longrightarrow> store_wf (snd (set_result rid res st s))"
  by (auto simp: set_result_def Let_def dest: store_wf_get split: option.split intro!: store_wf_put)

lemma store_wf_display: "store_wf s \<Longrightarrow> store_wf (snd (set_display_command rid c s))"
  by (auto simp: set_display_command_def dest: store_wf_get split: option.split intro!: store_wf_put)

lemma store_wf_set_gated: "store_wf s \<Longrightarrow> store_wf (snd (set_output_gated rid s))"
  by (auto simp: set_output_gated_def dest: store_wf_get split: option.split intro!: store_wf_put)

lemma store_wf_withdraw: "store_wf s \<Longrightarrow> store_wf (snd (withdraw now rid reason s))"
  by (auto simp: withdraw_def dest: store_wf_get split: option.split
      intro!: store_wf_put store_wf_updates_put)

lemma store_wf_release: "store_wf s \<Longrightarrow> store_wf (snd (release_output rid s))"
  by (auto simp: release_output_def dest: store_wf_get split: option.split
      intro!: store_wf_put store_wf_updates_put)

lemmas store_wf_ops = store_wf_set_status store_wf_deny store_wf_approve store_wf_set_result
  store_wf_display store_wf_set_gated store_wf_withdraw store_wf_release

text \<open>What each operation leaves alone: every other request.\<close>

lemma store_op_frame:
  "k \<noteq> rid \<Longrightarrow> st_requests (snd (set_status now rid st s)) k = st_requests s k"
  "k \<noteq> rid \<Longrightarrow> st_requests (snd (deny now rid reason s)) k = st_requests s k"
  "k \<noteq> rid \<Longrightarrow> st_requests (snd (withdraw now rid reason s)) k = st_requests s k"
  "k \<noteq> rid \<Longrightarrow> st_requests (snd (approve now rid g s)) k = st_requests s k"
  "k \<noteq> rid \<Longrightarrow> st_requests (snd (set_result rid res st s)) k = st_requests s k"
  "k \<noteq> rid \<Longrightarrow> st_requests (snd (set_display_command rid c s)) k = st_requests s k"
  "k \<noteq> rid \<Longrightarrow> st_requests (snd (set_output_gated rid s)) k = st_requests s k"
  "k \<noteq> rid \<Longrightarrow> st_requests (snd (release_output rid s)) k = st_requests s k"
  by (simp_all add: store_op_defs Let_def split: option.split)

lemma list_requests_wf:
  "store_wf s \<Longrightarrow> r \<in> set (list_requests filt s) \<longleftrightarrow>
     st_requests s (r_id r) = Some r \<and> (filt = '''' \<or> status_str (r_status r) = filt)"
  by (force simp: list_requests_def store_wf_def split: option.splits if_splits)

lemma list_requests_ids:
  assumes "store_wf s"
  shows "map r_id (list_requests '''' s) = st_order s"
proof -
  have "map r_id (concat (map (\<lambda>rid. case st_requests s rid of None \<Rightarrow> [] | Some r \<Rightarrow> [r]) xs)) = xs"
    if "set xs \<subseteq> dom (st_requests s)" for xs
    using that
  proof (induction xs)
    case Nil
    then show ?case by simp
  next
    case (Cons x xs)
    then obtain r where r: "st_requests s x = Some r" by auto
    with assms have "r_id r = x" by (simp add: store_wf_get)
    with Cons r show ?case by simp
  qed
  with assms show ?thesis
    by (simp add: list_requests_def store_wf_def cong: option.case_cong)
qed

section \<open>The store as a sequence of operations\<close>

text \<open>Each operation is atomic under the mutex, so any interleaving of the goroutines
  that use the store is a sequence of these steps. Two side conditions state how the
  relay uses it: a new identifier is fresh (generateID draws 64 random bits) and
  SetStatus and SetResult never set pending.\<close>

datatype store_op =
    OpAdd request
  | OpSetStatus int string status
  | OpDeny int string string
  | OpWithdraw int string string
  | OpApprove int string bool
  | OpSetResult string "result option" status
  | OpSetDisplay string string
  | OpSetGated string
  | OpRelease string

fun apply_op :: "store_op \<Rightarrow> store \<Rightarrow> store" where
  "apply_op (OpAdd r) s = publish r s"
| "apply_op (OpSetStatus now rid st) s = snd (set_status now rid st s)"
| "apply_op (OpDeny now rid reason) s = snd (deny now rid reason s)"
| "apply_op (OpWithdraw now rid reason) s = snd (withdraw now rid reason s)"
| "apply_op (OpApprove now rid g) s = snd (approve now rid g s)"
| "apply_op (OpSetResult rid res st) s = snd (set_result rid res st s)"
| "apply_op (OpSetDisplay rid c) s = snd (set_display_command rid c s)"
| "apply_op (OpSetGated rid) s = snd (set_output_gated rid s)"
| "apply_op (OpRelease rid) s = snd (release_output rid s)"

fun op_ok :: "store_op \<Rightarrow> store \<Rightarrow> bool" where
  "op_ok (OpAdd r) s \<longleftrightarrow> st_requests s (r_id r) = None"
| "op_ok (OpSetStatus now rid st) s \<longleftrightarrow> st \<noteq> StatusPending"
| "op_ok (OpSetResult rid res st) s \<longleftrightarrow> st \<noteq> StatusPending"
| "op_ok _ s \<longleftrightarrow> True"

definition store_step :: "store \<Rightarrow> store_op \<Rightarrow> store \<Rightarrow> bool" where
  "store_step s op s' \<longleftrightarrow> op_ok op s \<and> s' = apply_op op s"

text \<open>A request is closed once it exists and has left pending.\<close>

definition closed :: "store \<Rightarrow> string \<Rightarrow> bool" where
  "closed s rid \<longleftrightarrow> (\<exists>r. st_requests s rid = Some r \<and> r_status r \<noteq> StatusPending)"

fun approved_id :: "store \<Rightarrow> store_op \<Rightarrow> string option" where
  "approved_id s (OpApprove now rid g) = map_option (\<lambda>_. rid) (fst (approve now rid g s))"
| "approved_id s _ = None"

lemma approve_Some:
  "fst (approve now rid g s) = Some r \<Longrightarrow>
     (\<exists>r0. st_requests s rid = Some r0 \<and> r_status r0 = StatusPending)
     \<and> st_requests (snd (approve now rid g s)) rid = Some r \<and> r_status r = StatusApproved"
  by (auto simp: approve_def Let_def split: option.splits if_splits)

lemma closed_put: "closed s rid \<Longrightarrow> r_status r \<noteq> StatusPending \<Longrightarrow> closed (put_request k r s) rid"
  by (auto simp: closed_def)

lemma closed_put_same:
  "closed s rid \<Longrightarrow> st_requests s k = Some r0 \<Longrightarrow> r_status r = r_status r0 \<Longrightarrow>
     closed (put_request k r s) rid"
  by (auto simp: closed_def)

lemma closed_updates [simp]: "closed (s\<lparr>st_updates := q\<rparr>) rid = closed s rid"
  by (simp add: closed_def)

lemma closed_stays_ops: "op_ok op s \<Longrightarrow> closed s rid \<Longrightarrow> closed (apply_op op s) rid"
proof (cases op)
  case (OpAdd r)
  assume "op_ok op s" and "closed s rid"
  with OpAdd show ?thesis by (auto simp: closed_def publish_def)
qed (auto simp: store_op_defs Let_def intro: closed_put closed_put_same split: option.split)

interpretation store_decisions: decide_once closed store_step approved_id
proof
  fix s op s' i
  assume st: "store_step s op s'" and ap: "approved_id s op = Some i"
  then obtain now g r where op: "op = OpApprove now i g" and r: "fst (approve now i g s) = Some r"
    by (cases op) auto
  show "\<not> closed s i" using approve_Some [OF r] by (auto simp: closed_def)
  show "closed s' i" using approve_Some [OF r] st op by (auto simp: closed_def store_step_def)
next
  fix s op s' i
  assume "store_step s op s'" and "closed s i"
  then show "closed s' i" by (auto simp: store_step_def intro: closed_stays_ops)
qed

section \<open>What gating hides\<close>

text \<open>Two gated requests that agree on everything but the withheld content: the bytes of
  the two streams (not their lengths) and the response headers.\<close>

definition gated_variants :: "request \<Rightarrow> request \<Rightarrow> bool" where
  "gated_variants r r' \<longleftrightarrow>
     (\<exists>a b. r_output_gated r \<and> r_result r = Some a \<and> r' = r\<lparr>r_result := Some b\<rparr>
        \<and> res_exit_code a = res_exit_code b \<and> res_status_code a = res_status_code b
        \<and> length (res_stdout a) = length (res_stdout b)
        \<and> length (res_stderr a) = length (res_stderr b))"

lemma redact_variants: "gated_variants r r' \<Longrightarrow> redact_gated_output r = redact_gated_output r'"
  by (auto simp: gated_variants_def redact_gated_output_def visible_when_gated_def zero_result_def Let_def)

lemma redact_variants_list:
  "list_all2 (\<lambda>r r'. r = r' \<or> gated_variants r r') rs rs' \<Longrightarrow>
     map redact_gated_output rs = map redact_gated_output rs'"
  by (induction rule: list_all2_induct) (auto dest: redact_variants)

lemma redact_ungated [simp]: "\<not> r_output_gated r \<Longrightarrow> redact_gated_output r = r"
  by (simp add: redact_gated_output_def split: option.split)

lemma redact_no_result [simp]: "r_result r = None \<Longrightarrow> redact_gated_output r = r"
  by (simp add: redact_gated_output_def)

lemma redact_gated_result:
  assumes "r_output_gated r" and "r_result r = Some a"
  obtains b where "r_result (redact_gated_output r) = Some b"
    and "res_exit_code b = res_exit_code a" and "res_status_code b = res_status_code a"
    and "res_headers b = None"
    and "res_stdout b = gated_stdout_text (int (length (res_stdout a)))"
  using assms by (auto simp: redact_gated_output_def visible_when_gated_def zero_result_def Let_def)

lemma redact_keeps [simp]:
  "r_id (redact_gated_output r) = r_id r"
  "r_status (redact_gated_output r) = r_status r"
  "r_output_gated (redact_gated_output r) = r_output_gated r"
  "r_client (redact_gated_output r) = r_client r"
  by (simp_all add: redact_gated_output_def Let_def split: option.split)

text \<open>A request whose gate can still matter: nothing is recorded before the decision, and
  a recorded result under a gate holds something to withhold.\<close>

definition gate_inv :: "store \<Rightarrow> bool" where
  "gate_inv s \<longleftrightarrow>
     (\<forall>rid r. st_requests s rid = Some r \<longrightarrow>
        (r_status r = StatusPending \<longrightarrow> r_result r = None)
        \<and> (\<forall>res. r_output_gated r \<longrightarrow> r_result r = Some res \<longrightarrow> has_gated_content res))"

lemma gate_inv_new: "gate_inv new_store"
  by (simp add: gate_inv_def new_store_def)

lemma gate_inv_put:
  "gate_inv s \<Longrightarrow> (r_status r = StatusPending \<longrightarrow> r_result r = None) \<Longrightarrow>
   (\<And>res. r_output_gated r \<Longrightarrow> r_result r = Some res \<Longrightarrow> has_gated_content res) \<Longrightarrow>
   gate_inv (put_request rid r s)"
  by (auto simp: gate_inv_def)

lemma gate_inv_get:
  "gate_inv s \<Longrightarrow> st_requests s rid = Some r \<Longrightarrow>
     (r_status r = StatusPending \<longrightarrow> r_result r = None)
     \<and> (\<forall>res. r_output_gated r \<longrightarrow> r_result r = Some res \<longrightarrow> has_gated_content res)"
  by (auto simp: gate_inv_def)

lemma gate_inv_updates [simp]: "gate_inv (s\<lparr>st_updates := q\<rparr>) = gate_inv s"
  by (simp add: gate_inv_def)

lemma gate_inv_notify [simp]: "gate_inv (s\<lparr>st_notify := q\<rparr>) = gate_inv s"
  by (simp add: gate_inv_def)

lemma gate_inv_publish:
  "gate_inv s \<Longrightarrow> r_result r = None \<Longrightarrow> gate_inv (publish r s)"
  by (simp add: gate_inv_def publish_def)

lemma gate_inv_set_status:
  "gate_inv s \<Longrightarrow> st \<noteq> StatusPending \<Longrightarrow> gate_inv (snd (set_status now rid st s))"
  by (auto simp: set_status_def Let_def dest: gate_inv_get intro!: gate_inv_put split: option.split)

lemma gate_inv_deny: "gate_inv s \<Longrightarrow> gate_inv (snd (deny now rid reason s))"
  by (auto simp: deny_def dest: gate_inv_get intro!: gate_inv_put split: option.split)

lemma gate_inv_withdraw: "gate_inv s \<Longrightarrow> gate_inv (snd (withdraw now rid reason s))"
  by (auto simp: withdraw_def dest: gate_inv_get intro!: gate_inv_put split: option.split)

lemma gate_inv_approve: "gate_inv s \<Longrightarrow> gate_inv (snd (approve now rid g s))"
  by (auto simp: approve_def Let_def dest: gate_inv_get intro!: gate_inv_put split: option.split)

lemma gate_inv_set_result:
  "gate_inv s \<Longrightarrow> st \<noteq> StatusPending \<Longrightarrow> gate_inv (snd (set_result rid res st s))"
  by (auto simp: set_result_def Let_def dest: gate_inv_get intro!: gate_inv_put split: option.split)

lemma gate_inv_release: "gate_inv s \<Longrightarrow> gate_inv (snd (release_output rid s))"
  by (auto simp: release_output_def dest: gate_inv_get intro!: gate_inv_put split: option.split)

lemma gate_inv_display: "gate_inv s \<Longrightarrow> gate_inv (snd (set_display_command rid c s))"
  by (auto simp: set_display_command_def dest: gate_inv_get intro!: gate_inv_put split: option.split)

lemmas gate_inv_ops = gate_inv_set_status gate_inv_deny gate_inv_withdraw gate_inv_approve
  gate_inv_set_result gate_inv_release gate_inv_display gate_inv_publish

section \<open>Properties\<close>

text \<open>Every operation of the request store keeps it well formed: the insertion
  order lists exactly the stored requests once each, every request is stored under its own
  identifier, and the two notification channels never hold more than their 100 slots.\<close>

theorem store_operations_wf:
  assumes "store_wf s" and "op_ok op s"
  shows "store_wf (apply_op op s)"
  using assms by (cases op) (simp_all add: store_wf_ops store_wf_publish)

theorem store_operations_wf_witness:
  "store_wf (apply_op (OpAdd (pending_request ''a'' 1)) new_store)"
  by (rule store_operations_wf [OF store_wf_new])
    (simp add: new_store_def pending_request_def)

end
