(* ===== verification/Registry_Ops.thy ===== *)
theory Registry_Ops
  imports Containers Machines Request_Store
begin

text \<open>
  web/handler.go executeRegistryOp: an approved mutation of the container or machine
  registry. \<open>None\<close> for a registry is Go's nil store.
\<close>

record registries =
  rg_containers :: "container_store option"
  rg_machines :: "machine_store option"

text \<open>How the two file writes would end.\<close>

record registry_io =
  io_containers :: "container list write_outcome"
  io_machines :: "machine list write_outcome"

section \<open>Texts\<close>

definition json_time :: "golib \<Rightarrow> int \<Rightarrow> jval" where
  "json_time lib t = JStr (lib_time lib t)"

definition container_json :: "golib \<Rightarrow> container \<Rightarrow> jval" where
  "container_json lib c = JObj
     ([(''ctid'', JInt (c_ctid c)), (''ip'', JStr (c_ip c)), (''hostname'', JStr (c_hostname c)),
       (''has_relay_ssh'', JBool (c_has_relay_ssh c))]
      @ (if c_ssh_user c = '''' then [] else [(''ssh_user'', JStr (c_ssh_user c))])
      @ [(''created_at'', json_time lib (c_created_at c)), (''updated_at'', json_time lib (c_updated_at c))])"

definition machine_json :: "golib \<Rightarrow> machine \<Rightarrow> jval" where
  "machine_json lib m = JObj
     ([(''name'', JStr (m_name m)), (''host'', JStr (m_host m)), (''ssh_user'', JStr (m_ssh_user m)),
       (''shell'', JStr (m_shell m))]
      @ (if m_identity_file m = '''' then [] else [(''identity_file'', JStr (m_identity_file m))])
      @ [(''created_at'', json_time lib (m_created_at m)), (''updated_at'', json_time lib (m_updated_at m))])"

text \<open>The text of strconv.Atoi's error: a digit string that leaves 64 bits before its first
  bad character is out of range, anything else is a syntax error.\<close>

fun scan_range :: "nat \<Rightarrow> string \<Rightarrow> bool" where
  "scan_range n [] = True"
| "scan_range n (c # cs) =
     (case char_digit c of
        None \<Rightarrow> False
      | Some d \<Rightarrow> if n \<ge> 1844674407370955162 \<or> 10 * n + d \<ge> 18446744073709551616 then True
                  else scan_range (10 * n + d) cs)"

definition atoi_out_of_range :: "string \<Rightarrow> bool" where
  "atoi_out_of_range s =
     (let t = (if prefix ''-'' s \<or> prefix ''+'' s then tl s else s) in t \<noteq> [] \<and> scan_range 0 t)"

definition atoi_error_text :: "golib \<Rightarrow> string \<Rightarrow> string" where
  "atoi_error_text lib s = ''strconv.Atoi: parsing '' @ lib_quote lib s
     @ (if atoi_out_of_range s then '': value out of range'' else '': invalid syntax'')"

section \<open>Applying an operation\<close>

definition registry_failure :: "string \<Rightarrow> result" where
  "registry_failure msg = zero_result\<lparr>res_exit_code := 1, res_stderr := msg\<rparr>"

text \<open>None of the values can fail to marshal.\<close>

definition registry_success :: "golib \<Rightarrow> jval \<Rightarrow> result" where
  "registry_success lib v = zero_result\<lparr>res_stdout := lib_marshal lib v\<rparr>"

definition invalid_ctid :: "golib \<Rightarrow> string \<Rightarrow> result" where
  "invalid_ctid lib s =
     registry_failure (''invalid ctid '' @ lib_quote lib s @ '': '' @ atoi_error_text lib s)"

definition execute_registry_op :: "golib \<Rightarrow> int \<Rightarrow> registry_io \<Rightarrow> request \<Rightarrow> registries
    \<Rightarrow> result \<times> registries" where
  "execute_registry_op lib now io req rg =
     (let args = r_registry_args req; arg = gomap_str args; op = r_registry_op req in
      if op = ''register_container'' then
        (case rg_containers rg of
           None \<Rightarrow> (registry_failure ''container registry not configured'', rg)
         | Some cs \<Rightarrow>
             (case atoi (arg ''ctid'') of
                None \<Rightarrow> (invalid_ctid lib (arg ''ctid''), rg)
              | Some ctid \<Rightarrow>
                  (case cs_register now (io_containers io) ctid (arg ''ip'') (arg ''hostname'')
                          (arg ''has_relay_ssh'' = ''true'') (arg ''ssh_user'') cs of
                     (Inl e, cs') \<Rightarrow>
                       (registry_failure (''failed to register container: '' @ registry_error_text lib e),
                        rg\<lparr>rg_containers := Some cs'\<rparr>)
                   | (Inr c, cs') \<Rightarrow>
                       (registry_success lib (container_json lib c), rg\<lparr>rg_containers := Some cs'\<rparr>))))
      else if op = ''delete_container'' then
        (case rg_containers rg of
           None \<Rightarrow> (registry_failure ''container registry not configured'', rg)
         | Some cs \<Rightarrow>
             (case atoi (arg ''ctid'') of
                None \<Rightarrow> (invalid_ctid lib (arg ''ctid''), rg)
              | Some ctid \<Rightarrow>
                  (case cs_delete (io_containers io) ctid cs of
                     (Some e, cs') \<Rightarrow>
                       (registry_failure (''failed to delete container: '' @ registry_error_text lib e),
                        rg\<lparr>rg_containers := Some cs'\<rparr>)
                   | (None, cs') \<Rightarrow>
                       (registry_success lib (JObj [(''ctid'', JInt ctid), (''deleted'', JBool True)]),
                        rg\<lparr>rg_containers := Some cs'\<rparr>))))
      else if op = ''register_machine'' then
        (case rg_machines rg of
           None \<Rightarrow> (registry_failure ''machine registry not configured'', rg)
         | Some ms \<Rightarrow>
             (case ms_register now (io_machines io) (arg ''name'') (arg ''host'') (arg ''ssh_user'')
                     (arg ''shell'') (arg ''identity_file'') ms of
                (Inl e, ms') \<Rightarrow>
                  (registry_failure (''failed to register machine: '' @ registry_error_text lib e),
                   rg\<lparr>rg_machines := Some ms'\<rparr>)
              | (Inr m, ms') \<Rightarrow>
                  (registry_success lib (machine_json lib m), rg\<lparr>rg_machines := Some ms'\<rparr>)))
      else if op = ''delete_machine'' then
        (case rg_machines rg of
           None \<Rightarrow> (registry_failure ''machine registry not configured'', rg)
         | Some ms \<Rightarrow>
             (case ms_delete (io_machines io) (arg ''name'') ms of
                (Some e, ms') \<Rightarrow>
                  (registry_failure (''failed to delete machine: '' @ registry_error_text lib e),
                   rg\<lparr>rg_machines := Some ms'\<rparr>)
              | (None, ms') \<Rightarrow>
                  (registry_success lib (JObj [(''deleted'', JBool True), (''name'', JStr (arg ''name''))]),
                   rg\<lparr>rg_machines := Some ms'\<rparr>)))
      else (registry_failure (''unknown registry op '' @ lib_quote lib op), rg))"

text \<open>The two registries stay well formed.\<close>

definition registries_wf :: "registries \<Rightarrow> bool" where
  "registries_wf rg \<longleftrightarrow>
     (\<forall>cs. rg_containers rg = Some cs \<longrightarrow> cs_wf cs) \<and> (\<forall>ms. rg_machines rg = Some ms \<longrightarrow> ms_wf ms)"

lemma registry_codes [simp]:
  "res_exit_code (registry_failure m) = 1" "res_exit_code (registry_success lib v) = 0"
  "res_exit_code (invalid_ctid lib s) = 1"
  by (simp_all add: registry_failure_def registry_success_def invalid_ctid_def zero_result_def)

lemma wf_set_containers:
  "registries_wf rg \<Longrightarrow> cs_wf cs \<Longrightarrow> registries_wf (rg\<lparr>rg_containers := Some cs\<rparr>)"
  by (simp add: registries_wf_def)

lemma wf_set_machines:
  "registries_wf rg \<Longrightarrow> ms_wf ms \<Longrightarrow> registries_wf (rg\<lparr>rg_machines := Some ms\<rparr>)"
  by (simp add: registries_wf_def)

lemma registry_op_wf_containers:
  assumes "registries_wf rg" and "rg_containers rg = Some cs"
  shows "cs_register now w ctid ip host rs u cs = (x, cs') \<Longrightarrow> registries_wf (rg\<lparr>rg_containers := Some cs'\<rparr>)"
    and "cs_delete w ctid cs = (y, cs') \<Longrightarrow> registries_wf (rg\<lparr>rg_containers := Some cs'\<rparr>)"
  using assms cs_register_wf [of cs now w ctid ip host rs u] cs_delete_wf [of cs w ctid]
  by (auto simp: registries_wf_def)

lemma registry_op_wf_machines:
  assumes "registries_wf rg" and "rg_machines rg = Some ms"
  shows "ms_register now w name host u sh i ms = (x, ms') \<Longrightarrow> registries_wf (rg\<lparr>rg_machines := Some ms'\<rparr>)"
    and "ms_delete w name ms = (y, ms') \<Longrightarrow> registries_wf (rg\<lparr>rg_machines := Some ms'\<rparr>)"
  using assms ms_register_wf [of ms now w name host u sh i] ms_delete_wf [of ms w name]
  by (auto simp: registries_wf_def)

lemma execute_registry_op_wf:
  "registries_wf rg \<Longrightarrow> registries_wf (snd (execute_registry_op lib now io req rg))"
  by (simp add: execute_registry_op_def Let_def registry_op_wf_containers registry_op_wf_machines
      split: option.split prod.split sum.split)

end
