(* ===== verification/Executor.thy ===== *)
theory Executor
  imports Request_Store Go_Lib
begin

text \<open>
  executor/executor.go: running an approved command. What the operating system does with
  a process, and what the network answers, are arguments (\<open>os_env\<close>); every executor
  returns its result together with the list of outside calls it made, in order, so that a
  property can say what was run and how often.
\<close>

section \<open>The outside world\<close>

record proc =
  pr_argv :: "string list"
  pr_dir :: "string option"
  pr_stdin :: string
  pr_timeout :: int

datatype run_error = RunExit int string | RunOther string

text \<open>What a finished process leaves: the chunks written to its two streams, the error
  of cmd.Run (an exit code with the error's text, or another error), and whether the context's
  deadline had passed.\<close>

record proc_outcome =
  po_stdout :: "string list"
  po_stderr :: "string list"
  po_error :: "run_error option"
  po_deadline :: bool

text \<open>The body of an HTTP request: none, a string, or the parts of a multipart form (the
  text fields in order, then the file's field name, file name and bytes).\<close>

datatype http_body = NoBody | TextBody string
  | FormBody "(string \<times> string) list" string string string

record http_call =
  hc_method :: string
  hc_url :: string
  hc_headers :: "(string, string) gomap"
  hc_body :: http_body

record http_response =
  hr_status :: int
  hr_headers :: "(string, string list) gomap"
  hr_body :: "string list"

text \<open>A failed call carries the error's text and whether the deadline had passed.\<close>

datatype http_outcome = Failed string bool | Answered http_response

datatype call = RunProc proc | SendHttp http_call

text \<open>\<open>os_new_request\<close> is the error of http.NewRequestWithContext for a method and a URL, if
  any; the index of \<open>os_http\<close> is the position of the call in one execution.\<close>

record os_env =
  os_getenv :: "string \<Rightarrow> string option"
  os_run :: "proc \<Rightarrow> proc_outcome"
  os_new_request :: "string \<Rightarrow> string \<Rightarrow> string option"
  os_http :: "nat \<Rightarrow> http_call \<Rightarrow> http_outcome"
  os_boundary :: string

section \<open>The output limit\<close>

definition max_output_bytes :: nat where "max_output_bytes = 1048576"

record limited_writer =
  lw_buf :: string
  lw_max :: nat
  lw_hit :: bool

definition lw_new :: "nat \<Rightarrow> limited_writer" where
  "lw_new m = \<lparr>lw_buf = [], lw_max = m, lw_hit = False\<rparr>"

definition lw_write :: "string \<Rightarrow> limited_writer \<Rightarrow> nat \<times> limited_writer" where
  "lw_write p w =
     (let n = length p; remaining = int (lw_max w) - int (length (lw_buf w)) in
      if remaining \<le> 0 then (n, w\<lparr>lw_hit := True\<rparr>)
      else if int n > remaining
        then (n, w\<lparr>lw_hit := True, lw_buf := lw_buf w @ take (nat remaining) p\<rparr>)
      else (n, w\<lparr>lw_buf := lw_buf w @ p\<rparr>))"

definition lw_writes :: "nat \<Rightarrow> string list \<Rightarrow> limited_writer" where
  "lw_writes m ps = fold (\<lambda>p w. snd (lw_write p w)) ps (lw_new m)"

lemma take_take_append: "take m (take m a @ b) = take m (a @ b)"
  by (cases "length a \<le> m") simp_all

lemma lw_write_step:
  assumes le: "length (lw_buf w) \<le> lw_max w"
  shows "lw_buf (snd (lw_write p w)) = take (lw_max w) (lw_buf w @ p)"
    and "lw_max (snd (lw_write p w)) = lw_max w"
    and "p \<noteq> [] \<Longrightarrow> lw_hit (snd (lw_write p w))
           \<longleftrightarrow> lw_hit w \<or> lw_max w < length (lw_buf w) + length p"
proof -
  have nat_rem: "nat (int (lw_max w) - int (length (lw_buf w))) = lw_max w - length (lw_buf w)"
    by (simp only: nat_diff_distrib' nat_int of_nat_0_le_iff)
  consider (full) "length (lw_buf w) = lw_max w"
    | (over) "length (lw_buf w) < lw_max w" "lw_max w < length (lw_buf w) + length p"
    | (fits) "length (lw_buf w) < lw_max w" "length (lw_buf w) + length p \<le> lw_max w"
    using le by linarith
  then have "lw_buf (snd (lw_write p w)) = take (lw_max w) (lw_buf w @ p)
      \<and> lw_max (snd (lw_write p w)) = lw_max w
      \<and> (p \<noteq> [] \<longrightarrow> (lw_hit (snd (lw_write p w))
           \<longleftrightarrow> lw_hit w \<or> lw_max w < length (lw_buf w) + length p))"
  proof cases
    case full
    then show ?thesis by (simp add: lw_write_def Let_def)
  next
    case over
    then have "\<not> int (lw_max w) - int (length (lw_buf w)) \<le> 0"
      and "int (length p) > int (lw_max w) - int (length (lw_buf w))" by linarith+
    with over show ?thesis by (simp add: lw_write_def Let_def nat_rem)
  next
    case fits
    then have "\<not> int (lw_max w) - int (length (lw_buf w)) \<le> 0"
      and "\<not> int (length p) > int (lw_max w) - int (length (lw_buf w))" by linarith+
    with fits show ?thesis by (simp add: lw_write_def Let_def)
  qed
  then show "lw_buf (snd (lw_write p w)) = take (lw_max w) (lw_buf w @ p)"
    and "lw_max (snd (lw_write p w)) = lw_max w"
    and "p \<noteq> [] \<Longrightarrow> lw_hit (snd (lw_write p w))
           \<longleftrightarrow> lw_hit w \<or> lw_max w < length (lw_buf w) + length p"
    by simp_all
qed

lemma lw_fold:
  assumes "length (lw_buf w) \<le> lw_max w"
  shows "lw_buf (fold (\<lambda>p w. snd (lw_write p w)) ps w) = take (lw_max w) (lw_buf w @ concat ps)
       \<and> lw_max (fold (\<lambda>p w. snd (lw_write p w)) ps w) = lw_max w
       \<and> ((\<forall>p\<in>set ps. p \<noteq> []) \<longrightarrow>
            (lw_hit (fold (\<lambda>p w. snd (lw_write p w)) ps w)
              \<longleftrightarrow> lw_hit w \<or> lw_max w < length (lw_buf w) + length (concat ps)))"
  using assms
proof (induction ps arbitrary: w)
  case Nil
  then show ?case by simp
next
  case (Cons p ps)
  let ?w = "snd (lw_write p w)"
  have buf: "lw_buf ?w = take (lw_max w) (lw_buf w @ p)" and mx: "lw_max ?w = lw_max w"
    and hit: "p \<noteq> [] \<Longrightarrow> lw_hit ?w \<longleftrightarrow> lw_hit w \<or> lw_max w < length (lw_buf w) + length p"
    by (rule lw_write_step [OF Cons.prems], assumption?)+
  have le: "length (lw_buf ?w) \<le> lw_max ?w" by (simp add: buf mx)
  have hit': "(lw_hit ?w \<or> lw_max w < length (lw_buf ?w) + length (concat ps))
      = (lw_hit w \<or> lw_max w < length (lw_buf w) + (length p + length (concat ps)))" if "p \<noteq> []"
    unfolding hit [OF that] buf by (auto simp: min_def)
  have buf': "take (lw_max ?w) (lw_buf ?w @ concat ps) = take (lw_max w) (lw_buf w @ concat (p # ps))"
    by (simp only: buf mx take_take_append concat.simps append_assoc)
  have unroll: "fold (\<lambda>p w. snd (lw_write p w)) (p # ps) w = fold (\<lambda>p w. snd (lw_write p w)) ps ?w"
    by simp
  note IH = Cons.IH [OF le, unfolded buf', unfolded mx]
  show ?case
    unfolding unroll using IH hit' by (simp only: list.set ball_simps concat.simps length_append) simp
qed

lemma lw_writes_buf: "lw_buf (lw_writes m ps) = take m (concat ps)"
  using lw_fold [of "lw_new m" ps] by (simp add: lw_writes_def lw_new_def)

lemma lw_writes_hit:
  "\<forall>p\<in>set ps. p \<noteq> [] \<Longrightarrow> lw_hit (lw_writes m ps) \<longleftrightarrow> m < length (concat ps)"
  using lw_fold [of "lw_new m" ps] by (simp add: lw_writes_def lw_new_def)

section \<open>Paths\<close>

text \<open>\<^verbatim>\<open>filepath.Clean\<close> on Unix: the elements between slashes, with empty ones and \<open>.\<close>
  dropped and \<open>..\<close> taking back the element before it; at the root \<open>..\<close> vanishes. The
  accumulator holds the elements kept so far, the last one first.\<close>

fun clean_elems :: "bool \<Rightarrow> string list \<Rightarrow> string list \<Rightarrow> string list" where
  "clean_elems rooted [] acc = rev acc"
| "clean_elems rooted (x # xs) acc =
     (if x = '''' \<or> x = ''.'' then clean_elems rooted xs acc
      else if x = ''..'' then
        (case acc of
           [] \<Rightarrow> clean_elems rooted xs (if rooted then [] else [''..''])
         | a # as \<Rightarrow> clean_elems rooted xs (if a = ''..'' then ''..'' # acc else as))
      else clean_elems rooted xs (x # acc))"

definition is_rooted :: "string \<Rightarrow> bool" where
  "is_rooted p = prefix ''/'' p"

definition path_elems :: "string \<Rightarrow> string list" where
  "path_elems p = clean_elems (is_rooted p) (split_on CHR ''/'' p) []"

definition path_clean :: "string \<Rightarrow> string" where
  "path_clean p =
     (if is_rooted p then CHR ''/'' # str_join ''/'' (path_elems p)
      else if path_elems p = [] then ''.'' else str_join ''/'' (path_elems p))"

section \<open>Running a command\<close>

record exec_config =
  ec_default_timeout :: int
  ec_max_timeout :: int
  ec_allowed_dirs :: "string list"

text \<open>The clamp at the top of every executor.\<close>

definition clamp_timeout :: "exec_config \<Rightarrow> int \<Rightarrow> int" where
  "clamp_timeout cfg t =
     (let t1 = (if t \<le> 0 then ec_default_timeout cfg else t)
      in if t1 > ec_max_timeout cfg then ec_max_timeout cfg else t1)"

definition timeout_duration :: "int \<Rightarrow> int" where
  "timeout_duration t = wrap64 (t * second)"

text \<open>\<open>None\<close>: the directory is fine. Otherwise the text of the error.\<close>

definition validate_working_dir :: "golib \<Rightarrow> exec_config \<Rightarrow> string \<Rightarrow> string option" where
  "validate_working_dir lib cfg dir =
     (if dir = '''' \<or> ec_allowed_dirs cfg = [] then None
      else let cleanDir = path_clean dir in
        if list_ex (\<lambda>allowed. let cleanAllowed = path_clean allowed in
                      cleanDir = cleanAllowed \<or> prefix (cleanAllowed @ ''/'') cleanDir)
                   (ec_allowed_dirs cfg)
        then None
        else Some (''working directory '' @ lib_quote lib dir @ '' is not in allowed directories''))"

definition stdout_note :: string where
  "stdout_note = CHR 0x0A # ''[human-relay: stdout truncated at 1MB]''"
definition stderr_note :: string where
  "stderr_note = CHR 0x0A # ''[human-relay: stderr truncated at 1MB]''"

definition failed_result :: "int \<Rightarrow> string \<Rightarrow> result" where
  "failed_result code msg = zero_result\<lparr>res_exit_code := code, res_stderr := msg\<rparr>"

text \<open>From the end of a process to a Result; \<open>what\<close> is the noun of the timeout message.\<close>

definition finish_process :: "string \<Rightarrow> int \<Rightarrow> proc_outcome \<Rightarrow> result" where
  "finish_process what timeout po =
     (let out = lw_writes max_output_bytes (po_stdout po);
          err = lw_writes max_output_bytes (po_stderr po);
          stderr1 = lw_buf err @ (if lw_hit out then stdout_note else []);
          stderr2 = stderr1 @ (if lw_hit err then stderr_note else []);
          res = zero_result\<lparr>res_stdout := lw_buf out, res_stderr := stderr2\<rparr>
      in case po_error po of
           None \<Rightarrow> res
         | Some e \<Rightarrow>
             if po_deadline po then
               res\<lparr>res_exit_code := -1,
                   res_stderr := what @ '' timed out after '' @ itoa timeout @ ''s''
                     @ CHR 0x0A # stderr2\<rparr>
             else (case e of
                 RunExit c _ \<Rightarrow> res\<lparr>res_exit_code := c\<rparr>
               | RunOther m \<Rightarrow> res\<lparr>res_exit_code := -1, res_stderr := m\<rparr>))"

definition execute :: "golib \<Rightarrow> os_env \<Rightarrow> exec_config \<Rightarrow> request \<Rightarrow> result \<times> call list" where
  "execute lib os cfg r =
     (let timeout = clamp_timeout cfg (r_timeout r) in
      case validate_working_dir lib cfg (r_working_dir r) of
        Some e \<Rightarrow> (failed_result (-1) e, [])
      | None \<Rightarrow>
          let argv = (if r_shell r
                      then [''sh'', ''-c'',
                            r_command r @ (if r_args r \<noteq> [] then '' '' @ str_join '' '' (r_args r) else [])]
                      else r_command r # r_args r);
              p = \<lparr>pr_argv = argv,
                   pr_dir = (if r_working_dir r \<noteq> '''' then Some (path_clean (r_working_dir r)) else None),
                   pr_stdin = r_stdin r, pr_timeout = timeout_duration timeout\<rparr>
          in (finish_process ''command'' timeout (os_run os p), [RunProc p]))"

section \<open>Paths as lists of elements\<close>












lemma clamp_timeout_bounds:
  assumes "0 < ec_default_timeout cfg" and "0 < ec_max_timeout cfg"
  shows "0 < clamp_timeout cfg t \<and> clamp_timeout cfg t \<le> ec_max_timeout cfg"
    and "0 < t \<Longrightarrow> t \<le> ec_max_timeout cfg \<Longrightarrow> clamp_timeout cfg t = t"
  using assms by (auto simp: clamp_timeout_def Let_def)

section \<open>Properties\<close>

text \<open>The limited writer keeps exactly the first \<open>m\<close> bytes written to it, whatever the
  chunks, reports every chunk as fully consumed, and is marked as truncated exactly when more
  than \<open>m\<close> bytes came (a pipe never delivers an empty chunk).\<close>

theorem limited_writer_keeps_prefix:
  assumes "\<forall>p\<in>set ps. p \<noteq> []"
  shows "lw_buf (lw_writes m ps) = take m (concat ps)
       \<and> length (lw_buf (lw_writes m ps)) \<le> m
       \<and> (lw_hit (lw_writes m ps) \<longleftrightarrow> m < length (concat ps))
       \<and> (\<forall>q w. fst (lw_write q w) = length q)"
  using lw_writes_hit [OF assms] by (simp add: lw_writes_buf lw_write_def Let_def)

theorem limited_writer_keeps_prefix_witness:
  "lw_buf (lw_writes 3 [''ab'', ''cd'']) = ''abc'' \<and> lw_hit (lw_writes 3 [''ab'', ''cd''])
   \<and> \<not> lw_hit (lw_writes 4 [''ab'', ''cd''])"
  using limited_writer_keeps_prefix [of "[''ab'', ''cd'']" 3]
    limited_writer_keeps_prefix [of "[''ab'', ''cd'']" 4] by simp


definition demo_lib :: golib where
  "demo_lib = \<lparr>lib_sha256 = \<lambda>s. s, lib_quote = \<lambda>s. s, lib_float = \<lambda>f. [], lib_time = itoa,
     lib_unmarshal = \<lambda>s. Inl ''bad'', lib_marshal = \<lambda>v. ''{}''\<rparr>"

definition demo_config :: exec_config where
  "demo_config = \<lparr>ec_default_timeout = 30, ec_max_timeout = 300, ec_allowed_dirs = [''/srv/a/'', ''/'']\<rparr>"


text \<open>The argument vector a request stands for.\<close>

definition approved_argv :: "request \<Rightarrow> string list" where
  "approved_argv r =
     (if r_shell r
      then [''sh'', ''-c'', str_join '' '' (r_command r # r_args r)]
      else r_command r # r_args r)"

text \<open>C21. Executing a command request runs either nothing, with exit code -1 and the reason
  on stderr, when its working directory is refused, or exactly one process: the reviewed argument
  vector with the reviewed stdin, in the cleaned working directory, under a deadline of exactly the
  seconds the request asked for, the configured default when it asked for none, and never more than the
  configured maximum; and the output it records is at most 1 MB plus the notes. The configured timeouts
  are positive and the maximum, in nanoseconds, fits 64 bits.\<close>

theorem execute_runs_what_was_approved:
  assumes "0 < ec_default_timeout cfg" and "0 < ec_max_timeout cfg"
    and "ec_max_timeout cfg \<le> 9223372036"
  shows "(case validate_working_dir lib cfg (r_working_dir r) of
            Some e \<Rightarrow> execute lib os cfg r = (failed_result (-1) e, [])
          | None \<Rightarrow> \<exists>p. snd (execute lib os cfg r) = [RunProc p]
              \<and> pr_argv p = approved_argv r \<and> pr_stdin p = r_stdin r
              \<and> pr_dir p = (if r_working_dir r = '''' then None else Some (path_clean (r_working_dir r)))
              \<and> pr_timeout p = second * min (if 0 < r_timeout r then r_timeout r else ec_default_timeout cfg) (ec_max_timeout cfg)
              \<and> second \<le> pr_timeout p \<and> pr_timeout p \<le> ec_max_timeout cfg * second)
       \<and> length (res_stdout (fst (execute lib os cfg r))) \<le> max_output_bytes"
proof -
  let ?t = "clamp_timeout cfg (r_timeout r)"
  have t: "1 \<le> ?t" "?t \<le> ec_max_timeout cfg"
    using clamp_timeout_bounds [OF assms(1,2), of "r_timeout r"] by linarith+
  have "in_int64 (?t * second)"
    using t assms(3) by (auto simp: in_int64_def second_def max_int64_def min_int64_def)
  then have d: "timeout_duration ?t = ?t * second" by (simp add: timeout_duration_def)
  have m: "?t = min (if 0 < r_timeout r then r_timeout r else ec_default_timeout cfg) (ec_max_timeout cfg)"
    by (simp add: clamp_timeout_def Let_def min_def)
  have "length (res_stdout (finish_process what t' po)) \<le> max_output_bytes" for what t' po
    by (simp add: finish_process_def Let_def lw_writes_buf zero_result_def
        split: option.split run_error.split)
  then show ?thesis
    using t unfolding m [symmetric]
    by (simp add: execute_def Let_def approved_argv_def d second_def str_join_Cons failed_result_def zero_result_def
        split: option.split)
qed

definition demo_os :: os_env where
  "demo_os = \<lparr>os_getenv = \<lambda>k. None,
     os_run = \<lambda>p. \<lparr>po_stdout = [''ok''], po_stderr = [], po_error = None, po_deadline = False\<rparr>,
     os_new_request = \<lambda>m u. None, os_http = \<lambda>n c. Failed ''no network'' False,
     os_boundary = ''b''\<rparr>"

theorem execute_runs_what_was_approved_witness:
  "\<exists>p. snd (execute demo_lib demo_os demo_config
           ((pending_request ''a'' 1)\<lparr>r_command := ''df'', r_args := [''-h''], r_timeout := 9999\<rparr>)) = [RunProc p]
     \<and> pr_argv p = [''df'', ''-h''] \<and> pr_timeout p = 300 * second"
  using execute_runs_what_was_approved [of demo_config demo_lib demo_os
      "(pending_request ''a'' 1)\<lparr>r_command := ''df'', r_args := [''-h''], r_timeout := 9999\<rparr>"]
  by (auto simp: demo_config_def validate_working_dir_def approved_argv_def pending_request_def)

end
