(* ===== verification/Http_Exec.thy ===== *)
theory Http_Exec
  imports Executor
begin

text \<open>
  executor/http.go: approved HTTP requests. Placeholders \<^verbatim>\<open>${VAR}\<close> are expanded from the
  relay's own environment at execution time, except the relay's token; redirects are not
  followed; expanded values are scrubbed from error texts.
\<close>

section \<open>Placeholders\<close>

definition is_alpha_us :: "char \<Rightarrow> bool" where
  "is_alpha_us c = (let n = of_char c :: nat in
     (65 \<le> n \<and> n \<le> 90) \<or> (97 \<le> n \<and> n \<le> 122) \<or> n = 95)"

definition is_digit :: "char \<Rightarrow> bool" where
  "is_digit c = (let n = of_char c :: nat in 48 \<le> n \<and> n \<le> 57)"

definition is_word :: "char \<Rightarrow> bool" where
  "is_word c = (is_alpha_us c \<or> is_digit c)"

text \<open>A match of \<^verbatim>\<open>\$\{([A-Za-z_][A-Za-z0-9_]*)\}\<close> at the front: the name and what follows.
  pipeline.go's pattern also admits a digit at the start, the parameter \<open>first\<close>. The name
  cannot contain the closing brace, so the greedy scan is the only possible match.\<close>

definition match_var :: "(char \<Rightarrow> bool) \<Rightarrow> string \<Rightarrow> (string \<times> string) option" where
  "match_var first s =
     (if prefix ''${'' s then
        (let t = drop 2 s; name = takeWhile is_word t; rest = dropWhile is_word t in
         if name \<noteq> [] \<and> first (hd name) \<and> prefix ''}'' rest then Some (name, tl rest) else None)
      else None)"

lemma match_var_shorter: "match_var first s = Some (name, rest) \<Longrightarrow> length rest < length s"
proof -
  assume "match_var first s = Some (name, rest)"
  then have "rest = tl (dropWhile is_word (drop 2 s))" and "prefix ''${'' s"
    by (auto simp: match_var_def Let_def split: if_splits)
  moreover have "length (dropWhile is_word (drop 2 s)) \<le> length (drop 2 s)"
    by (rule length_dropWhile_le)
  moreover have "2 \<le> length s" using \<open>prefix ''${'' s\<close> by (auto dest: prefix_length_le)
  ultimately show ?thesis by simp
qed

text \<open>\<^verbatim>\<open>ReplaceAllStringFunc\<close>: every match, left to right, replaced by the value of its name.\<close>

function expand_with :: "(char \<Rightarrow> bool) \<Rightarrow> (string \<Rightarrow> string) \<Rightarrow> string \<Rightarrow> string" where
  "expand_with first val [] = []"
| "expand_with first val (c # cs) =
     (case match_var first (c # cs) of
        Some (name, rest) \<Rightarrow> val name @ expand_with first val rest
      | None \<Rightarrow> c # expand_with first val cs)"
  by pat_completeness auto
termination
  by (relation "measure (length \<circ> snd \<circ> snd)") (auto dest: match_var_shorter)

definition placeholder :: "string \<Rightarrow> string" where
  "placeholder name = ''${'' @ name @ ''}''"

definition getenv :: "os_env \<Rightarrow> string \<Rightarrow> string" where
  "getenv os name = (case os_getenv os name of None \<Rightarrow> [] | Some v \<Rightarrow> v)"

definition protected_env_vars :: "string list" where
  "protected_env_vars = [''MHR_AUTH_TOKEN'']"

definition env_var_value :: "os_env \<Rightarrow> string \<Rightarrow> string" where
  "env_var_value os name =
     (if name \<in> set protected_env_vars then placeholder name else getenv os name)"

definition expand_env_vars :: "os_env \<Rightarrow> string \<Rightarrow> string" where
  "expand_env_vars os s = expand_with is_alpha_us (env_var_value os) s"

section \<open>Headers\<close>

text \<open>textproto.CanonicalMIMEHeaderKey, the key \<^verbatim>\<open>Header.Set\<close> and \<^verbatim>\<open>Header.Get\<close> use: a
  token's first letter and every letter after a hyphen in upper case, the others in lower case;
  a key that is not a token stays as it is.\<close>

definition is_token_char :: "char \<Rightarrow> bool" where
  "is_token_char c = (let n = of_char c :: nat in
     is_word c \<or> n \<in> {33, 35, 36, 37, 38, 39, 42, 43, 45, 46, 94, 96, 124, 126})"

definition to_upper :: "char \<Rightarrow> char" where
  "to_upper c = (let n = of_char c :: nat in if 97 \<le> n \<and> n \<le> 122 then char_of (n - 32) else c)"

definition to_lower :: "char \<Rightarrow> char" where
  "to_lower c = (let n = of_char c :: nat in if 65 \<le> n \<and> n \<le> 90 then char_of (n + 32) else c)"

fun canon_from :: "bool \<Rightarrow> string \<Rightarrow> string" where
  "canon_from up [] = []"
| "canon_from up (c # cs) =
     (if up then to_upper c else to_lower c) # canon_from (c = CHR ''-'') cs"

definition canonical_key :: "string \<Rightarrow> string" where
  "canonical_key k = (if list_all is_token_char k then canon_from True k else k)"

definition header_set :: "string \<Rightarrow> string \<Rightarrow> (string, string) gomap \<Rightarrow> (string, string) gomap" where
  "header_set k v h = AList.update (canonical_key k) v h"

definition header_get :: "(string, string list) gomap \<Rightarrow> string \<Rightarrow> string" where
  "header_get h k = (case map_of h (canonical_key k) of Some (v # _) \<Rightarrow> v | _ \<Rightarrow> [])"

section \<open>Scrubbing\<close>

fun scrub_headers :: "os_env \<Rightarrow> (string, string) gomap \<Rightarrow> string \<Rightarrow> string" where
  "scrub_headers os [] msg = msg"
| "scrub_headers os ((k, v) # hs) msg =
     (let expanded = expand_env_vars os v in
      scrub_headers os hs
        (if expanded \<noteq> v \<and> expanded \<noteq> '''' then replace_all msg expanded ''${***}'' else msg))"

section \<open>Executing\<close>

text \<open>\<^verbatim>\<open>cmd.Output()\<close> keeps the first and the last 32 KB of stderr for the error.\<close>

definition saved_stderr :: "string \<Rightarrow> string" where
  "saved_stderr s =
     (if length s \<le> 65536 then s
      else take 32768 s @ CHR 0x0A # ''... omitting '' @ itoa (int (length s) - 65536)
             @ '' bytes ...'' @ CHR 0x0A # drop (length s - 32768) s)"

text \<open>Either the early result of a failed fetch, or the body, the content type to set and
  the calls made so far. An empty fetch command would panic; the tools never queue one.
  CreateFormFile writes to memory and cannot fail.\<close>

definition build_body :: "os_env \<Rightarrow> int \<Rightarrow> string \<Rightarrow> request
    \<Rightarrow> (result + http_body \<times> string) \<times> call list" where
  "build_body os timeout expandedBody r =
     (case r_http_form_file r of
        Some ff \<Rightarrow>
          let p = \<lparr>pr_argv = ff_fetch_cmd ff, pr_dir = None, pr_stdin = [],
                   pr_timeout = timeout_duration timeout\<rparr>;
              po = os_run os p
          in (case po_error po of
                Some e \<Rightarrow>
                  (Inl (failed_result (-1)
                     (''form_file fetch failed ('' @ ff_source ff @ ''): ''
                      @ (case e of RunExit c m \<Rightarrow> m | RunOther m \<Rightarrow> m) @ '' ''
                      @ (case e of RunExit c m \<Rightarrow> trim_space (saved_stderr (concat (po_stderr po)))
                                 | RunOther m \<Rightarrow> []))), [RunProc p])
              | None \<Rightarrow>
                  (Inr (FormBody (map (\<lambda>(k, v). (k, expand_env_vars os v)) (r_http_form_fields r))
                          (ff_field ff) (ff_filename ff) (concat (po_stdout po)),
                        ''multipart/form-data; boundary='' @ os_boundary os), [RunProc p]))
      | None \<Rightarrow>
          if expandedBody \<noteq> '''' then (Inr (TextBody expandedBody, []), [])
          else (Inr (NoBody, []), []))"

definition http_ok :: "int \<Rightarrow> bool" where
  "http_ok code \<longleftrightarrow> \<not> (code < 200 \<or> code \<ge> 300)"

definition http_result :: "http_response \<Rightarrow> result" where
  "http_result resp =
     (let body = lw_writes max_output_bytes (hr_body resp) in
      \<lparr>res_exit_code = (if \<not> http_ok (hr_status resp) then 1 else 0),
       res_stdout = lw_buf body,
       res_stderr = (if lw_hit body then ''[human-relay: response body truncated at 1MB]'' else []),
       res_status_code = hr_status resp,
       res_headers = Some (map (\<lambda>(k, _). (k, header_get (hr_headers resp) k)) (hr_headers resp))\<rparr>)"

definition execute_http :: "os_env \<Rightarrow> exec_config \<Rightarrow> request \<Rightarrow> result \<times> call list" where
  "execute_http os cfg r =
     (let timeout = clamp_timeout cfg (r_timeout r);
          expandedURL = expand_env_vars os (r_http_url r);
          expandedBody = expand_env_vars os (r_http_body r)
      in case build_body os timeout expandedBody r of
           (Inl res, calls) \<Rightarrow> (res, calls)
         | (Inr (body, contentType), calls) \<Rightarrow>
             (case os_new_request os (r_http_method r) expandedURL of
                Some e \<Rightarrow> (failed_result (-1) (''failed to create request: '' @ e), calls)
              | None \<Rightarrow>
                  let h1 = fold (\<lambda>(k, v). header_set k (expand_env_vars os v)) (r_http_headers r) [];
                      h2 = (if contentType \<noteq> '''' then header_set ''Content-Type'' contentType h1 else h1);
                      c = \<lparr>hc_method = r_http_method r, hc_url = expandedURL, hc_headers = h2,
                           hc_body = body\<rparr>
                  in (case os_http os 0 c of
                        Failed e late \<Rightarrow>
                          if late then
                            (failed_result (-1) (''HTTP request timed out after '' @ itoa timeout @ ''s''),
                             calls @ [SendHttp c])
                          else
                            (failed_result (-1) (''HTTP request failed: ''
                               @ scrub_headers os (r_http_headers r)
                                   (replace_all e expandedURL (r_http_url r))),
                             calls @ [SendHttp c])
                      | Answered resp \<Rightarrow> (http_result resp, calls @ [SendHttp c]))))"

section \<open>What expansion does\<close>

definition var_name :: "(char \<Rightarrow> bool) \<Rightarrow> string \<Rightarrow> bool" where
  "var_name first name \<longleftrightarrow> name \<noteq> [] \<and> first (hd name) \<and> list_all is_word name"

lemma is_word_brace [simp]: "\<not> is_word CHR ''}''"
  by (simp add: is_word_def is_alpha_us_def is_digit_def)

lemma match_var_placeholder:
  assumes "var_name first name"
  shows "match_var first (placeholder name @ post) = Some (name, post)"
proof -
  have w: "\<forall>c\<in>set name. is_word c" using assms by (simp add: var_name_def list_all_iff)
  then have "takeWhile is_word (name @ CHR ''}'' # post) = name"
    and "dropWhile is_word (name @ CHR ''}'' # post) = CHR ''}'' # post"
    by (simp_all add: takeWhile_append2 dropWhile_append2)
  with assms show ?thesis by (simp add: match_var_def placeholder_def var_name_def Let_def)
qed

lemma expand_no_dollar: "CHR ''$'' \<notin> set pre \<Longrightarrow> expand_with first val (pre @ s) = pre @ expand_with first val s"
  by (induction pre) (simp_all add: match_var_def)

lemma expand_at:
  assumes "CHR ''$'' \<notin> set pre" and "var_name first name"
  shows "expand_with first val (pre @ placeholder name @ post) = pre @ val name @ expand_with first val post"
proof -
  obtain c cs where p: "placeholder name @ post = c # cs" by (simp add: placeholder_def)
  have "expand_with first val (placeholder name @ post) = val name @ expand_with first val post"
    using match_var_placeholder [OF assms(2), of post] by (simp add: p)
  then show ?thesis by (simp only: expand_no_dollar [OF assms(1)])
qed

lemma env_value_agrees:
  "(\<And>k. k \<notin> set protected_env_vars \<Longrightarrow> os_getenv os' k = os_getenv os k) \<Longrightarrow>
     expand_env_vars os' = expand_env_vars os"
  by (simp add: fun_eq_iff expand_env_vars_def) (metis (no_types, lifting) env_var_value_def ext getenv_def)

lemma scrub_agrees:
  "expand_env_vars os' = expand_env_vars os \<Longrightarrow> scrub_headers os' hs msg = scrub_headers os hs msg"
  by (induction hs arbitrary: msg) (auto simp: Let_def)

section \<open>Properties\<close>

text \<open>Expansion is exact: text without a dollar sign is copied, a well-formed placeholder
  is replaced by the variable's value, once (the value is not expanded again), and the one naming
  the relay's own token stays literal, so the reviewer's text is what is sent.\<close>

theorem env_expansion_exact:
  assumes "CHR ''$'' \<notin> set pre" and "var_name is_alpha_us name"
  shows "expand_env_vars os (pre @ placeholder name @ post)
       = pre @ (if name = ''MHR_AUTH_TOKEN'' then placeholder name else getenv os name)
             @ expand_env_vars os post
     \<and> expand_env_vars os pre = pre"
  using expand_at [OF assms, of "env_var_value os" post] expand_no_dollar [OF assms(1), of _ _ "[]"]
  by (simp add: expand_env_vars_def env_var_value_def protected_env_vars_def)

definition secret_os :: "string \<Rightarrow> os_env" where
  "secret_os tok = demo_os\<lparr>os_getenv := [''MHR_AUTH_TOKEN'' \<mapsto> tok, ''API_KEY'' \<mapsto> ''k1'']\<rparr>"

theorem env_expansion_exact_witness:
  "expand_env_vars (secret_os ''t'') (''?k='' @ placeholder ''API_KEY'' @ '''') = ''?k=k1''
   \<and> expand_env_vars (secret_os ''t'') (''?t='' @ placeholder ''MHR_AUTH_TOKEN'' @ '''')
       = ''?t=${MHR_AUTH_TOKEN}''"
proof -
  have v: "var_name is_alpha_us ''API_KEY''" "var_name is_alpha_us ''MHR_AUTH_TOKEN''"
    by code_simp+
  have k: "getenv (secret_os ''t'') ''API_KEY'' = ''k1''"
    by (simp add: getenv_def secret_os_def demo_os_def)
  have "CHR ''$'' \<notin> set ''?k=''" and "CHR ''$'' \<notin> set ''?t=''" by simp_all
  then show ?thesis
    using env_expansion_exact [OF _ v(1), of "''?k=''" "secret_os ''t''" "''''"]
      env_expansion_exact [OF _ v(2), of "''?t=''" "secret_os ''t''" "''''"] k
    by (simp add: expand_env_vars_def placeholder_def)
qed

text \<open>C19. The relay's own token cannot leave through an HTTP request: two environments that
  differ in nothing but MHR_AUTH_TOKEN lead to the same calls (URL, headers, body, form fields)
  and the same recorded result, error texts included.\<close>

theorem http_never_reveals_relay_token:
  assumes "\<And>k. k \<noteq> ''MHR_AUTH_TOKEN'' \<Longrightarrow> g k = os_getenv os k"
  shows "execute_http (os\<lparr>os_getenv := g\<rparr>) cfg r = execute_http os cfg r"
proof -
  let ?os = "os\<lparr>os_getenv := g\<rparr>"
  have e: "expand_env_vars ?os = expand_env_vars os"
    by (rule env_value_agrees) (use assms in \<open>simp add: protected_env_vars_def\<close>)
  have b: "build_body ?os t b r = build_body os t b r" for t b
    by (cases "r_http_form_file r") (simp_all add: build_body_def e Let_def split: option.split)
  have s: "scrub_headers ?os = scrub_headers os"
    by (simp add: fun_eq_iff scrub_agrees [OF e])
  have f: "os_http ?os = os_http os" "os_new_request ?os = os_new_request os" by simp_all
  show ?thesis unfolding execute_http_def e b s f ..
qed

theorem http_never_reveals_relay_token_witness:
  "execute_http (secret_os ''one'') demo_config
      ((pending_request ''a'' 1)\<lparr>r_http_url := ''http://h/'' @ placeholder ''MHR_AUTH_TOKEN''\<rparr>)
   = execute_http (secret_os ''two'') demo_config
      ((pending_request ''a'' 1)\<lparr>r_http_url := ''http://h/'' @ placeholder ''MHR_AUTH_TOKEN''\<rparr>)"
  using http_never_reveals_relay_token [of "[''MHR_AUTH_TOKEN'' \<mapsto> ''one'', ''API_KEY'' \<mapsto> ''k1'']"
      "secret_os ''two''" demo_config]
  by (simp add: secret_os_def)

text \<open>One approved HTTP request sends at most one HTTP call, after at most one fetch
  process; the call carries the reviewed method and the expanded reviewed URL; and the result's
  exit code is 0 exactly when it was answered with a 2xx status, so a redirect is reported as
  it came and never followed.\<close>

theorem http_sends_one_call:
  "\<exists>pre. (snd (execute_http os cfg r) = pre
          \<and> res_exit_code (fst (execute_http os cfg r)) \<noteq> 0
        \<or> (\<exists>c. snd (execute_http os cfg r) = pre @ [SendHttp c]
             \<and> hc_method c = r_http_method r \<and> hc_url c = expand_env_vars os (r_http_url r)
             \<and> (res_exit_code (fst (execute_http os cfg r)) = 0 \<longleftrightarrow>
                  (\<exists>resp. os_http os 0 c = Answered resp \<and> 200 \<le> hr_status resp \<and> hr_status resp < 300))))
       \<and> (case r_http_form_file r of None \<Rightarrow> pre = []
          | Some ff \<Rightarrow> \<exists>p. pre = [RunProc p] \<and> pr_argv p = ff_fetch_cmd ff)"
proof -
  let ?t = "clamp_timeout cfg (r_timeout r)"
  obtain b pre where b: "build_body os ?t (expand_env_vars os (r_http_body r)) r = (b, pre)"
    by (metis surj_pair)
  have pre: "case r_http_form_file r of None \<Rightarrow> pre = []
      | Some ff \<Rightarrow> \<exists>p. pre = [RunProc p] \<and> pr_argv p = ff_fetch_cmd ff"
    and bad: "\<And>res. b = Inl res \<Longrightarrow> res_exit_code res = -1"
    using b by (auto simp: build_body_def Let_def failed_result_def zero_result_def
        split: option.splits if_splits)
  show ?thesis
    by (rule exI [of _ pre], rule conjI [OF _ pre])
      (cases b, simp_all add: execute_http_def b bad Let_def failed_result_def zero_result_def
        http_result_def http_ok_def case_prod_beta split: option.split http_outcome.split)
qed

theorem http_sends_one_call_witness:
  "\<exists>c. snd (execute_http demo_os demo_config ((pending_request ''a'' 1)\<lparr>r_http_url := ''u''\<rparr>)) = [SendHttp c]"
  using http_sends_one_call [of demo_os demo_config "(pending_request ''a'' 1)\<lparr>r_http_url := ''u''\<rparr>"]
  by (auto simp: pending_request_def execute_http_def demo_os_def build_body_def Let_def
      failed_result_def zero_result_def expand_env_vars_def)

end
