(* ===== verification/Pipeline.thy ===== *)
theory Pipeline
  imports Http_Exec
begin

text \<open>
  executor/pipeline.go: a script that is a JSON list of HTTP steps with variables extracted
  in between. Go maps (headers, extract) are association lists in the order one iteration takes.
\<close>

record step =
  sp_method :: string
  sp_url :: string
  sp_headers :: "(string, string) gomap"
  sp_body :: string
  sp_extract :: "(string, string) gomap"
  sp_empty_array_message :: string

record pipeline =
  pl_steps :: "step list"
  pl_output :: string

section \<open>Variables\<close>

type_synonym vars = "string \<rightharpoonup> string"

definition is_var_start :: "char \<Rightarrow> bool" where
  "is_var_start c = (is_alpha_us c \<or> is_digit c)"

definition vars_value :: "os_env \<Rightarrow> vars \<Rightarrow> string \<Rightarrow> string" where
  "vars_value os vs name = (case vs name of Some v \<Rightarrow> v | None \<Rightarrow> getenv os name)"

definition expand_vars_map :: "os_env \<Rightarrow> vars \<Rightarrow> string \<Rightarrow> string" where
  "expand_vars_map os vs s = expand_with is_var_start (vars_value os vs) s"

section \<open>Extraction\<close>

datatype path_error = InvalidJSON string | HashNonArray | IndexNonArray int
  | IndexOutOfBounds int nat | FieldNonObject string | FieldNotFound string

fun walk_path :: "string list \<Rightarrow> jval \<Rightarrow> path_error + (string + jval)" where
  "walk_path [] cur = Inr (Inr cur)"
| "walk_path (part # parts) cur =
     (if part = ''#'' then
        (case cur of JArr vs \<Rightarrow> Inr (Inl (itoa (int (length vs)))) | _ \<Rightarrow> Inl HashNonArray)
      else case atoi part of
        Some idx \<Rightarrow>
          (case cur of
             JArr vs \<Rightarrow> if idx < 0 \<or> idx \<ge> int (length vs) then Inl (IndexOutOfBounds idx (length vs))
                        else walk_path parts (vs ! nat idx)
           | _ \<Rightarrow> Inl (IndexNonArray idx))
      | None \<Rightarrow>
          (case cur of
             JObj kvs \<Rightarrow> (case map_of kvs part of None \<Rightarrow> Inl (FieldNotFound part)
                          | Some v \<Rightarrow> walk_path parts v)
           | _ \<Rightarrow> Inl (FieldNonObject part)))"

definition jval_text :: "golib \<Rightarrow> jval \<Rightarrow> string" where
  "jval_text lib v =
     (case v of
        JStr s \<Rightarrow> s
      | JNum f \<Rightarrow> if f64_eq f (f64_of_int (f64_int f)) then itoa (f64_int f) else lib_float lib f
      | JBool b \<Rightarrow> bool_str b
      | JNull \<Rightarrow> []
      | _ \<Rightarrow> lib_marshal lib v)"

definition json_path :: "golib \<Rightarrow> string \<Rightarrow> string \<Rightarrow> path_error + string" where
  "json_path lib data path =
     (case lib_unmarshal lib data of
        Inl e \<Rightarrow> Inl (InvalidJSON e)
      | Inr root \<Rightarrow>
          (case walk_path (split_on CHR ''.'' path) root of
             Inl e \<Rightarrow> Inl e
           | Inr (Inl s) \<Rightarrow> Inr s
           | Inr (Inr v) \<Rightarrow> Inr (jval_text lib v)))"

fun path_error_text :: "golib \<Rightarrow> path_error \<Rightarrow> string" where
  "path_error_text lib (InvalidJSON e) = ''invalid JSON: '' @ e"
| "path_error_text lib HashNonArray = ''# applied to non-array''"
| "path_error_text lib (IndexNonArray i) = ''index '' @ itoa i @ '' applied to non-array''"
| "path_error_text lib (IndexOutOfBounds i n) =
     ''index '' @ itoa i @ '' out of bounds (len='' @ itoa (int n) @ '')''"
| "path_error_text lib (FieldNonObject f) = ''field '' @ lib_quote lib f @ '' applied to non-object''"
| "path_error_text lib (FieldNotFound f) = ''field '' @ lib_quote lib f @ '' not found''"

text \<open>Stops at the first variable that cannot be extracted.\<close>

fun extract_vars :: "golib \<Rightarrow> string \<Rightarrow> (string, string) gomap \<Rightarrow> vars
    \<Rightarrow> (string \<times> string \<times> path_error) + vars" where
  "extract_vars lib body [] vs = Inr vs"
| "extract_vars lib body ((name, path) # ex) vs =
     (case json_path lib body path of
        Inl e \<Rightarrow> Inl (name, path, e)
      | Inr v \<Rightarrow> extract_vars lib body ex (vs(name \<mapsto> v)))"

section \<open>Executing\<close>

text \<open>\<^verbatim>\<open>json.Unmarshal(body, &arr)\<close> into a slice also accepts null.\<close>

definition is_empty_array :: "golib \<Rightarrow> string \<Rightarrow> bool" where
  "is_empty_array lib body =
     (case lib_unmarshal lib body of Inr (JArr []) \<Rightarrow> True | Inr JNull \<Rightarrow> True | _ \<Rightarrow> False)"

definition step_label :: "nat \<Rightarrow> string" where
  "step_label i = ''step '' @ itoa (int i + 1)"

datatype step_result = StepReturn result | StepNext vars

text \<open>The request of a step, and what the loop does with its response.\<close>

definition step_call :: "os_env \<Rightarrow> step \<Rightarrow> vars \<Rightarrow> http_call" where
  "step_call os st vs =
     (let body = expand_vars_map os vs (sp_body st) in
      \<lparr>hc_method = sp_method st, hc_url = expand_vars_map os vs (sp_url st),
       hc_headers = fold (\<lambda>(k, v). header_set k (expand_vars_map os vs v)) (sp_headers st) [],
       hc_body = (if body \<noteq> '''' then TextBody body else NoBody)\<rparr>)"

definition step_response :: "golib \<Rightarrow> nat \<Rightarrow> step \<Rightarrow> vars \<Rightarrow> http_response \<Rightarrow> step_result" where
  "step_response lib i st vs resp =
     (let respBody = take max_output_bytes (concat (hr_body resp)) in
      if \<not> http_ok (hr_status resp) then
        StepReturn (failed_result 1 (step_label i @ '': HTTP '' @ itoa (hr_status resp)
          @ CHR 0x0A # respBody))
      else if sp_empty_array_message st \<noteq> '''' \<and> is_empty_array lib respBody then
        StepReturn (zero_result\<lparr>res_stdout := sp_empty_array_message st\<rparr>)
      else (case extract_vars lib respBody (sp_extract st) vs of
              Inl (name, path, e) \<Rightarrow>
                StepReturn (failed_result (-1) (step_label i @ '': extract '' @ lib_quote lib name
                  @ '' ('' @ path @ ''): '' @ path_error_text lib e))
            | Inr vs' \<Rightarrow> StepNext vs'))"

definition run_step :: "golib \<Rightarrow> os_env \<Rightarrow> int \<Rightarrow> nat \<Rightarrow> step \<Rightarrow> vars \<Rightarrow> step_result \<times> call list" where
  "run_step lib os timeout i st vs =
     (let c = step_call os st vs in
      case os_new_request os (hc_method c) (hc_url c) of
        Some e \<Rightarrow>
          (StepReturn (failed_result (-1) (step_label i @ '': failed to create request: '' @ e)), [])
      | None \<Rightarrow>
          (case os_http os i c of
             Failed e late \<Rightarrow>
               (StepReturn (failed_result (-1)
                  (if late then step_label i @ '': timed out after '' @ itoa timeout @ ''s''
                   else step_label i @ '': request failed: '' @ e)), [SendHttp c])
           | Answered resp \<Rightarrow> (step_response lib i st vs resp, [SendHttp c])))"

fun run_steps :: "golib \<Rightarrow> os_env \<Rightarrow> int \<Rightarrow> string \<Rightarrow> nat \<Rightarrow> step list \<Rightarrow> vars \<Rightarrow> result \<times> call list" where
  "run_steps lib os timeout out i [] vs =
     (zero_result\<lparr>res_stdout := expand_vars_map os vs out\<rparr>, [])"
| "run_steps lib os timeout out i (st # sts) vs =
     (case run_step lib os timeout i st vs of
        (StepReturn res, calls) \<Rightarrow> (res, calls)
      | (StepNext vs', calls) \<Rightarrow>
          (case run_steps lib os timeout out (Suc i) sts vs' of
             (res, calls') \<Rightarrow> (res, calls @ calls')))"

definition execute_pipeline :: "golib \<Rightarrow> os_env \<Rightarrow> exec_config \<Rightarrow> pipeline \<Rightarrow> int \<Rightarrow> vars
    \<Rightarrow> result \<times> call list" where
  "execute_pipeline lib os cfg p timeout initVars =
     run_steps lib os (clamp_timeout cfg timeout) (pl_output p) 0 (pl_steps p) initVars"

section \<open>Lemmas\<close>

text \<open>The values a successful extraction adds, later entries first.\<close>

definition extracted :: "golib \<Rightarrow> string \<Rightarrow> (string, string) gomap \<Rightarrow> (string, string) gomap" where
  "extracted lib body ex = map (\<lambda>x. (fst x, projr (json_path lib body (snd x)))) ex"

lemma extract_vars_Inr:
  "extract_vars lib body ex vs = Inr vs' \<longleftrightarrow>
     (\<forall>x\<in>set ex. \<exists>v. json_path lib body (snd x) = Inr v)
     \<and> vs' = vs ++ map_of (rev (extracted lib body ex))"
proof (induction ex arbitrary: vs)
  case Nil
  then show ?case by (auto simp: extracted_def)
next
  case (Cons x ex)
  obtain n p where x: "x = (n, p)" by (cases x)
  have "vs(n \<mapsto> v) ++ m = vs ++ (m' ++ m)" if "m' = [n \<mapsto> v]" for v and m m' :: vars
    by (simp add: that fun_eq_iff map_add_def split: option.split)
  then show ?case
    by (cases "json_path lib body p") (simp_all add: x Cons.IH extracted_def fun_upd_def)
qed

lemma map_fst_extracted [simp]: "map fst (extracted lib body ex) = map fst ex"
  by (simp add: extracted_def)

lemma extract_vars_perm:
  assumes "set ex = set ex'" and "distinct (map fst ex)" and "distinct (map fst ex')"
    and "extract_vars lib body ex vs = Inr vs'"
  shows "extract_vars lib body ex' vs = Inr vs'"
proof -
  have "set (rev (extracted lib body ex)) = set (rev (extracted lib body ex'))"
    using assms(1) by (simp add: extracted_def)
  then have "map_of (rev (extracted lib body ex)) = map_of (rev (extracted lib body ex'))"
    using assms(2,3) by (subst map_of_inject_set) (simp_all add: rev_map [symmetric])
  with assms(1,4) show ?thesis by (simp add: extract_vars_Inr)
qed

text \<open>One step, and the whole loop: the calls are those of the first steps, in order.\<close>

lemma step_response_cases:
  "(\<not> http_ok (hr_status resp) \<longrightarrow> (\<exists>e. step_response lib i st vs resp = StepReturn (failed_result 1 e)))
   \<and> (http_ok (hr_status resp) \<longrightarrow> sp_empty_array_message st = '''' \<longrightarrow>
        (\<exists>vs'. step_response lib i st vs resp = StepNext vs')
        \<or> (\<exists>e. step_response lib i st vs resp = StepReturn (failed_result (-1) e)))"
  by (auto simp: step_response_def Let_def split: sum.split)

lemma run_step_calls:
  assumes "run_step lib os timeout i st vs = (sr, calls)"
  shows "(calls = [] \<and> (\<exists>e. sr = StepReturn (failed_result (-1) e)))
       \<or> (\<exists>c. calls = [SendHttp c] \<and> c = step_call os st vs
            \<and> ((\<exists>resp. os_http os i c = Answered resp \<and> http_ok (hr_status resp))
               \<or> (\<exists>code e. code \<noteq> 0 \<and> sr = StepReturn (failed_result code e)))
            \<and> (sp_empty_array_message st = '''' \<longrightarrow>
                 (\<exists>vs'. sr = StepNext vs') \<or> (\<exists>code e. code \<noteq> 0 \<and> sr = StepReturn (failed_result code e))))"
proof -
  let ?c = "step_call os st vs"
  show ?thesis
  proof (cases "os_new_request os (hc_method ?c) (hc_url ?c)")
    case (Some e)
    then show ?thesis using assms by (auto simp: run_step_def Let_def)
  next
    case new: None
    show ?thesis
    proof (cases "os_http os i ?c")
      case (Failed e late)
      with new assms have "calls = [SendHttp ?c]" and "\<exists>m. sr = StepReturn (failed_result (-1) m)"
        by (auto simp: run_step_def Let_def)
      then show ?thesis by (metis neg_equal_0_iff_equal zero_neq_one)
    next
      case (Answered resp)
      with new assms have "calls = [SendHttp ?c]" and sr: "sr = step_response lib i st vs resp"
        by (simp_all add: run_step_def Let_def)
      then show ?thesis
        using Answered step_response_cases [of resp lib i st vs]
        by (metis neg_equal_0_iff_equal zero_neq_one)
    qed
  qed
qed

lemma step_call_method [simp]: "hc_method (step_call os st vs) = sp_method st"
  by (simp add: step_call_def Let_def)

lemma failed_result_code [simp]: "res_exit_code (failed_result c e) = c"
  by (simp add: failed_result_def)

lemma run_steps_calls:
  "run_steps lib os timeout out i sts vs = (res, calls) \<Longrightarrow>
     length calls \<le> length sts
     \<and> (\<forall>j<length calls. \<exists>c. calls ! j = SendHttp c \<and> hc_method c = sp_method (sts ! j)
          \<and> (Suc j < length calls \<or> res_exit_code res = 0 \<longrightarrow>
               (\<exists>resp. os_http os (i + j) c = Answered resp \<and> http_ok (hr_status resp))))
     \<and> (res_exit_code res = 0 \<longrightarrow> (\<forall>st\<in>set sts. sp_empty_array_message st = '''') \<longrightarrow>
          length calls = length sts)"
proof (induction sts arbitrary: i vs res calls)
  case Nil
  then show ?case by (simp add: zero_result_def)
next
  case (Cons st sts)
  obtain sr cs where st: "run_step lib os timeout i st vs = (sr, cs)" by (cases "run_step lib os timeout i st vs")
  show ?case
  proof (cases sr)
    case (StepReturn r)
    with Cons.prems st have "res = r" and "calls = cs" by simp_all
    with StepReturn run_step_calls [OF st] show ?thesis by auto
  next
    case (StepNext vs')
    obtain res' calls' where rest: "run_steps lib os timeout out (Suc i) sts vs' = (res', calls')"
      by (cases "run_steps lib os timeout out (Suc i) sts vs'")
    from StepNext run_step_calls [OF st] obtain c where c: "cs = [SendHttp c]"
      "c = step_call os st vs" "\<exists>resp. os_http os i c = Answered resp \<and> http_ok (hr_status resp)"
      by auto
    have "calls = SendHttp c # calls'" and "res = res'"
      using Cons.prems st StepNext rest c by simp_all
    then show ?thesis
      using Cons.IH [OF rest] c by (auto simp: nth_Cons' less_Suc_eq_0_disj)
  qed
qed

section \<open>Properties\<close>

text \<open>A pipeline sends the calls of its first steps, one per step and in order, and every
  step but the last one it reached was answered with a 2xx status; a result with exit code 0 means
  that every call was, and, unless a step has an empty-array message, that all steps ran.\<close>

theorem pipeline_runs_steps_in_order:
  assumes "execute_pipeline lib os cfg p timeout vs = (res, calls)"
  shows "length calls \<le> length (pl_steps p)
       \<and> (\<forall>j<length calls. \<exists>c. calls ! j = SendHttp c \<and> hc_method c = sp_method (pl_steps p ! j)
            \<and> (Suc j < length calls \<or> res_exit_code res = 0 \<longrightarrow>
                 (\<exists>resp. os_http os j c = Answered resp \<and> http_ok (hr_status resp))))
       \<and> (res_exit_code res = 0 \<longrightarrow> (\<forall>st\<in>set (pl_steps p). sp_empty_array_message st = '''') \<longrightarrow>
            length calls = length (pl_steps p))"
  using run_steps_calls [of lib os _ "pl_output p" 0 "pl_steps p" vs res calls] assms
  by (simp add: execute_pipeline_def)

definition demo_step :: "string \<Rightarrow> step" where
  "demo_step u = \<lparr>sp_method = ''GET'', sp_url = u, sp_headers = [], sp_body = '''', sp_extract = [],
     sp_empty_array_message = ''''\<rparr>"

definition answering_os :: os_env where
  "answering_os = demo_os\<lparr>os_http := \<lambda>i c. Answered \<lparr>hr_status = (if i = 0 then 200 else 500),
     hr_headers = [], hr_body = [''x'']\<rparr>\<rparr>"

theorem pipeline_runs_steps_in_order_witness:
  "\<exists>res calls. execute_pipeline demo_lib answering_os demo_config
      \<lparr>pl_steps = [demo_step ''u'', demo_step ''v'', demo_step ''w''], pl_output = ''done''\<rparr> 5 Map.empty
      = (res, calls) \<and> length calls = 2 \<and> res_exit_code res = 1"
proof -
  let ?p = "\<lparr>pl_steps = [demo_step ''u'', demo_step ''v'', demo_step ''w''], pl_output = ''done''\<rparr>"
  obtain res calls where e: "execute_pipeline demo_lib answering_os demo_config ?p 5 Map.empty = (res, calls)"
    by (metis surj_pair)
  then have "length calls = 2" and "res_exit_code res = 1"
    by (auto simp: execute_pipeline_def run_step_def Let_def step_response_def demo_step_def
        answering_os_def demo_os_def http_ok_def failed_result_def)
  with pipeline_runs_steps_in_order [OF e] e show ?thesis by blast
qed

text \<open>The order in which Go happens to iterate over a step's extract map does not matter
  to a step that succeeds: the variables after it are the same for every order, each the value at
  its path and no others changed.\<close>

theorem extract_order_irrelevant:
  assumes "set ex' = set ex" and "distinct (map fst ex)" and "distinct (map fst ex')"
    and "extract_vars lib body ex vs = Inr vs'"
  shows "extract_vars lib body ex' vs = Inr vs'
       \<and> (\<forall>n path. (n, path) \<in> set ex \<longrightarrow>
            (\<exists>v. json_path lib body path = Inr v \<and> vs' n = Some v))
       \<and> (\<forall>n. n \<notin> fst ` set ex \<longrightarrow> vs' n = vs n)"
proof -
  have vals: "\<forall>x\<in>set ex. \<exists>v. json_path lib body (snd x) = Inr v"
    and vs': "vs' = vs ++ map_of (rev (extracted lib body ex))"
    using assms(4) by (simp_all add: extract_vars_Inr)
  have d: "distinct (map fst (rev (extracted lib body ex)))"
    using assms(2) by (simp add: rev_map [symmetric])
  have "vs' n = Some v" if "(n, path) \<in> set ex" and "json_path lib body path = Inr v" for n path v
  proof -
    have "(n, v) \<in> set (rev (extracted lib body ex))"
      using that by (force simp: extracted_def)
    then show ?thesis using d by (simp add: vs' map_add_Some_iff map_of_eq_Some_iff)
  qed
  moreover have "vs' n = vs n" if "n \<notin> fst ` set ex" for n
    using that by (auto simp: vs' map_add_dom_app_simps(3) dom_map_of_conv_image_fst
        extracted_def image_image)
  ultimately show ?thesis
    using extract_vars_perm [OF assms(1) [symmetric] assms(2-4)] vals by fastforce
qed

definition json_lib :: golib where
  "json_lib = demo_lib\<lparr>lib_unmarshal := \<lambda>s. Inr (JObj [(''id'', JStr ''7''), (''ok'', JBool True)])\<rparr>"

theorem extract_order_irrelevant_witness:
  "\<exists>vs. extract_vars json_lib ''b'' [(''a'', ''id''), (''b'', ''ok'')] Map.empty = Inr vs
     \<and> extract_vars json_lib ''b'' [(''b'', ''ok''), (''a'', ''id'')] Map.empty = Inr vs
     \<and> vs ''a'' = Some ''7''"
proof -
  have id: "split_on CHR ''.'' ''id'' = [''id'']" "split_on CHR ''.'' ''ok'' = [''ok'']"
    "atoi ''id'' = None" "atoi ''ok'' = None" by code_simp+
  obtain vs where e: "extract_vars json_lib ''b'' [(''a'', ''id''), (''b'', ''ok'')] Map.empty = Inr vs"
    and a: "vs ''a'' = Some ''7''"
    by (simp add: json_lib_def json_path_def id jval_text_def)
  from extract_order_irrelevant [OF _ _ _ e, of "[(''b'', ''ok''), (''a'', ''id'')]"]
  show ?thesis using e a by auto
qed

text \<open>The pipeline executor does not share the protection of the HTTP executor: a step
  whose URL holds the placeholder of the relay's own token sends the token itself, where the
  same text in a plain HTTP request stays literal.\<close>

theorem pipeline_sends_relay_token:
  "hc_url (step_call os (demo_step (''http://h/'' @ placeholder ''MHR_AUTH_TOKEN'')) Map.empty)
     = ''http://h/'' @ getenv os ''MHR_AUTH_TOKEN''
   \<and> expand_env_vars os (''http://h/'' @ placeholder ''MHR_AUTH_TOKEN'')
     = ''http://h/'' @ placeholder ''MHR_AUTH_TOKEN''"
proof -
  have v: "var_name is_alpha_us ''MHR_AUTH_TOKEN''" "var_name is_var_start ''MHR_AUTH_TOKEN''"
    by code_simp+
  have d: "CHR ''$'' \<notin> set ''http://h/''" by simp
  show ?thesis
    using expand_at [OF d v(2), of "vars_value os Map.empty" "[]"]
      expand_at [OF d v(1), of "env_var_value os" "[]"]
    by (simp add: step_call_def demo_step_def expand_vars_map_def vars_value_def expand_env_vars_def
        env_var_value_def protected_env_vars_def Let_def)
qed

end
