(* ===== verification/Script.thy ===== *)
theory Script
  imports Pipeline
begin

text \<open>
  executor/script.go: running a stored script and writing a new one. The scripts directory
  is a map from path text to node (paths are not resolved further: no symbolic links, no \<open>..\<close>),
  and an outcome argument says how MkdirAll and WriteFile ended. \<open>decode\<close> is
  json.Unmarshal into the Pipeline struct.
\<close>

datatype node = FileNode string | DirNode

type_synonym fs = "string \<rightharpoonup> node"

datatype fs_outcome = FsOK | FsErr string fs

section \<open>Running a process\<close>

definition run_interpreter :: "string \<Rightarrow> os_env \<Rightarrow> exec_config \<Rightarrow> request \<Rightarrow> string \<Rightarrow> result \<times> call list" where
  "run_interpreter interp os cfg r path =
     (let timeout = clamp_timeout cfg (r_timeout r);
          p = \<lparr>pr_argv = interp # path # r_script_args r, pr_dir = None, pr_stdin = [],
               pr_timeout = timeout_duration timeout\<rparr>
      in (finish_process ''script'' timeout (os_run os p), [RunProc p]))"

definition execute_shell :: "os_env \<Rightarrow> exec_config \<Rightarrow> request \<Rightarrow> string \<Rightarrow> result \<times> call list" where
  "execute_shell os cfg r path = run_interpreter ''bash'' os cfg r path"

definition execute_python :: "os_env \<Rightarrow> exec_config \<Rightarrow> request \<Rightarrow> string \<Rightarrow> result \<times> call list" where
  "execute_python os cfg r path = run_interpreter ''python3'' os cfg r path"

section \<open>Running a stored script\<close>

definition script_path :: "string \<Rightarrow> string \<Rightarrow> string \<Rightarrow> string" where
  "script_path dir name ext = dir @ ''/'' @ name @ ext"

fun number_args :: "nat \<Rightarrow> string list \<Rightarrow> vars" where
  "number_args n [] = Map.empty"
| "number_args n (a # as) = (number_args (Suc n) as)(itoa (int n) \<mapsto> a)"

definition execute_script_in :: "golib \<Rightarrow> (string \<Rightarrow> string + pipeline) \<Rightarrow> os_env \<Rightarrow> exec_config
    \<Rightarrow> fs \<Rightarrow> request \<Rightarrow> string \<Rightarrow> result \<times> call list" where
  "execute_script_in lib decode os cfg fs r dir =
     (let n = r_script_name r in
      if fs (script_path dir n ''.sh'') \<noteq> None then execute_shell os cfg r (script_path dir n ''.sh'')
      else if fs (script_path dir n ''.py'') \<noteq> None then execute_python os cfg r (script_path dir n ''.py'')
      else case fs (script_path dir n ''.json'') of
             Some (FileNode data) \<Rightarrow>
               (case decode data of
                  Inl e \<Rightarrow> (failed_result (-1) (''failed to parse pipeline: '' @ e), [])
                | Inr p \<Rightarrow> execute_pipeline lib os cfg p (r_timeout r) (number_args 1 (r_script_args r)))
           | _ \<Rightarrow> (failed_result (-1) (''script not found: tried '' @ n @ ''.sh, '' @ n @ ''.py, and ''
                      @ n @ ''.json in '' @ dir), []))"

section \<open>Writing a script\<close>

text \<open>\<^verbatim>\<open>json.Unmarshal\<close> into a map accepts an object and null.\<close>

definition detect_script_type :: "golib \<Rightarrow> string \<Rightarrow> string" where
  "detect_script_type lib content =
     (case lib_unmarshal lib content of
        Inr (JObj _) \<Rightarrow> ''.json''
      | Inr JNull \<Rightarrow> ''.json''
      | _ \<Rightarrow>
          if prefix ''#!/bin/bash'' content \<or> prefix ''#!/bin/sh'' content
             \<or> prefix ''#!/usr/bin/env bash'' content \<or> prefix ''#!/usr/bin/env sh'' content
          then ''.sh'' else ''.py'')"

definition parent_dir :: "string \<Rightarrow> string" where
  "parent_dir p = (case last_index CHR ''/'' p of None \<Rightarrow> ''.'' | Some i \<Rightarrow> take i p)"

text \<open>MkdirAll makes the directory and its missing ancestors.\<close>

definition mkdir_all :: "string \<Rightarrow> fs \<Rightarrow> fs" where
  "mkdir_all d fs = (\<lambda>q. if fs q = None \<and> q \<noteq> [] \<and> (q = d \<or> prefix (q @ ''/'') d)
                         then Some DirNode else fs q)"

definition write_script_file :: "fs_outcome \<Rightarrow> fs_outcome \<Rightarrow> string \<Rightarrow> string \<Rightarrow> fs
    \<Rightarrow> string option \<times> fs" where
  "write_script_file mk wr path content fs =
     (case mk of
        FsErr e fs' \<Rightarrow> (Some e, fs')
      | FsOK \<Rightarrow>
          let fs1 = mkdir_all (parent_dir path) fs in
          (case wr of
             FsErr e fs' \<Rightarrow> (Some e, fs')
           | FsOK \<Rightarrow> (None, fs1(path \<mapsto> FileNode content))))"

definition execute_script_create :: "golib \<Rightarrow> fs_outcome \<Rightarrow> fs_outcome \<Rightarrow> fs \<Rightarrow> request \<Rightarrow> string
    \<Rightarrow> result \<times> fs" where
  "execute_script_create lib mk wr fs r dir =
     (let path = script_path dir (r_script_name r) (detect_script_type lib (r_stdin r)) in
      case write_script_file mk wr path (r_stdin r) fs of
        (Some e, fs') \<Rightarrow> (failed_result (-1) (''failed to write script: '' @ e), fs')
      | (None, fs') \<Rightarrow>
          (zero_result\<lparr>res_stdout := ''Created '' @ path @ '' ('' @ itoa (int (length (r_stdin r)))
             @ '' bytes)''\<rparr>, fs'))"

definition execute_script_create_then_run :: "golib \<Rightarrow> (string \<Rightarrow> string + pipeline) \<Rightarrow> os_env
    \<Rightarrow> exec_config \<Rightarrow> fs_outcome \<Rightarrow> fs_outcome \<Rightarrow> fs \<Rightarrow> request \<Rightarrow> string
    \<Rightarrow> (result \<times> call list) \<times> fs" where
  "execute_script_create_then_run lib decode os cfg mk wr fs r dir =
     (let path = script_path dir (r_script_name r) (detect_script_type lib (r_stdin r)) in
      case write_script_file mk wr path (r_stdin r) fs of
        (Some e, fs') \<Rightarrow> ((failed_result (-1) (''failed to write script: '' @ e), []), fs')
      | (None, fs') \<Rightarrow> (execute_script_in lib decode os cfg fs' r dir, fs'))"

section \<open>Lemmas\<close>

lemma detect_cases:
  "detect_script_type lib c = ''.json'' \<or> detect_script_type lib c = ''.sh'' \<or> detect_script_type lib c = ''.py''"
  by (auto simp: detect_script_type_def split: sum.split jval.split)

lemma script_path_eq [simp]: "script_path d n a = script_path d n b \<longleftrightarrow> a = b"
  by (simp add: script_path_def)

lemma last_index_Some: "last_index c s = Some i \<Longrightarrow> i < length s"
  by (induction s arbitrary: i) (auto split: option.splits if_splits)

lemma mkdir_all_new:
  "fs p = None \<Longrightarrow> mkdir_all d fs p \<noteq> None \<longleftrightarrow> p \<noteq> [] \<and> (p = d \<or> prefix (p @ ''/'') d)"
  by (simp add: mkdir_all_def)

lemma mkdir_all_keep: "length d < length p \<Longrightarrow> mkdir_all d fs p = fs p"
  by (auto simp: mkdir_all_def dest: prefix_length_le)

lemma write_script_file_None:
  "write_script_file mk wr path content fs = (None, fs') \<Longrightarrow>
     fs' path = Some (FileNode content)
     \<and> (\<forall>q. length (parent_dir path) < length q \<longrightarrow> q \<noteq> path \<longrightarrow> fs' q = fs q)"
  by (auto simp: write_script_file_def Let_def mkdir_all_keep split: fs_outcome.splits)

lemma parent_of_script: "length (parent_dir (script_path dir n ext)) < length (script_path dir n ext)"
  by (auto simp: parent_dir_def script_path_def split: option.split dest: last_index_Some)

lemma last_index_append: "c \<notin> set b \<Longrightarrow> last_index c (a @ b) = last_index c a"
proof (induction a)
  case Nil
  then show ?case by (induction b) auto
qed simp

lemma parent_below_siblings:
  assumes "CHR ''/'' \<notin> set ext"
  shows "length (parent_dir (script_path dir n ext)) < length (script_path dir n ext') \<or> ext' = []"
proof -
  have "last_index CHR ''/'' (script_path dir n ext) = last_index CHR ''/'' (dir @ ''/'' @ n)"
    using last_index_append [OF assms, of "dir @ ''/'' @ n"] by (simp add: script_path_def)
  then show ?thesis
    by (cases ext') (auto simp: parent_dir_def script_path_def split: option.split dest!: last_index_Some)
qed

lemma ext_no_slash: "CHR ''/'' \<notin> set (detect_script_type lib c)"
  using detect_cases [of lib c] by auto

lemma written_and_siblings:
  assumes "write_script_file mk wr (script_path dir n (detect_script_type lib c)) c fs = (None, fs')"
  shows "fs' (script_path dir n (detect_script_type lib c)) = Some (FileNode c)"
    and "ext \<noteq> [] \<Longrightarrow> ext \<noteq> detect_script_type lib c \<Longrightarrow>
           fs' (script_path dir n ext) = fs (script_path dir n ext)"
  using write_script_file_None [OF assms] parent_below_siblings [OF ext_no_slash, of dir n lib c ext]
  by auto

section \<open>Properties\<close>

text \<open>C20. Create-then-run executes the bytes that were approved: when no other variant of the
  name exists and the write succeeds, the file the interpreter is started on holds exactly the
  reviewed content afterwards, one process is run (bash for a shell script, python3 otherwise) with
  the reviewed arguments, and a JSON script runs as the pipeline decoded from those same bytes.\<close>

theorem create_then_run_runs_approved_bytes:
  assumes "execute_script_create_then_run lib decode os cfg mk wr fs r dir = ((res, calls), fs')"
    and "mk = FsOK" and "wr = FsOK"
    and "\<forall>ext\<in>{''.sh'', ''.py'', ''.json''} - {detect_script_type lib (r_stdin r)}.
           fs (script_path dir (r_script_name r) ext) = None"
  shows "fs' (script_path dir (r_script_name r) (detect_script_type lib (r_stdin r)))
           = Some (FileNode (r_stdin r))
       \<and> (if detect_script_type lib (r_stdin r) = ''.json''
          then (case decode (r_stdin r) of
                  Inl e \<Rightarrow> calls = []
                | Inr p \<Rightarrow> (res, calls) =
                    execute_pipeline lib os cfg p (r_timeout r) (number_args 1 (r_script_args r)))
          else \<exists>p. calls = [RunProc p] \<and> pr_argv p =
                 (if detect_script_type lib (r_stdin r) = ''.sh'' then ''bash'' else ''python3'')
                 # script_path dir (r_script_name r) (detect_script_type lib (r_stdin r))
                 # r_script_args r)"
proof -
  let ?n = "r_script_name r" and ?t = "detect_script_type lib (r_stdin r)"
  have w: "write_script_file mk wr (script_path dir ?n ?t) (r_stdin r) fs = (None, fs')"
    using assms(1-3) by (simp add: execute_script_create_then_run_def write_script_file_def Let_def)
  then have run: "execute_script_in lib decode os cfg fs' r dir = (res, calls)"
    using assms(1) by (simp add: execute_script_create_then_run_def Let_def)
  have here: "fs' (script_path dir ?n ?t) = Some (FileNode (r_stdin r))"
    by (rule written_and_siblings(1) [OF w])
  have others: "ext \<in> {''.sh'', ''.py'', ''.json''} \<Longrightarrow> ext \<noteq> ?t \<Longrightarrow> fs' (script_path dir ?n ext) = None" for ext
    using written_and_siblings(2) [OF w, of ext] assms(4) by auto
  consider "?t = ''.json''" | "?t = ''.sh''" | "?t = ''.py''"
    using detect_cases by blast
  then show ?thesis
  proof cases
    case 1
    with here others [of "''.sh''"] others [of "''.py''"] run show ?thesis
      by (auto simp: execute_script_in_def Let_def split: sum.splits)
  next
    case 2
    with here run show ?thesis
      by (auto simp: execute_script_in_def Let_def execute_shell_def run_interpreter_def)
  next
    case 3
    with here others [of "''.sh''"] run show ?thesis
      by (auto simp: execute_script_in_def Let_def execute_python_def run_interpreter_def)
  qed
qed

definition script_request :: request where
  "script_request = (pending_request ''a'' 1)\<lparr>r_type := ''script_create_then_run'',
     r_script_name := ''job'', r_stdin := ''print(1)'', r_script_args := [''x'']\<rparr>"

lemma script_request_type: "detect_script_type demo_lib (r_stdin script_request) = ''.py''"
  by (simp add: detect_script_type_def demo_lib_def script_request_def)

theorem create_then_run_runs_approved_bytes_witness:
  "\<exists>res p fs'. execute_script_create_then_run demo_lib (\<lambda>s. Inl ''bad'') demo_os demo_config FsOK FsOK
       Map.empty script_request ''/scripts'' = ((res, [RunProc p]), fs')
     \<and> pr_argv p = [''python3'', ''/scripts/job.py'', ''x'']
     \<and> fs' ''/scripts/job.py'' = Some (FileNode ''print(1)'')"
proof -
  obtain res calls fs' where e: "execute_script_create_then_run demo_lib (\<lambda>s. Inl ''bad'') demo_os
      demo_config FsOK FsOK Map.empty script_request ''/scripts'' = ((res, calls), fs')"
    by (metis surj_pair)
  show ?thesis
    using create_then_run_runs_approved_bytes [OF e refl refl] e
    by (auto simp: script_request_type) (auto simp: script_request_def script_path_def pending_request_def)
qed

text \<open>The variant check happens when the request is submitted and is not repeated at
  execution: a shell script of the same name that appears in between is what an approved
  create-then-run of a Python script runs, although the reviewed bytes were written.\<close>

theorem create_then_run_shadowed:
  assumes "fs (script_path dir (r_script_name r) ''.sh'') = Some (FileNode other)"
    and "detect_script_type lib (r_stdin r) = ''.py''"
  shows "\<exists>res p fs'. execute_script_create_then_run lib decode os cfg FsOK FsOK fs r dir = ((res, [RunProc p]), fs')
     \<and> pr_argv p = ''bash'' # script_path dir (r_script_name r) ''.sh'' # r_script_args r
     \<and> fs' (script_path dir (r_script_name r) ''.sh'') = Some (FileNode other)
     \<and> fs' (script_path dir (r_script_name r) ''.py'') = Some (FileNode (r_stdin r))"
proof -
  let ?n = "r_script_name r"
  obtain fs' where w: "write_script_file FsOK FsOK (script_path dir ?n (detect_script_type lib (r_stdin r)))
      (r_stdin r) fs = (None, fs')"
    by (simp add: write_script_file_def Let_def)
  have "fs' (script_path dir ?n ''.sh'') = Some (FileNode other)"
    using written_and_siblings(2) [OF w, of "''.sh''"] assms by simp
  moreover have "fs' (script_path dir ?n ''.py'') = Some (FileNode (r_stdin r))"
    using written_and_siblings(1) [OF w] assms(2) by simp
  ultimately show ?thesis
    using w assms(2)
    by (simp add: execute_script_create_then_run_def Let_def execute_script_in_def execute_shell_def
        run_interpreter_def)
qed

theorem create_then_run_shadowed_witness:
  "\<exists>res p fs'. execute_script_create_then_run demo_lib (\<lambda>s. Inl ''bad'') demo_os demo_config FsOK FsOK
       [''/scripts/job.sh'' \<mapsto> FileNode ''rm''] script_request ''/scripts'' = ((res, [RunProc p]), fs')
     \<and> pr_argv p = [''bash'', ''/scripts/job.sh'', ''x'']"
  using create_then_run_shadowed [of "[''/scripts/job.sh'' \<mapsto> FileNode ''rm'']" "''/scripts''" script_request
      "''rm''" demo_lib "\<lambda>s. Inl ''bad''" demo_os demo_config] script_request_type
  by (auto simp: script_path_def script_request_def)

end
