(* ===== verification/Whitelist.thy ===== *)
theory Whitelist
  imports Registry
begin

text \<open>
  whitelist/whitelist.go: the rules that auto-approve a command with exactly these
  arguments. A rule read from disk may carry the removed gate_output flag; Load drops it.
  The log line Load prints for a dropped rule is not modelled.
\<close>

record rule =
  rl_command :: string
  rl_args :: "string list"

record stored_rule =
  sr_rule :: rule
  sr_gate_output :: bool

record whitelist =
  wl_rules :: "rule list"
  wl_path :: string
  wl_disk :: "stored_rule list disk"

definition whitelist_load :: "string \<Rightarrow> stored_rule list disk \<Rightarrow> registry_error + whitelist" where
  "whitelist_load path d =
     (case d of
        Unreadable e \<Rightarrow> Inl (ReadError path e)
      | NoFile \<Rightarrow> Inr \<lparr>wl_rules = [], wl_path = path, wl_disk = d\<rparr>
      | Corrupt e \<Rightarrow> Inl (ParseError path e)
      | File stored \<Rightarrow>
          Inr \<lparr>wl_rules = map sr_rule (filter (\<lambda>r. \<not> sr_gate_output r) stored),
               wl_path = path, wl_disk = d\<rparr>)"

definition args_equal :: "string list \<Rightarrow> string list \<Rightarrow> bool" where
  "args_equal a b =
     (if length a \<noteq> length b then False else \<not> (\<exists>i\<in>set [0..<length a]. a ! i \<noteq> b ! i))"

definition rule_is :: "string \<Rightarrow> string list \<Rightarrow> rule \<Rightarrow> bool" where
  "rule_is command args r \<longleftrightarrow> rl_command r = command \<and> args_equal (rl_args r) args"

definition whitelist_match :: "whitelist \<Rightarrow> string \<Rightarrow> string list \<Rightarrow> bool" where
  "whitelist_match w command args = list_ex (rule_is command args) (wl_rules w)"

definition whitelist_rules :: "whitelist \<Rightarrow> rule list" where
  "whitelist_rules w = wl_rules w"

definition whitelist_add :: "string \<Rightarrow> string list \<Rightarrow> whitelist \<Rightarrow> whitelist" where
  "whitelist_add command args w =
     (if list_ex (rule_is command args) (wl_rules w) then w
      else w\<lparr>wl_rules := wl_rules w @ [\<lparr>rl_command = command, rl_args = args\<rparr>]\<rparr>)"

fun remove_first :: "('a \<Rightarrow> bool) \<Rightarrow> 'a list \<Rightarrow> 'a list option" where
  "remove_first p [] = None"
| "remove_first p (x # xs) = (if p x then Some xs else map_option ((#) x) (remove_first p xs))"

definition whitelist_remove :: "string \<Rightarrow> string list \<Rightarrow> whitelist \<Rightarrow> bool \<times> whitelist" where
  "whitelist_remove command args w =
     (case remove_first (rule_is command args) (wl_rules w) of
        None \<Rightarrow> (False, w)
      | Some rs \<Rightarrow> (True, w\<lparr>wl_rules := rs\<rparr>))"

definition whitelist_save :: "stored_rule list write_outcome \<Rightarrow> whitelist
    \<Rightarrow> registry_error option \<times> whitelist" where
  "whitelist_save wo w = (case wo of
       WriteOK \<Rightarrow> (None, w\<lparr>wl_disk := File (map (\<lambda>r. \<lparr>sr_rule = r, sr_gate_output = False\<rparr>) (wl_rules w))\<rparr>)
     | WriteErr e d \<Rightarrow> (Some (WriteError (wl_path w) e), w\<lparr>wl_disk := d\<rparr>))"

section \<open>Rules as a set of keys\<close>

lemma args_equal_iff [simp]: "args_equal a b \<longleftrightarrow> a = b"
  by (auto simp: args_equal_def intro: nth_equalityI)

lemma rule_is_iff [simp]: "rule_is command args r \<longleftrightarrow> r = \<lparr>rl_command = command, rl_args = args\<rparr>"
  by (cases r) (simp add: rule_is_def)

lemma whitelist_match_iff:
  "whitelist_match w command args \<longleftrightarrow> \<lparr>rl_command = command, rl_args = args\<rparr> \<in> set (wl_rules w)"
  by (auto simp: whitelist_match_def list_ex_iff)

lemma remove_first_eq:
  "remove_first (\<lambda>r. r = x) rs = (if x \<in> set rs then Some (remove1 x rs) else None)"
  by (induction rs) auto

lemma whitelist_remove_eq:
  "whitelist_remove command args w =
     (let x = \<lparr>rl_command = command, rl_args = args\<rparr>
      in if x \<in> set (wl_rules w) then (True, w\<lparr>wl_rules := remove1 x (wl_rules w)\<rparr>) else (False, w))"
proof -
  have "rule_is command args = (\<lambda>r. r = \<lparr>rl_command = command, rl_args = args\<rparr>)"
    by (simp add: fun_eq_iff)
  then show ?thesis by (simp add: whitelist_remove_def remove_first_eq Let_def)
qed

text \<open>The interface the web handler uses: membership of keys under adding and removing.\<close>

locale rule_set =
  fixes ok :: "'s \<Rightarrow> bool"
    and mem :: "'s \<Rightarrow> 'k \<Rightarrow> bool"
    and add :: "'k \<Rightarrow> 's \<Rightarrow> 's"
    and rem :: "'k \<Rightarrow> 's \<Rightarrow> 's"
  assumes ok_add: "ok s \<Longrightarrow> ok (add k s)"
    and ok_rem: "ok s \<Longrightarrow> ok (rem k s)"
    and mem_add: "mem (add k s) k' \<longleftrightarrow> k' = k \<or> mem s k'"
    and mem_rem: "ok s \<Longrightarrow> mem (rem k s) k' \<longleftrightarrow> k' \<noteq> k \<and> mem s k'"
begin

text \<open>A rule is in force exactly when its last addition came after its last removal.\<close>

lemma add_rem_mem: "ok s \<Longrightarrow> mem (rem k (add k s)) k' \<longleftrightarrow> k' \<noteq> k \<and> mem s k'"
  by (auto simp: mem_rem ok_add mem_add)

lemma rem_add_mem: "ok s \<Longrightarrow> mem (add k (rem k s)) k' \<longleftrightarrow> k' = k \<or> mem s k'"
  by (auto simp: mem_add mem_rem)

lemma mem_fold_add: "mem (fold add ks s) k \<longleftrightarrow> k \<in> set ks \<or> mem s k"
  by (induction ks arbitrary: s) (auto simp: mem_add)

end

definition wl_ok :: "whitelist \<Rightarrow> bool" where
  "wl_ok w \<longleftrightarrow> distinct (wl_rules w)"

interpretation wl: rule_set wl_ok "\<lambda>w (c, a). whitelist_match w c a"
  "\<lambda>(c, a). whitelist_add c a" "\<lambda>(c, a) w. snd (whitelist_remove c a w)"
  by unfold_locales
    (auto simp: wl_ok_def whitelist_match_iff whitelist_add_def whitelist_remove_eq list_ex_iff Let_def
      split: if_splits)

lemma whitelist_add_match:
  "whitelist_match (whitelist_add c a w) c' a' \<longleftrightarrow> (c', a') = (c, a) \<or> whitelist_match w c' a'"
  using wl.mem_add [of "(c, a)" w "(c', a')"] by simp

section \<open>Properties\<close>

text \<open>A whitelist without repeated rules behaves as a set of (command, arguments)
  pairs: after Add exactly the added pair matches in addition, after Remove exactly the removed
  pair stops matching and Remove reports whether it was there, both keep the rules free of
  repetitions, and what Save wrote is what Load reads back.\<close>

theorem whitelist_is_a_set:
  assumes "wl_ok w"
  shows "wl_ok (whitelist_add c a w)
       \<and> (\<forall>c' a'. whitelist_match (whitelist_add c a w) c' a'
             \<longleftrightarrow> (c', a') = (c, a) \<or> whitelist_match w c' a')
       \<and> fst (whitelist_remove c a w) = whitelist_match w c a
       \<and> wl_ok (snd (whitelist_remove c a w))
       \<and> (\<forall>c' a'. whitelist_match (snd (whitelist_remove c a w)) c' a'
             \<longleftrightarrow> (c', a') \<noteq> (c, a) \<and> whitelist_match w c' a')
       \<and> (fst (whitelist_save wo w) = None \<longrightarrow>
            (\<exists>v. whitelist_load p (wl_disk (snd (whitelist_save wo w))) = Inr v
               \<and> whitelist_rules v = whitelist_rules w))"
proof -
  have "fst (whitelist_remove c a w) = whitelist_match w c a"
    by (simp add: whitelist_remove_eq whitelist_match_iff Let_def)
  moreover have "fst (whitelist_save wo w) = None \<longrightarrow>
      (\<exists>v. whitelist_load p (wl_disk (snd (whitelist_save wo w))) = Inr v
         \<and> whitelist_rules v = whitelist_rules w)"
    by (simp add: whitelist_save_def whitelist_load_def whitelist_rules_def comp_def
        split: write_outcome.split)
  ultimately show ?thesis
    using wl.ok_add [OF assms, of "(c, a)"] wl.ok_rem [OF assms, of "(c, a)"]
      wl.mem_rem [OF assms, of "(c, a)"] whitelist_add_match by auto
qed

definition demo_whitelist :: whitelist where
  "demo_whitelist = \<lparr>wl_rules = [\<lparr>rl_command = ''df'', rl_args = [''-h'']\<rparr>],
     wl_path = ''whitelist.json'', wl_disk = NoFile\<rparr>"

theorem whitelist_is_a_set_witness:
  "whitelist_match demo_whitelist ''df'' [''-h'']
   \<and> \<not> whitelist_match (snd (whitelist_remove ''df'' [''-h''] demo_whitelist)) ''df'' [''-h'']
   \<and> \<not> whitelist_match (whitelist_add ''ls'' [] demo_whitelist) ''df'' []"
proof -
  have "wl_ok demo_whitelist" by (simp add: wl_ok_def demo_whitelist_def)
  from whitelist_is_a_set [OF this, of "''df''" "[''-h'']"]
    whitelist_is_a_set [OF this, of "''ls''" "[]"]
  show ?thesis by (auto simp: demo_whitelist_def whitelist_match_iff)
qed

text \<open>Load keeps a rule that stands twice in the file twice, and Remove takes out
  only the first copy: it reports the rule as removed while the rule keeps auto-approving.\<close>

theorem removed_duplicate_rule_still_matches:
  "\<exists>w. whitelist_load ''wl'' (File [\<lparr>sr_rule = \<lparr>rl_command = ''reboot'', rl_args = []\<rparr>, sr_gate_output = False\<rparr>,
                                   \<lparr>sr_rule = \<lparr>rl_command = ''reboot'', rl_args = []\<rparr>, sr_gate_output = False\<rparr>]) = Inr w
     \<and> fst (whitelist_remove ''reboot'' [] w)
     \<and> whitelist_match (snd (whitelist_remove ''reboot'' [] w)) ''reboot'' []"
  by (simp add: whitelist_load_def whitelist_remove_eq whitelist_match_iff Let_def)

end
