(* ===== verification/Audit_Log.thy ===== *)
theory Audit_Log
  imports Go_Lib
begin

text \<open>
  audit/audit.go: the append-only log. An event is the struct Event with its field map as
  an association list of JSON values; the log is the list of events written so far. Log drops
  an event only when json.Marshal fails, which it does for none of the values the relay logs.
\<close>

record event =
  ev_timestamp :: int
  ev_event :: string
  ev_request_id :: string
  ev_fields :: "(string \<times> jval) list"

type_synonym audit = "event list"

definition audit_log :: "int \<Rightarrow> string \<Rightarrow> string \<Rightarrow> (string \<times> jval) list \<Rightarrow> audit \<Rightarrow> audit" where
  "audit_log now ev rid fs l =
     l @ [\<lparr>ev_timestamp = now, ev_event = ev, ev_request_id = rid, ev_fields = fs\<rparr>]"

definition audit_max_output :: nat where "audit_max_output = 10 * 1024"

definition audit_notice :: string where
  "audit_notice = CHR 0x0A # ''[audit: truncated at 10KB]''"

definition audit_truncate :: "string \<Rightarrow> string" where
  "audit_truncate s =
     (if length s \<le> audit_max_output then s else take audit_max_output s @ audit_notice)"

lemma audit_log_append: "\<exists>e. audit_log now ev rid fs l = l @ [e]"
  by (simp add: audit_log_def)

lemma audit_truncate_bound: "length (audit_truncate s) \<le> audit_max_output + length audit_notice"
  by (simp add: audit_truncate_def)

lemma audit_truncate_prefix: "prefix (take audit_max_output s) (audit_truncate s)"
  by (simp add: audit_truncate_def take_is_prefix)

lemma audit_truncate_short: "length s \<le> audit_max_output \<Longrightarrow> audit_truncate s = s"
  by (simp add: audit_truncate_def)

definition jstrs :: "string list \<Rightarrow> jval" where
  "jstrs xs = JArr (map JStr xs)"

text \<open>A slice that is nil when it is empty, as append leaves it.\<close>

definition jslice :: "string list \<Rightarrow> jval" where
  "jslice xs = (if xs = [] then JNull else jstrs xs)"

definition jmap :: "(string, string) gomap \<Rightarrow> jval" where
  "jmap m = JObj (map (\<lambda>(k, v). (k, JStr v)) m)"

end
