(* ===== verification/Go_Base64.thy ===== *)
theory Go_Base64
  imports Go_Strings
begin

text \<open>
  \<^verbatim>\<open>encoding/base64\<close> as the relay uses it: StdEncoding and RawStdEncoding for file
  contents and PowerShell commands, RawURLEncoding for tokens and nonces. Callers strip white space before decoding, so the decoder's
  skipping of line ends is not needed.
\<close>

definition std_alphabet :: string where
  "std_alphabet = ''ABCDEFGHIJKLMNOPQRSTUVWXYZabcdefghijklmnopqrstuvwxyz0123456789+/''"

definition url_alphabet :: string where
  "url_alphabet = ''ABCDEFGHIJKLMNOPQRSTUVWXYZabcdefghijklmnopqrstuvwxyz0123456789-_''"

fun char_index :: "string \<Rightarrow> char \<Rightarrow> nat option" where
  "char_index [] c = None"
| "char_index (x # xs) c = (if x = c then Some 0 else map_option Suc (char_index xs c))"

lemma char_index_nth: "distinct al \<Longrightarrow> n < length al \<Longrightarrow> char_index al (al ! n) = Some n"
proof (induction al arbitrary: n)
  case Nil
  then show ?case by simp
next
  case (Cons x xs)
  then show ?case by (cases n) auto
qed

lemma char_index_set: "char_index al c = None \<longleftrightarrow> c \<notin> set al"
  by (induction al) auto

lemma std_alphabet_ok: "distinct std_alphabet \<and> length std_alphabet = 64 \<and> CHR ''='' \<notin> set std_alphabet"
  by (simp add: std_alphabet_def)

lemma url_alphabet_ok: "distinct url_alphabet \<and> length url_alphabet = 64 \<and> CHR ''='' \<notin> set url_alphabet"
  by (simp add: url_alphabet_def)

fun b64_encode :: "string \<Rightarrow> bool \<Rightarrow> string \<Rightarrow> string" where
  "b64_encode al pad [] = []"
| "b64_encode al pad [a] =
     [al ! (of_char a div 4), al ! (of_char a mod 4 * 16)] @ (if pad then ''=='' else [])"
| "b64_encode al pad [a, b] =
     [al ! (of_char a div 4), al ! (of_char a mod 4 * 16 + of_char b div 16),
      al ! (of_char b mod 16 * 4)] @ (if pad then ''='' else [])"
| "b64_encode al pad (a # b # c # s) =
     al ! (of_char a div 4) # al ! (of_char a mod 4 * 16 + of_char b div 16)
     # al ! (of_char b mod 16 * 4 + of_char c div 64) # al ! (of_char c mod 64)
     # b64_encode al pad s"

fun b64_one :: "nat option \<Rightarrow> nat option \<Rightarrow> string option" where
  "b64_one (Some a) (Some b) = Some [char_of (a * 4 + b div 16)]"
| "b64_one _ _ = None"

fun b64_two :: "nat option \<Rightarrow> nat option \<Rightarrow> nat option \<Rightarrow> string option" where
  "b64_two (Some a) (Some b) (Some c) =
     Some [char_of (a * 4 + b div 16), char_of (b mod 16 * 16 + c div 4)]"
| "b64_two _ _ _ = None"

fun b64_three :: "nat option \<Rightarrow> nat option \<Rightarrow> nat option \<Rightarrow> nat option \<Rightarrow> string option" where
  "b64_three (Some a) (Some b) (Some c) (Some d) =
     Some [char_of (a * 4 + b div 16), char_of (b mod 16 * 16 + c div 4),
           char_of (c mod 4 * 64 + d)]"
| "b64_three _ _ _ _ = None"

text \<open>With padding the input comes in quartets and only the last one may end in \<open>=\<close>;
  without, two or three characters may remain. Non-zero trailing bits are accepted.\<close>

fun b64_decode :: "string \<Rightarrow> bool \<Rightarrow> string \<Rightarrow> string option" where
  "b64_decode al pad [] = Some []"
| "b64_decode al pad [a] = None"
| "b64_decode al pad [a, b] =
     (if pad then None else b64_one (char_index al a) (char_index al b))"
| "b64_decode al pad [a, b, c] =
     (if pad then None else b64_two (char_index al a) (char_index al b) (char_index al c))"
| "b64_decode al pad (a # b # c # d # s) =
     (if pad \<and> d = CHR ''='' then
        (if s \<noteq> [] then None
         else if c = CHR ''='' then b64_one (char_index al a) (char_index al b)
         else b64_two (char_index al a) (char_index al b) (char_index al c))
      else case b64_three (char_index al a) (char_index al b) (char_index al c) (char_index al d) of
             None \<Rightarrow> None
           | Some x \<Rightarrow> map_option ((@) x) (b64_decode al pad s))"

definition alphabet_ok :: "string \<Rightarrow> bool" where
  "alphabet_ok al \<longleftrightarrow> distinct al \<and> length al = 64 \<and> CHR ''='' \<notin> set al"

lemma alphabets_ok [simp]: "alphabet_ok std_alphabet" "alphabet_ok url_alphabet"
  using std_alphabet_ok url_alphabet_ok by (simp_all add: alphabet_ok_def)

lemma alphabet_index: "alphabet_ok al \<Longrightarrow> n < 64 \<Longrightarrow> char_index al (al ! n) = Some n"
  by (simp add: alphabet_ok_def char_index_nth)

lemma alphabet_no_pad: "alphabet_ok al \<Longrightarrow> n < 64 \<Longrightarrow> al ! n \<noteq> CHR ''=''"
  by (metis alphabet_ok_def nth_mem)

text \<open>The bytes of a group, put back together from the six-bit digits.\<close>

lemma of_char_bound: "(of_char c :: nat) < 256"
  by simp

lemma digit_bounds:
  "x < 256 \<Longrightarrow> x div 4 < (64::nat)"
  "x mod 4 * 16 < (64::nat)"
  "y < 256 \<Longrightarrow> x mod 4 * 16 + y div 16 < (64::nat)"
  "y mod 16 * 4 < (64::nat)"
  "z < 256 \<Longrightarrow> y mod 16 * 4 + z div 64 < (64::nat)"
  "z mod 64 < (64::nat)"
proof -
  show "x mod 4 * 16 < 64" and "y mod 16 * 4 < 64" and "z mod 64 < 64" for x y z :: nat
    using mod_less_divisor [of 4 x] mod_less_divisor [of 16 y] by (linarith, linarith, simp)
  show "x < 256 \<Longrightarrow> x div 4 < (64::nat)" by linarith
  show "y mod 16 * 4 + z div 64 < 64" if "z < 256" for y z :: nat
    using mod_less_divisor [of 16 y] that by linarith
  show "x mod 4 * 16 + y div 16 < 64" if "y < 256" for x y :: nat
    using mod_less_divisor [of 4 x] that by linarith
qed

lemma shift_back: "y < 16 \<Longrightarrow> (k * 16 + y) div 16 = (k::nat)"
  "y < 16 \<Longrightarrow> (k * 16 + y) mod 16 = (y::nat)"
  "z < 4 \<Longrightarrow> (k * 4 + z) div 4 = (k::nat)"
  "z < 4 \<Longrightarrow> (k * 4 + z) mod 4 = (z::nat)"
  by simp_all

lemma group_back:
  "x div 4 * 4 + (x mod 4 * 16) div 16 = (x::nat)"
  "y < 256 \<Longrightarrow> x div 4 * 4 + (x mod 4 * 16 + y div 16) div 16 = (x::nat)"
  "y < 256 \<Longrightarrow> (x mod 4 * 16 + y div 16) mod 16 * 16 + (y mod 16 * 4) div 4 = (y::nat)"
  "y < 256 \<Longrightarrow> z < 256 \<Longrightarrow>
     (x mod 4 * 16 + y div 16) mod 16 * 16 + (y mod 16 * 4 + z div 64) div 4 = (y::nat)"
  "z < 256 \<Longrightarrow> (y mod 16 * 4 + z div 64) mod 4 * 64 + z mod 64 = (z::nat)"
proof -
  have d16: "y div 16 < 16" if "y < 256" for y :: nat using that by linarith
  have d64: "z div 64 < 4" if "z < 256" for z :: nat using that by linarith
  show "x div 4 * 4 + (x mod 4 * 16) div 16 = (x::nat)" by simp
  show "y < 256 \<Longrightarrow> x div 4 * 4 + (x mod 4 * 16 + y div 16) div 16 = (x::nat)"
    by (simp only: shift_back(1) d16 div_mult_mod_eq)
  show "y < 256 \<Longrightarrow> (x mod 4 * 16 + y div 16) mod 16 * 16 + (y mod 16 * 4) div 4 = (y::nat)"
    by (simp only: shift_back(2) d16) simp
  show "y < 256 \<Longrightarrow> z < 256 \<Longrightarrow>
     (x mod 4 * 16 + y div 16) mod 16 * 16 + (y mod 16 * 4 + z div 64) div 4 = (y::nat)"
    by (simp only: shift_back(2,3) d16 d64 div_mult_mod_eq)
  show "z < 256 \<Longrightarrow> (y mod 16 * 4 + z div 64) mod 4 * 64 + z mod 64 = (z::nat)"
    by (simp only: shift_back(4) d64 div_mult_mod_eq)
qed

lemma b64_back:
  "b64_one (Some (of_char a div 4)) (Some (of_char a mod 4 * 16)) = Some [a]"
  "b64_two (Some (of_char a div 4)) (Some (of_char a mod 4 * 16 + of_char b div 16))
     (Some (of_char b mod 16 * 4)) = Some [a, b]"
  "b64_three (Some (of_char a div 4)) (Some (of_char a mod 4 * 16 + of_char b div 16))
     (Some (of_char b mod 16 * 4 + of_char c div 64)) (Some (of_char c mod 64)) = Some [a, b, c]"
  by (simp_all only: b64_one.simps b64_two.simps b64_three.simps group_back of_char_bound
      char_of_char)

lemma b64_decode_encode:
  assumes al: "alphabet_ok al"
  shows "b64_decode al pad (b64_encode al pad s) = Some s"
  using al
proof (induction al pad s rule: b64_encode.induct)
  case (1 al pad)
  then show ?case by simp
next
  case (2 al pad a)
  then show ?case
    by (simp add: alphabet_index digit_bounds b64_back alphabet_no_pad del: b64_one.simps)
next
  case (3 al pad a b)
  then show ?case
    by (simp add: alphabet_index digit_bounds b64_back alphabet_no_pad
        del: b64_two.simps b64_three.simps)
next
  case (4 al pad a b c s)
  then show ?case
    by (simp add: alphabet_index digit_bounds b64_back alphabet_no_pad
        del: b64_two.simps b64_three.simps)
qed

end
