(* ===== verification/Auth.thy ===== *)
theory Auth
  imports Registry Go_Base64
begin

text \<open>
  auth/clients.go: the per-client token registry, the verifier that adds the master and the
  approver credential, and the identity attached to a request. Tokens are compared by their
  SHA-256, an argument of the definitions; so are the clock, the random bytes behind a minted
  token and the outcome of writing the file. The constant-time comparison is equality.
\<close>

section \<open>Data\<close>

record client =
  cl_name :: string
  cl_token_sha256 :: string
  cl_created_at :: int
  cl_last_seen_at :: "int option"
  cl_revoked_at :: "int option"

definition revoked :: "client \<Rightarrow> bool" where
  "revoked c \<longleftrightarrow> cl_revoked_at c \<noteq> None"

definition master_client_name :: string where "master_client_name = ''master''"
definition token_bytes :: nat where "token_bytes = 32"
definition last_seen_flush_interval :: int where "last_seen_flush_interval = 30 * second"

record client_registry =
  cr_path :: string
  cr_clients :: "(string, client) gomap"
  cr_last_saved :: "int option"
  cr_disk :: "client list disk"

datatype auth_error = ClientNameRequired | GenerateToken string | ClientExists string
  | ClientNotFound string | ClientIO registry_error

section \<open>The registry\<close>

definition new_client_registry :: "string \<Rightarrow> client list disk \<Rightarrow> registry_error + client_registry" where
  "new_client_registry path d =
     (case d of
        File l \<Rightarrow> Inr \<lparr>cr_path = path, cr_clients = load_list cl_name l, cr_last_saved = None, cr_disk = d\<rparr>
      | Corrupt e \<Rightarrow> Inl (ParseError path e)
      | NoFile \<Rightarrow> Inr \<lparr>cr_path = path, cr_clients = [], cr_last_saved = None, cr_disk = d\<rparr>
      | Unreadable e \<Rightarrow> Inl (ReadError path e))"

definition hash_token :: "(string \<Rightarrow> string) \<Rightarrow> string \<Rightarrow> string" where
  "hash_token sha token = hex_encode (sha token)"

definition digest_bytes :: "string \<Rightarrow> string" where
  "digest_bytes s = (case hex_decode s of None \<Rightarrow> [] | Some b \<Rightarrow> b)"

definition cr_sorted :: "client_registry \<Rightarrow> client list" where
  "cr_sorted r = sorted_values (cr_clients r)"

definition cr_save :: "int \<Rightarrow> client list write_outcome \<Rightarrow> client_registry
    \<Rightarrow> registry_error option \<times> client_registry" where
  "cr_save now w r = (case w of
       WriteOK \<Rightarrow> (None, r\<lparr>cr_disk := File (cr_sorted r), cr_last_saved := Some now\<rparr>)
     | WriteErr e d \<Rightarrow> (Some (WriteError (cr_path r) e), r\<lparr>cr_disk := d\<rparr>))"

definition cr_maybe_save :: "int \<Rightarrow> client list write_outcome \<Rightarrow> client_registry \<Rightarrow> client_registry" where
  "cr_maybe_save now w r =
     (if since_opt now (cr_last_saved r) < last_seen_flush_interval then r
      else snd (cr_save now w r))"

text \<open>\<open>rnd\<close> is what crypto/rand delivered: an error, or 32 bytes.\<close>

definition cr_add :: "(string \<Rightarrow> string) \<Rightarrow> int \<Rightarrow> string + string \<Rightarrow> client list write_outcome
    \<Rightarrow> string \<Rightarrow> client_registry \<Rightarrow> (auth_error + string) \<times> client_registry" where
  "cr_add sha now rnd w name r =
     (if name = '''' then (Inl ClientNameRequired, r)
      else case rnd of
        Inl e \<Rightarrow> (Inl (GenerateToken e), r)
      | Inr raw \<Rightarrow>
          let token = b64_encode url_alphabet False raw in
          if gomap_get (cr_clients r) name \<noteq> None then (Inl (ClientExists name), r)
          else
            let c = \<lparr>cl_name = name, cl_token_sha256 = hash_token sha token, cl_created_at = now,
                     cl_last_seen_at = None, cl_revoked_at = None\<rparr>;
                r1 = r\<lparr>cr_clients := AList.update name c (cr_clients r)\<rparr>
            in case cr_save now w r1 of
                 (Some e, r2) \<Rightarrow>
                   (Inl (ClientIO e), r2\<lparr>cr_clients := AList.delete name (cr_clients r2)\<rparr>)
               | (None, r2) \<Rightarrow> (Inr token, r2))"

definition cr_revoke :: "int \<Rightarrow> client list write_outcome \<Rightarrow> string \<Rightarrow> client_registry
    \<Rightarrow> auth_error option \<times> client_registry" where
  "cr_revoke now w name r =
     (case gomap_get (cr_clients r) name of
        None \<Rightarrow> (Some (ClientNotFound name), r)
      | Some c \<Rightarrow>
          if cl_revoked_at c \<noteq> None then (None, r)
          else case cr_save now w (r\<lparr>cr_clients :=
                      AList.update name (c\<lparr>cl_revoked_at := Some now\<rparr>) (cr_clients r)\<rparr>) of
                 (e, r2) \<Rightarrow> (map_option ClientIO e, r2))"

definition cr_list :: "client_registry \<Rightarrow> client list" where
  "cr_list r = cr_sorted r"

text \<open>The loop over the rows in map order; a later match overwrites an earlier one.\<close>

fun last_match :: "('k \<Rightarrow> 'v \<Rightarrow> bool) \<Rightarrow> ('k \<times> 'v) list \<Rightarrow> 'k option \<Rightarrow> 'k option" where
  "last_match P [] found = found"
| "last_match P ((n, c) # m) found = last_match P m (if P n c then Some n else found)"

definition find_active :: "string \<Rightarrow> (string, client) gomap \<Rightarrow> string option" where
  "find_active want m =
     last_match (\<lambda>n c. if revoked c then False else want = digest_bytes (cl_token_sha256 c)) m None"

definition cr_verify :: "(string \<Rightarrow> string) \<Rightarrow> int \<Rightarrow> client list write_outcome \<Rightarrow> string
    \<Rightarrow> client_registry \<Rightarrow> string option \<times> client_registry" where
  "cr_verify sha now w token r =
     (if token = '''' then (None, r)
      else case find_active (sha token) (cr_clients r) of
        None \<Rightarrow> (None, r)
      | Some name \<Rightarrow>
          (Some name,
           cr_maybe_save now w
             (r\<lparr>cr_clients := map (\<lambda>(n, c). if n = name then (n, c\<lparr>cl_last_seen_at := Some now\<rparr>)
                                          else (n, c)) (cr_clients r)\<rparr>)))"

definition match_digest :: "string \<Rightarrow> client_registry \<Rightarrow> string option" where
  "match_digest digest r =
     last_match (\<lambda>n c. digest = digest_bytes (cl_token_sha256 c)) (cr_clients r) None"

definition parse_token_digest :: "string \<Rightarrow> string option" where
  "parse_token_digest s =
     (case hex_decode s of None \<Rightarrow> None | Some b \<Rightarrow> if length b = 32 then Some b else None)"

section \<open>The verifier\<close>

text \<open>\<open>None\<close> for the digests is \<^verbatim>\<open>hasMaster\<close>, \<^verbatim>\<open>hasApprover\<close> false; the registry pointer is
  passed beside it, and may be nil.\<close>

record verifier =
  vf_master :: "string option"
  vf_approver :: "string option"

definition approver_client_name :: string where "approver_client_name = ''approver''"

definition new_verifier :: "(string \<Rightarrow> string) \<Rightarrow> string \<Rightarrow> verifier" where
  "new_verifier sha masterToken =
     \<lparr>vf_master = (if masterToken \<noteq> '''' then Some (sha masterToken) else None), vf_approver = None\<rparr>"

definition with_approver_digest :: "string \<Rightarrow> verifier \<Rightarrow> verifier" where
  "with_approver_digest digest v = v\<lparr>vf_approver := Some digest\<rparr>"

definition with_approver :: "(string \<Rightarrow> string) \<Rightarrow> string \<Rightarrow> verifier \<Rightarrow> verifier" where
  "with_approver sha token v = (if token = '''' then v else with_approver_digest (sha token) v)"

text \<open>The answer is the client and whether it is the approver, if the token verifies.\<close>

definition verify_role :: "(string \<Rightarrow> string) \<Rightarrow> int \<Rightarrow> client list write_outcome \<Rightarrow> verifier
    \<Rightarrow> string \<Rightarrow> client_registry option \<Rightarrow> (string \<times> bool) option \<times> client_registry option" where
  "verify_role sha now w v token reg =
     (if token = '''' then (None, reg)
      else
        let digest = sha token;
            isMaster = (vf_master v = Some digest);
            isApprover = (vf_approver v = Some digest)
        in if isApprover then (Some (approver_client_name, True), reg)
           else if isMaster then (Some (master_client_name, False), reg)
           else case reg of
             None \<Rightarrow> (None, None)
           | Some r \<Rightarrow> (case cr_verify sha now w token r of
                         (n, r') \<Rightarrow> (map_option (\<lambda>x. (x, False)) n, Some r')))"

definition verify :: "(string \<Rightarrow> string) \<Rightarrow> int \<Rightarrow> client list write_outcome \<Rightarrow> verifier
    \<Rightarrow> string \<Rightarrow> client_registry option \<Rightarrow> string option \<times> client_registry option" where
  "verify sha now w v token reg =
     (case verify_role sha now w v token reg of (a, reg') \<Rightarrow> (map_option fst a, reg'))"

section \<open>The identity of a request\<close>

record auth_ctx =
  ctx_client :: "string option"
  ctx_approver :: bool

definition no_ctx :: auth_ctx where
  "no_ctx = \<lparr>ctx_client = None, ctx_approver = False\<rparr>"

definition ctx_with_client :: "string \<Rightarrow> auth_ctx \<Rightarrow> auth_ctx" where
  "ctx_with_client name c = c\<lparr>ctx_client := Some name\<rparr>"

definition ctx_client_from :: "auth_ctx \<Rightarrow> string" where
  "ctx_client_from c = (case ctx_client c of None \<Rightarrow> '''' | Some n \<Rightarrow> n)"

definition ctx_with_approver :: "auth_ctx \<Rightarrow> auth_ctx" where
  "ctx_with_approver c = c\<lparr>ctx_approver := True\<rparr>"

definition is_approver :: "auth_ctx \<Rightarrow> bool" where
  "is_approver c = ctx_approver c"

section \<open>The registry contract\<close>

definition cr_wf :: "client_registry \<Rightarrow> bool" where
  "cr_wf r \<longleftrightarrow> gomap_wf cl_name (cr_clients r)"

definition cr_get :: "client_registry \<Rightarrow> string \<Rightarrow> client option" where
  "cr_get r name = gomap_get (cr_clients r) name"

definition cr_put :: "client \<Rightarrow> client_registry \<Rightarrow> client_registry" where
  "cr_put c r = r\<lparr>cr_clients := AList.update (cl_name c) c (cr_clients r)\<rparr>"

definition cr_del :: "string \<Rightarrow> client_registry \<Rightarrow> client_registry" where
  "cr_del name r = r\<lparr>cr_clients := AList.delete name (cr_clients r)\<rparr>"

definition cr_load :: "client list \<Rightarrow> client_registry" where
  "cr_load l = \<lparr>cr_path = [], cr_clients = load_list cl_name l, cr_last_saved = None, cr_disk = File l\<rparr>"

interpretation areg: persistent_registry cr_wf cr_get cr_list cl_name cr_put cr_del cr_load
proof
  fix s :: client_registry and c :: client and k k' :: string
  show "cr_wf s \<Longrightarrow> sorted (map cl_name (cr_list s)) \<and> distinct (map cl_name (cr_list s))"
    by (simp add: cr_wf_def cr_list_def cr_sorted_def gomap_registry.entries_keys)
  show "cr_wf s \<Longrightarrow> c \<in> set (cr_list s) \<longleftrightarrow> cr_get s (cl_name c) = Some c"
    by (simp only: cr_wf_def cr_list_def cr_sorted_def cr_get_def gomap_registry.entries_lookup)
  show "cr_wf s \<Longrightarrow> cr_get s k = Some c \<Longrightarrow> cl_name c = k"
    by (simp add: cr_wf_def cr_get_def gomap_registry.lookup_key)
  show "cr_wf s \<Longrightarrow> cr_get (cr_load (cr_list s)) k = cr_get s k"
    by (simp add: cr_wf_def cr_get_def cr_load_def cr_list_def cr_sorted_def
        gomap_registry.lookup_load)
qed (simp_all add: cr_wf_def cr_put_def cr_del_def cr_get_def cr_load_def)

section \<open>Which token verifies\<close>

text \<open>The loops return some matching row, and none only when none matches.\<close>

lemma last_match_Some:
  "last_match P m acc = Some k \<Longrightarrow> acc = Some k \<or> (\<exists>c. (k, c) \<in> set m \<and> P k c)"
  by (induction P m acc rule: last_match.induct) (auto split: if_splits)

lemma last_match_None:
  "last_match P m acc = None \<longleftrightarrow> acc = None \<and> (\<forall>k c. (k, c) \<in> set m \<longrightarrow> \<not> P k c)"
  by (induction P m acc rule: last_match.induct) (auto split: if_splits)

definition active_digest :: "client_registry \<Rightarrow> string \<Rightarrow> string \<Rightarrow> bool" where
  "active_digest r name d \<longleftrightarrow>
     (\<exists>c. cr_get r name = Some c \<and> \<not> revoked c \<and> digest_bytes (cl_token_sha256 c) = d)"

lemma find_active_Some: "cr_wf r \<Longrightarrow> find_active d (cr_clients r) = Some n \<Longrightarrow> active_digest r n d"
  by (auto simp: find_active_def active_digest_def cr_get_def cr_wf_def gomap_wf_in
      dest!: last_match_Some split: if_splits)

lemma find_active_None:
  "cr_wf r \<Longrightarrow> find_active d (cr_clients r) = None \<longleftrightarrow> (\<forall>n. \<not> active_digest r n d)"
  unfolding find_active_def last_match_None active_digest_def cr_get_def cr_wf_def
  by (simp add: gomap_wf_in) metis

lemma match_digest_None:
  "cr_wf r \<Longrightarrow> match_digest d r = None \<longleftrightarrow>
     (\<forall>n c. cr_get r n = Some c \<longrightarrow> digest_bytes (cl_token_sha256 c) \<noteq> d)"
  unfolding match_digest_def last_match_None cr_get_def cr_wf_def
  by (simp add: gomap_wf_in) metis

lemma digest_bytes_hash [simp]: "digest_bytes (hash_token sha t) = sha t"
  by (simp add: digest_bytes_def hash_token_def)

lemma cr_save_frame [simp]:
  "cr_clients (snd (cr_save now w r)) = cr_clients r"
  "cr_path (snd (cr_save now w r)) = cr_path r"
  "fst (cr_save now WriteOK r) = None"
  "cr_disk (snd (cr_save now WriteOK r)) = File (cr_sorted r)"
  by (simp_all add: cr_save_def split: write_outcome.split)

lemma cr_save_None: "fst (cr_save now w r) = None \<longleftrightarrow> w = WriteOK"
  by (simp add: cr_save_def split: write_outcome.split)

lemma cr_maybe_save_clients [simp]: "cr_clients (cr_maybe_save now w r) = cr_clients r"
  by (simp add: cr_maybe_save_def)

text \<open>Recording when a client was last seen changes nothing a later verification reads.\<close>

definition touch :: "string \<Rightarrow> int \<Rightarrow> (string, client) gomap \<Rightarrow> (string, client) gomap" where
  "touch name now m = map (\<lambda>(n, c). if n = name then (n, c\<lparr>cl_last_seen_at := Some now\<rparr>) else (n, c)) m"

lemma touch_keys: "map fst (touch name now m) = map fst m"
  by (induction m) (auto simp: touch_def)

lemma touch_get: "map_of (touch name now m) k =
    (if k = name then map_option (\<lambda>c. c\<lparr>cl_last_seen_at := Some now\<rparr>) (map_of m k) else map_of m k)"
  by (induction m) (auto simp: touch_def)

lemma touch_wf: "gomap_wf cl_name m \<Longrightarrow> gomap_wf cl_name (touch name now m)"
  by (auto simp: gomap_wf_def touch_keys touch_get split: if_splits)

lemma cr_verify_clients:
  "cr_clients (snd (cr_verify sha now w token r)) =
     (case fst (cr_verify sha now w token r) of None \<Rightarrow> cr_clients r
      | Some n \<Rightarrow> touch n now (cr_clients r))"
  by (simp add: cr_verify_def touch_def split: option.split)

lemma cr_verify_wf: "cr_wf r \<Longrightarrow> cr_wf (snd (cr_verify sha now w token r))"
  by (simp add: cr_wf_def cr_verify_clients touch_wf split: option.split)

lemma cr_verify_active [simp]:
  "active_digest (snd (cr_verify sha now w token r)) n d = active_digest r n d"
  by (auto simp: active_digest_def cr_get_def cr_verify_clients touch_get revoked_def
      split: option.splits if_splits)

lemma cr_verify_iff:
  assumes "cr_wf r"
  shows "(\<forall>n. fst (cr_verify sha now w token r) = Some n \<longrightarrow>
            token \<noteq> '''' \<and> active_digest r n (sha token))
       \<and> (fst (cr_verify sha now w token r) = None \<longleftrightarrow>
            token = '''' \<or> (\<forall>n. \<not> active_digest r n (sha token)))"
  using find_active_Some [OF assms] find_active_None [OF assms]
  by (auto simp: cr_verify_def split: option.splits)

lemma cr_add_Inr:
  assumes "cr_add sha now rnd w name r = (Inr tok, r1)"
  obtains raw where "rnd = Inr raw" and "tok = b64_encode url_alphabet False raw"
    and "name \<noteq> ''''" and "cr_get r name = None"
    and "\<And>k. cr_get r1 k = (if k = name
           then Some \<lparr>cl_name = name, cl_token_sha256 = hash_token sha tok, cl_created_at = now,
                      cl_last_seen_at = None, cl_revoked_at = None\<rparr>
           else cr_get r k)"
    and "cr_wf r \<Longrightarrow> cr_wf r1" and "cr_disk r1 = File (cr_sorted r1)"
proof -
  obtain raw where "rnd = Inr raw" "name \<noteq> ''''" "cr_get r name = None" "w = WriteOK"
    and r1: "tok = b64_encode url_alphabet False raw"
      "r1 = snd (cr_save now w (r\<lparr>cr_clients := AList.update name
        \<lparr>cl_name = name, cl_token_sha256 = hash_token sha tok, cl_created_at = now,
         cl_last_seen_at = None, cl_revoked_at = None\<rparr> (cr_clients r)\<rparr>))"
    using assms
    by (auto simp: cr_add_def cr_get_def Let_def cr_save_def
        split: if_splits sum.splits write_outcome.splits)
  then show thesis
    by (intro that [of raw]) (auto simp: cr_get_def cr_wf_def cr_sorted_def)
qed

lemma cr_revoke_None:
  assumes "cr_revoke now w name r = (None, r')"
  obtains c where "cr_get r name = Some c"
    and "\<And>k. cr_get r' k = (if k = name \<and> \<not> revoked c
           then Some (c\<lparr>cl_revoked_at := Some now\<rparr>) else cr_get r k)"
    and "cr_wf r \<Longrightarrow> cr_wf r'" and "\<not> revoked c \<Longrightarrow> cr_disk r' = File (cr_sorted r')"
proof -
  obtain c where c: "cr_get r name = Some c" using assms
    by (auto simp: cr_revoke_def cr_get_def split: option.splits)
  show thesis
  proof (cases "revoked c")
    case True
    then show ?thesis
      using assms c by (intro that [of c]) (auto simp: cr_revoke_def cr_get_def revoked_def)
  next
    case False
    then have "w = WriteOK" and "r' = snd (cr_save now w (r\<lparr>cr_clients :=
          AList.update name (c\<lparr>cl_revoked_at := Some now\<rparr>) (cr_clients r)\<rparr>))"
      using assms c
      by (auto simp: cr_revoke_def cr_get_def revoked_def cr_save_def split: write_outcome.splits)
    then show ?thesis
      using False c areg.lookup_key [of r name c]
      by (intro that [of c]) (auto simp: cr_get_def cr_wf_def cr_sorted_def)
  qed
qed

lemma reload_get:
  assumes "cr_wf r" and "cr_disk r = File (cr_sorted r)"
  obtains q where "new_client_registry p (cr_disk r) = Inr q" and "cr_wf q"
    and "\<And>k. cr_get q k = cr_get r k"
proof -
  let ?q = "\<lparr>cr_path = p, cr_clients = load_list cl_name (cr_sorted r), cr_last_saved = None,
    cr_disk = cr_disk r\<rparr>"
  have "cr_wf ?q" by (simp add: cr_wf_def)
  moreover have "cr_get ?q k = cr_get r k" for k
    using areg.lookup_load [OF assms(1), of k]
    by (simp add: cr_get_def cr_load_def cr_list_def)
  ultimately show thesis
    using assms(2) by (intro that [of ?q]) (simp_all add: new_client_registry_def)
qed

section \<open>Properties\<close>

text \<open>C16. Verification against the client registry is exact: it names a client only when
  that client is registered, not revoked, and its stored digest is the token's; it refuses only
  the empty token and tokens no unrevoked client holds; and what it writes (the last-seen time)
  changes neither who is registered nor the outcome of any later verification.\<close>

theorem client_verification_exact:
  assumes "cr_wf r"
  shows "(\<forall>n. fst (cr_verify sha now w token r) = Some n \<longrightarrow>
            token \<noteq> '''' \<and> active_digest r n (sha token))
       \<and> (fst (cr_verify sha now w token r) = None \<longleftrightarrow>
            token = '''' \<or> (\<forall>n. \<not> active_digest r n (sha token)))
       \<and> cr_wf (snd (cr_verify sha now w token r))
       \<and> (\<forall>n d. active_digest (snd (cr_verify sha now w token r)) n d = active_digest r n d)"
  using cr_verify_iff [OF assms] cr_verify_wf [OF assms] by simp

definition demo_client :: "string \<Rightarrow> string \<Rightarrow> client" where
  "demo_client name digest = \<lparr>cl_name = name, cl_token_sha256 = hex_encode digest, cl_created_at = 1,
     cl_last_seen_at = None, cl_revoked_at = None\<rparr>"

definition demo_clients :: client_registry where
  "demo_clients = \<lparr>cr_path = ''clients.json'',
     cr_clients = [(''a'', demo_client ''a'' ''ta''), (''b'', demo_client ''b'' ''tb'')],
     cr_last_saved = None, cr_disk = NoFile\<rparr>"

lemma demo_clients_wf: "cr_wf demo_clients"
  by (simp add: cr_wf_def gomap_wf_def demo_clients_def demo_client_def)

theorem client_verification_exact_witness:
  "fst (cr_verify (\<lambda>x. x) 5 WriteOK ''tz'' demo_clients) = None
   \<and> (\<exists>n. fst (cr_verify (\<lambda>x. x) 5 WriteOK ''tb'' demo_clients) = Some n
        \<and> active_digest demo_clients n ''tb'')"
proof -
  have b: "active_digest demo_clients ''b'' ''tb''"
    by (simp add: active_digest_def demo_clients_def cr_get_def demo_client_def revoked_def digest_bytes_def)
  have z: "\<not> active_digest demo_clients n ''tz''" for n
    by (auto simp: active_digest_def demo_clients_def cr_get_def demo_client_def digest_bytes_def
        split: if_splits)
  show ?thesis
    using client_verification_exact [OF demo_clients_wf, of "\<lambda>x. x" 5 WriteOK "''tb''"]
      client_verification_exact [OF demo_clients_wf, of "\<lambda>x. x" 5 WriteOK "''tz''"] b z
    by auto
qed

text \<open>The life of a minted token: Add's token verifies as the name it was minted for
  (as long as no other active client has the same digest); once Revoke has reported success it
  no longer verifies, neither in the running registry nor in one loaded from the file; and the
  name stays taken, so a retired client is not resurrected under its old identity.\<close>

theorem minted_token_lifecycle:
  assumes wf: "cr_wf r" and add: "cr_add sha now (Inr raw) w name r = (Inr tok, r1)"
    and raw: "raw \<noteq> []" and fresh: "\<forall>n. \<not> active_digest r n (sha tok)"
  shows "fst (cr_verify sha t1 w1 tok r1) = Some name
       \<and> (\<forall>t2 w2 r2. cr_revoke t2 w2 name r1 = (None, r2) \<longrightarrow>
            fst (cr_verify sha t3 w3 tok r2) = None
            \<and> (\<exists>q. new_client_registry p (cr_disk r2) = Inr q \<and> fst (cr_verify sha t3 w3 tok q) = None)
            \<and> fst (cr_add sha t4 (Inr raw') w4 name r2) = Inl (ClientExists name))"
proof -
  obtain tok: "tok = b64_encode url_alphabet False raw" and nm: "name \<noteq> ''''" and none: "cr_get r name = None"
    and get1: "\<And>k. cr_get r1 k = (if k = name
           then Some \<lparr>cl_name = name, cl_token_sha256 = hash_token sha tok, cl_created_at = now,
                      cl_last_seen_at = None, cl_revoked_at = None\<rparr>
           else cr_get r k)"
    and wf1: "cr_wf r1"
    using cr_add_Inr [OF add] wf by (metis sum.inject(2))
  have tok_ne: "tok \<noteq> ''''"
    unfolding tok using raw by (cases "(url_alphabet, False, raw)" rule: b64_encode.cases) auto
  have act1: "active_digest r1 n (sha tok) \<longleftrightarrow> n = name" for n
    using fresh none by (auto simp: active_digest_def get1 revoked_def)
  have v1: "fst (cr_verify sha t1 w1 tok r1) = Some name"
    using cr_verify_iff [OF wf1, of sha t1 w1 tok] act1 tok_ne
    by (cases "fst (cr_verify sha t1 w1 tok r1)") auto
  moreover have "fst (cr_verify sha t3 w3 tok r2) = None
      \<and> (\<exists>q. new_client_registry p (cr_disk r2) = Inr q \<and> fst (cr_verify sha t3 w3 tok q) = None)
      \<and> fst (cr_add sha t4 (Inr raw') w4 name r2) = Inl (ClientExists name)"
    if rv: "cr_revoke t2 w2 name r1 = (None, r2)" for t2 w2 r2
  proof -
    obtain c where c: "cr_get r1 name = Some c"
      and get2: "\<And>k. cr_get r2 k = (if k = name \<and> \<not> revoked c
           then Some (c\<lparr>cl_revoked_at := Some t2\<rparr>) else cr_get r1 k)"
      and wf2: "cr_wf r2" and disk2: "\<not> revoked c \<Longrightarrow> cr_disk r2 = File (cr_sorted r2)"
      using cr_revoke_None [OF rv] wf1 by metis
    have nrev: "\<not> revoked c" using c get1 [of name] by (auto simp: revoked_def)
    have act2: "\<not> active_digest r2 n (sha tok)" for n
      using act1 [of n] nrev by (auto simp: active_digest_def get2 revoked_def)
    obtain q where q: "new_client_registry p (cr_disk r2) = Inr q" "cr_wf q"
      and getq: "\<And>k. cr_get q k = cr_get r2 k"
      using reload_get [OF wf2 disk2 [OF nrev]] by metis
    have "\<not> active_digest q n (sha tok)" for n
      using act2 [of n] by (simp add: active_digest_def getq)
    then have "fst (cr_verify sha t3 w3 tok q) = None"
      using cr_verify_iff [OF q(2)] by blast
    moreover have "fst (cr_verify sha t3 w3 tok r2) = None"
      using cr_verify_iff [OF wf2] act2 by blast
    moreover have "fst (cr_add sha t4 (Inr raw') w4 name r2) = Inl (ClientExists name)"
      using nm get2 [of name] nrev by (simp add: cr_add_def cr_get_def Let_def)
    ultimately show ?thesis using q(1) by blast
  qed
  ultimately show ?thesis by blast
qed

theorem minted_token_lifecycle_witness:
  "\<exists>tok r1 r2. cr_add (\<lambda>x. x) 5 (Inr ''0123456789abcdef0123456789abcdef'') WriteOK ''cursor'' demo_clients = (Inr tok, r1)
     \<and> fst (cr_verify (\<lambda>x. x) 6 WriteOK tok r1) = Some ''cursor''
     \<and> cr_revoke 7 WriteOK ''cursor'' r1 = (None, r2)
     \<and> fst (cr_verify (\<lambda>x. x) 8 WriteOK tok r2) = None"
proof -
  let ?raw = "''0123456789abcdef0123456789abcdef''"
  obtain tok r1 where add: "cr_add (\<lambda>x. x) 5 (Inr ?raw) WriteOK ''cursor'' demo_clients = (Inr tok, r1)"
    by (simp add: cr_add_def cr_save_def demo_clients_def Let_def)
  obtain tok: "tok = b64_encode url_alphabet False ?raw" and "\<exists>c. cr_get r1 ''cursor'' = Some c \<and> \<not> revoked c"
    by (rule cr_add_Inr [OF add]) (auto simp: revoked_def)
  then obtain r2 where rv: "cr_revoke 7 WriteOK ''cursor'' r1 = (None, r2)"
    by (auto simp: cr_revoke_def cr_get_def cr_save_def revoked_def)
  have "length tok > 2" by (simp add: tok)
  then have "\<forall>n. \<not> active_digest demo_clients n tok"
    by (auto simp: active_digest_def demo_clients_def cr_get_def demo_client_def digest_bytes_def
        split: if_splits)
  then show ?thesis
    using minted_token_lifecycle [OF demo_clients_wf add] add rv by auto
qed

end
