(* ===== verification/Web_Handler.thy ===== *)
theory Web_Handler
  imports Registry_Ops Script Whitelist Audit_Log Auth
begin

text \<open>
  web/handler.go: the approval interface. \<open>handler\<close> is the struct Handler together with the
  state behind its pointers (store, audit log, whitelist, registries, scripts directory) and the
  outside calls made so far. A handler function returns the HTTP reply, the requests it starts
  executing in the background, and the new state. \<open>clk\<close> gives the successive readings of
  the clock in one call; a decoded JSON body is an argument. Log lines, the HTML template and
  response headers other than those listed are not modelled.
\<close>

section \<open>State\<close>

text \<open>An SSE frame: the optional part is there when the id names a stored request.\<close>

record frame =
  fr_type :: string
  fr_request_id :: string
  fr_info :: "(status \<times> string \<times> bool) option"

record cooldown =
  cd_last_approval :: "int option"
  cd_approval_cooldown :: int
  cd_turbo_cooldown :: int
  cd_turbo_expiry :: "int option"

record handler =
  h_store :: store
  h_audit :: audit
  h_sse :: "(nat \<times> frame list) list"
  h_cooldown :: cooldown
  h_whitelist :: "whitelist option"
  h_scripts_dir :: string
  h_registries :: registries
  h_approver_required :: bool
  h_fs :: fs
  h_calls :: "(string \<times> call) list"

definition default_approval_cooldown :: int where
  "default_approval_cooldown = 30 * second"

text \<open>NewHandler before its options are applied, and the options.\<close>

definition new_handler :: "store \<Rightarrow> audit \<Rightarrow> fs \<Rightarrow> handler" where
  "new_handler s al fs =
     \<lparr>h_store = s, h_audit = al, h_sse = [],
      h_cooldown = \<lparr>cd_last_approval = None, cd_approval_cooldown = default_approval_cooldown,
        cd_turbo_cooldown = 0, cd_turbo_expiry = None\<rparr>,
      h_whitelist = None, h_scripts_dir = ''/scripts'',
      h_registries = \<lparr>rg_containers = None, rg_machines = None\<rparr>,
      h_approver_required = False, h_fs = fs, h_calls = []\<rparr>"

definition with_cooldown :: "int \<Rightarrow> handler \<Rightarrow> handler" where
  "with_cooldown d h = h\<lparr>h_cooldown := (h_cooldown h)\<lparr>cd_approval_cooldown := d\<rparr>\<rparr>"

definition with_whitelist :: "whitelist \<Rightarrow> handler \<Rightarrow> handler" where
  "with_whitelist w h = h\<lparr>h_whitelist := Some w\<rparr>"

definition with_scripts_dir :: "string \<Rightarrow> handler \<Rightarrow> handler" where
  "with_scripts_dir d h = h\<lparr>h_scripts_dir := d\<rparr>"

definition with_registries :: "container_store option \<Rightarrow> machine_store option \<Rightarrow> handler \<Rightarrow> handler" where
  "with_registries cs ms h = h\<lparr>h_registries := \<lparr>rg_containers = cs, rg_machines = ms\<rparr>\<rparr>"

definition with_approver_required :: "bool \<Rightarrow> handler \<Rightarrow> handler" where
  "with_approver_required b h = h\<lparr>h_approver_required := b\<rparr>"

text \<open>What everything outside answers during one call.\<close>

record world =
  w_lib :: golib
  w_decode :: "string \<Rightarrow> string + pipeline"
  w_os :: os_env
  w_cfg :: exec_config
  w_mkdir :: fs_outcome
  w_write :: fs_outcome
  w_io :: registry_io
  w_whitelist :: "stored_rule list write_outcome"

type_synonym clock = "nat \<Rightarrow> int"

datatype reply_body = ErrorText string | JsonBody jval | RawBytes string
  | RequestList "request list" | RuleList "rule list" | Page

record reply =
  rp_code :: int
  rp_headers :: "(string \<times> string) list"
  rp_body :: reply_body

definition http_error :: "string \<Rightarrow> int \<Rightarrow> reply" where
  "http_error msg code = \<lparr>rp_code = code, rp_headers = [], rp_body = ErrorText msg\<rparr>"

definition not_found :: reply where
  "not_found = http_error ''404 page not found'' 404"

definition method_not_allowed :: reply where
  "method_not_allowed = http_error ''method not allowed'' 405"

definition json_reply :: "jval \<Rightarrow> reply" where
  "json_reply v = \<lparr>rp_code = 200, rp_headers = [], rp_body = JsonBody v\<rparr>"

definition status_reply :: "string \<Rightarrow> reply" where
  "status_reply s = json_reply (JObj [(''status'', JStr s)])"

section \<open>Authority\<close>

definition approved_by_approver :: string where "approved_by_approver = ''approver''"
definition approved_by_legacy_token :: string where "approved_by_legacy_token = ''legacy-shared-token''"

definition forbidden_not_approver :: string where
  "forbidden_not_approver = ''forbidden: this token cannot approve. Approving, denying, releasing output, whitelisting and turbocharge need the relay's approver token (MHR_APPROVER_TOKEN); agent tokens can only submit and read requests.''"

definition authorize_decision :: "auth_ctx \<Rightarrow> handler \<Rightarrow> reply + string" where
  "authorize_decision ctx h =
     (if \<not> h_approver_required h then Inr approved_by_legacy_token
      else if \<not> is_approver ctx then Inl (http_error forbidden_not_approver 403)
      else Inr approved_by_approver)"

definition decision_fields :: "auth_ctx \<Rightarrow> string \<Rightarrow> (string \<times> jval) list \<Rightarrow> (string \<times> jval) list" where
  "decision_fields ctx approvedBy fs =
     fs @ [(''approved_by'', JStr approvedBy), (''approver_client'', JStr (ctx_client_from ctx))]"

definition log_event :: "int \<Rightarrow> string \<Rightarrow> string \<Rightarrow> (string \<times> jval) list \<Rightarrow> handler \<Rightarrow> handler" where
  "log_event now ev rid fs h = h\<lparr>h_audit := audit_log now ev rid fs (h_audit h)\<rparr>"

section \<open>Events\<close>

definition event_frame :: "string \<Rightarrow> string \<Rightarrow> store \<Rightarrow> frame" where
  "event_frame typ rid s =
     \<lparr>fr_type = typ, fr_request_id = rid,
      fr_info = (case store_get s rid of None \<Rightarrow> None
                 | Some r \<Rightarrow> Some (r_status r, r_client r, r_output_gated r))\<rparr>"

definition broadcast_event :: "string \<Rightarrow> string \<Rightarrow> handler \<Rightarrow> handler" where
  "broadcast_event typ rid h =
     h\<lparr>h_sse := map (\<lambda>(c, q). (c, chan_send 50 (event_frame typ rid (h_store h)) q)) (h_sse h)\<rparr>"

definition sse_connect :: "nat \<Rightarrow> handler \<Rightarrow> handler" where
  "sse_connect c h = h\<lparr>h_sse := AList.update c [] (h_sse h)\<rparr>"

definition sse_receive :: "nat \<Rightarrow> handler \<Rightarrow> frame option \<times> handler" where
  "sse_receive c h =
     (case map_of (h_sse h) c of
        Some (f # q) \<Rightarrow> (Some f, h\<lparr>h_sse := AList.update c q (h_sse h)\<rparr>)
      | _ \<Rightarrow> (None, h))"

definition sse_disconnect :: "nat \<Rightarrow> handler \<Rightarrow> handler" where
  "sse_disconnect c h = h\<lparr>h_sse := AList.delete c (h_sse h)\<rparr>"

section \<open>The cooldown\<close>

definition turbo_active :: "int \<Rightarrow> cooldown \<Rightarrow> bool" where
  "turbo_active now cd = (case cd_turbo_expiry cd of None \<Rightarrow> False | Some e \<Rightarrow> now < e)"

definition active_cooldown :: "int \<Rightarrow> cooldown \<Rightarrow> int" where
  "active_cooldown now cd =
     (if turbo_active now cd then cd_turbo_cooldown cd else cd_approval_cooldown cd)"

text \<open>The critical section of an approval: either the time that remains, or the cooldown
  restarted. The three readings of the clock are those of activeCooldown, Since and Now.\<close>

definition start_cooldown :: "clock \<Rightarrow> cooldown \<Rightarrow> int + cooldown" where
  "start_cooldown clk cd =
     (let c = active_cooldown (clk 0) cd; elapsed = since_opt (clk 1) (cd_last_approval cd) in
      if elapsed < c then Inl (wrap64 (c - elapsed))
      else Inr (cd\<lparr>cd_last_approval := Some (clk 2)\<rparr>))"

definition cooldown_reply :: "int \<Rightarrow> reply" where
  "cooldown_reply remaining =
     \<lparr>rp_code = 429, rp_headers = [(''Retry-After'', itoa (quot remaining second + 1))],
      rp_body = JsonBody (JObj [(''error'', JStr ''cooldown active''),
                                (''remaining_ms'', JInt (quot remaining millisecond))])\<rparr>"

section \<open>Executing a request\<close>

definition run_request :: "world \<Rightarrow> int \<Rightarrow> request \<Rightarrow> handler \<Rightarrow> (result \<times> call list) \<times> handler" where
  "run_request w now req h =
     (let typ = r_type req in
      if typ = ''http'' then (execute_http (w_os w) (w_cfg w) req, h)
      else if typ = ''script'' then
        (execute_script_in (w_lib w) (w_decode w) (w_os w) (w_cfg w) (h_fs h) req (h_scripts_dir h), h)
      else if typ = ''script_create'' then
        (case execute_script_create (w_lib w) (w_mkdir w) (w_write w) (h_fs h) req (h_scripts_dir h) of
           (res, fs') \<Rightarrow> ((res, []), h\<lparr>h_fs := fs'\<rparr>))
      else if typ = ''script_create_then_run'' then
        (case execute_script_create_then_run (w_lib w) (w_decode w) (w_os w) (w_cfg w) (w_mkdir w)
                (w_write w) (h_fs h) req (h_scripts_dir h) of
           (rc, fs') \<Rightarrow> (rc, h\<lparr>h_fs := fs'\<rparr>))
      else if typ = ''registry_op'' then
        (case execute_registry_op (w_lib w) now (w_io w) req (h_registries h) of
           (res, rg') \<Rightarrow> ((res, []), h\<lparr>h_registries := rg'\<rparr>))
      else (execute (w_lib w) (w_os w) (w_cfg w) req, h))"

text \<open>The three parts of executeRequest: marking it running, running it, recording the
  result. Other requests are served in between.\<close>

definition execute_begin :: "clock \<Rightarrow> request \<Rightarrow> handler \<Rightarrow> handler" where
  "execute_begin clk req h =
     (let h1 = h\<lparr>h_store := snd (set_status (clk 0) (r_id req) StatusRunning (h_store h))\<rparr>;
          h2 = log_event (clk 1) ''execution_started'' (r_id req) [] h1
      in broadcast_event ''update'' (r_id req) h2)"

definition execute_body :: "world \<Rightarrow> int \<Rightarrow> request \<Rightarrow> handler \<Rightarrow> result \<times> handler" where
  "execute_body w now req h =
     (case run_request w now req h of
        ((res, calls), h') \<Rightarrow>
          (res, h'\<lparr>h_calls := h_calls h' @ map (Pair (r_id req)) calls\<rparr>))"

definition execute_end :: "clock \<Rightarrow> request \<Rightarrow> result \<Rightarrow> handler \<Rightarrow> handler" where
  "execute_end clk req res h =
     (let st = (if res_exit_code res \<noteq> 0 then StatusError else StatusComplete) in
      case set_result (r_id req) (Some res) st (h_store h) of
        ((ok, releasedEmpty), s') \<Rightarrow>
          let h1 = log_event (clk 0) ''execution_completed'' (r_id req)
                     [(''exit_code'', JInt (res_exit_code res)), (''status'', JStr (status_str st)),
                      (''stdout'', JStr (audit_truncate (res_stdout res))),
                      (''stderr'', JStr (audit_truncate (res_stderr res)))]
                     (h\<lparr>h_store := s'\<rparr>);
              h2 = (if releasedEmpty
                    then log_event (clk 1) ''output_auto_released_empty'' (r_id req) [] h1 else h1)
          in broadcast_event ''update'' (r_id req) h2)"

definition execute_request :: "world \<Rightarrow> clock \<Rightarrow> request \<Rightarrow> handler \<Rightarrow> handler" where
  "execute_request w clk req h =
     (case execute_body w (clk 2) req (execute_begin clk req h) of
        (res, h') \<Rightarrow> execute_end (\<lambda>n. clk (n + 3)) req res h')"

section \<open>Decisions on a request\<close>

definition approval_fields :: "request \<Rightarrow> (string \<times> jval) list" where
  "approval_fields req =
     (let typ = r_type req in
      if typ = ''http'' then
        [(''type'', JStr ''http''), (''method'', JStr (r_http_method req)), (''url'', JStr (r_http_url req))]
      else if typ = ''script'' \<or> typ = ''script_create'' \<or> typ = ''script_create_then_run'' then
        [(''type'', JStr typ), (''script'', JStr (r_script_name req))]
      else if typ = ''registry_op'' then
        [(''type'', JStr ''registry_op''), (''registry_op'', JStr (r_registry_op req)),
         (''registry_args'', jmap (r_registry_args req))]
      else [(''command'', JStr (r_command req)), (''args'', jslice (r_args req))])"

definition conflict :: "string \<Rightarrow> reply" where
  "conflict s = http_error (''request is already '' @ s) 409"

text \<open>The two atomic parts of an approval after its cooldown: the store's Approve, then the
  audit entry, the event and the start of the execution. A failed Approve reads the status
  again for its answer.\<close>

definition approve_commit :: "int \<Rightarrow> string \<Rightarrow> bool \<Rightarrow> handler \<Rightarrow> request option \<times> handler" where
  "approve_commit now rid gate h =
     (case approve now rid gate (h_store h) of (r, s') \<Rightarrow> (r, h\<lparr>h_store := s'\<rparr>))"

definition lost_race_reply :: "string \<Rightarrow> handler \<Rightarrow> reply" where
  "lost_race_reply rid h =
     conflict (case store_get (h_store h) rid of None \<Rightarrow> ''decided'' | Some r \<Rightarrow> status_str (r_status r))"

definition approve_finish :: "int \<Rightarrow> auth_ctx \<Rightarrow> string \<Rightarrow> string \<Rightarrow> request \<Rightarrow> handler \<Rightarrow> handler" where
  "approve_finish now ctx approvedBy rid req h =
     broadcast_event ''update'' rid
       (log_event now ''request_approved'' rid
          (decision_fields ctx approvedBy (approval_fields req)) h)"

definition deny_request :: "clock \<Rightarrow> auth_ctx \<Rightarrow> string \<Rightarrow> string \<Rightarrow> string \<Rightarrow> request \<Rightarrow> handler \<Rightarrow> handler" where
  "deny_request clk ctx approvedBy bodyReason rid req h =
     (let reason = (if bodyReason = '''' then ''denied by operator'' else bodyReason);
          h1 = h\<lparr>h_store := snd (deny (clk 0) rid reason (h_store h))\<rparr>;
          h2 = log_event (clk 1) ''request_denied'' rid
                 (decision_fields ctx approvedBy
                    [(''command'', JStr (r_command req)), (''args'', jslice (r_args req)),
                     (''deny_reason'', JStr reason)]) h1
      in broadcast_event ''update'' rid h2)"

definition release_request :: "int \<Rightarrow> auth_ctx \<Rightarrow> string \<Rightarrow> string \<Rightarrow> handler \<Rightarrow> handler" where
  "release_request now ctx approvedBy rid h =
     broadcast_event ''update'' rid
       (log_event now ''output_released'' rid (decision_fields ctx approvedBy [])
          (h\<lparr>h_store := snd (release_output rid (h_store h))\<rparr>))"

definition request_content :: "string \<Rightarrow> string \<Rightarrow> handler \<Rightarrow> reply" where
  "request_content meth rid h =
     (if meth \<noteq> ''GET'' then method_not_allowed
      else case store_get (h_store h) rid of
             None \<Rightarrow> http_error ''request not found'' 404
           | Some r \<Rightarrow> \<lparr>rp_code = 200,
               rp_headers = [(''Content-Type'', ''text/plain; charset=utf-8''),
                             (''X-Content-Type-Options'', ''nosniff''),
                             (''X-Stdin-SHA256'', r_stdin_sha256 r)],
               rp_body = RawBytes (r_stdin r)\<rparr>)"

text \<open>Everything before the first write: the reply of a refused call, or who decides, on
  which request, and how.\<close>

datatype action = Content string | Release string string | Approve string bool string request
  | Deny string string request

definition parse_action :: "auth_ctx \<Rightarrow> string \<Rightarrow> string \<Rightarrow> handler \<Rightarrow> reply + action" where
  "parse_action ctx meth path h =
     (case split_on CHR ''/'' (trim_prefix path ''/api/requests/'') of
        [rid, act] \<Rightarrow>
          if act = ''content'' then Inr (Content rid)
          else if meth \<noteq> ''POST'' then Inl method_not_allowed
          else (case authorize_decision ctx h of
                  Inl e \<Rightarrow> Inl e
                | Inr approvedBy \<Rightarrow>
                    (case store_get (h_store h) rid of
                       None \<Rightarrow> Inl (http_error ''request not found'' 404)
                     | Some req \<Rightarrow>
                         if act = ''release'' then
                           (if \<not> r_output_gated req then Inl (http_error ''output is not gated'' 409)
                            else Inr (Release rid approvedBy))
                         else if r_status req \<noteq> StatusPending then Inl (conflict (status_str (r_status req)))
                         else if act = ''approve'' \<or> act = ''approve-gated''
                           then Inr (Approve rid (act = ''approve-gated'') approvedBy req)
                         else if act = ''deny'' then Inr (Deny rid approvedBy req)
                         else Inl not_found))
      | _ \<Rightarrow> Inl not_found)"

text \<open>The whole handler, when nothing else runs in between. The second component of the
  result is the request whose execution it starts.\<close>

definition handle_request_action :: "clock \<Rightarrow> auth_ctx \<Rightarrow> string \<Rightarrow> string \<Rightarrow> string \<Rightarrow> handler
    \<Rightarrow> (reply \<times> request option) \<times> handler" where
  "handle_request_action clk ctx meth path denyReason h =
     (case parse_action ctx meth path h of
        Inl rep \<Rightarrow> ((rep, None), h)
      | Inr (Content rid) \<Rightarrow> ((request_content meth rid h, None), h)
      | Inr (Release rid by) \<Rightarrow> ((status_reply ''released'', None), release_request (clk 0) ctx by rid h)
      | Inr (Approve rid gate by req0) \<Rightarrow>
          (case start_cooldown clk (h_cooldown h) of
             Inl remaining \<Rightarrow> ((cooldown_reply remaining, None), h)
           | Inr cd \<Rightarrow>
               (case approve_commit (clk 3) rid gate (h\<lparr>h_cooldown := cd\<rparr>) of
                  (None, h2) \<Rightarrow> ((lost_race_reply rid h2, None), h2)
                | (Some req, h2) \<Rightarrow>
                    ((status_reply ''approved'', Some req), approve_finish (clk 4) ctx by rid req h2)))
      | Inr (Deny rid by req) \<Rightarrow>
          ((status_reply ''denied'', None), deny_request clk ctx by denyReason rid req h))"

section \<open>The whitelist path\<close>

definition whitelist_key :: "(string \<Rightarrow> string) \<Rightarrow> request \<Rightarrow> string \<times> string list" where
  "whitelist_key sha req =
     (let typ = r_type req in
      if typ = ''http'' then (r_http_method req, [r_http_url req])
      else if typ = ''script'' then (''run_script'', [r_script_name req])
      else if typ = ''script_create'' then
        (''create_script'', [r_script_name req, stdin_digest sha (r_stdin req)])
      else if typ = ''script_create_then_run'' then
        (''create_then_run'', [r_script_name req, stdin_digest sha (r_stdin req)])
      else (r_command req, r_args req))"

definition auto_approve_finish :: "int \<Rightarrow> request \<Rightarrow> handler \<Rightarrow> handler" where
  "auto_approve_finish now req h =
     broadcast_event ''update'' (r_id req)
       (log_event now ''request_auto_approved'' (r_id req)
          [(''command'', JStr (r_command req)), (''args'', jslice (r_args req))] h)"

text \<open>One turn of watchRequests up to its decision: the id taken from the channel, the
  event, and the request to auto-approve if its key is whitelisted and it was pending.\<close>

definition watch_take :: "(string \<Rightarrow> string) \<Rightarrow> handler \<Rightarrow> request option \<times> handler" where
  "watch_take sha h =
     (case st_notify (h_store h) of
        [] \<Rightarrow> (None, h)
      | rid # q \<Rightarrow>
          let h1 = broadcast_event ''new'' rid (h\<lparr>h_store := (h_store h)\<lparr>st_notify := q\<rparr>\<rparr>) in
          (case h_whitelist h1 of
             None \<Rightarrow> (None, h1)
           | Some wl \<Rightarrow>
               (case store_get (h_store h1) rid of
                  None \<Rightarrow> (None, h1)
                | Some req \<Rightarrow>
                    (case whitelist_key sha req of
                       (c, as) \<Rightarrow>
                         if whitelist_match wl c as \<and> r_status req = StatusPending
                         then (Some req, h1) else (None, h1)))))"

definition auto_approve :: "clock \<Rightarrow> request \<Rightarrow> handler \<Rightarrow> request option \<times> handler" where
  "auto_approve clk req h =
     (case approve_commit (clk 0) (r_id req) False h of
        (None, h1) \<Rightarrow> (None, h1)
      | (Some r, h1) \<Rightarrow> (Some r, auto_approve_finish (clk 1) r h1))"

definition watch_requests_turn :: "(string \<Rightarrow> string) \<Rightarrow> clock \<Rightarrow> handler \<Rightarrow> request option \<times> handler" where
  "watch_requests_turn sha clk h =
     (case watch_take sha h of
        (None, h1) \<Rightarrow> (None, h1)
      | (Some req, h1) \<Rightarrow> auto_approve clk req h1)"

definition watch_updates_turn :: "handler \<Rightarrow> handler" where
  "watch_updates_turn h =
     (case st_updates (h_store h) of
        [] \<Rightarrow> h
      | rid # q \<Rightarrow> broadcast_event ''update'' rid (h\<lparr>h_store := (h_store h)\<lparr>st_updates := q\<rparr>\<rparr>))"

section \<open>Turbocharge\<close>

definition turbo_status :: "clock \<Rightarrow> cooldown \<Rightarrow> reply" where
  "turbo_status clk cd =
     (let active = turbo_active (clk 0) cd;
          remaining = (if active then sat64 (the (cd_turbo_expiry cd) - clk 1) else 0)
      in json_reply (JObj [(''active'', JBool active), (''remaining_ms'', JInt (quot remaining millisecond)),
                           (''cooldown_seconds'', JInt (quot (cd_turbo_cooldown cd) second))]))"

text \<open>The clamps on the decoded body; \<open>time.Duration(n) * time.Second\<close> wraps.\<close>

definition clamp_minutes :: "int \<Rightarrow> int" where
  "clamp_minutes n = (let m = (if n \<le> 0 then 5 else n) in if m > 30 then 30 else m)"

definition clamp_cooldown :: "int \<Rightarrow> int" where
  "clamp_cooldown n = (if n \<le> 0 then 3 else n)"

definition turbo_on :: "int \<Rightarrow> int \<Rightarrow> int \<Rightarrow> cooldown \<Rightarrow> cooldown" where
  "turbo_on now dm cs cd =
     cd\<lparr>cd_turbo_cooldown := wrap64 (cs * second), cd_turbo_expiry := Some (now + wrap64 (dm * minute))\<rparr>"

definition handle_turbocharge :: "clock \<Rightarrow> auth_ctx \<Rightarrow> string \<Rightarrow> int \<Rightarrow> int \<Rightarrow> handler
    \<Rightarrow> reply \<times> handler" where
  "handle_turbocharge clk ctx meth durationMinutes cooldownSeconds h =
     (if meth = ''GET'' then (turbo_status clk (h_cooldown h), h)
      else if meth = ''POST'' then
        (case authorize_decision ctx h of
           Inl e \<Rightarrow> (e, h)
         | Inr by \<Rightarrow>
             let dm = clamp_minutes durationMinutes; cs = clamp_cooldown cooldownSeconds;
                 h1 = h\<lparr>h_cooldown := turbo_on (clk 0) dm cs (h_cooldown h)\<rparr>;
                 h2 = log_event (clk 1) ''turbocharge_on'' ''''
                        (decision_fields ctx by [(''cooldown_seconds'', JInt cs), (''duration_minutes'', JInt dm)]) h1
             in (json_reply (JObj [(''active'', JBool True),
                                   (''remaining_ms'', JInt (quot (wrap64 (dm * minute)) millisecond)),
                                   (''cooldown_seconds'', JInt cs)]),
                 broadcast_event ''turbo'' ''on'' h2))
      else if meth = ''DELETE'' then
        (case authorize_decision ctx h of
           Inl e \<Rightarrow> (e, h)
         | Inr by \<Rightarrow>
             let h1 = h\<lparr>h_cooldown := (h_cooldown h)\<lparr>cd_turbo_expiry := None\<rparr>\<rparr>;
                 h2 = log_event (clk 0) ''turbocharge_off'' '''' (decision_fields ctx by []) h1
             in (status_reply ''deactivated'', broadcast_event ''turbo'' ''off'' h2))
      else (method_not_allowed, h))"

section \<open>The whitelist routes\<close>

record whitelist_body =
  wb_request_id :: string
  wb_command :: string
  wb_args :: "string list"
  wb_gate_output :: bool

definition gate_output_removed :: string where
  "gate_output_removed = ''gate_output was removed: a whitelist rule can no longer withhold output; leave the request unwhitelisted and use Approve (Gated)''"

text \<open>An error of Save is only logged.\<close>

definition put_whitelist :: "world \<Rightarrow> whitelist \<Rightarrow> handler \<Rightarrow> handler" where
  "put_whitelist w wl h = h\<lparr>h_whitelist := Some (snd (whitelist_save (w_whitelist w) wl))\<rparr>"

definition handle_whitelist :: "world \<Rightarrow> clock \<Rightarrow> auth_ctx \<Rightarrow> string \<Rightarrow> whitelist_body option \<Rightarrow> handler
    \<Rightarrow> reply \<times> handler" where
  "handle_whitelist w clk ctx meth body h =
     (case h_whitelist h of
        None \<Rightarrow> (json_reply (JArr []), h)
      | Some wl \<Rightarrow>
          if meth = ''GET'' then
            (\<lparr>rp_code = 200, rp_headers = [], rp_body = RuleList (whitelist_rules wl)\<rparr>, h)
          else if meth = ''POST'' then
            (case authorize_decision ctx h of
               Inl e \<Rightarrow> (e, h)
             | Inr by \<Rightarrow>
                 (case body of
                    None \<Rightarrow> (http_error ''invalid request body'' 400, h)
                  | Some b \<Rightarrow>
                      if wb_gate_output b then (http_error gate_output_removed 400, h)
                      else
                        (case (if wb_request_id b \<noteq> ''''
                               then map_option (whitelist_key (lib_sha256 (w_lib w)))
                                      (store_get (h_store h) (wb_request_id b))
                               else Some (wb_command b, wb_args b)) of
                           None \<Rightarrow> (http_error ''request not found'' 404, h)
                         | Some (command, as) \<Rightarrow>
                             if command = '''' then (http_error ''command is required'' 400, h)
                             else (status_reply ''added'',
                                   log_event (clk 0) ''whitelist_add'' (wb_request_id b)
                                     (decision_fields ctx by [(''command'', JStr command), (''args'', jstrs as)])
                                     (put_whitelist w (whitelist_add command as wl) h)))))
          else (method_not_allowed, h))"

definition handle_whitelist_remove :: "world \<Rightarrow> clock \<Rightarrow> auth_ctx \<Rightarrow> string
    \<Rightarrow> (string \<times> string list) option \<Rightarrow> handler \<Rightarrow> reply \<times> handler" where
  "handle_whitelist_remove w clk ctx meth body h =
     (if meth \<noteq> ''POST'' then (method_not_allowed, h)
      else case h_whitelist h of
        None \<Rightarrow> (http_error ''whitelist not configured'' 404, h)
      | Some wl \<Rightarrow>
          (case authorize_decision ctx h of
             Inl e \<Rightarrow> (e, h)
           | Inr by \<Rightarrow>
               (case body of
                  None \<Rightarrow> (http_error ''command is required'' 400, h)
                | Some (command, as) \<Rightarrow>
                    if command = '''' then (http_error ''command is required'' 400, h)
                    else (case whitelist_remove command as wl of
                            (False, _) \<Rightarrow> (http_error ''rule not found'' 404, h)
                          | (True, wl') \<Rightarrow>
                              (status_reply ''removed'',
                               log_event (clk 0) ''whitelist_remove'' ''''
                                 (decision_fields ctx by [(''command'', JStr command), (''args'', jstrs as)])
                                 (put_whitelist w wl' h))))))"

section \<open>The request list\<close>

definition sort_less :: "string \<Rightarrow> request \<Rightarrow> request \<Rightarrow> bool" where
  "sort_less filt a b =
     (let newestFirst = (filt = ''complete'' \<or> filt = ''denied'' \<or> filt = ''error'') in
      if filt = '''' then
        (let aPending = (r_status a = StatusPending); bPending = (r_status b = StatusPending) in
         if aPending \<noteq> bPending then aPending
         else if aPending then r_created_at a < r_created_at b
         else r_created_at b < r_created_at a)
      else if newestFirst then r_created_at b < r_created_at a
      else r_created_at a < r_created_at b)"

definition sort_requests :: "string \<Rightarrow> request list \<Rightarrow> request list" where
  "sort_requests filt rs = sort_stable (sort_less filt) rs"

definition list_headers :: "clock \<Rightarrow> cooldown \<Rightarrow> (string \<times> string) list" where
  "list_headers clk cd =
     (let c = active_cooldown (clk 0) cd;
          rem0 = wrap64 (c - since_opt (clk 1) (cd_last_approval cd));
          remaining = (if rem0 < 0 then 0 else rem0);
          turbo = turbo_active (clk 2) cd
      in [(''X-Cooldown-Remaining-Ms'', itoa (quot remaining millisecond)),
          (''X-Cooldown-Duration-Ms'', itoa (quot c millisecond))]
         @ (if turbo then [(''X-Turbo-Active'', ''true''),
              (''X-Turbo-Remaining-Ms'',
               itoa (quot (sat64 (the (cd_turbo_expiry cd) - clk 3)) millisecond))] else []))"

definition handle_list_requests :: "clock \<Rightarrow> auth_ctx \<Rightarrow> string \<Rightarrow> string \<Rightarrow> handler \<Rightarrow> reply" where
  "handle_list_requests clk ctx meth filt h =
     (if meth \<noteq> ''GET'' then method_not_allowed
      else let rs = sort_requests filt (list_requests filt (h_store h));
               shown = (if h_approver_required h \<and> \<not> is_approver ctx
                        then map redact_gated_output rs else rs)
           in \<lparr>rp_code = 200, rp_headers = list_headers clk (h_cooldown h), rp_body = RequestList shown\<rparr>)"

definition handle_dashboard :: "string \<Rightarrow> reply" where
  "handle_dashboard path =
     (if path \<noteq> ''/'' then not_found else \<lparr>rp_code = 200, rp_headers = [], rp_body = Page\<rparr>)"

end
