(* ===== verification/Web_Safety.thy ===== *)
theory Web_Safety
  imports Web_Handler "HOL-Library.Multiset"
begin

text \<open>
  The approval interface taken one call at a time: who may change what, what an approval,
  a denial and an execution do to the state, what the list shows, the cooldown and the whitelist.
  Interleavings of calls are the subject of Relay_System.
\<close>

section \<open>Frames\<close>

lemma log_event_fields [simp]:
  "h_store (log_event t ev rid fs h) = h_store h" "h_cooldown (log_event t ev rid fs h) = h_cooldown h"
  "h_whitelist (log_event t ev rid fs h) = h_whitelist h" "h_sse (log_event t ev rid fs h) = h_sse h"
  "h_registries (log_event t ev rid fs h) = h_registries h" "h_fs (log_event t ev rid fs h) = h_fs h"
  "h_calls (log_event t ev rid fs h) = h_calls h" "h_scripts_dir (log_event t ev rid fs h) = h_scripts_dir h"
  "h_approver_required (log_event t ev rid fs h) = h_approver_required h"
  "h_audit (log_event t ev rid fs h)
     = h_audit h @ [\<lparr>ev_timestamp = t, ev_event = ev, ev_request_id = rid, ev_fields = fs\<rparr>]"
  by (simp_all add: log_event_def audit_log_def)

lemma broadcast_fields [simp]:
  "h_store (broadcast_event ty rid h) = h_store h" "h_cooldown (broadcast_event ty rid h) = h_cooldown h"
  "h_whitelist (broadcast_event ty rid h) = h_whitelist h" "h_audit (broadcast_event ty rid h) = h_audit h"
  "h_registries (broadcast_event ty rid h) = h_registries h" "h_fs (broadcast_event ty rid h) = h_fs h"
  "h_calls (broadcast_event ty rid h) = h_calls h" "h_scripts_dir (broadcast_event ty rid h) = h_scripts_dir h"
  "h_approver_required (broadcast_event ty rid h) = h_approver_required h"
  by (simp_all add: broadcast_event_def)

lemma run_request_fields [simp]:
  "h_store (snd (run_request w t req h)) = h_store h"
  "h_audit (snd (run_request w t req h)) = h_audit h"
  "h_whitelist (snd (run_request w t req h)) = h_whitelist h"
  "h_cooldown (snd (run_request w t req h)) = h_cooldown h"
  "h_approver_required (snd (run_request w t req h)) = h_approver_required h"
  "h_calls (snd (run_request w t req h)) = h_calls h"
  by (simp_all add: run_request_def Let_def split: prod.split)

lemma execute_body_fields [simp]:
  "h_store (snd (execute_body w t req h)) = h_store h"
  "h_audit (snd (execute_body w t req h)) = h_audit h"
  "h_whitelist (snd (execute_body w t req h)) = h_whitelist h"
  "h_cooldown (snd (execute_body w t req h)) = h_cooldown h"
  "h_approver_required (snd (execute_body w t req h)) = h_approver_required h"
  using run_request_fields [of w t req h]
  by (simp_all add: execute_body_def case_prod_beta)

lemma execute_body_calls:
  "h_calls (snd (execute_body w t req h))
     = h_calls h @ map (Pair (r_id req)) (snd (fst (run_request w t req h)))"
  "fst (execute_body w t req h) = fst (fst (run_request w t req h))"
  by (simp_all add: execute_body_def case_prod_beta)

lemma execute_begin_fields [simp]:
  "h_store (execute_begin clk req h) = snd (set_status (clk 0) (r_id req) StatusRunning (h_store h))"
  "h_whitelist (execute_begin clk req h) = h_whitelist h"
  "h_cooldown (execute_begin clk req h) = h_cooldown h"
  "h_approver_required (execute_begin clk req h) = h_approver_required h"
  "h_calls (execute_begin clk req h) = h_calls h"
  "h_fs (execute_begin clk req h) = h_fs h" "h_registries (execute_begin clk req h) = h_registries h"
  "h_scripts_dir (execute_begin clk req h) = h_scripts_dir h"
  "h_audit (execute_begin clk req h) = h_audit h @
     [\<lparr>ev_timestamp = clk 1, ev_event = ''execution_started'', ev_request_id = r_id req, ev_fields = []\<rparr>]"
  by (simp_all add: execute_begin_def Let_def)

definition final_status :: "result \<Rightarrow> status" where
  "final_status res = (if res_exit_code res \<noteq> 0 then StatusError else StatusComplete)"

lemma execute_end_fields [simp]:
  "h_store (execute_end clk req res h)
     = snd (set_result (r_id req) (Some res) (final_status res) (h_store h))"
  "h_whitelist (execute_end clk req res h) = h_whitelist h"
  "h_cooldown (execute_end clk req res h) = h_cooldown h"
  "h_approver_required (execute_end clk req res h) = h_approver_required h"
  "h_calls (execute_end clk req res h) = h_calls h"
  by (auto simp: execute_end_def final_status_def Let_def split: prod.split)

lemma execute_end_audit: "\<exists>es. h_audit (execute_end clk req res h) = h_audit h @ es"
  by (auto simp: execute_end_def Let_def split: prod.split)

lemma gated_already: "r_output_gated r = b \<Longrightarrow> r\<lparr>r_output_gated := b\<rparr> = r"
  by (cases r) simp

section \<open>Sorting\<close>

lemma sort_less_trans: "\<not> sort_less f b a \<Longrightarrow> \<not> sort_less f c b \<Longrightarrow> \<not> sort_less f c a"
  by (cases "f = ''''"; cases "f = ''complete'' \<or> f = ''denied'' \<or> f = ''error''")
    (simp_all add: sort_less_def Let_def split: if_splits)

lemma sort_less_asym: "sort_less f a b \<Longrightarrow> \<not> sort_less f b a"
  by (auto simp: sort_less_def Let_def split: if_splits)

lemma mset_insert_stable: "mset (insert_stable lt x xs) = add_mset x (mset xs)"
  by (induction xs) auto

lemma mset_sort_stable: "mset (sort_stable lt xs) = mset xs"
  by (induction xs) (simp_all add: mset_insert_stable)

text \<open>Two requests the comparison does not tell apart.\<close>

definition sort_equiv :: "string \<Rightarrow> request \<Rightarrow> request \<Rightarrow> bool" where
  "sort_equiv f a b \<longleftrightarrow> \<not> sort_less f a b \<and> \<not> sort_less f b a"

lemma sort_requests_stable:
  "filter (sort_equiv f a) (sort_requests f rs) = filter (sort_equiv f a) rs"
  unfolding sort_requests_def
  by (rule filter_sort_stable) (auto simp: sort_equiv_def dest: sort_less_trans)

lemma sort_requests_sorted: "sorted_wrt (\<lambda>a b. \<not> sort_less f b a) (sort_requests f rs)"
  unfolding sort_requests_def
  by (rule sorted_sort_stable) (blast intro: sort_less_trans sort_less_asym dest: sort_less_trans sort_less_asym)+

section \<open>Properties: authority\<close>

text \<open>C14. With an approver configured, a caller without the approver token changes nothing
  through any route: every handler returns the state it was given, starts no execution, and the
  mutating calls are refused (403 for a well-formed decision, before the request is even looked
  up, so the refusal does not depend on what is stored).\<close>

theorem non_approver_changes_nothing:
  assumes "h_approver_required h" and "\<not> is_approver ctx"
  shows "snd (handle_request_action clk ctx meth path reason h) = h
       \<and> snd (fst (handle_request_action clk ctx meth path reason h)) = None
       \<and> (\<forall>rid act. split_on CHR ''/'' (trim_prefix path ''/api/requests/'') = [rid, act] \<and> act \<noteq> ''content''
            \<longrightarrow> meth = ''POST''
            \<longrightarrow> fst (fst (handle_request_action clk ctx meth path reason h)) = http_error forbidden_not_approver 403)
       \<and> snd (handle_turbocharge clk ctx meth dm cs h) = h
       \<and> snd (handle_whitelist w clk ctx meth wb h) = h
       \<and> snd (handle_whitelist_remove w clk ctx meth rb h) = h"
proof -
  have au: "authorize_decision ctx h = Inl (http_error forbidden_not_approver 403)"
    using assms by (simp add: authorize_decision_def)
  have pa: "(\<exists>rep. parse_action ctx meth path h = Inl rep) \<or> (\<exists>rid. parse_action ctx meth path h = Inr (Content rid))"
    by (auto simp: parse_action_def au split: list.split)
  have "parse_action ctx meth path h = Inl (http_error forbidden_not_approver 403)"
    if "split_on CHR ''/'' (trim_prefix path ''/api/requests/'') = [rid, act]" "act \<noteq> ''content''" "meth = ''POST''"
    for rid act
    using that by (simp add: parse_action_def au)
  with pa have "snd (handle_request_action clk ctx meth path reason h) = h
       \<and> snd (fst (handle_request_action clk ctx meth path reason h)) = None
       \<and> (\<forall>rid act. split_on CHR ''/'' (trim_prefix path ''/api/requests/'') = [rid, act] \<and> act \<noteq> ''content''
            \<longrightarrow> meth = ''POST''
            \<longrightarrow> fst (fst (handle_request_action clk ctx meth path reason h)) = http_error forbidden_not_approver 403)"
    by (auto simp: handle_request_action_def)
  then show ?thesis
    by (simp add: handle_turbocharge_def handle_whitelist_def handle_whitelist_remove_def au
        split: option.split)
qed

definition demo_handler :: handler where
  "demo_handler = (new_handler (publish ((pending_request ''r1'' 5)\<lparr>r_command := ''df'', r_args := [''-h'']\<rparr>) new_store)
     [] Map.empty)\<lparr>h_approver_required := True\<rparr>"

lemma demo_action:
  "split_on CHR ''/'' (trim_prefix ''/api/requests/r1/approve'' ''/api/requests/'') = [''r1'', ''approve'']"
  by (simp add: trim_prefix_def)

theorem non_approver_changes_nothing_witness:
  "fst (handle_request_action (\<lambda>n. 9) (ctx_with_client ''agent'' no_ctx) ''POST'' ''/api/requests/r1/approve'' '''' demo_handler)
     = (http_error forbidden_not_approver 403, None)"
  using non_approver_changes_nothing [of demo_handler "ctx_with_client ''agent'' no_ctx" "\<lambda>n. 9" "''POST''"
      "''/api/requests/r1/approve''" "''''"] demo_action
  by (auto simp: demo_handler_def is_approver_def no_ctx_def ctx_with_client_def intro: prod_eqI)

text \<open>The request list is sorted as the dashboard wants it: the answer holds exactly the
  listed requests, pending ones come first and oldest first in the unfiltered view, decided ones
  newest first, and requests the comparison does not separate keep the order of the queue.\<close>

theorem request_list_sorted:
  "mset (sort_requests f rs) = mset rs
   \<and> sorted_wrt (\<lambda>a b. \<not> sort_less f b a) (sort_requests f rs)
   \<and> (\<forall>a. filter (sort_equiv f a) (sort_requests f rs) = filter (sort_equiv f a) rs)
   \<and> (f = '''' \<longrightarrow> sorted_wrt (\<lambda>a b.
        (r_status b = StatusPending \<longrightarrow> r_status a = StatusPending \<and> r_created_at a \<le> r_created_at b)
        \<and> (r_status a \<noteq> StatusPending \<longrightarrow> r_created_at b \<le> r_created_at a)) (sort_requests f rs))"
proof -
  have "sorted_wrt (\<lambda>a b.
        (r_status b = StatusPending \<longrightarrow> r_status a = StatusPending \<and> r_created_at a \<le> r_created_at b)
        \<and> (r_status a \<noteq> StatusPending \<longrightarrow> r_created_at b \<le> r_created_at a)) (sort_requests '''' rs)"
    by (rule sorted_wrt_mono_rel [OF _ sort_requests_sorted]) (auto simp: sort_less_def Let_def split: if_splits)
  then show ?thesis
    using sort_requests_sorted sort_requests_stable
    by (auto simp: sort_requests_def mset_sort_stable)
qed

theorem request_list_sorted_witness:
  "sorted_wrt (\<lambda>a b. r_created_at a \<le> r_created_at b)
     (sort_requests ''pending'' [pending_request ''b'' 7, pending_request ''a'' 5])"
  by (rule sorted_wrt_mono_rel [OF _ request_list_sorted [of "''pending''", THEN conjunct2, THEN conjunct1]])
    (simp add: sort_less_def Let_def)

section \<open>Properties: approving and executing\<close>

text \<open>C35. What an authorised approval of a pending request does. While the cooldown runs it
  answers 429 and changes nothing. Otherwise the stored request becomes approved (gated when the
  gated button was used), exactly that stored request starts executing, the cooldown restarts, one
  audit entry names the credential and the client that approved, and no other request, rule,
  registry or file changes.\<close>

theorem approval_effect:
  assumes "split_on CHR ''/'' (trim_prefix path ''/api/requests/'') = [rid, act]"
    and "act = ''approve'' \<or> act = ''approve-gated''" and "authorize_decision ctx h = Inr by"
    and "store_get (h_store h) rid = Some r0" and "r_status r0 = StatusPending"
  shows "case start_cooldown clk (h_cooldown h) of
           Inl remaining \<Rightarrow>
             handle_request_action clk ctx ''POST'' path reason h = ((cooldown_reply remaining, None), h)
         | Inr cd \<Rightarrow>
             (\<exists>r h'. handle_request_action clk ctx ''POST'' path reason h = ((status_reply ''approved'', Some r), h')
                \<and> r = r0\<lparr>r_status := StatusApproved, r_decided_at := Some (clk 3),
                         r_output_gated := (r_output_gated r0 \<or> act = ''approve-gated'')\<rparr>
                \<and> st_requests (h_store h') = (st_requests (h_store h))(rid \<mapsto> r)
                \<and> h_audit h' = h_audit h @ [\<lparr>ev_timestamp = clk 4, ev_event = ''request_approved'',
                     ev_request_id = rid, ev_fields = decision_fields ctx by (approval_fields r)\<rparr>]
                \<and> h_cooldown h' = cd \<and> h_whitelist h' = h_whitelist h \<and> h_registries h' = h_registries h
                \<and> h_fs h' = h_fs h \<and> h_calls h' = h_calls h)"
proof -
  have "act \<noteq> ''content'' \<and> act \<noteq> ''release'' \<and> act \<noteq> ''deny''" using assms(2) by auto
  then have p: "parse_action ctx ''POST'' path h = Inr (Approve rid (act = ''approve-gated'') by r0)"
    using assms by (auto simp: parse_action_def)
  show ?thesis
  proof (cases "start_cooldown clk (h_cooldown h)")
    case (Inl remaining)
    then show ?thesis by (simp add: handle_request_action_def p)
  next
    case (Inr cd)
    show ?thesis
      using assms(4,5)
      by (cases "act = ''approve-gated''"; cases "r_output_gated r0")
        (simp_all add: gated_already Inr handle_request_action_def p approve_commit_def approve_def store_get_def Let_def
          approve_finish_def put_request_def)
  qed
qed

theorem approval_effect_witness:
  "\<exists>r h'. handle_request_action (\<lambda>n. 9) (ctx_with_approver no_ctx) ''POST'' ''/api/requests/r1/approve'' '''' demo_handler
       = ((status_reply ''approved'', Some r), h') \<and> r_command r = ''df'' \<and> r_status r = StatusApproved"
  using approval_effect [OF demo_action, of "ctx_with_approver no_ctx" demo_handler approved_by_approver
      _ "\<lambda>n. 9" "''''"]
  by (auto simp: demo_handler_def new_handler_def authorize_decision_def is_approver_def ctx_with_approver_def
      no_ctx_def store_get_def publish_def new_store_def pending_request_def start_cooldown_def
      active_cooldown_def turbo_active_def since_opt_def max_int64_def default_approval_cooldown_def second_def)

text \<open>C36. What one execution leaves: the outside calls it made are appended under the
  request's id, the request is complete or in error according to the exit code and holds the
  result, no other request changes, the log gains the start and the completion, and a gated
  request whose result has nothing to withhold is released in the same update that finishes it.\<close>

theorem execution_effect:
  assumes "st_requests (h_store h) (r_id req) = Some r0"
  shows "\<exists>res calls r1 e.
           run_request w (clk 2) req (execute_begin clk req h) = ((res, calls), snd (run_request w (clk 2) req (execute_begin clk req h)))
         \<and> h_calls (execute_request w clk req h) = h_calls h @ map (Pair (r_id req)) calls
         \<and> st_requests (h_store (execute_request w clk req h)) = (st_requests (h_store h))(r_id req \<mapsto> r1)
         \<and> r1 = r0\<lparr>r_result := Some res,
                   r_status := (if res_exit_code res = 0 then StatusComplete else StatusError),
                   r_output_gated := (r_output_gated r0 \<and> has_gated_content res)\<rparr>
         \<and> h_audit (execute_request w clk req h) =
             h_audit h @ [\<lparr>ev_timestamp = clk 1, ev_event = ''execution_started'', ev_request_id = r_id req, ev_fields = []\<rparr>,
                          e] @ (if r_output_gated r0 \<and> \<not> has_gated_content res
                                then [\<lparr>ev_timestamp = clk 4, ev_event = ''output_auto_released_empty'',
                                       ev_request_id = r_id req, ev_fields = []\<rparr>] else [])
         \<and> ev_event e = ''execution_completed'' \<and> ev_request_id e = r_id req"
proof -
  let ?h1 = "execute_begin clk req h"
  obtain res calls h2 where run: "run_request w (clk 2) req ?h1 = ((res, calls), h2)" by (metis surj_pair)
  have f: "h_store h2 = h_store ?h1" "h_audit h2 = h_audit ?h1" "h_calls h2 = h_calls ?h1"
    using run_request_fields [of w "clk 2" req ?h1] by (simp_all add: run)
  have s1: "snd (set_status (clk 0) (r_id req) StatusRunning (h_store h))
      = put_request (r_id req) (r0\<lparr>r_status := StatusRunning\<rparr>) (h_store h)"
    using assms by (simp add: set_status_def Let_def)
  have ex: "execute_request w clk req h
      = execute_end (\<lambda>n. clk (n + 3)) req res (h2\<lparr>h_calls := h_calls h2 @ map (Pair (r_id req)) calls\<rparr>)"
    by (simp add: execute_request_def execute_body_def run)
  have st: "st_requests (h_store (execute_request w clk req h)) = (st_requests (h_store h))(r_id req \<mapsto>
      r0\<lparr>r_result := Some res, r_status := (if res_exit_code res = 0 then StatusComplete else StatusError),
         r_output_gated := (r_output_gated r0 \<and> has_gated_content res)\<rparr>)"
    by (cases "r_output_gated r0"; cases "has_gated_content res"; cases "res_exit_code res = 0")
      (simp_all add: gated_already ex f(1) s1 set_result_def Let_def put_request_def final_status_def)
  have au: "\<exists>e. h_audit (execute_request w clk req h) = h_audit ?h1 @ e #
      (if r_output_gated r0 \<and> \<not> has_gated_content res
       then [\<lparr>ev_timestamp = clk 4, ev_event = ''output_auto_released_empty'',
              ev_request_id = r_id req, ev_fields = []\<rparr>] else [])
      \<and> ev_event e = ''execution_completed'' \<and> ev_request_id e = r_id req"
    by (cases "r_output_gated r0"; cases "has_gated_content res")
      (simp_all add: ex execute_end_def f s1 set_result_def Let_def del: execute_begin_fields(9))
  then obtain e where e: "h_audit (execute_request w clk req h) = h_audit ?h1 @ e #
      (if r_output_gated r0 \<and> \<not> has_gated_content res
       then [\<lparr>ev_timestamp = clk 4, ev_event = ''output_auto_released_empty'',
              ev_request_id = r_id req, ev_fields = []\<rparr>] else [])"
    and ee: "ev_event e = ''execution_completed''" "ev_request_id e = r_id req" by blast
  show ?thesis
    by (rule exI [of _ res], rule exI [of _ calls], rule exI, rule exI [of _ e])
      (use e ee st in \<open>simp add: run ex f\<close>)
qed

definition demo_world :: world where
  "demo_world = \<lparr>w_lib = demo_lib, w_decode = \<lambda>s. Inl ''bad'', w_os = demo_os, w_cfg = demo_config,
     w_mkdir = FsOK, w_write = FsOK, w_io = \<lparr>io_containers = WriteOK, io_machines = WriteOK\<rparr>,
     w_whitelist = WriteOK\<rparr>"

theorem execution_effect_witness:
  "\<exists>r1. st_requests (h_store (execute_request demo_world (\<lambda>n. 9)
        ((pending_request ''r1'' 5)\<lparr>r_command := ''df'', r_args := [''-h'']\<rparr>) demo_handler)) ''r1'' = Some r1
     \<and> r_status r1 \<in> {StatusComplete, StatusError} \<and> r_command r1 = ''df''"
  using execution_effect [of demo_handler "(pending_request ''r1'' 5)\<lparr>r_command := ''df'', r_args := [''-h'']\<rparr>"
      "(pending_request ''r1'' 5)\<lparr>r_command := ''df'', r_args := [''-h'']\<rparr>" demo_world "\<lambda>n. 9"]
  by (auto simp: demo_handler_def new_handler_def publish_def new_store_def pending_request_def)

section \<open>Properties: gated output\<close>

lemma map_insert_stable:
  "(\<And>a b. lt (f a) (f b) = lt a b) \<Longrightarrow> map f (insert_stable lt x xs) = insert_stable lt (f x) (map f xs)"
  by (induction xs) auto

lemma map_sort_stable:
  "(\<And>a b. lt (f a) (f b) = lt a b) \<Longrightarrow> map f (sort_stable lt xs) = sort_stable lt (map f xs)"
  by (induction xs) (simp_all add: map_insert_stable)

lemma redact_created [simp]: "r_created_at (redact_gated_output r) = r_created_at r"
  by (simp add: redact_gated_output_def Let_def split: option.split)

lemma redact_sort: "map redact_gated_output (sort_requests f rs) = sort_requests f (map redact_gated_output rs)"
  unfolding sort_requests_def by (rule map_sort_stable) (simp add: sort_less_def)

text \<open>Stores that differ only in what gated results withhold.\<close>

definition stores_differ_in_gated :: "store \<Rightarrow> store \<Rightarrow> bool" where
  "stores_differ_in_gated s s' \<longleftrightarrow> st_order s' = st_order s
     \<and> (\<forall>rid. rel_option (\<lambda>r r'. r = r' \<or> gated_variants r r') (st_requests s rid) (st_requests s' rid))"

lemma gated_variants_status: "gated_variants r r' \<Longrightarrow> r_status r' = r_status r"
  by (auto simp: gated_variants_def)

lemma list_differ_in_gated:
  assumes "stores_differ_in_gated s s'"
  shows "map redact_gated_output (list_requests f s) = map redact_gated_output (list_requests f s')"
proof -
  let ?sel = "\<lambda>m rid. case m rid of None \<Rightarrow> [] | Some r \<Rightarrow> if f = '''' \<or> status_str (r_status r) = f then [r] else []"
  have "map redact_gated_output (?sel (st_requests s) rid) = map redact_gated_output (?sel (st_requests s') rid)" for rid
  proof -
    have "rel_option (\<lambda>r r'. r = r' \<or> gated_variants r r') (st_requests s rid) (st_requests s' rid)"
      using assms by (simp add: stores_differ_in_gated_def)
    then show ?thesis
    proof cases
      case (Some r r')
      then have "redact_gated_output r = redact_gated_output r' \<and> r_status r' = r_status r"
        by (auto dest: redact_variants gated_variants_status)
      with Some show ?thesis by simp
    qed simp
  qed
  then have "concat (map (map redact_gated_output \<circ> ?sel (st_requests s)) xs)
      = concat (map (map redact_gated_output \<circ> ?sel (st_requests s')) xs)" for xs
    by (simp add: comp_def)
  then show ?thesis
    using assms by (simp add: list_requests_def map_concat stores_differ_in_gated_def)
qed

text \<open>C23. With an approver configured, the request list shows a caller without the approver
  token nothing of a gated result but its exit code, HTTP status and the lengths of its streams:
  two states that differ only in the withheld bytes and headers get the same answer.\<close>

theorem list_hides_gated_output:
  assumes "h_approver_required h" and "\<not> is_approver ctx" and "stores_differ_in_gated (h_store h) s'"
  shows "handle_list_requests clk ctx meth filt (h\<lparr>h_store := s'\<rparr>) = handle_list_requests clk ctx meth filt h"
  using assms list_differ_in_gated [OF assms(3), of filt]
  by (simp add: handle_list_requests_def redact_sort)

definition gated_store :: "string \<Rightarrow> store" where
  "gated_store out = publish ((pending_request ''r1'' 5)\<lparr>r_status := StatusComplete, r_output_gated := True,
     r_result := Some (zero_result\<lparr>res_stdout := out\<rparr>)\<rparr>) new_store"

theorem list_hides_gated_output_witness:
  "handle_list_requests (\<lambda>n. 9) (ctx_with_client ''agent'' no_ctx) ''GET'' '''' (demo_handler\<lparr>h_store := gated_store ''secret1''\<rparr>)
   = handle_list_requests (\<lambda>n. 9) (ctx_with_client ''agent'' no_ctx) ''GET'' '''' (demo_handler\<lparr>h_store := gated_store ''secret2''\<rparr>)"
proof -
  let ?h = "demo_handler\<lparr>h_store := gated_store ''secret2''\<rparr>" and ?ctx = "ctx_with_client ''agent'' no_ctx"
  have req: "h_approver_required ?h" by (simp add: demo_handler_def)
  have ctx: "\<not> is_approver ?ctx"
    by (simp add: ctx_with_client_def is_approver_def no_ctx_def)
  have diff: "stores_differ_in_gated (h_store ?h) (gated_store ''secret1'')"
    by (auto simp: stores_differ_in_gated_def gated_store_def publish_def new_store_def pending_request_def
        gated_variants_def zero_result_def)
  show ?thesis using list_hides_gated_output [OF req ctx diff, of "\<lambda>n. 9" "''GET''" "''''"] by simp
qed

section \<open>Properties: the cooldown\<close>

text \<open>The instants of the approvals granted in a sequence of attempts.\<close>

fun cooldown_grants :: "clock list \<Rightarrow> cooldown \<Rightarrow> int list" where
  "cooldown_grants [] cd = []"
| "cooldown_grants (clk # clks) cd =
     (case start_cooldown clk cd of
        Inl _ \<Rightarrow> cooldown_grants clks cd
      | Inr cd' \<Rightarrow> clk 2 # cooldown_grants clks cd')"

definition least_gap :: "cooldown \<Rightarrow> int" where
  "least_gap cd = (case cd_turbo_expiry cd of None \<Rightarrow> cd_approval_cooldown cd
                   | Some _ \<Rightarrow> min (cd_approval_cooldown cd) (cd_turbo_cooldown cd))"

lemma active_cooldown_least: "least_gap cd \<le> active_cooldown t cd"
  by (auto simp: least_gap_def active_cooldown_def turbo_active_def split: option.split)

lemma start_cooldown_Inr:
  assumes "start_cooldown clk cd = Inr cd'" and "0 \<le> least_gap cd" and "least_gap cd \<le> max_int64"
  shows "cd_last_approval cd' = Some (clk 2)" and "least_gap cd' = least_gap cd"
    and "cd_last_approval cd = Some u \<Longrightarrow> u + least_gap cd \<le> clk 1"
proof -
  have "active_cooldown (clk 0) cd \<le> since_opt (clk 1) (cd_last_approval cd)"
    and cd': "cd' = cd\<lparr>cd_last_approval := Some (clk 2)\<rparr>"
    using assms(1) by (auto simp: start_cooldown_def Let_def split: if_splits)
  then have "least_gap cd \<le> since_opt (clk 1) (cd_last_approval cd)"
    using active_cooldown_least [of cd "clk 0"] by linarith
  then show "cd_last_approval cd = Some u \<Longrightarrow> u + least_gap cd \<le> clk 1"
    using assms(2,3) by (auto simp: since_opt_def sat64_def min_int64_def max_int64_def split: if_splits)
  show "cd_last_approval cd' = Some (clk 2)" and "least_gap cd' = least_gap cd"
    by (simp_all add: cd' least_gap_def split: option.split)
qed

text \<open>C37. Approvals are spaced: in any sequence of attempts, granted and refused ones in any
  order, two consecutive granted approvals are at least one cooldown apart (the shorter one while a
  turbocharge is set), whatever the clock readings, as long as each attempt's readings do not go
  backwards; and an attempt that is refused leaves no trace.\<close>

theorem approvals_are_spaced:
  assumes "0 \<le> least_gap cd" and "least_gap cd \<le> max_int64" and "\<forall>clk\<in>set clks. clk 1 \<le> clk 2"
  shows "successively (\<lambda>s t. s + least_gap cd \<le> t)
           ((case cd_last_approval cd of None \<Rightarrow> [] | Some u \<Rightarrow> [u]) @ cooldown_grants clks cd)"
  using assms
proof (induction clks arbitrary: cd)
  case Nil
  then show ?case by (simp split: option.split)
next
  case (Cons clk clks)
  show ?case
  proof (cases "start_cooldown clk cd")
    case (Inl r)
    then show ?thesis using Cons by simp
  next
    case (Inr cd')
    note s = start_cooldown_Inr [OF Inr Cons.prems(1,2)]
    have "successively (\<lambda>s t. s + least_gap cd \<le> t) (clk 2 # cooldown_grants clks cd')"
      using Cons.IH [of cd'] Cons.prems s by simp
    moreover have "u + least_gap cd \<le> clk 2" if "cd_last_approval cd = Some u" for u
      using s(3) [OF that] Cons.prems(3) by simp
    ultimately show ?thesis
      by (simp add: Inr successively_Cons split: option.split)
  qed
qed

definition demo_cooldown :: cooldown where
  "demo_cooldown = \<lparr>cd_last_approval = None, cd_approval_cooldown = 30 * second, cd_turbo_cooldown = 0,
     cd_turbo_expiry = None\<rparr>"

theorem approvals_are_spaced_witness:
  "successively (\<lambda>s t. s + 30 * second \<le> t)
     (cooldown_grants [\<lambda>n. 5, \<lambda>n. 9, \<lambda>n. 5 + 30 * second] demo_cooldown)
   \<and> length (cooldown_grants [\<lambda>n. 5, \<lambda>n. 9, \<lambda>n. 5 + 30 * second] demo_cooldown) = 2"
  using approvals_are_spaced [of demo_cooldown "[\<lambda>n. 5, \<lambda>n. 9, \<lambda>n. 5 + 30 * second]"]
  by (simp add: demo_cooldown_def least_gap_def second_def max_int64_def start_cooldown_def
      active_cooldown_def turbo_active_def since_opt_def sat64_def min_int64_def)

text \<open>An accepted turbocharge lasts between one and thirty minutes and shortens the
  cooldown to the requested number of seconds (three when none is given), for every number that a
  duration can hold.\<close>

theorem turbocharge_clamped:
  assumes "authorize_decision ctx h = Inr by" and "cs \<le> 9223372036"
    and "handle_turbocharge clk ctx ''POST'' dm cs h = (rep, h')"
  shows "rp_code rep = 200
       \<and> cd_turbo_cooldown (h_cooldown h') = (if cs \<le> 0 then 3 else cs) * second
       \<and> (\<exists>e. cd_turbo_expiry (h_cooldown h') = Some e \<and> clk 0 + minute \<le> e \<and> e \<le> clk 0 + 30 * minute)
       \<and> cd_approval_cooldown (h_cooldown h') = cd_approval_cooldown (h_cooldown h)
       \<and> h_store h' = h_store h \<and> (\<exists>e. h_audit h' = h_audit h @ [e])"
proof -
  have "in_int64 (clamp_cooldown cs * second)" and m: "1 \<le> clamp_minutes dm" "clamp_minutes dm \<le> 30"
    using assms(2)
    by (auto simp: clamp_cooldown_def clamp_minutes_def in_int64_def second_def min_int64_def max_int64_def Let_def)
  moreover have "in_int64 (clamp_minutes dm * minute)"
    using m by (simp add: in_int64_def minute_def min_int64_def max_int64_def)
  ultimately show ?thesis
    using assms(1,3)
    by (auto simp: handle_turbocharge_def Let_def turbo_on_def json_reply_def clamp_cooldown_def minute_def)
qed

theorem turbocharge_clamped_witness:
  "cd_turbo_cooldown (h_cooldown (snd (handle_turbocharge (\<lambda>n. 9) (ctx_with_approver no_ctx) ''POST'' 0 0 demo_handler)))
     = 3 * second"
proof -
  have "authorize_decision (ctx_with_approver no_ctx) demo_handler = Inr approved_by_approver"
    by (simp add: authorize_decision_def demo_handler_def is_approver_def ctx_with_approver_def)
  from turbocharge_clamped [OF this, of 0 "\<lambda>n. 9" 0, OF _ surjective_pairing] show ?thesis by simp
qed

text \<open>The number of seconds has no upper bound of its own: multiplied into a duration,
  9223372037 wraps to a negative cooldown, and while that turbocharge is active every approval is
  granted at once.\<close>

theorem turbocharge_overflow_lifts_cooldown:
  assumes "clk 0 < now + 5 * minute" and "\<And>u. cd_last_approval cd = Some u \<Longrightarrow> u \<le> clk 1"
  shows "\<exists>cd'. start_cooldown clk (turbo_on now 5 (clamp_cooldown 9223372037) cd) = Inr cd'"
proof -
  let ?cd = "turbo_on now 5 (clamp_cooldown 9223372037) cd"
  have "in_int64 (5 * minute)"
    by (simp add: in_int64_def minute_def min_int64_def max_int64_def)
  then have "active_cooldown (clk 0) ?cd = wrap64 (9223372037 * second)"
    using assms(1) by (simp add: active_cooldown_def turbo_active_def turbo_on_def clamp_cooldown_def)
  moreover have "wrap64 (9223372037 * second) < 0" by (simp add: wrap64_def second_def)
  moreover have "0 \<le> since_opt (clk 1) (cd_last_approval ?cd)"
    using assms(2) by (auto simp: turbo_on_def since_opt_def sat64_def max_int64_def min_int64_def split: option.split)
  ultimately show ?thesis by (simp add: start_cooldown_def)
qed

theorem turbocharge_overflow_lifts_cooldown_witness:
  "\<exists>cd'. start_cooldown (\<lambda>n. 12) (turbo_on 10 5 (clamp_cooldown 9223372037) (demo_cooldown\<lparr>cd_last_approval := Some 11\<rparr>)) = Inr cd'"
  by (rule turbocharge_overflow_lifts_cooldown) (simp_all add: minute_def)

section \<open>Properties: the whitelist\<close>

lemma stdin_digest_inject:
  assumes "\<And>x. sha x \<noteq> []" and "sha a = sha b \<Longrightarrow> a = b" and "stdin_digest sha a = stdin_digest sha b"
  shows "a = b"
proof -
  have ne: "hex_encode (sha x) \<noteq> []" for x
    using length_hex_encode [of "sha x"] assms(1) [of x] by auto
  show ?thesis
    using assms(2,3) ne [of a] ne [of b] by (auto simp: stdin_digest_def dest: hex_encode_inj split: if_splits)
qed

text \<open>A whitelisted script creation is a grant for that content only: two creation
  requests of the same kind share a whitelist key exactly when name and body agree, as long as
  SHA-256 does not collide on the two bodies.\<close>

theorem whitelist_pins_script_body:
  assumes "r_type a = ''script_create'' \<or> r_type a = ''script_create_then_run''" and "r_type b = r_type a"
    and "\<And>x. sha x \<noteq> []" and "sha (r_stdin a) = sha (r_stdin b) \<Longrightarrow> r_stdin a = r_stdin b"
  shows "whitelist_key sha a = whitelist_key sha b
       \<longleftrightarrow> r_script_name a = r_script_name b \<and> r_stdin a = r_stdin b"
  using stdin_digest_inject [OF assms(3,4)] assms(1,2) by (auto simp: whitelist_key_def Let_def)

theorem whitelist_pins_script_body_witness:
  "whitelist_key (\<lambda>s. ''#'' @ s) script_request
     \<noteq> whitelist_key (\<lambda>s. ''#'' @ s) (script_request\<lparr>r_stdin := ''evil''\<rparr>)"
  using whitelist_pins_script_body [of script_request "script_request\<lparr>r_stdin := ''evil''\<rparr>" "\<lambda>s. ''#'' @ s"]
  by (simp add: script_request_def)

text \<open>For every other command the key is the command and its arguments alone: the piped
  content, the working directory and the shell flag do not count, so a rule made from one reviewed
  file write auto-approves any later content for the same destination.\<close>

theorem whitelist_ignores_command_stdin:
  assumes "r_type r = ''''" and "h_whitelist h = Some wl"
    and "whitelist_match wl (r_command r) (r_args r)" and "r_status r = StatusPending"
    and "st_notify (h_store h) = rid # q"
    and "st_requests (h_store h) rid = Some (r\<lparr>r_stdin := content, r_shell := sh, r_working_dir := wd\<rparr>)"
  shows "fst (watch_take sha h) = Some (r\<lparr>r_stdin := content, r_shell := sh, r_working_dir := wd\<rparr>)"
  using assms by (simp add: watch_take_def Let_def whitelist_key_def store_get_def)

definition whitelisting_handler :: "string \<Rightarrow> handler" where
  "whitelisting_handler content =
     (new_handler (publish ((pending_request ''r1'' 5)\<lparr>r_command := ''ssh'', r_args := [''h'', ''cat > /etc/x''],
        r_stdin := content\<rparr>) new_store) [] Map.empty)
     \<lparr>h_whitelist := Some (whitelist_add ''ssh'' [''h'', ''cat > /etc/x''] demo_whitelist)\<rparr>"

theorem whitelist_ignores_command_stdin_witness:
  "\<exists>r. fst (watch_take (\<lambda>s. s) (whitelisting_handler ''anything'')) = Some r \<and> r_stdin r = ''anything''"
proof -
  let ?h = "whitelisting_handler ''anything''"
  let ?r = "(pending_request ''r1'' 5)\<lparr>r_command := ''ssh'', r_args := [''h'', ''cat > /etc/x'']\<rparr>"
  let ?wl = "whitelist_add ''ssh'' [''h'', ''cat > /etc/x''] demo_whitelist"
  have m: "whitelist_match ?wl (r_command ?r) (r_args ?r)" by (simp add: whitelist_add_match)
  have s: "st_requests (h_store ?h) ''r1'' = Some (?r\<lparr>r_stdin := ''anything'', r_shell := False, r_working_dir := ''''\<rparr>)"
    "st_notify (h_store ?h) = ''r1'' # []" "h_whitelist ?h = Some ?wl"
    by (simp_all add: whitelisting_handler_def new_handler_def publish_def new_store_def pending_request_def chan_send_def)
  have "r_type ?r = ''''" "r_status ?r = StatusPending" by (simp_all add: pending_request_def)
  from whitelist_ignores_command_stdin [OF this(1) s(3) m this(2) s(2,1)] show ?thesis by simp
qed

text \<open>A rule with an empty command cannot be added through the interface.\<close>

definition no_empty_rule :: "handler \<Rightarrow> bool" where
  "no_empty_rule h \<longleftrightarrow> (\<forall>wl as. h_whitelist h = Some wl \<longrightarrow> \<not> whitelist_match wl '''' as)"

lemma whitelist_save_match [simp]:
  "whitelist_match (snd (whitelist_save wo v)) c a = whitelist_match v c a"
  by (simp add: whitelist_match_iff whitelist_save_def split: write_outcome.split)

lemma whitelist_remove_match:
  "whitelist_match (snd (whitelist_remove c a wl)) c' a' \<Longrightarrow> whitelist_match wl c' a'"
  by (auto simp: whitelist_remove_eq whitelist_match_iff Let_def dest: set_remove1_subset [THEN subsetD] split: if_splits)

lemma put_whitelist_get [simp]:
  "h_whitelist (put_whitelist w v h) = Some (snd (whitelist_save (w_whitelist w) v))"
  by (simp add: put_whitelist_def)

text \<open>What the two routes can do to the rules.\<close>

lemma handle_whitelist_rules:
  "h_whitelist (snd (handle_whitelist w clk ctx meth body h)) = h_whitelist h
   \<or> (\<exists>wl c a. h_whitelist h = Some wl \<and> c \<noteq> '''' \<and> h_whitelist (snd (handle_whitelist w clk ctx meth body h))
        = Some (snd (whitelist_save (w_whitelist w) (whitelist_add c a wl))))"
proof (cases "h_whitelist h")
  case (Some wl)
  show ?thesis
  proof (cases "meth = ''POST''")
    case post: True
    show ?thesis
    proof (cases "authorize_decision ctx h")
      case (Inr who)
      show ?thesis
      proof (cases body)
        case body: (Some b)
        show ?thesis
          by (cases "wb_gate_output b"; cases "wb_request_id b = ''''"; cases "wb_command b = ''''";
              cases "store_get (h_store h) (wb_request_id b)")
            (auto simp: handle_whitelist_def Some post Inr body split: prod.split)
      qed (simp add: handle_whitelist_def Some post Inr)
    qed (simp add: handle_whitelist_def Some post)
  qed (simp add: handle_whitelist_def Some)
qed (simp add: handle_whitelist_def)

lemma handle_whitelist_remove_rules:
  "h_whitelist (snd (handle_whitelist_remove w clk ctx meth body h)) = h_whitelist h
   \<or> (\<exists>wl c a. h_whitelist h = Some wl \<and> h_whitelist (snd (handle_whitelist_remove w clk ctx meth body h))
        = Some (snd (whitelist_save (w_whitelist w) (snd (whitelist_remove c a wl)))))"
proof (cases "meth = ''POST''")
  case post: True
  show ?thesis
  proof (cases "h_whitelist h")
    case (Some wl)
    show ?thesis
    proof (cases "authorize_decision ctx h")
      case (Inr who)
      show ?thesis
      proof (cases body)
        case body: (Some b)
        obtain c a where b: "b = (c, a)" by (cases b)
        obtain f wl' where r: "whitelist_remove c a wl = (f, wl')" by (metis surj_pair)
        have "wl' = snd (whitelist_remove c a wl)" by (simp add: r)
        then have "h_whitelist (snd (handle_whitelist_remove w clk ctx meth body h)) =
            (if c = '''' \<or> \<not> f then Some wl
             else Some (snd (whitelist_save (w_whitelist w) (snd (whitelist_remove c a wl)))))"
          by (simp add: handle_whitelist_remove_def Some post Inr body b r)
        then show ?thesis using Some by metis
      qed (simp add: handle_whitelist_remove_def Some post Inr)
    qed (simp add: handle_whitelist_remove_def Some post)
  qed (simp add: handle_whitelist_remove_def)
qed (simp add: handle_whitelist_remove_def)

lemma no_empty_rule_handle_whitelist:
  "no_empty_rule h \<Longrightarrow> no_empty_rule (snd (handle_whitelist w clk ctx meth body h))"
  using handle_whitelist_rules [of w clk ctx meth body h]
  by (auto simp: no_empty_rule_def whitelist_add_match)

lemma no_empty_rule_handle_remove:
  "no_empty_rule h \<Longrightarrow> no_empty_rule (snd (handle_whitelist_remove w clk ctx meth body h))"
  using handle_whitelist_remove_rules [of w clk ctx meth body h] whitelist_remove_match
  unfolding no_empty_rule_def by (metis option.inject whitelist_save_match)

text \<open>A registry mutation is never auto-approved: such a request carries no command, the
  whitelist routes refuse to store a rule without one, and watching a request that has none picks
  nothing, so each of them waits for a person.\<close>

theorem registry_op_needs_a_person:
  assumes "no_empty_rule h"
  shows "(\<forall>rid q req. st_notify (h_store h) = rid # q \<longrightarrow> st_requests (h_store h) rid = Some req \<longrightarrow>
            r_type req = ''registry_op'' \<longrightarrow> r_command req = '''' \<longrightarrow> fst (watch_take sha h) = None)
       \<and> no_empty_rule (snd (handle_whitelist w clk ctx meth body h))
       \<and> no_empty_rule (snd (handle_whitelist_remove w clk ctx meth rbody h))
       \<and> (\<forall>rid now op args why cl s. r_command (fst (store_add_registry_op rid now op args why cl s)) = ''''
            \<and> r_type (fst (store_add_registry_op rid now op args why cl s)) = ''registry_op'')"
proof -
  have "fst (watch_take sha h) = None"
    if "st_notify (h_store h) = rid # q" "st_requests (h_store h) rid = Some req"
      "r_type req = ''registry_op''" "r_command req = ''''" for rid q req
    using that assms
    by (auto simp: watch_take_def Let_def whitelist_key_def store_get_def no_empty_rule_def split: option.split)
  then show ?thesis
    using no_empty_rule_handle_whitelist [OF assms] no_empty_rule_handle_remove [OF assms]
    by (simp add: store_add_registry_op_def Let_def pending_request_def)
qed

theorem registry_op_needs_a_person_witness:
  "no_empty_rule (snd (handle_whitelist demo_world (\<lambda>n. 9) (ctx_with_approver no_ctx) ''POST''
     (Some \<lparr>wb_request_id = '''', wb_command = '''', wb_args = [], wb_gate_output = False\<rparr>)
     (whitelisting_handler '''')))"
proof -
  have "no_empty_rule (whitelisting_handler '''')"
    by (auto simp: no_empty_rule_def whitelisting_handler_def whitelist_add_match)
      (simp add: demo_whitelist_def whitelist_match_iff)
  from registry_op_needs_a_person [OF this] show ?thesis by blast
qed

end
