(* ===== verification/Relay_System.thy ===== *)
theory Relay_System
  imports Web_Safety
begin

text \<open>
  The relay with its calls interleaved. A goroutine between two of its critical sections is a
  \<open>thread\<close>; a step either starts a call, advances one thread by one critical section, or is
  an operation that is atomic as a whole. Any order of steps is an execution, so what holds of all
  executions holds of every schedule. The clock readings and what the outside world answers are
  part of a step's label.
\<close>

section \<open>Threads\<close>

datatype thread =
    AtCooldown auth_ctx string string bool
  | AtCommit auth_ctx string string bool
  | AtApproved auth_ctx string string request
  | AtDeny auth_ctx string string string request
  | AtRelease auth_ctx string string
  | AtAuto request
  | AtAutoApproved request
  | AtExecStart request
  | AtExecRun request
  | AtExecEnd request result

text \<open>The continuation of handleRequestAction after its checks.\<close>

fun action_threads :: "auth_ctx \<Rightarrow> string \<Rightarrow> action \<Rightarrow> thread list" where
  "action_threads ctx reason (Content rid) = []"
| "action_threads ctx reason (Release rid who) = [AtRelease ctx who rid]"
| "action_threads ctx reason (Approve rid gate who req) = [AtCooldown ctx who rid gate]"
| "action_threads ctx reason (Deny rid who req) = [AtDeny ctx who reason rid req]"

fun thread_step :: "world \<Rightarrow> clock \<Rightarrow> thread \<Rightarrow> handler \<Rightarrow> handler \<times> thread list" where
  "thread_step w clk (AtCooldown ctx who rid gate) h =
     (case start_cooldown clk (h_cooldown h) of
        Inl _ \<Rightarrow> (h, [])
      | Inr cd \<Rightarrow> (h\<lparr>h_cooldown := cd\<rparr>, [AtCommit ctx who rid gate]))"
| "thread_step w clk (AtCommit ctx who rid gate) h =
     (case approve_commit (clk 0) rid gate h of
        (None, h') \<Rightarrow> (h', [])
      | (Some r, h') \<Rightarrow> (h', [AtApproved ctx who rid r]))"
| "thread_step w clk (AtApproved ctx who rid r) h = (approve_finish (clk 0) ctx who rid r h, [AtExecStart r])"
| "thread_step w clk (AtDeny ctx who reason rid req) h = (deny_request clk ctx who reason rid req h, [])"
| "thread_step w clk (AtRelease ctx who rid) h = (release_request (clk 0) ctx who rid h, [])"
| "thread_step w clk (AtAuto req) h =
     (case approve_commit (clk 0) (r_id req) False h of
        (None, h') \<Rightarrow> (h', [])
      | (Some r, h') \<Rightarrow> (h', [AtAutoApproved r]))"
| "thread_step w clk (AtAutoApproved r) h = (auto_approve_finish (clk 0) r h, [AtExecStart r])"
| "thread_step w clk (AtExecStart r) h = (execute_begin clk r h, [AtExecRun r])"
| "thread_step w clk (AtExecRun r) h =
     (case execute_body w (clk 0) r h of (res, h') \<Rightarrow> (h', [AtExecEnd r res]))"
| "thread_step w clk (AtExecEnd r res) h = (execute_end clk r res h, [])"

section \<open>Steps\<close>

record relay =
  y_handler :: handler
  y_threads :: "thread list"

datatype label =
    HttpAction auth_ctx string string string
  | Advance nat world clock
  | Watch "string \<Rightarrow> string"
  | WatchUpdates
  | Submit request
  | AgentWithdraw int string string
  | SetDisplay string string
  | Turbocharge clock auth_ctx string int int
  | EditWhitelist world clock auth_ctx string "whitelist_body option"
  | RemoveRule world clock auth_ctx string "(string \<times> string list) option"
  | Note int string string "(string \<times> jval) list"
  | SseConnect nat | SseReceive nat | SseDisconnect nat

text \<open>A request as the Add functions make it, under an id that was never used.\<close>

definition new_request :: "request \<Rightarrow> bool" where
  "new_request r \<longleftrightarrow> r_status r = StatusPending \<and> r_result r = None \<and> \<not> r_output_gated r"

definition approval_events :: "string set" where
  "approval_events = {''request_approved'', ''request_auto_approved''}"

abbreviation with_store :: "handler \<Rightarrow> store \<Rightarrow> handler" where
  "with_store h s \<equiv> h\<lparr>h_store := s\<rparr>"

definition option_list :: "'a option \<Rightarrow> 'a list" where
  "option_list x = (case x of None \<Rightarrow> [] | Some a \<Rightarrow> [a])"

inductive sys_step :: "relay \<Rightarrow> label \<Rightarrow> relay \<Rightarrow> bool" where
  http_refused:
    "parse_action ctx meth path h = Inl rep \<Longrightarrow>
     sys_step \<lparr>y_handler = h, y_threads = ts\<rparr> (HttpAction ctx meth path reason) \<lparr>y_handler = h, y_threads = ts\<rparr>"
| http_accepted:
    "parse_action ctx meth path h = Inr act \<Longrightarrow>
     sys_step \<lparr>y_handler = h, y_threads = ts\<rparr> (HttpAction ctx meth path reason)
       \<lparr>y_handler = h, y_threads = ts @ action_threads ctx reason act\<rparr>"
| advance:
    "i < length ts \<Longrightarrow> thread_step w clk (ts ! i) h = (h', new) \<Longrightarrow>
     sys_step \<lparr>y_handler = h, y_threads = ts\<rparr> (Advance i w clk)
       \<lparr>y_handler = h', y_threads = take i ts @ new @ drop (Suc i) ts\<rparr>"
| watch:
    "watch_take sha h = (found, h') \<Longrightarrow>
     sys_step \<lparr>y_handler = h, y_threads = ts\<rparr> (Watch sha)
       \<lparr>y_handler = h', y_threads = ts @ map AtAuto (option_list found)\<rparr>"
| watch_updates:
    "sys_step \<lparr>y_handler = h, y_threads = ts\<rparr> WatchUpdates \<lparr>y_handler = watch_updates_turn h, y_threads = ts\<rparr>"
| submit:
    "new_request r \<Longrightarrow> st_requests (h_store h) (r_id r) = None \<Longrightarrow>
     sys_step \<lparr>y_handler = h, y_threads = ts\<rparr> (Submit r)
       \<lparr>y_handler = with_store h (publish r (h_store h)), y_threads = ts\<rparr>"
| agent_withdraw:
    "sys_step \<lparr>y_handler = h, y_threads = ts\<rparr> (AgentWithdraw now rid reason)
       \<lparr>y_handler = with_store h (snd (withdraw now rid reason (h_store h))), y_threads = ts\<rparr>"
| set_display:
    "sys_step \<lparr>y_handler = h, y_threads = ts\<rparr> (SetDisplay rid c)
       \<lparr>y_handler = with_store h (snd (set_display_command rid c (h_store h))), y_threads = ts\<rparr>"
| turbocharge:
    "sys_step \<lparr>y_handler = h, y_threads = ts\<rparr> (Turbocharge clk ctx meth dm cs)
       \<lparr>y_handler = snd (handle_turbocharge clk ctx meth dm cs h), y_threads = ts\<rparr>"
| edit_whitelist:
    "sys_step \<lparr>y_handler = h, y_threads = ts\<rparr> (EditWhitelist w clk ctx meth wb)
       \<lparr>y_handler = snd (handle_whitelist w clk ctx meth wb h), y_threads = ts\<rparr>"
| remove_rule:
    "sys_step \<lparr>y_handler = h, y_threads = ts\<rparr> (RemoveRule w clk ctx meth rb)
       \<lparr>y_handler = snd (handle_whitelist_remove w clk ctx meth rb h), y_threads = ts\<rparr>"
| note_event:
    "ev \<notin> approval_events \<Longrightarrow>
     sys_step \<lparr>y_handler = h, y_threads = ts\<rparr> (Note now ev rid fs)
       \<lparr>y_handler = log_event now ev rid fs h, y_threads = ts\<rparr>"
| sse_connect_step:
    "sys_step \<lparr>y_handler = h, y_threads = ts\<rparr> (SseConnect c) \<lparr>y_handler = sse_connect c h, y_threads = ts\<rparr>"
| sse_receive_step:
    "sys_step \<lparr>y_handler = h, y_threads = ts\<rparr> (SseReceive c) \<lparr>y_handler = snd (sse_receive c h), y_threads = ts\<rparr>"
| sse_disconnect_step:
    "sys_step \<lparr>y_handler = h, y_threads = ts\<rparr> (SseDisconnect c) \<lparr>y_handler = sse_disconnect c h, y_threads = ts\<rparr>"

inductive_cases sys_step_AdvanceE: "sys_step y (Advance i w clk) y'"
inductive_cases sys_step_withdrawE: "sys_step y (AgentWithdraw now rid reason) y'"

text \<open>At the start nothing is stored or running.\<close>

definition initial :: "relay \<Rightarrow> bool" where
  "initial y \<longleftrightarrow> h_store (y_handler y) = new_store \<and> h_calls (y_handler y) = [] \<and> y_threads y = []"

section \<open>Tickets\<close>

text \<open>A thread that will still execute a request it carries holds a ticket for it; a thread
  that has yet to win the approval holds none.\<close>

fun ticket :: "thread \<Rightarrow> string option" where
  "ticket (AtApproved ctx who rid r) = Some (r_id r)"
| "ticket (AtAutoApproved r) = Some (r_id r)"
| "ticket (AtExecStart r) = Some (r_id r)"
| "ticket (AtExecRun r) = Some (r_id r)"
| "ticket _ = None"

definition tickets :: "thread list \<Rightarrow> string \<Rightarrow> nat" where
  "tickets ts rid = length (filter (\<lambda>t. ticket t = Some rid) ts)"

lemma tickets_append [simp]: "tickets (a @ b) rid = tickets a rid + tickets b rid"
  by (simp add: tickets_def)

lemma tickets_Nil [simp]: "tickets [] rid = 0"
  by (simp add: tickets_def)

lemma tickets_Cons: "tickets (t # ts) rid = (if ticket t = Some rid then 1 else 0) + tickets ts rid"
  by (simp add: tickets_def)

lemma tickets_replace:
  assumes "i < length ts"
  shows "tickets (take i ts @ new @ drop (Suc i) ts) rid + tickets [ts ! i] rid = tickets ts rid + tickets new rid"
proof -
  have "ts = take i ts @ [ts ! i] @ drop (Suc i) ts" using id_take_nth_drop [OF assms] by simp
  then have "tickets ts rid = tickets (take i ts) rid + tickets [ts ! i] rid + tickets (drop (Suc i) ts) rid"
    by (metis tickets_append add.assoc)
  then show ?thesis by simp
qed

lemma tickets_map_auto [simp]: "tickets (map AtAuto rs) rid = 0"
  by (induction rs) (simp_all add: tickets_Cons)

lemma tickets_action [simp]: "tickets (action_threads ctx reason act) rid = 0"
  by (cases act) (simp_all add: tickets_Cons)

section \<open>What a step does to the store\<close>

text \<open>The parts of a request nobody changes after it was submitted.\<close>

definition core :: "request \<Rightarrow> request" where
  "core r = r\<lparr>r_status := StatusPending, r_decided_at := None, r_deny_reason := '''', r_withdraw_reason := '''',
     r_result := None, r_display_command := '''', r_output_gated := False\<rparr>"

text \<open>A change of the store every step can be measured by: it stays well formed, what left
  pending does not come back, and the cores stay.\<close>

definition store_evolves :: "store \<Rightarrow> store \<Rightarrow> bool" where
  "store_evolves s s' \<longleftrightarrow> (store_wf s \<longrightarrow> store_wf s')
     \<and> (\<forall>rid. closed s rid \<longrightarrow> closed s' rid)
     \<and> (\<forall>rid r. st_requests s rid = Some r \<longrightarrow> (\<exists>r'. st_requests s' rid = Some r' \<and> core r' = core r))"

lemma store_evolves_refl [simp]: "store_evolves s s"
  by (simp add: store_evolves_def)

lemma store_evolves_trans: "store_evolves s t \<Longrightarrow> store_evolves t u \<Longrightarrow> store_evolves s u"
  unfolding store_evolves_def by metis

lemma core_selectors:
  "r_command (core r) = r_command r" "r_args (core r) = r_args r" "r_stdin (core r) = r_stdin r"
  "r_http_url (core r) = r_http_url r" "r_registry_args (core r) = r_registry_args r"
  by (simp_all add: core_def)

lemma core_id: "core r = core r' \<Longrightarrow> r_id r = r_id r'"
  by (metis core_def request.select_convs(1) request.surjective request.update_convs)

lemma evolves_put:
  assumes "st_requests s rid = Some r0" and "core r = core r0"
    and "r_status r = StatusPending \<Longrightarrow> r_status r0 = StatusPending"
  shows "store_evolves s (put_request rid r s)"
proof -
  have "store_wf s \<Longrightarrow> store_wf (put_request rid r s)"
    using store_wf_put [OF _ assms(1), of r] store_wf_get [OF _ assms(1)] core_id [OF assms(2)] by simp
  then show ?thesis
    using assms by (auto simp: store_evolves_def closed_def)
qed

lemma evolves_wf_queue:
  "(store_wf s \<Longrightarrow> length q \<le> 100) \<Longrightarrow> store_evolves s (s\<lparr>st_notify := q\<rparr>)"
  "(store_wf s \<Longrightarrow> length q \<le> 100) \<Longrightarrow> store_evolves s (s\<lparr>st_updates := q\<rparr>)"
  by (auto simp: store_evolves_def closed_def store_wf_def)

lemma evolves_updates_send:
  assumes "store_evolves s (s'\<lparr>st_updates := st_updates s\<rparr>)"
  shows "store_evolves s (s'\<lparr>st_updates := chan_send 100 k (st_updates s)\<rparr>)"
proof -
  have "store_wf (s'\<lparr>st_updates := st_updates s\<rparr>) \<Longrightarrow>
      store_wf (s'\<lparr>st_updates := chan_send 100 k (st_updates s)\<rparr>)"
    by (simp add: store_wf_def chan_send_bound)
  with assms show ?thesis unfolding store_evolves_def closed_updates by simp
qed

lemma put_updates_same: "(put_request rid r s)\<lparr>st_updates := st_updates s\<rparr> = put_request rid r s"
  by (cases s) (simp add: put_request_def)

lemma core_updates [simp]:
  "core (r\<lparr>r_status := a\<rparr>) = core r" "core (r\<lparr>r_decided_at := b\<rparr>) = core r"
  "core (r\<lparr>r_deny_reason := c\<rparr>) = core r" "core (r\<lparr>r_withdraw_reason := d\<rparr>) = core r"
  "core (r\<lparr>r_result := e\<rparr>) = core r" "core (r\<lparr>r_display_command := f\<rparr>) = core r"
  "core (r\<lparr>r_output_gated := g\<rparr>) = core r"
  by (simp_all add: core_def)

lemma core_deep [simp]:
  "core (r\<lparr>r_status := a, r_decided_at := b\<rparr>) = core r"
  "core (r\<lparr>r_status := a, r_decided_at := b, r_output_gated := g\<rparr>) = core r"
  "core (r\<lparr>r_status := a, r_deny_reason := c, r_decided_at := b\<rparr>) = core r"
  "core (r\<lparr>r_status := a, r_decided_at := b, r_deny_reason := c\<rparr>) = core r"
  "core (r\<lparr>r_status := a, r_withdraw_reason := d, r_decided_at := b\<rparr>) = core r"
  "core (r\<lparr>r_status := a, r_decided_at := b, r_withdraw_reason := d\<rparr>) = core r"
  "core (r\<lparr>r_result := e, r_status := a\<rparr>) = core r"
  "core (r\<lparr>r_status := a, r_result := e\<rparr>) = core r"
  "core (r\<lparr>r_status := a, r_result := e, r_output_gated := g\<rparr>) = core r"
  by (simp_all add: core_def)

lemma evolves_set_status: "st \<noteq> StatusPending \<Longrightarrow> store_evolves s (snd (set_status now rid st s))"
  by (auto simp: set_status_def Let_def intro!: evolves_put split: option.split)

lemma evolves_deny: "store_evolves s (snd (deny now rid reason s))"
  by (auto simp: deny_def intro!: evolves_put split: option.split)

lemma evolves_approve: "store_evolves s (snd (approve now rid g s))"
  by (auto simp: approve_def Let_def intro!: evolves_put split: option.split)

lemma evolves_withdraw: "store_evolves s (snd (withdraw now rid reason s))"
  by (auto simp: withdraw_def put_updates_same intro!: evolves_updates_send evolves_put split: option.split)

lemma evolves_release: "store_evolves s (snd (release_output rid s))"
  by (auto simp: release_output_def put_updates_same intro!: evolves_updates_send evolves_put split: option.split)

lemma evolves_set_result: "st \<noteq> StatusPending \<Longrightarrow> store_evolves s (snd (set_result rid res st s))"
  by (auto simp: set_result_def Let_def intro!: evolves_put split: option.split)

lemma evolves_display: "store_evolves s (snd (set_display_command rid c s))"
  by (auto simp: set_display_command_def intro!: evolves_put split: option.split)

lemma evolves_publish:
  assumes "st_requests s (r_id r) = None" shows "store_evolves s (publish r s)"
  unfolding store_evolves_def using assms store_wf_publish [of s r]
  by (auto simp: closed_def publish_def)

lemmas evolves_ops = evolves_set_status evolves_deny evolves_approve evolves_withdraw evolves_release
  evolves_set_result evolves_display evolves_publish

lemma approve_commit_fields:
  "approve_commit now rid g h = (r, h') \<Longrightarrow>
     h' = with_store h (snd (approve now rid g (h_store h))) \<and> r = fst (approve now rid g (h_store h))"
  by (auto simp: approve_commit_def split: prod.splits)

lemma deny_request_fields [simp]:
  "h_store (deny_request clk ctx who reason rid req h)
     = snd (deny (clk 0) rid (if reason = '''' then ''denied by operator'' else reason) (h_store h))"
  "h_calls (deny_request clk ctx who reason rid req h) = h_calls h"
  "h_approver_required (deny_request clk ctx who reason rid req h) = h_approver_required h"
  by (simp_all add: deny_request_def Let_def)

lemma release_request_fields [simp]:
  "h_store (release_request now ctx who rid h) = snd (release_output rid (h_store h))"
  "h_calls (release_request now ctx who rid h) = h_calls h"
  "h_approver_required (release_request now ctx who rid h) = h_approver_required h"
  by (simp_all add: release_request_def)

lemma finish_fields [simp]:
  "h_store (approve_finish now ctx who rid r h) = h_store h"
  "h_calls (approve_finish now ctx who rid r h) = h_calls h"
  "h_approver_required (approve_finish now ctx who rid r h) = h_approver_required h"
  "h_store (auto_approve_finish now r h) = h_store h"
  "h_calls (auto_approve_finish now r h) = h_calls h"
  "h_approver_required (auto_approve_finish now r h) = h_approver_required h"
  by (simp_all add: approve_finish_def auto_approve_finish_def)

lemma thread_step_evolves:
  "thread_step w clk t h = (h', new) \<Longrightarrow> store_evolves (h_store h) (h_store h')"
proof (cases t)
  case (AtCommit ctx who rid gate)
  assume "thread_step w clk t h = (h', new)"
  then show ?thesis
    using AtCommit by (auto simp: evolves_ops split: prod.splits option.splits dest!: approve_commit_fields)
next
  case (AtAuto req)
  assume "thread_step w clk t h = (h', new)"
  then show ?thesis
    using AtAuto by (auto simp: evolves_ops split: prod.splits option.splits dest!: approve_commit_fields)
next
  case (AtExecRun r)
  assume "thread_step w clk t h = (h', new)"
  then show ?thesis
    using AtExecRun execute_body_fields(1) [of w "clk 0" r h] by (auto split: prod.splits simp del: execute_body_fields)
qed (auto simp: evolves_ops final_status_def split: sum.splits)

lemma watch_take_evolves:
  assumes "watch_take sha h = (found, h')" shows "store_evolves (h_store h) (h_store h')"
proof (cases "st_notify (h_store h)")
  case Nil
  with assms show ?thesis by (simp add: watch_take_def)
next
  case (Cons rid q)
  then have "h_store h' = (h_store h)\<lparr>st_notify := q\<rparr>"
    using assms by (auto simp: watch_take_def Let_def split: option.splits prod.splits if_splits)
  then show ?thesis using Cons by (auto intro!: evolves_wf_queue simp: store_wf_def)
qed

lemma watch_updates_evolves: "store_evolves (h_store h) (h_store (watch_updates_turn h))"
  by (cases "st_updates (h_store h)")
    (auto simp: watch_updates_turn_def intro!: evolves_wf_queue simp: store_wf_def)

lemma sse_fields [simp]:
  "h_store (sse_connect c h) = h_store h" "h_store (snd (sse_receive c h)) = h_store h"
  "h_store (sse_disconnect c h) = h_store h"
  "h_audit (sse_connect c h) = h_audit h" "h_audit (snd (sse_receive c h)) = h_audit h"
  "h_audit (sse_disconnect c h) = h_audit h"
  "h_calls (sse_connect c h) = h_calls h" "h_calls (snd (sse_receive c h)) = h_calls h"
  "h_calls (sse_disconnect c h) = h_calls h"
  "h_approver_required (sse_connect c h) = h_approver_required h"
  "h_approver_required (snd (sse_receive c h)) = h_approver_required h"
  "h_approver_required (sse_disconnect c h) = h_approver_required h"
  by (simp_all add: sse_connect_def sse_receive_def sse_disconnect_def split: option.split list.split)

lemma atomic_handlers_fields [simp]:
  "h_store (snd (handle_turbocharge clk ctx meth dm cs h)) = h_store h"
  "h_calls (snd (handle_turbocharge clk ctx meth dm cs h)) = h_calls h"
  "h_approver_required (snd (handle_turbocharge clk ctx meth dm cs h)) = h_approver_required h"
  "h_store (snd (handle_whitelist w clk ctx meth wb h)) = h_store h"
  "h_calls (snd (handle_whitelist w clk ctx meth wb h)) = h_calls h"
  "h_approver_required (snd (handle_whitelist w clk ctx meth wb h)) = h_approver_required h"
  "h_store (snd (handle_whitelist_remove w clk ctx meth rb h)) = h_store h"
  "h_calls (snd (handle_whitelist_remove w clk ctx meth rb h)) = h_calls h"
  "h_approver_required (snd (handle_whitelist_remove w clk ctx meth rb h)) = h_approver_required h"
  by (simp_all add: handle_turbocharge_def handle_whitelist_def handle_whitelist_remove_def put_whitelist_def
      Let_def split: option.split sum.split prod.split bool.split)

lemma sys_step_evolves:
  "sys_step y l y' \<Longrightarrow> store_evolves (h_store (y_handler y)) (h_store (y_handler y'))"
  by (induction rule: sys_step.induct)
    (auto simp: evolves_ops dest: thread_step_evolves watch_take_evolves intro: watch_updates_evolves)

section \<open>The invariant\<close>

text \<open>The audit log backs an execution of \<open>rid\<close>: an approval entry for it, made with the
  approver's credential when one is configured, or an entry of the whitelist path.\<close>

definition backs :: "handler \<Rightarrow> string \<Rightarrow> event \<Rightarrow> bool" where
  "backs h rid e \<longleftrightarrow> ev_request_id e = rid
     \<and> (ev_event e = ''request_approved''
          \<and> (h_approver_required h \<longrightarrow> (''approved_by'', JStr approved_by_approver) \<in> set (ev_fields e))
        \<or> ev_event e = ''request_auto_approved'')"

definition backed :: "handler \<Rightarrow> string \<Rightarrow> bool" where
  "backed h rid \<longleftrightarrow> (\<exists>e\<in>set (h_audit h). backs h rid e)"

definition decided_copy :: "handler \<Rightarrow> request \<Rightarrow> bool" where
  "decided_copy h r \<longleftrightarrow>
     (\<exists>r1. st_requests (h_store h) (r_id r) = Some r1 \<and> core r1 = core r \<and> r_status r1 \<noteq> StatusPending)"

fun thread_ok :: "handler \<Rightarrow> thread \<Rightarrow> bool" where
  "thread_ok h (AtCooldown ctx who rid g) = (authorize_decision ctx h = Inr who)"
| "thread_ok h (AtCommit ctx who rid g) = (authorize_decision ctx h = Inr who)"
| "thread_ok h (AtApproved ctx who rid r) =
     (authorize_decision ctx h = Inr who \<and> r_id r = rid \<and> decided_copy h r)"
| "thread_ok h (AtDeny ctx who reason rid r) = (authorize_decision ctx h = Inr who)"
| "thread_ok h (AtRelease ctx who rid) = (authorize_decision ctx h = Inr who)"
| "thread_ok h (AtAuto r) = True"
| "thread_ok h (AtAutoApproved r) = decided_copy h r"
| "thread_ok h (AtExecStart r) = (decided_copy h r \<and> backed h (r_id r))"
| "thread_ok h (AtExecRun r) = (decided_copy h r \<and> backed h (r_id r))"
| "thread_ok h (AtExecEnd r res) = (decided_copy h r \<and> backed h (r_id r))"

definition sys_inv :: "relay \<Rightarrow> bool" where
  "sys_inv y \<longleftrightarrow> store_wf (h_store (y_handler y))
     \<and> (\<forall>rid. tickets (y_threads y) rid \<le> 1)
     \<and> (\<forall>t\<in>set (y_threads y). thread_ok (y_handler y) t)
     \<and> (\<forall>rid c. (rid, c) \<in> set (h_calls (y_handler y)) \<longrightarrow> backed (y_handler y) rid)"

definition handler_evolves :: "handler \<Rightarrow> handler \<Rightarrow> bool" where
  "handler_evolves h h' \<longleftrightarrow> store_evolves (h_store h) (h_store h')
     \<and> prefix (h_audit h) (h_audit h') \<and> h_approver_required h' = h_approver_required h"

lemma decided_copy_mono: "handler_evolves h h' \<Longrightarrow> decided_copy h r \<Longrightarrow> decided_copy h' r"
  unfolding decided_copy_def handler_evolves_def store_evolves_def closed_def by (metis option.inject)

lemma backed_mono: "handler_evolves h h' \<Longrightarrow> backed h rid \<Longrightarrow> backed h' rid"
  by (auto simp: backed_def backs_def handler_evolves_def dest: set_mono_prefix)

lemma authorize_mono: "handler_evolves h h' \<Longrightarrow> authorize_decision ctx h' = authorize_decision ctx h"
  by (simp add: authorize_decision_def handler_evolves_def)

lemma thread_ok_mono: "handler_evolves h h' \<Longrightarrow> thread_ok h t \<Longrightarrow> thread_ok h' t"
  by (cases t) (auto intro: decided_copy_mono backed_mono simp: authorize_mono)

lemma ticket_closed: "thread_ok h t \<Longrightarrow> ticket t = Some rid \<Longrightarrow> closed (h_store h) rid"
  by (cases t) (auto simp: decided_copy_def closed_def)

lemma tickets_pos: "0 < tickets ts rid \<Longrightarrow> \<exists>t\<in>set ts. ticket t = Some rid"
  by (auto simp: tickets_def dest!: filter_eq_Cons_iff [THEN iffD1, OF sym] simp: length_greater_0_conv filter_empty_conv)

lemma open_no_ticket:
  "\<forall>t\<in>set ts. thread_ok h t \<Longrightarrow> \<not> closed (h_store h) rid \<Longrightarrow> tickets ts rid = 0"
  using tickets_pos [of ts rid] ticket_closed by blast

text \<open>An approval that took effect.\<close>

lemma approve_commit_Some:
  assumes "approve_commit now rid g h = (Some r, h')" and "store_wf (h_store h)"
  shows "\<not> closed (h_store h) rid \<and> r_id r = rid \<and> decided_copy h' r \<and> handler_evolves h h' \<and> h_calls h' = h_calls h"
proof -
  note f = approve_commit_fields [OF assms(1)]
  have a: "fst (approve now rid g (h_store h)) = Some r" using f by simp
  from approve_Some [OF a] f have st: "st_requests (h_store h') rid = Some r" "r_status r \<noteq> StatusPending"
    and open0: "\<not> closed (h_store h) rid" by (auto simp: closed_def)
  have ev: "store_evolves (h_store h) (h_store h')" using f by (simp add: evolves_approve)
  then have "store_wf (h_store h')" using assms(2) by (simp add: store_evolves_def)
  then have "r_id r = rid" by (rule store_wf_get) (rule st(1))
  moreover from this st have "decided_copy h' r" by (simp add: decided_copy_def)
  moreover have "handler_evolves h h'" using ev f by (simp add: handler_evolves_def)
  ultimately show ?thesis using open0 f by simp
qed

lemma decision_fields_by: "(''approved_by'', JStr who) \<in> set (decision_fields ctx who fs)"
  by (simp add: decision_fields_def)

lemma authorize_by:
  "authorize_decision ctx h = Inr who \<Longrightarrow> h_approver_required h \<Longrightarrow> who = approved_by_approver"
  by (auto simp: authorize_decision_def split: if_splits)

lemma approve_finish_evolves: "handler_evolves h (approve_finish now ctx who rid r h)"
  by (simp add: handler_evolves_def approve_finish_def)

lemma approve_finish_backed:
  "authorize_decision ctx h = Inr who \<Longrightarrow> backed (approve_finish now ctx who rid r h) rid"
  using authorize_by [of ctx h who] decision_fields_by [of who ctx "approval_fields r"]
  by (auto simp: backed_def backs_def approve_finish_def)

lemma auto_finish_evolves: "handler_evolves h (auto_approve_finish now r h)"
  by (simp add: handler_evolves_def auto_approve_finish_def)

lemma auto_finish_backed: "backed (auto_approve_finish now r h) (r_id r)"
  by (simp add: backed_def backs_def auto_approve_finish_def)

lemma execute_evolves:
  "handler_evolves h (execute_begin clk r h)"
  "handler_evolves h (execute_end clk r res h)"
  "handler_evolves h (snd (execute_body w t r h))"
  using execute_end_audit [of clk r res h]
  by (auto simp: handler_evolves_def evolves_ops final_status_def prefix_def)

lemma deny_release_evolves:
  "handler_evolves h (deny_request clk ctx who reason rid req h)"
  "handler_evolves h (release_request now ctx who rid h)"
  by (simp_all add: handler_evolves_def evolves_ops) (simp_all add: deny_request_def release_request_def Let_def)

lemma cooldown_evolves: "handler_evolves h (h\<lparr>h_cooldown := cd\<rparr>)"
  by (simp add: handler_evolves_def)

definition step_sound :: "handler \<Rightarrow> thread \<Rightarrow> handler \<Rightarrow> thread list \<Rightarrow> bool" where
  "step_sound h t h' new \<longleftrightarrow> handler_evolves h h' \<and> (\<forall>t'\<in>set new. thread_ok h' t')
     \<and> (\<forall>rid c. (rid, c) \<in> set (h_calls h') \<longrightarrow> (rid, c) \<in> set (h_calls h) \<or> backed h rid)
     \<and> ((\<forall>rid. tickets new rid \<le> tickets [t] rid)
        \<or> (\<exists>rid. ticket t = None \<and> tickets new = (\<lambda>k. if k = rid then 1 else 0) \<and> \<not> closed (h_store h) rid))"

lemma thread_step_sound:
  assumes "thread_step w clk t h = (h', new)" and "thread_ok h t" and wf: "store_wf (h_store h)"
  shows "step_sound h t h' new"
proof (cases t)
  case (AtCooldown ctx who rid g)
  with assms show ?thesis
    by (cases "start_cooldown clk (h_cooldown h)")
      (auto simp: step_sound_def cooldown_evolves authorize_mono [OF cooldown_evolves] tickets_Cons
        handler_evolves_def)
next
  case (AtCommit ctx who rid g)
  obtain x h1 where c: "approve_commit (clk 0) rid g h = (x, h1)" by (metis surj_pair)
  show ?thesis
  proof (cases x)
    case None
    with AtCommit assms c approve_commit_fields [OF c] show ?thesis
      by (auto simp: step_sound_def handler_evolves_def evolves_approve)
  next
    case (Some r)
    note s = approve_commit_Some [OF c [unfolded Some] wf]
    have "tickets new = (\<lambda>k. if k = rid then 1 else 0)"
      using AtCommit assms(1) c Some s by (auto simp: tickets_Cons fun_eq_iff)
    then show ?thesis
      using AtCommit assms c Some s by (auto simp: step_sound_def authorize_mono)
  qed
next
  case (AtAuto req)
  obtain x h1 where c: "approve_commit (clk 0) (r_id req) False h = (x, h1)" by (metis surj_pair)
  show ?thesis
  proof (cases x)
    case None
    with AtAuto assms c approve_commit_fields [OF c] show ?thesis
      by (auto simp: step_sound_def handler_evolves_def evolves_approve)
  next
    case (Some r)
    note s = approve_commit_Some [OF c [unfolded Some] wf]
    have "tickets new = (\<lambda>k. if k = r_id req then 1 else 0)"
      using AtAuto assms(1) c Some s by (auto simp: tickets_Cons fun_eq_iff)
    then show ?thesis
      using AtAuto assms c Some s by (auto simp: step_sound_def)
  qed
next
  case (AtApproved ctx who rid r)
  with assms decided_copy_mono [OF approve_finish_evolves] approve_finish_backed [of ctx h who "clk 0" rid r]
  show ?thesis by (auto simp: step_sound_def approve_finish_evolves tickets_Cons)
next
  case (AtAutoApproved r)
  with assms decided_copy_mono [OF auto_finish_evolves] show ?thesis
    by (auto simp: step_sound_def auto_finish_evolves auto_finish_backed tickets_Cons)
next
  case (AtExecStart r)
  with assms decided_copy_mono [OF execute_evolves(1)] backed_mono [OF execute_evolves(1)] show ?thesis
    by (auto simp: step_sound_def execute_evolves tickets_Cons)
next
  case (AtExecRun r)
  then have h': "h' = snd (execute_body w (clk 0) r h)" and new: "\<exists>res. new = [AtExecEnd r res]"
    using assms(1) by (auto split: prod.splits)
  with AtExecRun assms decided_copy_mono [OF execute_evolves(3)] backed_mono [OF execute_evolves(3)] show ?thesis
    by (auto simp: step_sound_def execute_evolves tickets_Cons execute_body_calls simp del: execute_body_fields)
next
  case (AtExecEnd r res)
  with assms show ?thesis by (auto simp: step_sound_def execute_evolves)
next
  case (AtDeny ctx who reason rid r)
  with assms show ?thesis by (auto simp: step_sound_def deny_release_evolves)
next
  case (AtRelease ctx who rid)
  with assms show ?thesis by (auto simp: step_sound_def deny_release_evolves)
qed

section \<open>The invariant holds of every step\<close>

lemma action_threads_ok:
  "parse_action ctx meth path h = Inr act \<Longrightarrow> t \<in> set (action_threads ctx reason act) \<Longrightarrow> thread_ok h t"
  by (cases act) (auto simp: parse_action_def split: list.splits if_splits sum.splits option.splits)

lemma watch_take_handler:
  assumes "watch_take sha h = (found, h')"
  shows "handler_evolves h h' \<and> h_calls h' = h_calls h"
proof -
  have "h_audit h' = h_audit h \<and> h_approver_required h' = h_approver_required h \<and> h_calls h' = h_calls h"
    using assms by (auto simp: watch_take_def Let_def split: list.splits option.splits prod.splits if_splits)
  with watch_take_evolves [OF assms] show ?thesis by (simp add: handler_evolves_def)
qed

lemma turbocharge_audit: "prefix (h_audit h) (h_audit (snd (handle_turbocharge clk ctx meth dm cs h)))"
  by (cases "authorize_decision ctx h") (simp_all add: handle_turbocharge_def Let_def)

lemma put_whitelist_audit [simp]: "h_audit (put_whitelist w v h) = h_audit h"
  by (simp add: put_whitelist_def)

lemma whitelist_audit: "prefix (h_audit h) (h_audit (snd (handle_whitelist w clk ctx meth wb h)))"
proof (cases "h_whitelist h")
  case (Some wl)
  show ?thesis
  proof (cases "meth \<noteq> ''GET'' \<and> meth = ''POST''")
    case True
    show ?thesis
    proof (cases "authorize_decision ctx h")
      case (Inr who)
      show ?thesis
      proof (cases wb)
        case b: (Some b)
        show ?thesis
        proof (cases "wb_gate_output b")
          case False
          show ?thesis
            by (simp add: handle_whitelist_def Some True Inr b False split: option.split prod.split)
        qed (simp add: handle_whitelist_def Some True Inr b)
      qed (simp add: handle_whitelist_def Some True Inr)
    qed (simp add: handle_whitelist_def Some True)
  qed (auto simp: handle_whitelist_def Some)
qed (simp add: handle_whitelist_def)

lemma whitelist_remove_audit: "prefix (h_audit h) (h_audit (snd (handle_whitelist_remove w clk ctx meth rb h)))"
proof (cases "meth = ''POST''")
  case True
  show ?thesis
  proof (cases "h_whitelist h")
    case (Some wl)
    show ?thesis
    proof (cases "authorize_decision ctx h")
      case (Inr who)
      show ?thesis
        by (simp add: handle_whitelist_remove_def Some True Inr split: option.split prod.split bool.split)
    qed (simp add: handle_whitelist_remove_def Some True)
  qed (simp add: handle_whitelist_remove_def True)
qed (simp add: handle_whitelist_remove_def)

lemma atomic_evolves:
  "handler_evolves h (snd (handle_turbocharge clk ctx meth dm cs h))"
  "handler_evolves h (snd (handle_whitelist w clk ctx meth wb h))"
  "handler_evolves h (snd (handle_whitelist_remove w clk ctx meth rb h))"
  by (simp_all add: handler_evolves_def turbocharge_audit whitelist_audit whitelist_remove_audit)

lemma updates_turn_handler:
  "handler_evolves h (watch_updates_turn h) \<and> h_calls (watch_updates_turn h) = h_calls h"
  using watch_updates_evolves [of h]
  by (auto simp: handler_evolves_def watch_updates_turn_def split: list.split)

lemma sys_inv_keep:
  assumes "sys_inv \<lparr>y_handler = h, y_threads = ts\<rparr>" and "handler_evolves h h'" and "h_calls h' = h_calls h"
    and "\<And>t. t \<in> set new \<Longrightarrow> thread_ok h' t" and "\<And>rid. tickets new rid = 0"
  shows "sys_inv \<lparr>y_handler = h', y_threads = ts @ new\<rparr>"
  using assms thread_ok_mono [OF assms(2)] backed_mono [OF assms(2)]
  by (auto simp: sys_inv_def handler_evolves_def store_evolves_def)

lemma sys_inv_advance:
  assumes inv: "sys_inv \<lparr>y_handler = h, y_threads = ts\<rparr>" and i: "i < length ts"
    and st: "thread_step w clk (ts ! i) h = (h', new)"
  shows "sys_inv \<lparr>y_handler = h', y_threads = take i ts @ new @ drop (Suc i) ts\<rparr>"
proof -
  let ?ts = "take i ts @ new @ drop (Suc i) ts"
  have wf: "store_wf (h_store h)" and ok: "\<forall>t\<in>set ts. thread_ok h t" and one: "\<And>rid. tickets ts rid \<le> 1"
    and calls: "\<And>rid c. (rid, c) \<in> set (h_calls h) \<Longrightarrow> backed h rid"
    using inv by (auto simp: sys_inv_def)
  have "step_sound h (ts ! i) h' new"
    by (rule thread_step_sound [OF st _ wf]) (use ok i in simp)
  then have ev: "handler_evolves h h'" and new: "\<forall>t\<in>set new. thread_ok h' t"
    and calls': "\<And>rid c. (rid, c) \<in> set (h_calls h') \<Longrightarrow> (rid, c) \<in> set (h_calls h) \<or> backed h rid"
    and tick: "(\<forall>rid. tickets new rid \<le> tickets [ts ! i] rid)
        \<or> (\<exists>rid. ticket (ts ! i) = None \<and> tickets new = (\<lambda>k. if k = rid then 1 else 0) \<and> \<not> closed (h_store h) rid)"
    by (auto simp: step_sound_def)
  have "tickets ?ts rid \<le> 1" for rid
    using tick
  proof
    assume "\<forall>rid. tickets new rid \<le> tickets [ts ! i] rid"
    then have "tickets new rid \<le> tickets [ts ! i] rid" ..
    then show ?thesis using tickets_replace [OF i, of new rid] one [of rid] by linarith
  next
    assume "\<exists>rid. ticket (ts ! i) = None \<and> tickets new = (\<lambda>k. if k = rid then 1 else 0) \<and> \<not> closed (h_store h) rid"
    then obtain k where k: "ticket (ts ! i) = None" "tickets new = (\<lambda>j. if j = k then 1 else 0)" "\<not> closed (h_store h) k"
      by blast
    have "tickets ts k = 0" by (rule open_no_ticket [OF ok k(3)])
    moreover have "tickets [ts ! i] rid = 0" using k(1) by (simp add: tickets_Cons)
    moreover have "tickets new rid = (if rid = k then 1 else 0)" using k(2) by simp
    ultimately show ?thesis using tickets_replace [OF i, of new rid] one [of rid]
      by (cases "rid = k") simp_all
  qed
  moreover have "thread_ok h' t" if "t \<in> set ?ts" for t
    using that ok new thread_ok_mono [OF ev] by (auto dest: in_set_takeD in_set_dropD)
  moreover have "store_wf (h_store h')" using ev wf by (simp add: handler_evolves_def store_evolves_def)
  moreover have "backed h' rid" if "(rid, c) \<in> set (h_calls h')" for rid c
    using calls' [OF that] calls backed_mono [OF ev] by blast
  ultimately show ?thesis by (simp add: sys_inv_def del: tickets_append)
qed

lemma sys_inv_step: "sys_step y l y' \<Longrightarrow> sys_inv y \<Longrightarrow> sys_inv y'"
proof (induction rule: sys_step.induct)
  case (advance i ts w clk h h' new)
  then show ?case by (rule sys_inv_advance [rotated 1])
next
  case (http_accepted ctx meth path h act ts reason)
  then show ?case
    by (intro sys_inv_keep) (auto simp: handler_evolves_def intro: action_threads_ok)
next
  case (watch sha h found h' ts)
  then show ?case
    using watch_take_handler [OF watch.hyps] by (intro sys_inv_keep [of h]) auto
next
  case (watch_updates h ts)
  then show ?case
    using sys_inv_keep [of h ts "watch_updates_turn h" "[]"] updates_turn_handler [of h] by simp
next
  case (submit r h ts)
  then show ?case
    using sys_inv_keep [of h ts "with_store h (publish r (h_store h))" "[]"]
    by (simp add: handler_evolves_def evolves_publish)
next
  case (agent_withdraw h ts now rid reason)
  then show ?case
    using sys_inv_keep [of h ts "with_store h (snd (withdraw now rid reason (h_store h)))" "[]"]
    by (simp add: handler_evolves_def evolves_withdraw)
next
  case (set_display h ts rid c)
  then show ?case
    using sys_inv_keep [of h ts "with_store h (snd (set_display_command rid c (h_store h)))" "[]"]
    by (simp add: handler_evolves_def evolves_display)
next
  case (turbocharge h ts clk ctx meth dm cs)
  then show ?case
    using sys_inv_keep [of h ts "snd (handle_turbocharge clk ctx meth dm cs h)" "[]"] by (simp add: atomic_evolves)
next
  case (edit_whitelist h ts w clk ctx meth wb)
  then show ?case
    using sys_inv_keep [of h ts "snd (handle_whitelist w clk ctx meth wb h)" "[]"] by (simp add: atomic_evolves)
next
  case (remove_rule h ts w clk ctx meth rb)
  then show ?case
    using sys_inv_keep [of h ts "snd (handle_whitelist_remove w clk ctx meth rb h)" "[]"] by (simp add: atomic_evolves)
next
  case (note_event ev h ts now rid fs)
  then show ?case
    using sys_inv_keep [of h ts "log_event now ev rid fs h" "[]"] by (simp add: handler_evolves_def)
next
  case (sse_connect_step h ts c)
  then show ?case
    using sys_inv_keep [of h ts "sse_connect c h" "[]"] by (simp add: handler_evolves_def)
next
  case (sse_receive_step h ts c)
  then show ?case
    using sys_inv_keep [of h ts "snd (sse_receive c h)" "[]"] by (simp add: handler_evolves_def)
next
  case (sse_disconnect_step h ts c)
  then show ?case
    using sys_inv_keep [of h ts "sse_disconnect c h" "[]"] by (simp add: handler_evolves_def)
qed simp

lemma sys_inv_initial: "initial y \<Longrightarrow> sys_inv y"
  by (simp add: initial_def sys_inv_def store_wf_new)

lemma sys_inv_trace: "exec_trace sys_step y tr z \<Longrightarrow> sys_inv y \<Longrightarrow> sys_inv z"
  by (erule exec_trace_invariant) (auto intro: sys_inv_step)

section \<open>Deciding once\<close>

text \<open>The request a step executes: one that advances a thread about to run.\<close>

definition runs_request :: "relay \<Rightarrow> label \<Rightarrow> string option" where
  "runs_request y l =
     (case l of
        Advance i w clk \<Rightarrow>
          (if i < length (y_threads y)
           then (case y_threads y ! i of AtExecRun r \<Rightarrow> Some (r_id r) | _ \<Rightarrow> None) else None)
      | _ \<Rightarrow> None)"

text \<open>A request is spent when it left pending and no thread holds a ticket for it.\<close>

definition spent :: "relay \<Rightarrow> string \<Rightarrow> bool" where
  "spent y rid \<longleftrightarrow> closed (h_store (y_handler y)) rid \<and> tickets (y_threads y) rid = 0"

definition guarded_step :: "relay \<Rightarrow> label \<Rightarrow> relay \<Rightarrow> bool" where
  "guarded_step y l y' \<longleftrightarrow> sys_inv y \<and> sys_step y l y'"

lemma guarded_trace:
  "exec_trace sys_step y tr z \<Longrightarrow> sys_inv y \<Longrightarrow> exec_trace guarded_step y tr z"
  by (induction rule: exec_trace.induct)
    (auto intro!: exec_trace.intros simp: guarded_step_def dest: sys_inv_step)

lemma runs_request_Some:
  assumes "sys_step y l y'" and "runs_request y l = Some rid"
  obtains i w clk r ts h h' new where "l = Advance i w clk" and "y = \<lparr>y_handler = h, y_threads = ts\<rparr>"
    and "i < length ts" and "ts ! i = AtExecRun r" and "r_id r = rid"
    and "thread_step w clk (ts ! i) h = (h', new)"
    and "y' = \<lparr>y_handler = h', y_threads = take i ts @ new @ drop (Suc i) ts\<rparr>"
proof -
  obtain i w clk r where l: "l = Advance i w clk" and r: "i < length (y_threads y)"
      "y_threads y ! i = AtExecRun r" "r_id r = rid"
    using assms(2) by (auto simp: runs_request_def split: label.splits if_splits thread.splits)
  from assms(1) [unfolded l] show thesis
    by (rule sys_step_AdvanceE) (use r l in \<open>auto intro: that\<close>)
qed

lemma spent_stays: "sys_step y l y' \<Longrightarrow> sys_inv y \<Longrightarrow> spent y rid \<Longrightarrow> spent y' rid"
proof -
  assume st: "sys_step y l y'" and inv: "sys_inv y" and sp: "spent y rid"
  have closed': "closed (h_store (y_handler y')) rid"
    using sys_step_evolves [OF st] sp by (simp add: spent_def store_evolves_def)
  have "tickets (y_threads y') rid = 0"
    using st inv sp
  proof (induction rule: sys_step.induct)
    case (advance i ts w clk h h' new)
    have wf: "store_wf (h_store h)" and ok: "thread_ok h (ts ! i)"
      using advance.prems(1) advance.hyps(1) by (auto simp: sys_inv_def)
    have zero: "tickets ts rid = 0" and cl: "closed (h_store h) rid"
      using advance.prems(2) by (simp_all add: spent_def)
    have "step_sound h (ts ! i) h' new" by (rule thread_step_sound [OF advance.hyps(2) ok wf])
    then have "tickets new rid \<le> tickets [ts ! i] rid"
      using cl by (auto simp: step_sound_def)
    then show ?case using tickets_replace [OF advance.hyps(1), of new rid] zero by simp
  qed (auto simp: spent_def)
  with closed' show ?thesis by (simp add: spent_def)
qed

interpretation relay_runs: decide_once spent guarded_step runs_request
proof
  fix s l s' rid
  assume st: "guarded_step s l s'" and run: "runs_request s l = Some rid"
  then have "sys_step s l s'" and inv: "sys_inv s" by (auto simp: guarded_step_def)
  from this(1) run obtain i w clk r ts h h' new where l: "l = Advance i w clk"
    and s: "s = \<lparr>y_handler = h, y_threads = ts\<rparr>" and i: "i < length ts" and t: "ts ! i = AtExecRun r"
    and r: "r_id r = rid" and th: "thread_step w clk (ts ! i) h = (h', new)"
    and s': "s' = \<lparr>y_handler = h', y_threads = take i ts @ new @ drop (Suc i) ts\<rparr>"
    by (rule runs_request_Some)
  have tk: "tickets [ts ! i] rid = 1" using t r by (simp add: tickets_Cons)
  have "ts ! i \<in> set ts" using i by simp
  then have "0 < tickets ts rid"
    using t r by (simp add: tickets_def filter_empty_conv) (metis ticket.simps(4))
  then show "\<not> spent s rid" by (simp add: spent_def s)
  have "closed (h_store h) rid"
    using inv \<open>ts ! i \<in> set ts\<close> t r ticket_closed [of h "ts ! i" rid] by (auto simp: sys_inv_def s)
  then have "closed (h_store h') rid"
    using thread_step_evolves [OF th] by (simp add: store_evolves_def)
  moreover have one: "tickets ts rid \<le> 1" using inv by (simp add: sys_inv_def s)
  have "tickets new rid = 0" using th t by (auto simp: tickets_Cons split: prod.splits)
  then have "tickets (take i ts @ new @ drop (Suc i) ts) rid = 0"
    using tickets_replace [OF i, of new rid] tk one by linarith
  ultimately show "spent s' rid" by (simp add: spent_def s' del: tickets_append)
next
  fix s l s' rid
  assume "guarded_step s l s'" and "spent s rid"
  then show "spent s' rid" using spent_stays by (auto simp: guarded_step_def)
qed

section \<open>Lemmas about executions\<close>

lemma calls_come_from_runs:
  "sys_step y l y' \<Longrightarrow> (rid, c) \<in> set (h_calls (y_handler y')) \<Longrightarrow>
     (rid, c) \<in> set (h_calls (y_handler y)) \<or> runs_request y l = Some rid"
proof (induction rule: sys_step.induct)
  case (advance i ts w clk h h' new)
  show ?case
  proof (cases "ts ! i")
    case (AtCooldown ctx who rid' g)
    with advance show ?thesis by (cases "start_cooldown clk (h_cooldown h)") auto
  next
    case (AtCommit ctx who rid' g)
    with advance show ?thesis by (auto split: prod.splits option.splits dest!: approve_commit_fields)
  next
    case (AtAuto r)
    with advance show ?thesis by (auto split: prod.splits option.splits dest!: approve_commit_fields)
  next
    case (AtExecRun r)
    then have "h' = snd (execute_body w (clk 0) r h)"
      using advance.hyps(2) by (auto split: prod.splits)
    with AtExecRun advance show ?thesis
      by (auto simp: execute_body_calls runs_request_def simp del: execute_body_fields)
  qed (use advance in auto)
next
  case (watch sha h found h' ts)
  then show ?case using watch_take_handler [OF watch.hyps] by simp
next
  case (watch_updates h ts)
  then show ?case using updates_turn_handler [of h] by simp
qed auto

lemma calls_in_trace:
  "exec_trace sys_step y tr z \<Longrightarrow> (rid, c) \<in> set (h_calls (y_handler z)) \<Longrightarrow>
     (rid, c) \<in> set (h_calls (y_handler y)) \<or> (\<exists>(u, l)\<in>set tr. runs_request u l = Some rid)"
proof (induction rule: exec_trace.induct)
  case (next_step s l s' tr t)
  then show ?case using calls_come_from_runs [OF next_step.hyps(1), of rid c] by auto
qed simp

lemma store_evolves_trace:
  "exec_trace sys_step y tr z \<Longrightarrow> store_evolves (h_store (y_handler y)) (h_store (y_handler z))"
  by (induction rule: exec_trace.induct) (auto dest: sys_step_evolves intro: store_evolves_trans)

text \<open>After a run the request has left pending.\<close>

lemma run_closes:
  assumes "exec_trace sys_step y tr z" and "sys_inv y" and "(u, l) \<in> set tr" and "runs_request u l = Some rid"
  shows "closed (h_store (y_handler z)) rid"
  using assms
proof (induction rule: exec_trace.induct)
  case (next_step s k s' tr t)
  show ?case
  proof (cases "(u, l) = (s, k)")
    case True
    then have "spent s' rid"
      using relay_runs.grants_closes [of s k s' rid] next_step by (auto simp: guarded_step_def)
    then show ?thesis
      using store_evolves_trace [OF next_step.hyps(2)] by (auto simp: spent_def store_evolves_def)
  next
    case False
    with next_step show ?thesis by (auto dest: sys_inv_step)
  qed
qed simp

lemma runs_at_most_once:
  "exec_trace sys_step y tr z \<Longrightarrow> sys_inv y \<Longrightarrow>
     length (filter (\<lambda>(u, l). runs_request u l = Some rid) tr) \<le> 1"
  by (rule relay_runs.at_most_one_grant) (rule guarded_trace)

section \<open>A concrete execution\<close>

text \<open>A request is submitted, an operator approves it and, before the approval ran, another
  tab denies it. The legacy mode is on, so no credential is needed.\<close>

definition demo_relay :: relay where
  "demo_relay = \<lparr>y_handler = new_handler new_store [] Map.empty, y_threads = []\<rparr>"

definition demo_request :: request where
  "demo_request = (pending_request ''r1'' 5)\<lparr>r_command := ''df'', r_args := [''-h'']\<rparr>"

definition advance_sys :: "nat \<Rightarrow> relay \<Rightarrow> relay" where
  "advance_sys i y =
     (case thread_step demo_world (\<lambda>n. 9) (y_threads y ! i) (y_handler y) of
        (h', new) \<Rightarrow> \<lparr>y_handler = h', y_threads = take i (y_threads y) @ new @ drop (Suc i) (y_threads y)\<rparr>)"

definition demo_label :: "nat \<Rightarrow> label" where
  "demo_label i = Advance i demo_world (\<lambda>n. 9)"

definition demo_handler1 :: handler where
  "demo_handler1 = (new_handler new_store [] Map.empty)\<lparr>h_store := publish demo_request new_store\<rparr>"

definition demo_threads :: "thread list" where
  "demo_threads = [AtCooldown no_ctx approved_by_legacy_token ''r1'' False,
                   AtDeny no_ctx approved_by_legacy_token '''' ''r1'' demo_request]"

definition demo_both :: relay where
  "demo_both = \<lparr>y_handler = demo_handler1, y_threads = demo_threads\<rparr>"

definition demo_denied :: relay where
  "demo_denied = advance_sys 1 (advance_sys 0 (advance_sys 0 demo_both))"

definition demo_running :: relay where
  "demo_running = advance_sys 0 (advance_sys 0 demo_denied)"

lemma demo_relay_initial: "initial demo_relay"
  by (simp add: initial_def demo_relay_def new_handler_def)

lemma advance_sys_step:
  "i < length (y_threads y) \<Longrightarrow> sys_step y (demo_label i) (advance_sys i y)"
  using sys_step.advance [of i "y_threads y" demo_world "\<lambda>n. 9" "y_handler y"]
  by (cases y) (auto simp: advance_sys_def demo_label_def split: prod.split)

lemma demo_prefix: "\<exists>tr. exec_trace sys_step demo_relay tr demo_both"
proof -
  let ?h = demo_handler1
  have acts: "split_on CHR ''/'' (trim_prefix ''/api/requests/r1/approve'' ''/api/requests/'') = [''r1'', ''approve'']"
    "split_on CHR ''/'' (trim_prefix ''/api/requests/r1/deny'' ''/api/requests/'') = [''r1'', ''deny'']"
    by (simp_all add: trim_prefix_def)
  have st: "store_get (h_store ?h) ''r1'' = Some demo_request" "r_status demo_request = StatusPending"
    "\<not> h_approver_required ?h"
    by (simp_all add: demo_handler1_def demo_request_def new_handler_def publish_def store_get_def pending_request_def)
  then have p: "parse_action no_ctx ''POST'' ''/api/requests/r1/approve'' ?h
        = Inr (Approve ''r1'' False approved_by_legacy_token demo_request)"
    "parse_action no_ctx ''POST'' ''/api/requests/r1/deny'' ?h
        = Inr (Deny ''r1'' approved_by_legacy_token demo_request)"
    by (simp_all add: parse_action_def acts authorize_decision_def)
  have "sys_step demo_relay (Submit demo_request) \<lparr>y_handler = ?h, y_threads = []\<rparr>"
    using sys_step.submit [of demo_request "y_handler demo_relay" "[]"]
    by (simp add: demo_relay_def demo_handler1_def new_handler_def new_request_def demo_request_def
        pending_request_def new_store_def)
  moreover have "sys_step \<lparr>y_handler = ?h, y_threads = []\<rparr> (HttpAction no_ctx ''POST'' ''/api/requests/r1/approve'' '''')
      \<lparr>y_handler = ?h, y_threads = [AtCooldown no_ctx approved_by_legacy_token ''r1'' False]\<rparr>"
    using sys_step.http_accepted [OF p(1), of "[]" "''''"] by simp
  moreover have "sys_step \<lparr>y_handler = ?h, y_threads = [AtCooldown no_ctx approved_by_legacy_token ''r1'' False]\<rparr>
      (HttpAction no_ctx ''POST'' ''/api/requests/r1/deny'' '''') demo_both"
    using sys_step.http_accepted [OF p(2), of "[AtCooldown no_ctx approved_by_legacy_token ''r1'' False]" "''''"]
    by (simp add: demo_both_def demo_threads_def)
  ultimately show ?thesis by (blast intro: exec_trace.intros)
qed

text \<open>The states of the execution, evaluated.\<close>

lemma demo_denied_state:
  "length (y_threads (advance_sys 0 demo_both)) = 2"
  "length (y_threads (advance_sys 0 (advance_sys 0 demo_both))) = 2"
  "\<exists>r c who. y_threads demo_denied = [AtApproved c who ''r1'' r] \<and> r_id r = ''r1''"
  "\<exists>r. st_requests (h_store (y_handler demo_denied)) ''r1'' = Some r \<and> r_status r = StatusDenied"
  by (simp_all add: demo_denied_def advance_sys_def demo_both_def demo_threads_def demo_handler1_def
      new_handler_def start_cooldown_def active_cooldown_def turbo_active_def since_opt_def
      max_int64_def default_approval_cooldown_def second_def approve_commit_def approve_def publish_def
      new_store_def demo_request_def pending_request_def Let_def deny_request_def log_event_def broadcast_event_def
      deny_def)

lemma demo_running_state:
  "\<exists>r. y_threads (advance_sys 0 demo_denied) = [AtExecStart r] \<and> y_threads demo_running = [AtExecRun r] \<and> r_id r = ''r1''"
  using demo_denied_state(3) by (auto simp: demo_running_def advance_sys_def)

lemma reach_advance:
  "\<exists>tr. exec_trace sys_step y tr z \<Longrightarrow> i < length (y_threads z) \<Longrightarrow>
     \<exists>tr. exec_trace sys_step y tr (advance_sys i z)"
  by (blast intro: exec_trace_snoc advance_sys_step)

lemma demo_both_to_denied: "\<exists>tr. exec_trace sys_step demo_both tr demo_denied"
proof -
  have b: "0 < length (y_threads demo_both)" by (simp add: demo_both_def demo_threads_def)
  have c: "0 < length (y_threads (advance_sys 0 demo_both))"
    and d: "1 < length (y_threads (advance_sys 0 (advance_sys 0 demo_both)))"
    using demo_denied_state(1,2) by linarith+
  have "\<exists>tr. exec_trace sys_step demo_both tr demo_both" by (blast intro: exec_trace.stop)
  then show ?thesis
    unfolding demo_denied_def by (intro reach_advance [OF reach_advance [OF reach_advance [OF _ b] c] d])
qed

lemma demo_to_denied: "\<exists>tr. exec_trace sys_step demo_relay tr demo_denied"
  using demo_prefix demo_both_to_denied by (blast intro: exec_trace_append)

lemma demo_denied_to_running:
  "exec_trace sys_step demo_denied [(demo_denied, demo_label 0), (advance_sys 0 demo_denied, demo_label 0)] demo_running"
proof -
  have "sys_step demo_denied (demo_label 0) (advance_sys 0 demo_denied)"
    using demo_denied_state(3) by (auto intro: advance_sys_step)
  moreover have "sys_step (advance_sys 0 demo_denied) (demo_label 0) demo_running"
    unfolding demo_running_def using demo_running_state by (auto intro: advance_sys_step)
  ultimately show ?thesis by (auto intro: exec_trace.intros)
qed

lemma demo_running_runs:
  "runs_request demo_running (demo_label 0) = Some ''r1''"
  "sys_step demo_running (demo_label 0) (advance_sys 0 demo_running)"
  using demo_running_state by (auto simp: runs_request_def demo_label_def intro: advance_sys_step [unfolded demo_label_def])

section \<open>Properties\<close>

text \<open>Under every interleaving of operators, the whitelist watcher, agents and running
  executions, each request is executed at most once, and every outside call made in a request's
  name stems from that one execution.\<close>

theorem executes_at_most_once:
  assumes "initial y" and "exec_trace sys_step y tr z"
  shows "length (filter (\<lambda>(u, l). runs_request u l = Some rid) tr) \<le> 1
       \<and> (\<forall>c. (rid, c) \<in> set (h_calls (y_handler z)) \<longrightarrow> (\<exists>(u, l)\<in>set tr. runs_request u l = Some rid))"
  using runs_at_most_once [OF assms(2) sys_inv_initial [OF assms(1)]] calls_in_trace [OF assms(2)] assms(1)
  by (auto simp: initial_def)

theorem executes_at_most_once_witness:
  "\<exists>tr. exec_trace sys_step demo_relay tr (advance_sys 0 demo_running)
     \<and> length (filter (\<lambda>(u, l). runs_request u l = Some ''r1'') tr) = 1"
proof -
  obtain tr where tr: "exec_trace sys_step demo_relay tr demo_running"
    using demo_to_denied exec_trace_append [OF _ demo_denied_to_running] by blast
  let ?tr = "tr @ [(demo_running, demo_label 0)]"
  have ex: "exec_trace sys_step demo_relay ?tr (advance_sys 0 demo_running)"
    by (rule exec_trace_snoc [OF tr demo_running_runs(2)])
  have "1 \<le> length (filter (\<lambda>(u, l). runs_request u l = Some ''r1'') ?tr)"
    by (simp add: demo_running_runs(1))
  then show ?thesis
    using ex executes_at_most_once [OF demo_relay_initial ex, of "''r1''"] by (metis le_antisym)
qed

text \<open>No outside call without a decision: every call in a request's name, and every thread
  about to execute or executing one, is backed by an entry of the audit log that approved this very
  request, and with an approver configured that entry carries the approver's credential or comes
  from the whitelist watcher.\<close>

theorem every_execution_is_audited:
  assumes "initial y" and "exec_trace sys_step y tr z"
  shows "(\<forall>rid c. (rid, c) \<in> set (h_calls (y_handler z)) \<longrightarrow> backed (y_handler z) rid)
       \<and> (\<forall>r. AtExecStart r \<in> set (y_threads z) \<or> AtExecRun r \<in> set (y_threads z) \<longrightarrow>
            backed (y_handler z) (r_id r) \<and> closed (h_store (y_handler z)) (r_id r))"
proof -
  have "sys_inv z" by (rule sys_inv_trace [OF assms(2) sys_inv_initial [OF assms(1)]])
  then have ok: "\<And>t. t \<in> set (y_threads z) \<Longrightarrow> thread_ok (y_handler z) t"
    and calls: "\<And>rid c. (rid, c) \<in> set (h_calls (y_handler z)) \<Longrightarrow> backed (y_handler z) rid"
    by (auto simp: sys_inv_def)
  have "backed (y_handler z) (r_id r) \<and> closed (h_store (y_handler z)) (r_id r)"
    if "AtExecStart r \<in> set (y_threads z) \<or> AtExecRun r \<in> set (y_threads z)" for r
    using that ok [of "AtExecStart r"] ok [of "AtExecRun r"] by (auto simp: decided_copy_def closed_def)
  with calls show ?thesis by blast
qed

theorem every_execution_is_audited_witness:
  "\<exists>r. AtExecRun r \<in> set (y_threads demo_running) \<and> backed (y_handler demo_running) (r_id r)"
proof -
  obtain tr where "exec_trace sys_step demo_relay tr demo_running"
    using demo_to_denied exec_trace_append [OF _ demo_denied_to_running] by blast
  from every_execution_is_audited [OF demo_relay_initial this] demo_running_state show ?thesis by auto
qed

text \<open>C3. What runs is what was submitted: a thread executing a request carries the command,
  arguments, content, script, HTTP call and registry arguments the request was stored with, however
  many operations came in between.\<close>

theorem executes_what_was_submitted:
  assumes "sys_inv y" and "exec_trace sys_step y tr z"
    and "st_requests (h_store (y_handler y)) (r_id r) = Some r0" and "AtExecRun r \<in> set (y_threads z)"
  shows "core r = core r0 \<and> r_command r = r_command r0 \<and> r_args r = r_args r0 \<and> r_stdin r = r_stdin r0
       \<and> r_http_url r = r_http_url r0 \<and> r_registry_args r = r_registry_args r0"
proof -
  have "sys_inv z" by (rule sys_inv_trace [OF assms(2,1)])
  then have "thread_ok (y_handler z) (AtExecRun r)"
    using assms(4) unfolding sys_inv_def by blast
  then obtain r1 where "st_requests (h_store (y_handler z)) (r_id r) = Some r1" and "core r1 = core r"
    by (auto simp: decided_copy_def)
  moreover obtain r2 where "st_requests (h_store (y_handler z)) (r_id r) = Some r2" and "core r2 = core r0"
    using store_evolves_trace [OF assms(2)] assms(3) unfolding store_evolves_def by blast
  ultimately have eq: "core r = core r0" by simp
  have "r_command r = r_command r0 \<and> r_args r = r_args r0 \<and> r_stdin r = r_stdin r0
      \<and> r_http_url r = r_http_url r0 \<and> r_registry_args r = r_registry_args r0"
    using arg_cong [OF eq, of r_command] arg_cong [OF eq, of r_args] arg_cong [OF eq, of r_stdin]
      arg_cong [OF eq, of r_http_url] arg_cong [OF eq, of r_registry_args]
    unfolding core_selectors by simp
  with eq show ?thesis by blast
qed

theorem executes_what_was_submitted_witness:
  "\<exists>r. AtExecRun r \<in> set (y_threads demo_running) \<and> r_command r = ''df'' \<and> r_args r = [''-h'']"
proof -
  obtain r where r: "y_threads demo_running = [AtExecRun r]" "r_id r = ''r1''"
    using demo_running_state by blast
  have inv: "sys_inv demo_both"
    using demo_prefix sys_inv_trace sys_inv_initial [OF demo_relay_initial] by blast
  obtain tr where "exec_trace sys_step demo_both tr demo_running"
    using demo_both_to_denied exec_trace_append [OF _ demo_denied_to_running] by blast
  from executes_what_was_submitted [OF inv this, of r demo_request] r show ?thesis
    by (simp add: demo_both_def demo_handler1_def publish_def demo_request_def pending_request_def)
qed

text \<open>C4. A withdrawal that took effect is final: if the agent withdraws a request while it is
  pending, no step of the execution, before or after, runs it.\<close>

theorem withdrawn_never_executes:
  assumes "initial y" and "exec_trace sys_step y (tr @ (u, AgentWithdraw now rid reason) # tr') z"
    and "st_requests (h_store (y_handler u)) rid = Some r" and "r_status r = StatusPending"
  shows "\<forall>(v, l)\<in>set (tr @ (u, AgentWithdraw now rid reason) # tr'). runs_request v l \<noteq> Some rid"
proof -
  have inv: "sys_inv y" by (rule sys_inv_initial [OF assms(1)])
  obtain v where tr: "exec_trace sys_step y tr v"
    and rest: "exec_trace sys_step v ((u, AgentWithdraw now rid reason) # tr') z"
    using exec_trace_split [OF assms(2)] by blast
  then obtain u' where v: "v = u" and st: "sys_step u (AgentWithdraw now rid reason) u'"
    and tr': "exec_trace sys_step u' tr' z"
    by (auto elim: exec_trace_ConsE)
  have invu: "sys_inv u" using sys_inv_trace [OF tr inv] v by simp
  have "\<not> closed (h_store (y_handler u)) rid" using assms(3,4) by (simp add: closed_def)
  then have before: "runs_request w l \<noteq> Some rid" if "(w, l) \<in> set tr" for w l
    using run_closes [OF tr inv that] v by auto
  have "spent u' rid"
    using st
  proof (rule sys_step_withdrawE)
    fix h ts
    assume u: "u = \<lparr>y_handler = h, y_threads = ts\<rparr>"
      and u': "u' = \<lparr>y_handler = with_store h (snd (withdraw now rid reason (h_store h))), y_threads = ts\<rparr>"
    have "tickets ts rid = 0"
      using open_no_ticket [of ts h rid] invu \<open>\<not> closed (h_store (y_handler u)) rid\<close> by (auto simp: sys_inv_def u)
    then show "spent u' rid"
      using assms(3,4) by (simp add: spent_def closed_def u u' withdraw_def)
  qed
  then have "runs_request w l \<noteq> Some rid" if "(w, l) \<in> set tr'" for w l
    using relay_runs.no_grant_when_closed [OF guarded_trace [OF tr' sys_inv_step [OF st invu]]] that
    by (auto simp: filter_empty_conv)
  with before show ?thesis by (auto simp: runs_request_def)
qed

theorem withdrawn_never_executes_witness:
  "\<exists>u z. exec_trace sys_step demo_relay [(demo_relay, Submit demo_request), (u, AgentWithdraw 6 ''r1'' ''mistake'')] z
     \<and> (\<forall>(v, l)\<in>{(demo_relay, Submit demo_request), (u, AgentWithdraw 6 ''r1'' ''mistake'')}.
          runs_request v l \<noteq> Some ''r1'')"
proof -
  let ?u = "\<lparr>y_handler = demo_handler1, y_threads = []\<rparr>"
  have "sys_step demo_relay (Submit demo_request) ?u"
    using sys_step.submit [of demo_request "y_handler demo_relay" "[]"]
    by (simp add: demo_relay_def demo_handler1_def new_handler_def new_request_def demo_request_def
        pending_request_def new_store_def)
  moreover obtain z where "sys_step ?u (AgentWithdraw 6 ''r1'' ''mistake'') z"
    by (blast intro: sys_step.agent_withdraw)
  ultimately have tr: "exec_trace sys_step demo_relay
      ([(demo_relay, Submit demo_request)] @ (?u, AgentWithdraw 6 ''r1'' ''mistake'') # []) z"
    by (auto intro: exec_trace.intros)
  have "st_requests (h_store (y_handler ?u)) ''r1'' = Some demo_request" "r_status demo_request = StatusPending"
    by (simp_all add: demo_handler1_def publish_def demo_request_def pending_request_def)
  from withdrawn_never_executes [OF demo_relay_initial tr this] tr show ?thesis by auto
qed

end
