(* ===== verification/Machine_Shell.thy ===== *)
theory Machine_Shell
  imports Machines Go_Base64
begin

text \<open>
  mcp/machine_shell.go and the quoting helpers of mcp/tools.go: the command lines the relay
  builds for POSIX and PowerShell targets. Beside the code stand two readers, of POSIX words and
  of PowerShell's encoded commands and string literals: they say what the far side reads back,
  and the lemmas state that it is what the relay meant.
\<close>

section \<open>Quoting\<close>

definition shell_quote :: "string \<Rightarrow> string" where
  "shell_quote s = CHR 0x27 # replace_all s [CHR 0x27] [CHR 0x27, CHR 0x22, CHR 0x27, CHR 0x22, CHR 0x27] @ [CHR 0x27]"

definition pwsh_quote :: "string \<Rightarrow> string" where
  "pwsh_quote s = CHR 0x27 # replace_all s [CHR 0x27] [CHR 0x27, CHR 0x27] @ [CHR 0x27]"

text \<open>\<^verbatim>\<open>utf16.Encode\<close>; a rune that is no code point or a surrogate reads as U+FFFD.\<close>

definition utf16_unit :: "nat \<Rightarrow> nat list" where
  "utf16_unit r =
     (if r < 55296 \<or> (57344 \<le> r \<and> r < 65536) then [r]
      else if 65536 \<le> r \<and> r < 1114112 then [55296 + (r - 65536) div 1024, 56320 + (r - 65536) mod 1024]
      else [65533])"

definition utf16_encode :: "nat list \<Rightarrow> nat list" where
  "utf16_encode rs = concat (map utf16_unit rs)"

definition le_bytes :: "nat list \<Rightarrow> string" where
  "le_bytes us = concat (map (\<lambda>u. [char_of (u mod 256), char_of (u div 256 mod 256)]) us)"

definition ps_encoded_command :: "string \<Rightarrow> string" where
  "ps_encoded_command script = b64_encode std_alphabet True (le_bytes (utf16_encode (runes script)))"

definition ps_invoke :: "string \<Rightarrow> string list" where
  "ps_invoke script = [''powershell'', ''-NoProfile'', ''-EncodedCommand'', ps_encoded_command script]"

fun join_cmd :: "string \<Rightarrow> string list \<Rightarrow> string" where
  "join_cmd full [] = full"
| "join_cmd full (a # as) = join_cmd (full @ '' '' @ a) as"

section \<open>Remote commands\<close>

definition machine_exec_remote :: "machine \<Rightarrow> string \<Rightarrow> string list \<Rightarrow> bool \<Rightarrow> string list" where
  "machine_exec_remote m command cmdArgs shell =
     (if m_shell m = shell_powershell then
        (if shell then ps_invoke (join_cmd command cmdArgs) else command # cmdArgs)
      else if shell then [join_cmd command cmdArgs]
      else command # cmdArgs)"

definition ps_write_file_script :: "string \<Rightarrow> string" where
  "ps_write_file_script path = str_join ''; ''
     [''$ErrorActionPreference='' @ pwsh_quote ''Stop'',
      ''$b=[Console]::In.ReadToEnd()'',
      ''$bytes=[Convert]::FromBase64String($b)'',
      ''$path='' @ pwsh_quote path,
      ''$dir=Split-Path -Parent $path'',
      ''if($dir){[void](New-Item -ItemType Directory -Force -Path $dir)}'',
      ''[IO.File]::WriteAllBytes($path,$bytes)'']"

text \<open>\<open>cat > path && chmod mode path\<close> with the path quoted, as several tools build it.\<close>

definition cat_chmod :: "string \<Rightarrow> string \<Rightarrow> string" where
  "cat_chmod path fmode = ''cat > '' @ shell_quote path @ '' && chmod '' @ fmode @ '' '' @ shell_quote path"

definition machine_write_remote :: "machine \<Rightarrow> string \<Rightarrow> string \<Rightarrow> string \<Rightarrow> string list \<times> string" where
  "machine_write_remote m path fmode content =
     (if m_shell m = shell_powershell
      then (ps_invoke (ps_write_file_script path), b64_encode std_alphabet True content)
      else ([cat_chmod path fmode], content))"

definition ps_key_append_script :: string where
  "ps_key_append_script = str_join ''; ''
     [''$ErrorActionPreference='' @ pwsh_quote ''Stop'',
      ''$k=[Console]::In.ReadToEnd().Trim()'',
      ''$d=Join-Path $env:USERPROFILE '' @ pwsh_quote ''.ssh'',
      ''[void](New-Item -ItemType Directory -Force -Path $d)'',
      ''Add-Content -Path (Join-Path $d '' @ pwsh_quote ''authorized_keys'' @ '') -Value $k'']"

definition ssh_key_line :: "string \<Rightarrow> string" where
  "ssh_key_line key = trim_space key @ [CHR 0x0A]"

definition machine_key_append_remote :: "machine \<Rightarrow> string \<Rightarrow> string list \<times> string" where
  "machine_key_append_remote m key =
     (if m_shell m = shell_powershell then (ps_invoke ps_key_append_script, ssh_key_line key)
      else ([''mkdir -p ~/.ssh && cat >> ~/.ssh/authorized_keys && chmod 600 ~/.ssh/authorized_keys && chmod 700 ~/.ssh''],
            ssh_key_line key))"

section \<open>What a POSIX shell reads\<close>

text \<open>
  Token recognition and quote removal of a POSIX shell (XCU 2.2, 2.3) on the lines without
  expansions: words are made of plain characters, single-quoted and double-quoted parts; blanks
  separate them, each of \<open>| & ; < >\<close> is a token of its own here. A dollar sign, back quote or
  backslash outside single quotes, a parenthesis, a line end, a pattern or comment character
  makes the reader give up (\<open>None\<close>): it never guesses.
\<close>

datatype sh_token = ShWord string | ShOp char

datatype sh_mode = Unquoted | Single | Double

definition sh_ops :: "char set" where
  "sh_ops = {CHR ''|'', CHR ''&'', CHR '';'', CHR ''<'', CHR ''>''}"

definition sh_unread :: "char set" where
  "sh_unread = {CHR ''$'', CHR 0x60, CHR 0x5C, CHR ''('', CHR '')'', CHR 0x0A, CHR ''*'', CHR ''?'',
     CHR ''['', CHR ''#'', CHR ''!'', CHR ''{'', CHR ''}''}"

definition flush :: "string option \<Rightarrow> sh_token list" where
  "flush cur = (case cur of None \<Rightarrow> [] | Some w \<Rightarrow> [ShWord w])"

definition opened :: "string option \<Rightarrow> string" where
  "opened cur = (case cur of None \<Rightarrow> [] | Some w \<Rightarrow> w)"

fun sh_scan :: "sh_mode \<Rightarrow> string option \<Rightarrow> string \<Rightarrow> sh_token list option" where
  "sh_scan Unquoted cur [] = Some (flush cur)"
| "sh_scan Single cur [] = None"
| "sh_scan Double cur [] = None"
| "sh_scan Unquoted cur (c # cs) =
     (if c = CHR 0x27 then sh_scan Single (Some (opened cur)) cs
      else if c = CHR 0x22 then sh_scan Double (Some (opened cur)) cs
      else if c = CHR '' '' \<or> c = CHR 0x09 then map_option ((@) (flush cur)) (sh_scan Unquoted None cs)
      else if c \<in> sh_ops then map_option (\<lambda>ts. flush cur @ ShOp c # ts) (sh_scan Unquoted None cs)
      else if c \<in> sh_unread then None
      else sh_scan Unquoted (Some (opened cur @ [c])) cs)"
| "sh_scan Single cur (c # cs) =
     (if c = CHR 0x27 then sh_scan Unquoted cur cs else sh_scan Single (Some (opened cur @ [c])) cs)"
| "sh_scan Double cur (c # cs) =
     (if c = CHR 0x22 then sh_scan Unquoted cur cs
      else if c \<in> {CHR ''$'', CHR 0x60, CHR 0x5C} then None
      else sh_scan Double (Some (opened cur @ [c])) cs)"

definition sh_tokens :: "string \<Rightarrow> sh_token list option" where
  "sh_tokens line = sh_scan Unquoted None line"

text \<open>ssh joins the words of its remote command with blanks and the login shell reads the line.\<close>

definition remote_line :: "string list \<Rightarrow> string" where
  "remote_line argv = str_join '' '' argv"

lemma opened_simps [simp]: "opened None = []" "opened (Some w) = w"
  by (simp_all add: opened_def)

lemma flush_simps [simp]: "flush None = []" "flush (Some w) = [ShWord w]"
  by (simp_all add: flush_def)

lemma shell_quote_eq:
  "shell_quote s = CHR 0x27 # concat (map (\<lambda>c. if c = CHR 0x27
     then [CHR 0x27, CHR 0x22, CHR 0x27, CHR 0x22, CHR 0x27] else [c]) s) @ [CHR 0x27]"
  by (simp add: shell_quote_def replace_all_char)

lemma sh_scan_quoted_body:
  "sh_scan Single (Some w) (concat (map (\<lambda>c. if c = CHR 0x27
      then [CHR 0x27, CHR 0x22, CHR 0x27, CHR 0x22, CHR 0x27] else [c]) s) @ CHR 0x27 # rest)
   = sh_scan Unquoted (Some (w @ s)) rest"
  by (induction s arbitrary: w) simp_all

lemma sh_scan_quote: "sh_scan Unquoted cur (shell_quote s @ rest) = sh_scan Unquoted (Some (opened cur @ s)) rest"
  by (simp add: shell_quote_eq sh_scan_quoted_body)

text \<open>Plain characters stand for themselves.\<close>

definition sh_plain :: "char \<Rightarrow> bool" where
  "sh_plain c \<longleftrightarrow> c \<notin> sh_ops \<and> c \<notin> sh_unread \<and> c \<notin> {CHR 0x27, CHR 0x22, CHR '' '', CHR 0x09}"

lemma sh_scan_plain:
  "list_all sh_plain s \<Longrightarrow> s \<noteq> [] \<Longrightarrow>
     sh_scan Unquoted cur (s @ rest) = sh_scan Unquoted (Some (opened cur @ s)) rest"
proof (induction s arbitrary: cur)
  case Nil
  then show ?case by simp
next
  case (Cons c s)
  then show ?case by (cases "s = []") (simp_all add: sh_plain_def)
qed

lemma sh_scan_blank: "sh_scan Unquoted cur (CHR '' '' # rest) = map_option ((@) (flush cur)) (sh_scan Unquoted None rest)"
  by simp

lemma sh_tokens_quoted_words:
  "sh_tokens (remote_line (map shell_quote ws)) = Some (map ShWord ws)"
proof (induction ws)
  case Nil
  then show ?case by (simp add: sh_tokens_def remote_line_def)
next
  case (Cons w ws)
  show ?case
  proof (cases "ws = []")
    case True
    then show ?thesis using sh_scan_quote [of None w "[]"] by (simp add: sh_tokens_def remote_line_def)
  next
    case False
    then have "sh_tokens (remote_line (map shell_quote (w # ws)))
        = sh_scan Unquoted (Some w) (CHR '' '' # remote_line (map shell_quote ws))"
      using sh_scan_quote [of None w "CHR '' '' # remote_line (map shell_quote ws)"]
      by (simp add: sh_tokens_def remote_line_def str_join_Cons)
    with Cons.IH show ?thesis by (simp add: sh_tokens_def)
  qed
qed

section \<open>What PowerShell reads\<close>

text \<open>\<^verbatim>\<open>-EncodedCommand\<close>: base64 of UTF-16LE.\<close>

fun le_units :: "string \<Rightarrow> nat list option" where
  "le_units [] = Some []"
| "le_units [a] = None"
| "le_units (a # b # s) = map_option ((#) (of_char a + 256 * of_char b)) (le_units s)"

fun utf16_decode :: "nat list \<Rightarrow> nat list option" where
  "utf16_decode [] = Some []"
| "utf16_decode (u # us) =
     (if 55296 \<le> u \<and> u < 57344 then
        (case us of
           [] \<Rightarrow> None
         | v # vs \<Rightarrow> if u < 56320 \<and> 56320 \<le> v \<and> v < 57344
                     then map_option ((#) (65536 + (u - 55296) * 1024 + (v - 56320))) (utf16_decode vs)
                     else None)
      else map_option ((#) u) (utf16_decode us))"

definition ps_decoded :: "string \<Rightarrow> nat list option" where
  "ps_decoded b64 =
     (case b64_decode std_alphabet True b64 of
        None \<Rightarrow> None
      | Some bs \<Rightarrow> (case le_units bs of None \<Rightarrow> None | Some us \<Rightarrow> utf16_decode us))"

text \<open>A single-quoted literal at the front: its value and what follows.\<close>

fun pwsh_body :: "string \<Rightarrow> string \<Rightarrow> (string \<times> string) option" where
  "pwsh_body w [] = None"
| "pwsh_body w [c] = (if c = CHR 0x27 then Some (w, []) else None)"
| "pwsh_body w (c # d # s) =
     (if c = CHR 0x27 then (if d = CHR 0x27 then pwsh_body (w @ [c]) s else Some (w, d # s))
      else pwsh_body (w @ [c]) (d # s))"

definition pwsh_literal :: "string \<Rightarrow> (string \<times> string) option" where
  "pwsh_literal s = (case s of [] \<Rightarrow> None | c # t \<Rightarrow> if c = CHR 0x27 then pwsh_body [] t else None)"

lemma pwsh_body_step:
  "c \<noteq> CHR 0x27 \<Longrightarrow> t \<noteq> [] \<Longrightarrow> pwsh_body w (c # t) = pwsh_body (w @ [c]) t"
  by (cases t) simp_all

lemma pwsh_body_quote:
  assumes "rest = [] \<or> hd rest \<noteq> CHR 0x27"
  shows "pwsh_body w (concat (map (\<lambda>x. if x = CHR 0x27 then [CHR 0x27, CHR 0x27] else [x]) s) @ CHR 0x27 # rest)
     = Some (w @ s, rest)"
proof (induction s arbitrary: w)
  case Nil
  with assms show ?case by (cases rest) simp_all
next
  case (Cons c s)
  then show ?case by (cases "c = CHR 0x27") (simp_all add: pwsh_body_step)
qed

lemma pwsh_literal_quote:
  "rest = [] \<or> hd rest \<noteq> CHR 0x27 \<Longrightarrow> pwsh_literal (pwsh_quote s @ rest) = Some (s, rest)"
  by (simp add: pwsh_literal_def pwsh_quote_def replace_all_char pwsh_body_quote)

text \<open>The runes of a string are code points outside the surrogates.\<close>

definition scalar :: "nat \<Rightarrow> bool" where
  "scalar r \<longleftrightarrow> r < 55296 \<or> (57344 \<le> r \<and> r < 1114112)"

lemma cont_bits: "is_cont b \<Longrightarrow> b - 128 < 64"
  by (auto simp: is_cont_def)

lemma scalar_three:
  assumes b0: "224 \<le> b0" "b0 \<le> 239" and "is_cont b1" "is_cont b2" and sur: "b0 = 237 \<longrightarrow> b1 \<le> 159"
  shows "scalar ((b0 - 224) * 4096 + (b1 - 128) * 64 + (b2 - 128))"
proof -
  define x y z where "x = b0 - 224" and "y = b1 - 128" and "z = b2 - 128"
  have yz: "y < 64" "z < 64" using assms by (simp_all add: y_def z_def cont_bits)
  have "x \<le> 12 \<or> (x = 13 \<and> y \<le> 31) \<or> (14 \<le> x \<and> x \<le> 15)"
    using b0 sur unfolding x_def y_def by presburger
  then have "x * 4096 + y * 64 + z < 55296 \<or> (57344 \<le> x * 4096 + y * 64 + z \<and> x * 4096 + y * 64 + z < 1114112)"
    using yz by (elim disjE conjE) linarith+
  then show ?thesis by (simp only: scalar_def x_def y_def z_def)
qed

lemma scalar_four:
  assumes b0: "240 \<le> b0" "b0 \<le> 244" and "is_cont b1" "is_cont b2" "is_cont b3"
    and ends: "b0 = 240 \<longrightarrow> 144 \<le> b1" "b0 = 244 \<longrightarrow> b1 \<le> 143"
  shows "scalar ((b0 - 240) * 262144 + (b1 - 128) * 4096 + (b2 - 128) * 64 + (b3 - 128))"
proof -
  define x y z u where "x = b0 - 240" and "y = b1 - 128" and "z = b2 - 128" and "u = b3 - 128"
  have yz: "y < 64" "z < 64" "u < 64" using assms by (simp_all add: y_def z_def u_def cont_bits)
  have "(x = 0 \<and> 16 \<le> y) \<or> (1 \<le> x \<and> x \<le> 3) \<or> (x = 4 \<and> y \<le> 15)"
    using b0 ends unfolding x_def y_def by presburger
  then have "57344 \<le> x * 262144 + y * 4096 + z * 64 + u \<and> x * 262144 + y * 4096 + z * 64 + u < 1114112"
    using yz by (elim disjE conjE) linarith+
  then show ?thesis by (simp only: scalar_def x_def y_def z_def u_def) blast
qed

lemma scalar_small: "r < 55296 \<Longrightarrow> scalar r" "scalar 65533"
  by (simp_all add: scalar_def)

lemma scalar_two:
  assumes "b0 \<le> 223" and "is_cont b1"
  shows "scalar ((b0 - 192) * 64 + (b1 - 128))"
proof -
  have "b0 - 192 \<le> 31" and "b1 - 128 < 64" using assms by (simp_all add: cont_bits)
  then have "(b0 - 192) * 64 + (b1 - 128) < 55296" by linarith
  then show ?thesis by (rule scalar_small)
qed

lemma scalar_byte: "b < 128 \<Longrightarrow> scalar b"
  by (simp add: scalar_def)

lemma decode_rune_scalar: "scalar (fst (decode_rune s))"
  unfolding decode_rune_def Let_def
  by (simp only: if_distrib [of fst] fst_conv split: if_split)
    (intro impI conjI; (elim conjE)?; (rule scalar_small(2) scalar_byte scalar_two scalar_three scalar_four; assumption)?)

lemma runes_scalar: "list_all scalar (runes s)"
proof (induction s rule: runes.induct)
  case (1 s)
  then show ?case
    by (cases "s = []") (simp_all add: runes.simps [of s] decode_rune_scalar)
qed

lemma utf16_units_16bit: "list_all scalar rs \<Longrightarrow> list_all (\<lambda>u. u < 65536) (utf16_encode rs)"
  by (induction rs) (auto simp: utf16_encode_def utf16_unit_def scalar_def)

lemma utf16_decode_unit:
  "scalar r \<Longrightarrow> utf16_decode (utf16_unit r @ us) = map_option ((#) r) (utf16_decode us)"
proof -
  assume r: "scalar r"
  show ?thesis
  proof (cases "r < 65536")
    case True
    with r show ?thesis by (auto simp: utf16_unit_def scalar_def)
  next
    case False
    with r have hi: "(r - 65536) div 1024 < 1024" by (simp add: scalar_def)
    have lo: "(r - 65536) mod 1024 < 1024" by simp
    have "65536 + (r - 65536) div 1024 * 1024 + (r - 65536) mod 1024 = r" using False by simp
    moreover have "r < 1114112" using False r by (simp add: scalar_def)
    ultimately show ?thesis using False hi lo by (simp add: utf16_unit_def)
  qed
qed

lemma utf16_decode_encode: "list_all scalar rs \<Longrightarrow> utf16_decode (utf16_encode rs) = Some rs"
  by (induction rs) (simp_all add: utf16_encode_def utf16_decode_unit)

lemma le_units_bytes: "list_all (\<lambda>u. u < 65536) us \<Longrightarrow> le_units (le_bytes us) = Some us"
proof (induction us)
  case Nil
  then show ?case by (simp add: le_bytes_def)
next
  case (Cons u us)
  then have "u div 256 < 256" by (simp add: less_mult_imp_div_less)
  then have "u mod 256 + 256 * (u div 256 mod 256) = u" by simp
  with Cons show ?case by (simp add: le_bytes_def)
qed

lemma ps_decoded_encoded: "ps_decoded (ps_encoded_command script) = Some (runes script)"
  by (simp add: ps_decoded_def ps_encoded_command_def b64_decode_encode le_units_bytes
      utf16_units_16bit utf16_decode_encode runes_scalar)

text \<open>For ASCII text the runes are its bytes.\<close>

definition ascii :: "string \<Rightarrow> bool" where
  "ascii s \<longleftrightarrow> list_all (\<lambda>c. (of_char c :: nat) < 128) s"

lemma runes_of_ascii: "ascii s \<Longrightarrow> runes s = map of_char s"
  by (induction s) (simp_all add: ascii_def runes_ascii)

lemma join_cmd_eq: "join_cmd full as = concat (full # map (\<lambda>a. '' '' @ a) as)"
  by (induction full as rule: join_cmd.induct) simp_all

end
