(* ===== verification/Tool_Args.thy ===== *)
theory Tool_Args
  imports Registry_Ops Audit_Log Machine_Shell Http_Exec
begin

text \<open>
  What the tool handlers of mcp/tools.go share: the handler's state, the results, the
  patterns the arguments are checked against, the parsing of a command request with its refusals
  and warnings, and the common tail of every submission.
\<close>

section \<open>Patterns\<close>

definition is_alnum :: "char \<Rightarrow> bool" where
  "is_alnum c \<longleftrightarrow> is_word c \<and> c \<noteq> CHR ''_''"

definition valid_path :: "string \<Rightarrow> bool" where
  "valid_path s \<longleftrightarrow> (case s of [] \<Rightarrow> False | c # t \<Rightarrow> c = CHR ''/'' \<and> t \<noteq> []
     \<and> list_all (\<lambda>c. is_alnum c \<or> c \<in> set ''._/-'') t)"

definition valid_machine_path :: "string \<Rightarrow> bool" where
  "valid_machine_path s \<longleftrightarrow> s \<noteq> [] \<and> list_all (\<lambda>c. is_alnum c \<or> c \<in> set '' ._/:-'' \<or> c = CHR 0x5C) s"

definition valid_mode :: "string \<Rightarrow> bool" where
  "valid_mode s \<longleftrightarrow> (case s of
     [a, b, c, d] \<Rightarrow> a = CHR ''0'' \<and> b \<in> set ''01234567'' \<and> c \<in> set ''01234567'' \<and> d \<in> set ''01234567''
   | _ \<Rightarrow> False)"

definition valid_host :: "string \<Rightarrow> bool" where
  "valid_host s \<longleftrightarrow> s \<noteq> [] \<and> list_all (\<lambda>c. is_alnum c \<or> c \<in> set ''._-'') s"

text \<open>validMachineNameRe and validScriptNameRe are the same pattern.\<close>

definition valid_name :: "string \<Rightarrow> bool" where
  "valid_name s \<longleftrightarrow> (case s of [] \<Rightarrow> False | c # t \<Rightarrow> is_alnum c \<and> list_all (\<lambda>c. is_alnum c \<or> c \<in> set ''_-'') t)"

definition valid_script_path :: "string \<Rightarrow> bool" where
  "valid_script_path s \<longleftrightarrow> list_all valid_name (split_on CHR ''/'' s)"

text \<open>\<^verbatim>\<open>\s\<close> of a regular expression.\<close>

definition re_space :: "char \<Rightarrow> bool" where
  "re_space c \<longleftrightarrow> c \<in> {CHR 0x09, CHR 0x0A, CHR 0x0C, CHR 0x0D, CHR '' ''}"

definition ssh_key_types :: "string list" where
  "ssh_key_types = [''ssh-ed25519'', ''ssh-rsa'', ''ssh-dss'', ''ecdsa-sha2-nistp256'',
     ''ecdsa-sha2-nistp384'', ''ecdsa-sha2-nistp521'']"

text \<open>\<open>body ?\S*$\<close>: the key characters are no white space, so taking all of them loses no match.\<close>

definition valid_ssh_key_body :: "string \<Rightarrow> bool" where
  "valid_ssh_key_body t \<longleftrightarrow>
     (let p = (\<lambda>c. is_alnum c \<or> c \<in> set ''+/=''); b = takeWhile p t; r = dropWhile p t in
      b \<noteq> [] \<and> list_all (\<lambda>c. \<not> re_space c) (if prefix '' '' r then tl r else r))"

definition valid_ssh_key :: "string \<Rightarrow> bool" where
  "valid_ssh_key s \<longleftrightarrow>
     list_ex (\<lambda>k. prefix (k @ '' '') s \<and> valid_ssh_key_body (drop (Suc (length k)) s)) ssh_key_types"

text \<open>bashCShellRe, unanchored: at a word boundary \<^verbatim>\<open>bash|sh\<close>, blanks, \<^verbatim>\<open>-c\<close>, blanks, a word without
  blanks and quotes, blanks, something that is no blank. Each part is delimited by the next, so
  the longest choice is the only one.\<close>

definition bash_c_from :: "string \<Rightarrow> bool" where
  "bash_c_from t \<longleftrightarrow>
     (let a = dropWhile re_space t in
      a \<noteq> t \<and> prefix ''-c'' a \<and>
      (let b = drop 2 a; c = dropWhile re_space b;
           q = (\<lambda>x. \<not> re_space x \<and> x \<notin> {CHR 0x27, CHR 0x22, CHR 0x60});
           d = dropWhile q c; e = dropWhile re_space d
       in c \<noteq> b \<and> d \<noteq> c \<and> e \<noteq> d \<and> e \<noteq> []))"

fun bash_c_after :: "bool \<Rightarrow> string \<Rightarrow> bool" where
  "bash_c_after w [] = False"
| "bash_c_after w (c # cs) =
     ((\<not> w \<and> ((prefix ''bash'' (c # cs) \<and> bash_c_from (drop 4 (c # cs)))
             \<or> (prefix ''sh'' (c # cs) \<and> bash_c_from (drop 2 (c # cs)))))
      \<or> bash_c_after (is_word c) cs)"

definition bash_c_in_shell :: "string \<Rightarrow> bool" where
  "bash_c_in_shell s = bash_c_after False s"

section \<open>Results\<close>

text \<open>\<open>ToolError\<close> is errorResult; \<open>ToolJson v\<close> is textResult of the JSON text of \<open>v\<close>, whose object
  members json.Marshal writes in key order.\<close>

datatype tool_result = ToolError string | ToolJson jval

primrec is_tool_error :: "tool_result \<Rightarrow> bool" where
  "is_tool_error (ToolError _) = True"
| "is_tool_error (ToolJson _) = False"

fun go_type :: "jval \<Rightarrow> string" where
  "go_type JNull = ''<nil>''"
| "go_type (JBool _) = ''bool''"
| "go_type (JNum _) = ''float64''"
| "go_type (JInt _) = ''int''"
| "go_type (JStr _) = ''string''"
| "go_type (JArr _) = ''[]interface {}''"
| "go_type (JObj _) = ''map[string]interface {}''"

definition stale_schema_hint :: string where
  "stale_schema_hint = '' '' @ em_dash
     @ '' if the relay was just redeployed, reconnect the MCP session to refresh tool schemas''"

definition not_a_number :: "string \<Rightarrow> jval \<Rightarrow> string" where
  "not_a_number key v = key @ '' must be a number, got '' @ go_type v @ stale_schema_hint"

definition opt_str :: "string \<Rightarrow> string \<Rightarrow> (string \<times> jval) list" where
  "opt_str k s = (if s = '''' then [] else [(k, JStr s)])"

definition opt_map :: "string \<Rightarrow> (string, string) gomap \<Rightarrow> (string \<times> jval) list" where
  "opt_map k m = (if m = [] then [] else [(k, jmap m)])"

definition form_file_json :: "form_file \<Rightarrow> jval" where
  "form_file_json f = JObj [(''field'', JStr (ff_field f)), (''filename'', JStr (ff_filename f)),
     (''fetch_cmd'', jslice (ff_fetch_cmd f)), (''source'', JStr (ff_source f))]"

definition result_json :: "result \<Rightarrow> jval" where
  "result_json res = JObj
     ([(''exit_code'', JInt (res_exit_code res)), (''stdout'', JStr (res_stdout res)),
       (''stderr'', JStr (res_stderr res))]
      @ (if res_status_code res = 0 then [] else [(''status_code'', JInt (res_status_code res))])
      @ (case res_headers res of None \<Rightarrow> [] | Some h \<Rightarrow> opt_map ''response_headers'' h))"

text \<open>The struct tags of Request: omitempty fields are left out when zero, Stdin always.\<close>

definition request_json :: "golib \<Rightarrow> request \<Rightarrow> jval" where
  "request_json lib r = JObj
     ([(''id'', JStr (r_id r)), (''type'', JStr (r_type r)), (''command'', JStr (r_command r)),
       (''args'', jslice (r_args r)), (''reason'', JStr (r_reason r))]
      @ opt_str ''client'' (r_client r) @ opt_str ''working_dir'' (r_working_dir r)
      @ [(''shell'', JBool (r_shell r)), (''timeout'', JInt (r_timeout r)),
         (''status'', JStr (status_str (r_status r))), (''created_at'', json_time lib (r_created_at r))]
      @ (case r_decided_at r of None \<Rightarrow> [] | Some t \<Rightarrow> [(''decided_at'', json_time lib t)])
      @ opt_str ''deny_reason'' (r_deny_reason r) @ opt_str ''withdraw_reason'' (r_withdraw_reason r)
      @ (case r_result r of None \<Rightarrow> [] | Some res \<Rightarrow> [(''result'', result_json res)])
      @ (if r_stdin_len r = 0 then [] else [(''stdin_len'', JInt (r_stdin_len r))])
      @ opt_str ''stdin_sha256'' (r_stdin_sha256 r) @ opt_str ''display_command'' (r_display_command r)
      @ (if r_output_gated r then [(''output_gated'', JBool True)] else [])
      @ opt_str ''http_method'' (r_http_method r) @ opt_str ''http_url'' (r_http_url r)
      @ opt_map ''http_headers'' (r_http_headers r) @ opt_str ''http_body'' (r_http_body r)
      @ (case r_http_form_file r of None \<Rightarrow> [] | Some f \<Rightarrow> [(''http_form_file'', form_file_json f)])
      @ opt_map ''http_form_fields'' (r_http_form_fields r)
      @ opt_str ''script_name'' (r_script_name r)
      @ (if r_script_args r = [] then [] else [(''script_args'', jstrs (r_script_args r))])
      @ opt_str ''registry_op'' (r_registry_op r) @ opt_map ''registry_args'' (r_registry_args r))"

definition request_result :: "golib \<Rightarrow> request \<Rightarrow> tool_result" where
  "request_result lib r = ToolJson (request_json lib (redact_gated_output r))"

section \<open>The handler\<close>

text \<open>\<open>th_machines = None\<close> is a nil machine registry. The overwrite probe is part of the world below.\<close>

record tool_handler =
  th_store :: store
  th_audit :: audit
  th_containers :: container_store
  th_machines :: "machine_store option"
  th_host_ip :: string
  th_ssh_config :: string
  th_pubkey_file :: string
  th_scripts_dir :: string
  th_max_wait :: int

definition new_tool_handler :: "store \<Rightarrow> container_store \<Rightarrow> machine_store option \<Rightarrow> string \<Rightarrow> audit
    \<Rightarrow> int \<Rightarrow> tool_handler" where
  "new_tool_handler s cs ms hostIP al maxWait =
     \<lparr>th_store = s, th_audit = al, th_containers = cs, th_machines = ms, th_host_ip = hostIP,
      th_ssh_config = '''', th_pubkey_file = '''', th_scripts_dir = ''/scripts'', th_max_wait = maxWait\<rparr>"

definition set_scripts_dir :: "string \<Rightarrow> tool_handler \<Rightarrow> tool_handler" where
  "set_scripts_dir dir h = h\<lparr>th_scripts_dir := dir\<rparr>"

definition set_ssh_config :: "string \<Rightarrow> tool_handler \<Rightarrow> tool_handler" where
  "set_ssh_config path h = h\<lparr>th_ssh_config := path\<rparr>"

definition set_relay_pubkey_file :: "string \<Rightarrow> tool_handler \<Rightarrow> tool_handler" where
  "set_relay_pubkey_file path h = h\<lparr>th_pubkey_file := path\<rparr>"

definition ssh_prefix :: "tool_handler \<Rightarrow> string list" where
  "ssh_prefix h = (if th_ssh_config h = '''' then [] else [''-F'', th_ssh_config h])"

text \<open>What a WriteFileChecker answers: an error, no such file, or size and modification time.\<close>

datatype probe = ProbeError string | ProbeAbsent | ProbeFound int int

datatype stat = StatOk | StatNotExist | StatOther

text \<open>What one call meets outside: the identifier generateID draws, the clock, UnixNano, the
  probe (None for a nil checker), os.Stat, os.ReadFile, the minute formatting of a time, and
  the wording of a base64 error.\<close>

record tool_world =
  tw_id :: string
  tw_clock :: "nat \<Rightarrow> int"
  tw_nano :: int
  tw_probe :: "(int \<Rightarrow> string \<Rightarrow> string \<Rightarrow> probe) option"
  tw_stat :: "string \<Rightarrow> stat"
  tw_read :: "string \<Rightarrow> string + string"
  tw_minutes :: "int \<Rightarrow> string"
  tw_base64_error :: "string \<Rightarrow> string"

definition tool_log :: "int \<Rightarrow> string \<Rightarrow> string \<Rightarrow> (string \<times> jval) list \<Rightarrow> tool_handler \<Rightarrow> tool_handler" where
  "tool_log now ev rid fs h = h\<lparr>th_audit := audit_log now ev rid fs (th_audit h)\<rparr>"

definition pending_reply :: "request \<Rightarrow> (string \<times> jval) list \<Rightarrow> tool_result" where
  "pending_reply r extra = ToolJson (JObj ([(''request_id'', JStr (r_id r)), (''status'', JStr ''pending'')] @ extra))"

text \<open>The tail of every submitting tool after its call of an Add function: the display
  command, the audit entry, the pending answer.\<close>

definition filed :: "tool_world \<Rightarrow> request \<times> store \<Rightarrow> string option \<Rightarrow> (string \<times> jval) list
    \<Rightarrow> (string \<times> jval) list \<Rightarrow> tool_handler \<Rightarrow> tool_result \<times> tool_handler" where
  "filed w added display fs extra h =
     (case added of (r, s) \<Rightarrow>
        let s' = (case display of None \<Rightarrow> s | Some d \<Rightarrow> snd (set_display_command (r_id r) d s))
        in (pending_reply r extra,
            tool_log (tw_clock w 1) ''request_created'' (r_id r) fs (h\<lparr>th_store := s'\<rparr>)))"

section \<open>Command requests\<close>

record command_request =
  cq_command :: string
  cq_args :: "string list"
  cq_reason :: string
  cq_working_dir :: string
  cq_shell :: bool
  cq_timeout :: int

definition arg_splitting_text :: "string \<Rightarrow> string \<Rightarrow> string \<Rightarrow> string \<Rightarrow> string" where
  "arg_splitting_text sh cmdStr shown fixed =
     ''BLOCKED: '' @ sh @ '' -c arg-splitting '' @ em_dash @ '' '' @ [CHR 0x27] @ sh @ '' -c '' @ cmdStr @ '' ''
     @ shown @ [CHR 0x27] @ '' only executes '' @ [CHR 0x27] @ cmdStr @ [CHR 0x27]
     @ '', the remaining args become positional parameters ($0, $1, ...) and are NOT part of the command. This can cause destructive behavior (e.g., bare ''
     @ [CHR 0x27] @ ''crontab'' @ [CHR 0x27] @ '' wipes the crontab). Fix: quote the full command as a single arg: ''
     @ sh @ '' -c '' @ [CHR 0x27] @ fixed @ [CHR 0x27]"

text \<open>The loop over the arguments: it looks for the first \<open>sh -c\<close> followed by a further argument and
  decides on that one only.\<close>

fun splitting_in_args :: "string list \<Rightarrow> string" where
  "splitting_in_args (a # b # c # rest) =
     (if (a = ''bash'' \<or> a = ''sh'') \<and> b = ''-c'' then
        (if \<not> str_contains c '' '' \<and> rest \<noteq> []
         then arg_splitting_text a c (hd rest) (str_join '' '' (c # rest)) else '''')
      else splitting_in_args (b # c # rest))"
| "splitting_in_args _ = ''''"

definition check_bash_c_arg_splitting :: "string \<Rightarrow> string list \<Rightarrow> string" where
  "check_bash_c_arg_splitting command args =
     (if (command = ''bash'' \<or> command = ''sh'') \<and> length args \<ge> 2 \<and> args ! 0 = ''-c''
         \<and> \<not> str_contains (args ! 1) '' '' \<and> length args \<ge> 3
      then arg_splitting_text command (args ! 1) (str_join '' '' (drop 2 args)) (str_join '' '' (drop 1 args))
      else splitting_in_args args)"

definition shell_metachars :: "string list" where
  "shell_metachars = [''>>'', ''||'', ''&&'', ''|'', '';'', ''>'', ''<'']"

fun first_metachar :: "string list \<Rightarrow> string option" where
  "first_metachar [] = None"
| "first_metachar (arg # args) =
     (case filter (str_contains arg) shell_metachars of
        mc # _ \<Rightarrow> Some mc
      | [] \<Rightarrow> first_metachar args)"

definition metachar_warning :: "golib \<Rightarrow> string \<Rightarrow> string" where
  "metachar_warning lib mc = ''args contain shell metacharacter '' @ lib_quote lib mc
     @ '' but shell=false -- it will be passed as a literal string, not interpreted by a shell. Use write_file for file operations, or set shell=true if you need shell features.''"

definition splitting_warning :: string where
  "splitting_warning =
     ''possible bash/sh -c arg-splitting in shell command: when the remote shell processes '' @ [CHR 0x27]
     @ ''bash -c word extra_args'' @ [CHR 0x27] @ '', only '' @ [CHR 0x27] @ ''word'' @ [CHR 0x27]
     @ '' is executed '' @ em_dash
     @ '' the rest become positional parameters. This can be destructive (e.g., bare '' @ [CHR 0x27] @ ''crontab''
     @ [CHR 0x27] @ '' wipes the crontab). Ensure the command after -c is properly quoted as a single string.''"

definition redirect_warning :: "string \<Rightarrow> string" where
  "redirect_warning redir =
     ''shell=true with SSH + redirect: the redirect ('' @ redir @ '') executes on the relay machine, not the remote host. The remote command'' @ [CHR 0x27]
     @ ''s output is being redirected locally. Use write_file instead, or pass the full command including redirect as a single SSH arg in non-shell mode.''"

definition detect_warnings :: "golib \<Rightarrow> string \<Rightarrow> string list \<Rightarrow> bool \<Rightarrow> string list" where
  "detect_warnings lib command args shell =
     (let full = command @ '' '' @ str_join '' '' args in
      (if shell then []
       else (case first_metachar args of None \<Rightarrow> [] | Some mc \<Rightarrow> [metachar_warning lib mc]))
      @ (if shell \<and> args \<noteq> [] \<and> bash_c_in_shell full then [splitting_warning] else [])
      @ (if shell \<and> args \<noteq> [] \<and> (str_contains full ''ssh '' \<or> prefix ''ssh'' command)
         then (case filter (str_contains full) [''>>'', ''>''] of
                 redir # _ \<Rightarrow> [redirect_warning redir] | [] \<Rightarrow> [])
         else []))"

definition parse_command_request :: "tool_args \<Rightarrow> string + command_request" where
  "parse_command_request args =
     (let cr = \<lparr>cq_command = arg_str args ''command'', cq_args = arg_strings args ''args'',
                cq_reason = arg_str args ''reason'', cq_working_dir = arg_str args ''working_dir'',
                cq_shell = arg_bool args ''shell'', cq_timeout = arg_float_int args ''timeout''\<rparr>;
          blocked = check_bash_c_arg_splitting (cq_command cr) (cq_args cr)
      in if cq_command cr = '''' \<or> cq_reason cr = '''' then Inl ''command and reason are required''
         else if \<not> cq_shell cr \<and> blocked \<noteq> '''' then Inl blocked
         else Inr cr)"

definition warning_fields :: "golib \<Rightarrow> command_request \<Rightarrow> (string \<times> jval) list" where
  "warning_fields lib cr =
     (let ws = detect_warnings lib (cq_command cr) (cq_args cr) (cq_shell cr)
      in if ws = [] then [] else [(''warnings'', jstrs ws)])"

definition max_display_command_bytes :: nat where "max_display_command_bytes = 800"

definition truncate_command :: "string \<Rightarrow> nat \<Rightarrow> string" where
  "truncate_command s n =
     (if length s \<le> n then s
      else take n s @ ''... [truncated, '' @ itoa (int (length s)) @ '' bytes total]'')"

end
