(* ===== verification/Tool_Commands.thy ===== *)
theory Tool_Commands
  imports Tool_Args
begin

text \<open>
  mcp/tools.go: the tools that submit a command for the relay, the Proxmox host, a container
  or a machine, and http_request with its form_file. Each definition is one handler: its checks
  in the code's order, the request it files, the audit entry and the answer.
\<close>

section \<open>request_command and its successors\<close>

definition retired_text :: string where
  "retired_text = ''request_command is RETIRED (2026-09-14) and executes nothing. It ran inside the relay container (CTID 131) without saying so, so a caller could not tell where a command would land. Use request_command_for_relay (runs in the relay container - `pct`, `qm` and other Proxmox host binaries are NOT in PATH there) or request_command_for_host (runs on the Proxmox host, with the relay building the ssh invocation). THIS CALL, HAD IT RUN, WOULD HAVE EXECUTED INSIDE THE RELAY CONTAINER.''"

definition request_command_retired :: "tool_handler \<Rightarrow> tool_result \<times> tool_handler" where
  "request_command_retired h = (ToolError retired_text, h)"

definition request_command_for_relay :: "golib \<Rightarrow> tool_world \<Rightarrow> tool_args \<Rightarrow> string \<Rightarrow> tool_handler
    \<Rightarrow> tool_result \<times> tool_handler" where
  "request_command_for_relay lib w args client h =
     (case parse_command_request args of
        Inl e \<Rightarrow> (ToolError e, h)
      | Inr cr \<Rightarrow>
          filed w (store_add (tw_id w) (tw_clock w 0) (cq_command cr) (cq_args cr) (cq_reason cr)
                     (cq_working_dir cr) (cq_shell cr) (cq_timeout cr) client (th_store h))
            None
            [(''tool'', JStr ''request_command_for_relay''), (''route'', JStr ''relay_container''),
             (''command'', JStr (cq_command cr)), (''args'', jslice (cq_args cr)),
             (''reason'', JStr (cq_reason cr)), (''working_dir'', JStr (cq_working_dir cr)),
             (''shell'', JBool (cq_shell cr)), (''timeout'', JInt (cq_timeout cr))]
            (warning_fields lib cr) h)"

definition joined :: "string \<Rightarrow> string list \<Rightarrow> string" where
  "joined command as = command @ (if as = [] then '''' else '' '' @ str_join '' '' as)"

definition host_argv :: "tool_handler \<Rightarrow> string \<Rightarrow> command_request \<Rightarrow> string list" where
  "host_argv h host cr =
     ssh_prefix h @ [''root@'' @ host, ''--'']
     @ (if cq_shell cr then [''sh'', ''-c'', shell_quote (joined (cq_command cr) (cq_args cr))]
        else shell_quote (cq_command cr) # map shell_quote (cq_args cr))"

definition host_text :: string where
  "host_text = ''host must be an IP address or hostname (letters, digits, dot, dash, underscore)''"

definition host_working_dir_text :: string where
  "host_working_dir_text = ''working_dir is not supported for host commands: it would set a directory on the RELAY'' @ [CHR 0x27]
     @ ''s filesystem, not the host'' @ [CHR 0x27]
     @ ''s. Use shell:true and `cd <dir> && <command>` to change directory on the host.''"

definition request_command_for_host :: "golib \<Rightarrow> tool_world \<Rightarrow> tool_args \<Rightarrow> string \<Rightarrow> tool_handler
    \<Rightarrow> tool_result \<times> tool_handler" where
  "request_command_for_host lib w args client h =
     (case parse_command_request args of
        Inl e \<Rightarrow> (ToolError e, h)
      | Inr cr \<Rightarrow>
          let host = (if arg_str args ''host'' = '''' then th_host_ip h else arg_str args ''host'') in
          if \<not> valid_host host then (ToolError host_text, h)
          else if cq_working_dir cr \<noteq> '''' then (ToolError host_working_dir_text, h)
          else
            filed w (store_add (tw_id w) (tw_clock w 0) ''ssh'' (host_argv h host cr)
                       (''[HOST '' @ host @ '' - runs on the Proxmox host, NOT in the relay container] '' @ cq_reason cr)
                       '''' False (cq_timeout cr) client (th_store h))
              None
              [(''tool'', JStr ''request_command_for_host''), (''route'', JStr ''proxmox_host''),
               (''host'', JStr host), (''command'', JStr (cq_command cr)), (''args'', jslice (cq_args cr)),
               (''reason'', JStr (cq_reason cr)), (''shell'', JBool (cq_shell cr)),
               (''timeout'', JInt (cq_timeout cr))]
              (warning_fields lib cr) h)"

section \<open>exec_container\<close>

definition ctid_required :: string where "ctid_required = ''ctid is required and must be > 0''"

definition container_missing :: "int \<Rightarrow> string" where
  "container_missing ctid = ''container '' @ itoa ctid @ '' not found in registry. Use register_container first.''"

definition container_user :: "container \<Rightarrow> string" where
  "container_user c = (if c_ssh_user c = '''' then ''root'' else c_ssh_user c)"

definition container_label :: "container \<Rightarrow> string" where
  "container_label c = ''CTID '' @ itoa (c_ctid c) @ '' ('' @ c_hostname c @ '')''"

definition container_argv :: "tool_handler \<Rightarrow> int \<Rightarrow> container \<Rightarrow> string \<Rightarrow> string list \<Rightarrow> bool \<Rightarrow> string list" where
  "container_argv h ctid c command cmdArgs shell =
     ssh_prefix h
     @ (if c_has_relay_ssh c then
          [container_user c @ ''@'' @ c_ip c, ''--'']
          @ (if shell then [join_cmd command cmdArgs] else command # cmdArgs)
        else
          [''root@'' @ th_host_ip h, ''pct'', ''exec'', itoa ctid, ''--'']
          @ (if shell then [''sh'', ''-c'', shell_quote (join_cmd command cmdArgs)] else command # cmdArgs))"

definition exec_container :: "tool_world \<Rightarrow> tool_args \<Rightarrow> string \<Rightarrow> tool_handler \<Rightarrow> tool_result \<times> tool_handler" where
  "exec_container w args client h =
     (let ctid = int_arg args ''ctid''; command = arg_str args ''command''; reason = arg_str args ''reason'';
          shell = arg_bool args ''shell''; timeout = arg_float_int args ''timeout'';
          cmdArgs = arg_strings args ''args'';
          blocked = check_bash_c_arg_splitting command cmdArgs
      in if ctid = 0 then (ToolError ctid_required, h)
         else if command = '''' then (ToolError ''command is required'', h)
         else if reason = '''' then (ToolError ''reason is required'', h)
         else if \<not> shell \<and> blocked \<noteq> '''' then (ToolError blocked, h)
         else case cs_get (th_containers h) ctid of
           None \<Rightarrow> (ToolError (container_missing ctid), h)
         | Some c \<Rightarrow>
             let route = (if c_has_relay_ssh c then ''direct_ssh'' else ''pct_exec'') in
             filed w (store_add (tw_id w) (tw_clock w 0) ''ssh'' (container_argv h ctid c command cmdArgs shell)
                        (''[CTID '' @ itoa (c_ctid c) @ '' '' @ c_hostname c @ ''] '' @ reason)
                        '''' False timeout client (th_store h))
               None
               [(''tool'', JStr ''exec_container''), (''ctid'', JInt ctid), (''hostname'', JStr (c_hostname c)),
                (''command'', JStr command), (''args'', jslice cmdArgs), (''reason'', JStr reason),
                (''route'', JStr route), (''shell'', JBool shell), (''timeout'', JInt timeout)]
               [(''container'', JStr (container_label c)), (''route'', JStr route)] h)"

section \<open>exec_machine\<close>

definition machines_unconfigured :: string where
  "machines_unconfigured = ''machine registry not configured''"

definition machine_missing :: "golib \<Rightarrow> string \<Rightarrow> string" where
  "machine_missing lib name = ''machine '' @ lib_quote lib name @ '' not found in registry. Use register_machine first.''"

definition machine_ssh_base :: "tool_handler \<Rightarrow> machine \<Rightarrow> string list" where
  "machine_ssh_base h m =
     ssh_prefix h @ (if m_identity_file m = '''' then [] else [''-i'', m_identity_file m])
     @ [m_ssh_user m @ ''@'' @ m_host m, ''--'']"

definition exec_machine :: "golib \<Rightarrow> tool_world \<Rightarrow> tool_args \<Rightarrow> string \<Rightarrow> tool_handler \<Rightarrow> tool_result \<times> tool_handler" where
  "exec_machine lib w args client h =
     (case th_machines h of
        None \<Rightarrow> (ToolError machines_unconfigured, h)
      | Some ms \<Rightarrow>
          let name = arg_str args ''machine''; command = arg_str args ''command''; reason = arg_str args ''reason'';
              shell = arg_bool args ''shell''; timeout = arg_float_int args ''timeout'';
              cmdArgs = arg_strings args ''args'';
              blocked = check_bash_c_arg_splitting command cmdArgs
          in if name = '''' then (ToolError ''machine is required'', h)
             else if command = '''' then (ToolError ''command is required'', h)
             else if reason = '''' then (ToolError ''reason is required'', h)
             else if \<not> shell \<and> blocked \<noteq> '''' then (ToolError blocked, h)
             else case ms_get ms name of
               None \<Rightarrow> (ToolError (machine_missing lib name), h)
             | Some m \<Rightarrow>
                 filed w (store_add (tw_id w) (tw_clock w 0) ''ssh''
                            (machine_ssh_base h m @ machine_exec_remote m command cmdArgs shell)
                            (''[MACHINE '' @ m_name m @ '' ('' @ m_shell m @ '')] '' @ reason)
                            '''' False timeout client (th_store h))
                   None
                   [(''tool'', JStr ''exec_machine''), (''machine'', JStr (m_name m)), (''host'', JStr (m_host m)),
                    (''shell'', JStr (m_shell m)), (''command'', JStr command), (''args'', jslice cmdArgs),
                    (''reason'', JStr reason), (''timeout'', JInt timeout)]
                   [(''machine'', JStr (m_name m)), (''shell'', JStr (m_shell m))] h)"

section \<open>http_request\<close>

definition absolute_path_text :: "string \<Rightarrow> string" where
  "absolute_path_text what = what @ '' must be absolute with only alphanumeric, dot, dash, underscore, and slash characters''"

definition source_container_missing :: "int \<Rightarrow> string" where
  "source_container_missing ctid = ''source container '' @ itoa ctid @ '' not found in registry. Use register_container first.''"

definition form_source :: "tool_handler \<Rightarrow> string \<Rightarrow> int \<Rightarrow> string \<Rightarrow> string + string list \<times> string" where
  "form_source h srcHost srcCtid srcPath =
     (if srcCtid > 0 then
        (case cs_get (th_containers h) srcCtid of
           None \<Rightarrow> Inl (source_container_missing srcCtid)
         | Some c \<Rightarrow>
             Inr ([''ssh''] @ ssh_prefix h
                  @ (if c_has_relay_ssh c then [container_user c @ ''@'' @ c_ip c, ''--'', ''cat'', srcPath]
                     else [''root@'' @ th_host_ip h, ''--'', ''pct'', ''exec'', itoa (c_ctid c), ''--'', ''cat'', srcPath]),
                  container_label c @ '':'' @ srcPath))
      else
        let host = (if srcHost = '''' then th_host_ip h else srcHost) in
        if \<not> valid_host host then Inl ''form_file.source_host must be an IP or hostname''
        else Inr ([''ssh''] @ ssh_prefix h @ [''root@'' @ host, ''--'', ''cat'', srcPath], host @ '':'' @ srcPath))"

definition build_form_file :: "tool_handler \<Rightarrow> (string \<times> jval) list \<Rightarrow> string + form_file" where
  "build_form_file h raw =
     (let srcPath = arg_str raw ''source_path''; srcHost = arg_str raw ''source_host'' in
      if srcPath = '''' then Inl ''form_file.source_path is required''
      else if \<not> valid_path srcPath then Inl (absolute_path_text ''form_file.source_path'')
      else case int_arg_strict raw ''source_ctid'' of
        Inl v \<Rightarrow> Inl (not_a_number ''source_ctid'' v)
      | Inr srcCtid \<Rightarrow>
          if srcHost \<noteq> '''' \<and> srcCtid > 0
          then Inl ''form_file: provide either source_host or source_ctid, not both''
          else case form_source h srcHost srcCtid srcPath of
            Inl e \<Rightarrow> Inl e
          | Inr (fetchCmd, source) \<Rightarrow>
              Inr \<lparr>ff_field = (if arg_str raw ''field'' = '''' then ''file'' else arg_str raw ''field''),
                   ff_filename = (if arg_str raw ''filename'' = '''' then last (split_on CHR ''/'' srcPath)
                                  else arg_str raw ''filename''),
                   ff_fetch_cmd = fetchCmd, ff_source = source\<rparr>)"

definition not_an_object :: "string \<Rightarrow> jval \<Rightarrow> string" where
  "not_an_object key v = key @ '' must be a JSON object, got '' @ go_type v @ stale_schema_hint"

text \<open>The form_file argument: absent or null is none.\<close>

definition form_file_arg :: "tool_handler \<Rightarrow> tool_args \<Rightarrow> string \<Rightarrow> string \<Rightarrow> string + form_file option" where
  "form_file_arg h args meth body =
     (case map_of args ''form_file'' of
        None \<Rightarrow> Inr None
      | Some JNull \<Rightarrow> Inr None
      | Some (JObj raw) \<Rightarrow>
          if body \<noteq> '''' then Inl ''form_file and body are mutually exclusive''
          else if meth \<notin> {''POST'', ''PUT'', ''PATCH''} then Inl ''form_file requires POST, PUT, or PATCH''
          else (case build_form_file h raw of Inl e \<Rightarrow> Inl e | Inr f \<Rightarrow> Inr (Some f))
      | Some v \<Rightarrow> Inl (not_an_object ''form_file'' v))"

definition form_fields_arg :: "tool_args \<Rightarrow> form_file option \<Rightarrow> string + (string, string) gomap" where
  "form_fields_arg args formFile =
     (case map_of args ''form_fields'' of
        None \<Rightarrow> Inr []
      | Some JNull \<Rightarrow> Inr []
      | Some (JObj raw) \<Rightarrow> if formFile = None then Inl ''form_fields requires form_file'' else Inr (json_string_map raw)
      | Some v \<Rightarrow> Inl (not_an_object ''form_fields'' v))"

definition header_keys :: "(string, string) gomap \<Rightarrow> string list" where
  "header_keys headers = map fst headers"

definition http_methods :: "string list" where
  "http_methods = [''GET'', ''POST'', ''PUT'', ''PATCH'', ''DELETE'', ''HEAD'']"

definition headers_arg :: "tool_args \<Rightarrow> (string, string) gomap" where
  "headers_arg args = (case map_of args ''headers'' of Some (JObj raw) \<Rightarrow> json_string_map raw | _ \<Rightarrow> [])"

definition http_request :: "tool_world \<Rightarrow> tool_args \<Rightarrow> string \<Rightarrow> tool_handler \<Rightarrow> tool_result \<times> tool_handler" where
  "http_request w args client h =
     (let meth = arg_str args ''method''; url = arg_str args ''url''; reason = arg_str args ''reason'';
          body = arg_str args ''body''; timeout = arg_float_int args ''timeout''; headers = headers_arg args
      in if meth = '''' \<or> url = '''' \<or> reason = '''' then (ToolError ''method, url, and reason are required'', h)
         else if meth \<notin> set http_methods then
           (ToolError (''unsupported HTTP method: '' @ meth @ '' (use GET, POST, PUT, PATCH, DELETE, or HEAD)''), h)
         else if \<not> prefix ''http://'' url \<and> \<not> prefix ''https://'' url then
           (ToolError ''url must start with http:// or https://'', h)
         else case form_file_arg h args meth body of
           Inl e \<Rightarrow> (ToolError e, h)
         | Inr formFile \<Rightarrow>
             (case form_fields_arg args formFile of
                Inl e \<Rightarrow> (ToolError e, h)
              | Inr formFields \<Rightarrow>
                  filed w (store_add_http_form (tw_id w) (tw_clock w 0) meth url headers body formFile formFields
                             reason timeout client (th_store h))
                    (Some (meth @ '' '' @ url @ (case formFile of None \<Rightarrow> ''''
                       | Some f \<Rightarrow> ''  [multipart file from '' @ ff_source f @ '']'')))
                    ([(''tool'', JStr ''http_request''), (''method'', JStr meth), (''url'', JStr url),
                      (''headers'', jstrs (header_keys headers)), (''has_body'', JBool (body \<noteq> '''')),
                      (''reason'', JStr reason), (''timeout'', JInt timeout)]
                     @ (case formFile of None \<Rightarrow> [] | Some f \<Rightarrow> [(''form_file_source'', JStr (ff_source f))]))
                    [] h))"

end
