(* ===== verification/Tool_Files.thy ===== *)
theory Tool_Files
  imports Tool_Commands
begin

text \<open>
  mcp/tools.go: the tools that submit scripts, files and SSH keys, and the default overwrite
  probe of write_file. Content is bound to the request when it is filed; the probes only add
  lines to the reason the reviewer reads.
\<close>

section \<open>Scripts\<close>

definition script_path_text :: string where
  "script_path_text = ''script name must be alphanumeric segments (hyphens/underscores allowed) joined by single slashes; no path traversal, no leading/trailing slashes, no extensions''"

definition run_script :: "(string \<Rightarrow> string) \<Rightarrow> tool_world \<Rightarrow> tool_args \<Rightarrow> string \<Rightarrow> tool_handler
    \<Rightarrow> tool_result \<times> tool_handler" where
  "run_script sha w args client h =
     (let name = arg_str args ''name''; reason = arg_str args ''reason'';
          base = th_scripts_dir h @ ''/'' @ name;
          sh = base @ ''.sh''; py = base @ ''.py''; js = base @ ''.json'';
          scriptArgs = arg_strings args ''args''; timeout = arg_float_int args ''timeout''
      in if name = '''' \<or> reason = '''' then (ToolError ''name and reason are required'', h)
         else if \<not> valid_script_path name then (ToolError script_path_text, h)
         else if tw_stat w sh = StatNotExist \<and> tw_stat w py = StatNotExist \<and> tw_stat w js = StatNotExist then
           (ToolError (''script not found: tried '' @ sh @ '', '' @ py @ '', and '' @ js), h)
         else
           filed w (store_add_script sha (tw_id w) (tw_clock w 0) name scriptArgs reason timeout client (th_store h))
             (Some (joined (''run_script '' @ name) scriptArgs))
             [(''tool'', JStr ''run_script''), (''script'', JStr name), (''args'', jslice scriptArgs),
              (''reason'', JStr reason), (''timeout'', JInt timeout)]
             [] h)"

definition preview :: "nat \<Rightarrow> string \<Rightarrow> string" where
  "preview n content = (if length content > n then take n content @ CHR 0x0A # ''... (truncated)'' else content)"

definition rule_line :: string where
  "rule_line = CHR 0x0A # ''---'' @ [CHR 0x0A]"

definition detect_script_ext :: "golib \<Rightarrow> string \<Rightarrow> string" where
  "detect_script_ext lib content =
     (case lib_unmarshal lib content of
        Inr (JObj _) \<Rightarrow> ''.json''
      | Inr JNull \<Rightarrow> ''.json''
      | _ \<Rightarrow>
          if list_ex (\<lambda>p. prefix p content)
               [''#!/bin/bash'', ''#!/bin/sh'', ''#!/usr/bin/env bash'', ''#!/usr/bin/env sh'']
          then ''.sh'' else ''.py'')"

definition create_script :: "golib \<Rightarrow> tool_world \<Rightarrow> tool_args \<Rightarrow> string \<Rightarrow> tool_handler \<Rightarrow> tool_result \<times> tool_handler" where
  "create_script lib w args client h =
     (let name = arg_str args ''name''; content = arg_str args ''content''; reason = arg_str args ''reason'';
          sz = itoa (int (length content))
      in if name = '''' \<or> content = '''' \<or> reason = '''' then (ToolError ''name, content, and reason are required'', h)
         else if \<not> valid_name name then
           (ToolError ''script name must be alphanumeric with hyphens/underscores only (no paths, no extensions)'', h)
         else
           filed w (store_add_script_typed (lib_sha256 lib) (tw_id w) (tw_clock w 0) ''script_create'' name []
                      (''[SCRIPT '' @ name @ detect_script_ext lib content @ '' '' @ sz @ ''B] '' @ reason
                       @ rule_line @ preview 4096 content)
                      0 content client (th_store h))
             (Some (''create_script '' @ name @ '' ('' @ sz @ ''B)''))
             [(''tool'', JStr ''create_script''), (''script'', JStr name), (''size'', JInt (int (length content))),
              (''reason'', JStr reason)]
             [] h)"

definition script_variants :: "tool_handler \<Rightarrow> string \<Rightarrow> string list" where
  "script_variants h name = map (\<lambda>e. th_scripts_dir h @ ''/'' @ name @ e) [''.sh'', ''.py'', ''.json'']"

definition target_name :: "string \<Rightarrow> string" where
  "target_name name = (if str_contains name ''/'' then name else ''oneshot/'' @ name)"

definition create_then_run :: "golib \<Rightarrow> tool_world \<Rightarrow> tool_args \<Rightarrow> string \<Rightarrow> tool_handler \<Rightarrow> tool_result \<times> tool_handler" where
  "create_then_run lib w args client h =
     (let name = arg_str args ''name''; content = arg_str args ''content''; reason = arg_str args ''reason'';
          target = target_name name; ext = detect_script_ext lib content; sz = itoa (int (length content));
          scriptArgs = arg_strings args ''args''; timeout = arg_float_int args ''timeout''
      in if name = '''' \<or> content = '''' \<or> reason = '''' then (ToolError ''name, content, and reason are required'', h)
         else if \<not> valid_script_path name then (ToolError script_path_text, h)
         else case filter (\<lambda>p. tw_stat w p = StatOk) (script_variants h target) of
           p # _ \<Rightarrow> (ToolError (''file already exists at '' @ p @ ''; pick a different name''), h)
         | [] \<Rightarrow>
           filed w (store_add_script_typed (lib_sha256 lib) (tw_id w) (tw_clock w 0) ''script_create_then_run'' target
                      scriptArgs
                      (''[CREATE+RUN '' @ target @ ext @ '' '' @ sz @ ''B]''
                       @ (if scriptArgs = [] then '''' else '' args=['' @ str_join '' '' scriptArgs @ '']'')
                       @ '' '' @ reason @ rule_line @ preview 4096 content)
                      timeout content client (th_store h))
             (Some (joined (''create_then_run '' @ target @ ext @ '' ('' @ sz @ ''B)'') scriptArgs))
             [(''tool'', JStr ''create_then_run''), (''script'', JStr target), (''ext'', JStr ext),
              (''size'', JInt (int (length content))), (''args'', jslice scriptArgs), (''reason'', JStr reason),
              (''timeout'', JInt timeout)]
             [] h)"

section \<open>The overwrite probe\<close>

text \<open>What running ssh came to: past its deadline, failed, or the output of a clean exit.\<close>

datatype probe_run = ProbeTimedOut string | ProbeFailed string | ProbeOutput string

definition stat_command :: "string \<Rightarrow> string" where
  "stat_command path = ''stat -c '' @ [CHR 0x27] @ ''%s %Y'' @ [CHR 0x27] @ '' '' @ shell_quote path @ '' 2>/dev/null''"

definition probe_argv :: "tool_handler \<Rightarrow> int \<Rightarrow> string \<Rightarrow> string \<Rightarrow> string list option" where
  "probe_argv h ctid host path =
     (if ctid > 0 then
        map_option (\<lambda>c. ssh_prefix h
          @ (if c_has_relay_ssh c then
               [''-oProxyCommand=none'', container_user c @ ''@'' @ c_ip c, ''--'', stat_command path]
             else [''root@'' @ th_host_ip h, ''--'', ''pct'', ''exec'', itoa (c_ctid c), ''--'', ''sh'', ''-c'',
                   stat_command path]))
          (cs_get (th_containers h) ctid)
      else Some (ssh_prefix h
        @ [''root@'' @ (if host = '''' then th_host_ip h else host), ''--'', stat_command path]))"

definition parse_stat :: "golib \<Rightarrow> (string \<Rightarrow> string) \<Rightarrow> string \<Rightarrow> probe" where
  "parse_stat lib err out =
     (let line = trim_space out in
      if line = '''' then ProbeAbsent
      else case Go_Strings.fields line of
        [a, b] \<Rightarrow>
          (case atoi a of
             None \<Rightarrow> ProbeError (''probe: bad size '' @ lib_quote lib a @ '': '' @ err a)
           | Some sz \<Rightarrow>
               (case atoi b of
                  None \<Rightarrow> ProbeError (''probe: bad mtime '' @ lib_quote lib b @ '': '' @ err b)
                | Some ts \<Rightarrow> ProbeFound sz ts))
      | _ \<Rightarrow> ProbeError (''probe: unexpected stat output '' @ lib_quote lib line))"

text \<open>\<open>err\<close> renders ParseInt's error, which accepts what Atoi accepts.\<close>

definition default_write_file_check :: "golib \<Rightarrow> (string \<Rightarrow> string) \<Rightarrow> (string list \<Rightarrow> probe_run) \<Rightarrow> tool_handler
    \<Rightarrow> int \<Rightarrow> string \<Rightarrow> string \<Rightarrow> probe" where
  "default_write_file_check lib err run h ctid host path =
     (case probe_argv h ctid host path of
        None \<Rightarrow> ProbeError (''probe: container '' @ itoa ctid @ '' not found: <nil>'')
      | Some argv \<Rightarrow>
          (case run argv of
             ProbeTimedOut t \<Rightarrow> ProbeError (''probe timed out after '' @ t)
           | ProbeFailed e \<Rightarrow> ProbeError (''probe ssh: '' @ e)
           | ProbeOutput out \<Rightarrow> parse_stat lib err out))"

section \<open>write_file with a remote source\<close>

definition mode_arg :: "tool_args \<Rightarrow> string" where
  "mode_arg args = (if arg_str args ''mode'' = '''' then ''0644'' else arg_str args ''mode'')"

definition mode_text :: string where
  "mode_text = ''mode must be an octal permission string like 0644 or 0755''"

definition probe_of :: "tool_world \<Rightarrow> int \<Rightarrow> string \<Rightarrow> string \<Rightarrow> probe option" where
  "probe_of w ctid host path = map_option (\<lambda>f. f ctid host path) (tw_probe w)"

definition probe_failed_fields :: "string \<Rightarrow> string \<Rightarrow> string \<Rightarrow> string \<Rightarrow> (string \<times> jval) list" where
  "probe_failed_fields which place path e = [(which, JStr place), (''path'', JStr path), (''error'', JStr e)]"

text \<open>The overwrite probe: a line for the reason, and the handler with a failed probe logged.\<close>

definition overwrite_probe :: "tool_world \<Rightarrow> int \<Rightarrow> string \<Rightarrow> string \<Rightarrow> string \<Rightarrow> tool_handler \<Rightarrow> string \<times> tool_handler" where
  "overwrite_probe w ctid host path target h =
     (case probe_of w ctid host path of
        Some (ProbeError e) \<Rightarrow>
          ('''', tool_log (tw_clock w 2) ''write_file_probe_failed'' '''' (probe_failed_fields ''target'' target path e) h)
      | Some (ProbeFound sz t) \<Rightarrow>
          (''[OVERWRITE: '' @ itoa sz @ ''B, modified '' @ tw_minutes w t @ '']'' @ [CHR 0x0A], h)
      | _ \<Rightarrow> ('''', h))"

definition ssh_bin :: "tool_handler \<Rightarrow> string" where
  "ssh_bin h = (if ssh_prefix h = [] then ''ssh'' else ''ssh '' @ str_join '' '' (ssh_prefix h))"

text \<open>The source side: command, label, and the host the probe asks.\<close>

definition source_side :: "tool_handler \<Rightarrow> string \<Rightarrow> int \<Rightarrow> string \<Rightarrow> string + string \<times> string \<times> string" where
  "source_side h sourceHost sourceCtid sourcePath =
     (if sourceCtid > 0 then
        (case cs_get (th_containers h) sourceCtid of
           None \<Rightarrow> Inl (source_container_missing sourceCtid)
         | Some c \<Rightarrow>
             Inr ((if c_has_relay_ssh c
                   then ssh_bin h @ '' '' @ shell_quote (container_user c @ ''@'' @ c_ip c) @ '' -- cat '' @ shell_quote sourcePath
                   else ssh_bin h @ '' root@'' @ th_host_ip h @ '' -- pct exec '' @ itoa (c_ctid c) @ '' -- cat ''
                        @ shell_quote sourcePath),
                  container_label c, ''''))
      else
        let host = (if sourceHost = '''' then th_host_ip h else sourceHost) in
        if \<not> valid_host host then Inl ''source_host must be an IP or hostname''
        else Inr (ssh_bin h @ '' root@'' @ host @ '' -- cat '' @ shell_quote sourcePath, host, host))"

text \<open>A remote command between double quotes, as the relay-side shell gets it.\<close>

definition dquoted :: "string \<Rightarrow> string" where
  "dquoted s = CHR 0x22 # s @ [CHR 0x22]"

definition pct_push_command :: "string \<Rightarrow> int \<Rightarrow> string \<Rightarrow> string \<Rightarrow> string" where
  "pct_push_command tmp ctid path fmode =
     ''cat > '' @ tmp @ '' && pct push '' @ itoa ctid @ '' '' @ tmp @ '' '' @ shell_quote path
     @ '' && pct exec '' @ itoa ctid @ '' -- chmod '' @ fmode @ '' '' @ shell_quote path @ '' && rm '' @ tmp"

definition tmp_file :: "tool_world \<Rightarrow> string" where
  "tmp_file w = ''/tmp/mhr-'' @ itoa (tw_nano w)"

text \<open>The destination side: command, label, route.\<close>

definition dest_side :: "tool_world \<Rightarrow> tool_handler \<Rightarrow> string \<Rightarrow> int \<Rightarrow> string \<Rightarrow> string \<Rightarrow> string + string \<times> string \<times> string" where
  "dest_side w h host ctid path fmode =
     (if ctid > 0 then
        (case cs_get (th_containers h) ctid of
           None \<Rightarrow> Inl (container_missing ctid)
         | Some c \<Rightarrow>
             Inr (if c_has_relay_ssh c
                  then (ssh_bin h @ '' '' @ shell_quote (container_user c @ ''@'' @ c_ip c) @ '' -- ''
                          @ dquoted (cat_chmod path fmode), container_label c, ''direct_ssh'')
                  else (ssh_bin h @ '' root@'' @ th_host_ip h @ '' -- ''
                          @ dquoted (pct_push_command (tmp_file w) (c_ctid c) path fmode),
                        container_label c, ''pct_push'')))
      else Inr (ssh_bin h @ '' root@'' @ host @ '' -- '' @ dquoted (cat_chmod path fmode), host, ''direct_ssh''))"

text \<open>The source probe: refuse when the file is known not to exist, else a line and a size.\<close>

definition source_probe :: "tool_world \<Rightarrow> int \<Rightarrow> string \<Rightarrow> string \<Rightarrow> string \<Rightarrow> tool_handler
    \<Rightarrow> (string + string \<times> int) \<times> tool_handler" where
  "source_probe w ctid host path target h =
     (case probe_of w ctid host path of
        None \<Rightarrow> (Inr ('''', 0), h)
      | Some (ProbeError e) \<Rightarrow>
          (Inr ('''', 0), tool_log (tw_clock w 3) ''write_file_source_probe_failed'' '''' (probe_failed_fields ''source'' target path e) h)
      | Some ProbeAbsent \<Rightarrow> (Inl (''source file not found: '' @ path @ '' on '' @ target), h)
      | Some (ProbeFound sz t) \<Rightarrow>
          (Inr (''[SOURCE: '' @ itoa sz @ ''B, modified '' @ tw_minutes w t @ '']'' @ [CHR 0x0A], sz), h))"

definition write_file_from_source :: "tool_world \<Rightarrow> tool_args \<Rightarrow> string \<Rightarrow> string \<Rightarrow> string \<Rightarrow> string \<Rightarrow> int \<Rightarrow> string
    \<Rightarrow> tool_handler \<Rightarrow> tool_result \<times> tool_handler" where
  "write_file_from_source w args path reason sourcePath sourceHost sourceCtid client h =
     (let fmode = mode_arg args; timeout = arg_float_int args ''timeout'';
          host = (if arg_str args ''host'' = '''' then th_host_ip h else arg_str args ''host'')
      in if \<not> valid_mode fmode then (ToolError mode_text, h)
         else case int_arg_strict args ''ctid'' of
           Inl v \<Rightarrow> (ToolError (not_a_number ''ctid'' v), h)
         | Inr ctid \<Rightarrow>
             if \<not> valid_host host then (ToolError ''host must be an IP or hostname'', h)
             else case source_side h sourceHost sourceCtid sourcePath of
               Inl e \<Rightarrow> (ToolError e, h)
             | Inr (srcCmd, srcTarget, probeHost) \<Rightarrow>
                 (case dest_side w h host ctid path fmode of
                    Inl e \<Rightarrow> (ToolError e, h)
                  | Inr (dstCmd, dstTarget, route) \<Rightarrow>
                      (case source_probe w sourceCtid probeHost sourcePath srcTarget h of
                         (Inl e, h1) \<Rightarrow> (ToolError e, h1)
                       | (Inr (sourceLine, sourceSize), h1) \<Rightarrow>
                           (case overwrite_probe w ctid host path dstTarget h1 of
                              (overwriteLine, h2) \<Rightarrow>
                                let full = srcCmd @ '' | '' @ dstCmd;
                                    away = srcTarget @ '':'' @ sourcePath @ '' -> '' @ dstTarget @ '':'' @ path
                                in filed w (store_add (tw_id w) (tw_clock w 0) full []
                                     (''[FILE from '' @ away @ ''] '' @ reason @ [CHR 0x0A] @ sourceLine @ overwriteLine)
                                     '''' True timeout client (th_store h2))
                                   (Some (''stream '' @ away @ ''  [mode '' @ fmode @ '']'' @ [CHR 0x0A]
                                     @ truncate_command full max_display_command_bytes))
                                   [(''tool'', JStr ''write_file''), (''target'', JStr dstTarget), (''path'', JStr path),
                                    (''source'', JStr srcTarget), (''source_path'', JStr sourcePath),
                                    (''size'', JInt sourceSize), (''mode'', JStr fmode), (''route'', JStr route),
                                    (''reason'', JStr reason)]
                                   [(''target'', JStr dstTarget), (''path'', JStr path),
                                    (''source'', JStr (srcTarget @ '':'' @ sourcePath)), (''size'', JInt sourceSize),
                                    (''route'', JStr route)] h2))))"

section \<open>write_file\<close>

text \<open>The content methods: a decoded content, or a source path to stream from.\<close>

datatype content_arg = Inline string | FromSource string string int

definition decode_base64 :: "tool_world \<Rightarrow> string \<Rightarrow> string + string" where
  "decode_base64 w b64 =
     (let s = concat (Go_Strings.fields b64) in
      case b64_decode std_alphabet True s of
        Some x \<Rightarrow> Inr x
      | None \<Rightarrow> (case b64_decode std_alphabet False s of
                   Some x \<Rightarrow> Inr x
                 | None \<Rightarrow> Inl (''invalid base64: '' @ tw_base64_error w s)))"

definition content_of :: "tool_world \<Rightarrow> tool_args \<Rightarrow> string + content_arg" where
  "content_of w args =
     (let plaintext = arg_str args ''content''; b64 = arg_str args ''content_base64'';
          sourcePath = arg_str args ''source_path''; sourceHost = arg_str args ''source_host'' in
      case int_arg_strict args ''source_ctid'' of
        Inl v \<Rightarrow> Inl (not_a_number ''source_ctid'' v)
      | Inr sourceCtid \<Rightarrow>
          if sourcePath \<noteq> '''' \<and> (plaintext \<noteq> '''' \<or> b64 \<noteq> '''') then
            Inl ''provide exactly one of content, content_base64, or source_path''
          else if sourcePath = '''' \<and> (sourceHost \<noteq> '''' \<or> sourceCtid > 0) then
            Inl ''source_host/source_ctid require source_path''
          else if sourcePath \<noteq> '''' then
            (if sourceHost \<noteq> '''' \<and> sourceCtid > 0 then Inl ''provide either source_host or source_ctid, not both''
             else if \<not> valid_path sourcePath then Inl (absolute_path_text ''source_path'')
             else Inr (FromSource sourcePath sourceHost sourceCtid))
          else if plaintext \<noteq> '''' \<and> b64 \<noteq> '''' then Inl ''provide either content or content_base64, not both''
          else if plaintext \<noteq> '''' then Inr (Inline plaintext)
          else if b64 \<noteq> '''' then (case decode_base64 w b64 of Inl e \<Rightarrow> Inl e | Inr c \<Rightarrow> Inr (Inline c))
          else Inl ''content or content_base64 is required'')"

definition no_target_text :: string where
  "no_target_text = ''no target: pass ctid=<n> (registered container), machine=<name> (registered machine), or host=<ip> (the Proxmox host). write_file no longer defaults to the host.''"

text \<open>Where an inline write goes: ssh arguments, label, route and the bytes piped to it.\<close>

record write_target =
  wt_argv :: "string list"
  wt_target :: string
  wt_route :: string
  wt_stdin :: string

definition write_target_of :: "golib \<Rightarrow> tool_world \<Rightarrow> tool_handler \<Rightarrow> string \<Rightarrow> int \<Rightarrow> string \<Rightarrow> string \<Rightarrow> string \<Rightarrow> string
    \<Rightarrow> string + write_target" where
  "write_target_of lib w h machineName ctid host path fmode content =
     (if machineName \<noteq> '''' then
        (case th_machines h of
           None \<Rightarrow> Inl machines_unconfigured
         | Some ms \<Rightarrow>
             (case ms_get ms machineName of
                None \<Rightarrow> Inl (machine_missing lib machineName)
              | Some m \<Rightarrow>
                  (case machine_write_remote m path fmode content of
                     (remote, stdin) \<Rightarrow>
                       Inr \<lparr>wt_argv = machine_ssh_base h m @ remote,
                            wt_target = ''machine '' @ m_name m @ '' ('' @ m_shell m @ '')'',
                            wt_route = ''machine_'' @ m_shell m, wt_stdin = stdin\<rparr>)))
      else if ctid > 0 then
        (case cs_get (th_containers h) ctid of
           None \<Rightarrow> Inl (container_missing ctid)
         | Some c \<Rightarrow>
             Inr (if c_has_relay_ssh c then
                    \<lparr>wt_argv = ssh_prefix h @ [container_user c @ ''@'' @ c_ip c, ''--'', cat_chmod path fmode],
                     wt_target = container_label c, wt_route = ''direct_ssh'', wt_stdin = content\<rparr>
                  else
                    \<lparr>wt_argv = ssh_prefix h @ [''root@'' @ th_host_ip h, ''--'', ''sh'', ''-c'',
                       pct_push_command (tmp_file w) (c_ctid c) path fmode],
                     wt_target = container_label c, wt_route = ''pct_push'', wt_stdin = content\<rparr>))
      else Inr \<lparr>wt_argv = ssh_prefix h @ [''root@'' @ host, ''--'', cat_chmod path fmode],
                wt_target = host, wt_route = ''direct_ssh'', wt_stdin = content\<rparr>)"

definition write_file_inline :: "golib \<Rightarrow> tool_world \<Rightarrow> tool_args \<Rightarrow> string \<Rightarrow> string \<Rightarrow> string \<Rightarrow> string
    \<Rightarrow> tool_handler \<Rightarrow> tool_result \<times> tool_handler" where
  "write_file_inline lib w args path reason content client h =
     (let fmode = mode_arg args; machineName = arg_str args ''machine''; host = arg_str args ''host'';
          timeout = arg_float_int args ''timeout''; sz = itoa (int (length content))
      in if \<not> valid_mode fmode then (ToolError mode_text, h)
         else case int_arg_strict args ''ctid'' of
           Inl v \<Rightarrow> (ToolError (not_a_number ''ctid'' v), h)
         | Inr ctid \<Rightarrow>
             if host = '''' \<and> ctid = 0 \<and> machineName = '''' then (ToolError no_target_text, h)
             else case write_target_of lib w h machineName ctid host path fmode content of
               Inl e \<Rightarrow> (ToolError e, h)
             | Inr t \<Rightarrow>
                 (case (if machineName = '''' then overwrite_probe w ctid host path (wt_target t) h else ('''', h)) of
                    (overwriteLine, h1) \<Rightarrow>
                      filed w (store_add_with_stdin (lib_sha256 lib) (tw_id w) (tw_clock w 0) ''ssh'' (wt_argv t)
                                 (''[FILE '' @ sz @ ''B -> '' @ wt_target t @ '':'' @ path @ ''] '' @ reason @ [CHR 0x0A]
                                  @ overwriteLine @ ''---'' @ [CHR 0x0A] @ preview 2048 content)
                                 '''' False timeout (wt_stdin t) client (th_store h1))
                        (Some (''write -> '' @ wt_target t @ '':'' @ path @ ''  ['' @ sz @ ''B, mode '' @ fmode @ '']''))
                        [(''tool'', JStr ''write_file''), (''target'', JStr (wt_target t)), (''path'', JStr path),
                         (''size'', JInt (int (length content))), (''mode'', JStr fmode),
                         (''route'', JStr (wt_route t)), (''reason'', JStr reason)]
                        [(''target'', JStr (wt_target t)), (''path'', JStr path),
                         (''size'', JInt (int (length content))), (''route'', JStr (wt_route t))] h1))"

definition write_file :: "golib \<Rightarrow> tool_world \<Rightarrow> tool_args \<Rightarrow> string \<Rightarrow> tool_handler \<Rightarrow> tool_result \<times> tool_handler" where
  "write_file lib w args client h =
     (let path = arg_str args ''path''; reason = arg_str args ''reason'' in
      if path = '''' \<or> reason = '''' then (ToolError ''path and reason are required'', h)
      else if arg_str args ''machine'' \<noteq> '''' \<and> \<not> valid_machine_path path then
        (ToolError (''path contains disallowed characters (allowed: letters, digits, space, . _ - / '' @ [CHR 0x5C] @ '' :)''), h)
      else if arg_str args ''machine'' = '''' \<and> \<not> valid_path path then (ToolError (absolute_path_text ''path''), h)
      else case content_of w args of
        Inl e \<Rightarrow> (ToolError e, h)
      | Inr (FromSource sourcePath sourceHost sourceCtid) \<Rightarrow>
          write_file_from_source w args path reason sourcePath sourceHost sourceCtid client h
      | Inr (Inline content) \<Rightarrow> write_file_inline lib w args path reason content client h)"

section \<open>SSH keys\<close>

definition key_push_command :: "string \<Rightarrow> int \<Rightarrow> string" where
  "key_push_command tmp ctid =
     ''cat > '' @ tmp @ '' && pct exec '' @ itoa ctid @ '' -- mkdir -p /root/.ssh && pct push '' @ itoa ctid @ '' ''
     @ tmp @ '' '' @ tmp @ '' --perms 0600 && pct exec '' @ itoa ctid @ '' -- sh -c '' @ [CHR 0x27] @ ''cat '' @ tmp
     @ '' >> /root/.ssh/authorized_keys && chmod 600 /root/.ssh/authorized_keys && chmod 700 /root/.ssh'' @ [CHR 0x27]
     @ '' && rm '' @ tmp"

definition key_tmp_file :: "tool_world \<Rightarrow> string" where
  "key_tmp_file w = ''/tmp/mhr-key-'' @ itoa (tw_nano w)"

definition key_push_argv :: "tool_world \<Rightarrow> tool_handler \<Rightarrow> int \<Rightarrow> string list" where
  "key_push_argv w h ctid =
     ssh_prefix h @ [''root@'' @ th_host_ip h, ''--'', ''sh'', ''-c'', key_push_command (key_tmp_file w) ctid]"

definition install_relay_ssh :: "golib \<Rightarrow> tool_world \<Rightarrow> tool_args \<Rightarrow> string \<Rightarrow> tool_handler \<Rightarrow> tool_result \<times> tool_handler" where
  "install_relay_ssh lib w args client h =
     (let ctid = int_arg args ''ctid''; reason = arg_str args ''reason''; timeout = arg_float_int args ''timeout'' in
      if ctid = 0 then (ToolError ctid_required, h)
      else if reason = '''' then (ToolError ''reason is required'', h)
      else if th_pubkey_file h = '''' then
        (ToolError ''relay public key file not configured (set MHR_RELAY_PUBKEY_FILE)'', h)
      else case tw_read w (th_pubkey_file h) of
        Inl e \<Rightarrow> (ToolError (''failed to read relay public key from '' @ th_pubkey_file h @ '': '' @ e), h)
      | Inr bytes \<Rightarrow>
          let pubkey = trim_space bytes; c = cs_get (th_containers h) ctid;
              hostname = (case c of None \<Rightarrow> ''ctid-'' @ itoa ctid | Some x \<Rightarrow> c_hostname x);
              place = ''CTID '' @ itoa ctid @ '' ('' @ hostname @ '')''
          in if \<not> valid_ssh_key pubkey then
               (ToolError ''relay public key file does not contain a valid SSH public key'', h)
             else
               filed w (store_add_with_stdin (lib_sha256 lib) (tw_id w) (tw_clock w 0) ''ssh'' (key_push_argv w h ctid)
                          (''[SSH KEY -> CTID '' @ itoa ctid @ '' '' @ hostname @ ''] '' @ reason @ rule_line
                           @ ''Installing relay'' @ [CHR 0x27] @ ''s own public key for direct SSH access.'' @ [CHR 0x0A]
                           @ ''Key: '' @ pubkey)
                          '''' False timeout (ssh_key_line pubkey) client (th_store h))
                 (Some (''install relay SSH key -> '' @ place))
                 [(''tool'', JStr ''install_relay_ssh''), (''ctid'', JInt ctid), (''hostname'', JStr hostname),
                  (''reason'', JStr reason)]
                 ([(''container'', JStr place), (''route'', JStr ''pct_push''), (''auto_register'', JBool True)]
                  @ (case c of
                       None \<Rightarrow> [(''note'', JStr ''After approval and successful execution, call register_container with has_relay_ssh=true (or update existing registration).'')]
                     | Some _ \<Rightarrow> [(''already_registered'', JBool True),
                         (''note'', JStr ''Container already registered. After approval, update registration with has_relay_ssh=true.'')])) h)"

definition key_warning :: string where
  "key_warning = ''This installs an arbitrary SSH key. Verify the key belongs to a trusted party before approving.''"

definition install_ssh_key_machine :: "golib \<Rightarrow> tool_world \<Rightarrow> string \<Rightarrow> string \<Rightarrow> string \<Rightarrow> int \<Rightarrow> string \<Rightarrow> tool_handler
    \<Rightarrow> tool_result \<times> tool_handler" where
  "install_ssh_key_machine lib w name pubkey reason timeout client h =
     (case th_machines h of
        None \<Rightarrow> (ToolError machines_unconfigured, h)
      | Some ms \<Rightarrow>
          (case ms_get ms name of
             None \<Rightarrow> (ToolError (machine_missing lib name), h)
           | Some m \<Rightarrow>
               (case machine_key_append_remote m pubkey of
                  (remote, stdin) \<Rightarrow>
                    filed w (store_add_with_stdin (lib_sha256 lib) (tw_id w) (tw_clock w 0) ''ssh''
                               (machine_ssh_base h m @ remote)
                               (''[SSH KEY -> machine '' @ m_name m @ '' ('' @ m_shell m @ '')] '' @ reason @ rule_line
                                @ ''Key: '' @ pubkey)
                               '''' False timeout stdin client (th_store h))
                      (Some (''install SSH key -> machine '' @ m_name m))
                      [(''tool'', JStr ''install_ssh_key''), (''machine'', JStr (m_name m)), (''shell'', JStr (m_shell m)),
                       (''key'', JStr pubkey), (''reason'', JStr reason), (''route'', JStr (''machine_'' @ m_shell m))]
                      [(''machine'', JStr (m_name m)), (''route'', JStr (''machine_'' @ m_shell m)),
                       (''warning'', JStr key_warning)] h)))"

definition key_append_command :: string where
  "key_append_command = ''mkdir -p /root/.ssh && cat >> /root/.ssh/authorized_keys && chmod 600 /root/.ssh/authorized_keys && chmod 700 /root/.ssh''"

definition key_append_argv :: "tool_handler \<Rightarrow> container \<Rightarrow> string list" where
  "key_append_argv h c = ssh_prefix h @ [container_user c @ ''@'' @ c_ip c, ''--'', ''sh'', ''-c'', key_append_command]"

definition install_ssh_key :: "golib \<Rightarrow> tool_world \<Rightarrow> tool_args \<Rightarrow> string \<Rightarrow> tool_handler \<Rightarrow> tool_result \<times> tool_handler" where
  "install_ssh_key lib w args client h =
     (let ctid = int_arg args ''ctid''; machineName = arg_str args ''machine''; publicKey = arg_str args ''public_key'';
          reason = arg_str args ''reason''; timeout = arg_float_int args ''timeout''; pubkey = trim_space publicKey
      in if publicKey = '''' then (ToolError ''public_key is required'', h)
         else if reason = '''' then (ToolError ''reason is required'', h)
         else if \<not> valid_ssh_key pubkey then
           (ToolError ''public_key does not look like a valid SSH public key (expected format: ssh-ed25519 AAAA... comment)'', h)
         else if machineName \<noteq> '''' then install_ssh_key_machine lib w machineName pubkey reason timeout client h
         else if ctid = 0 then (ToolError ''ctid or machine is required'', h)
         else case cs_get (th_containers h) ctid of
           None \<Rightarrow> (ToolError (container_missing ctid), h)
         | Some c \<Rightarrow>
             let route = (if c_has_relay_ssh c then ''direct_ssh'' else ''pct_push'');
                 place = ''CTID '' @ itoa ctid @ '' ('' @ c_hostname c @ '')''
             in filed w (store_add_with_stdin (lib_sha256 lib) (tw_id w) (tw_clock w 0) ''ssh''
                           (if c_has_relay_ssh c then key_append_argv h c else key_push_argv w h ctid)
                           (''[SSH KEY -> CTID '' @ itoa ctid @ '' '' @ c_hostname c @ ''] '' @ reason @ rule_line
                            @ ''Key: '' @ pubkey)
                           '''' False timeout (ssh_key_line pubkey) client (th_store h))
                  (Some (''install SSH key -> '' @ place))
                  [(''tool'', JStr ''install_ssh_key''), (''ctid'', JInt ctid), (''hostname'', JStr (c_hostname c)),
                   (''key'', JStr pubkey), (''reason'', JStr reason), (''route'', JStr route)]
                  [(''container'', JStr place), (''route'', JStr route), (''warning'', JStr key_warning)] h)"

end
