(* ===== verification/Tools.thy ===== *)
theory Tools
  imports Tool_Files
begin

text \<open>
  mcp/tools.go: reading results, the registry tools, withdrawing, and dispatchTool. A call that
  waits reads the store again and again; what it finds at each wake-up is a list that the other
  threads determine.
\<close>

section \<open>Reading results\<close>

datatype wake = Tick | Expired | Gone

text \<open>The loop of getResult: \<open>None\<close> when the wake-ups seen so far did not end it.\<close>

fun get_result_loop :: "golib \<Rightarrow> string \<Rightarrow> store \<Rightarrow> (wake \<times> store) list \<Rightarrow> tool_result option" where
  "get_result_loop lib rid s wakes =
     (case store_get s rid of
        None \<Rightarrow> Some (ToolError ''request not found'')
      | Some r \<Rightarrow>
          if r_status r \<noteq> StatusPending then Some (request_result lib r)
          else (case wakes of
                  [] \<Rightarrow> None
                | (e, s') # rest \<Rightarrow>
                    if e = Expired then Some (request_result lib r) else get_result_loop lib rid s' rest))"

definition get_result :: "golib \<Rightarrow> tool_args \<Rightarrow> (wake \<times> store) list \<Rightarrow> tool_handler \<Rightarrow> tool_result option" where
  "get_result lib args wakes h =
     (let rid = arg_str args ''request_id''; timeoutSec = arg_float_int args ''timeout'' in
      if rid = '''' then Some (ToolError ''request_id is required'')
      else if timeoutSec > 0 then get_result_loop lib rid (th_store h) wakes
      else (case store_get (th_store h) rid of
              None \<Rightarrow> Some (ToolError ''request not found'')
            | Some r \<Rightarrow> Some (request_result lib r)))"

text \<open>How long getResult holds the call: the deadline as a Duration.\<close>

definition get_result_hold :: "tool_args \<Rightarrow> int" where
  "get_result_hold args = wrap64 (arg_float_int args ''timeout'' * second)"

definition list_requests_tool :: "golib \<Rightarrow> tool_args \<Rightarrow> tool_handler \<Rightarrow> tool_result" where
  "list_requests_tool lib args h =
     (let rs = map redact_gated_output (list_requests (arg_str args ''status'') (th_store h)) in
      ToolJson (if rs = [] then JNull else JArr (map (request_json lib) rs)))"

section \<open>Registry tools\<close>

definition queue_registry_op :: "tool_world \<Rightarrow> string \<Rightarrow> (string, string) gomap \<Rightarrow> string \<Rightarrow> string \<Rightarrow> tool_handler
    \<Rightarrow> tool_result \<times> tool_handler" where
  "queue_registry_op w op regArgs reason client h =
     filed w (store_add_registry_op (tw_id w) (tw_clock w 0) op regArgs reason client (th_store h)) (Some reason)
       [(''tool'', JStr op), (''registry_op'', JStr op), (''registry_args'', jmap regArgs), (''reason'', JStr reason)]
       [] h"

definition ssh_user_injectable :: "string \<Rightarrow> bool" where
  "ssh_user_injectable u = prefix ''-'' u"

definition injectable_text :: string where
  "injectable_text = ''ssh_user must not begin with '' @ [CHR 0x27] @ ''-'' @ [CHR 0x27] @ '' (ssh would parse it as an option)''"

definition register_container :: "tool_world \<Rightarrow> tool_args \<Rightarrow> string \<Rightarrow> tool_handler \<Rightarrow> tool_result \<times> tool_handler" where
  "register_container w args client h =
     (let ctid = int_arg args ''ctid''; ip = arg_str args ''ip''; hostname = arg_str args ''hostname'';
          relaySSH = arg_bool args ''has_relay_ssh''; sshUser = arg_str args ''ssh_user''
      in if ctid = 0 then (ToolError ctid_required, h)
         else if ip = '''' then (ToolError ''ip is required'', h)
         else if hostname = '''' then (ToolError ''hostname is required'', h)
         else if ssh_user_injectable sshUser then (ToolError injectable_text, h)
         else queue_registry_op w ''register_container''
                ([(''ctid'', itoa ctid), (''ip'', ip), (''hostname'', hostname), (''has_relay_ssh'', bool_str relaySSH)]
                 @ (if sshUser = '''' then [] else [(''ssh_user'', sshUser)]))
                (''register container CTID '' @ itoa ctid @ '' at '' @ ip @ '' ('' @ hostname @ ''), has_relay_ssh=''
                 @ bool_str relaySSH @ (if sshUser = '''' then '''' else '', ssh_user='' @ sshUser))
                client h)"

definition list_containers :: "golib \<Rightarrow> tool_handler \<Rightarrow> tool_result" where
  "list_containers lib h = ToolJson (JArr (map (container_json lib) (cs_list (th_containers h))))"

definition delete_container :: "tool_world \<Rightarrow> tool_args \<Rightarrow> string \<Rightarrow> tool_handler \<Rightarrow> tool_result \<times> tool_handler" where
  "delete_container w args client h =
     (let ctid = int_arg args ''ctid'' in
      if ctid = 0 then (ToolError ctid_required, h)
      else queue_registry_op w ''delete_container'' [(''ctid'', itoa ctid)]
             (''delete container CTID '' @ itoa ctid @ '' from the relay registry'') client h)"

definition register_machine :: "golib \<Rightarrow> tool_world \<Rightarrow> tool_args \<Rightarrow> string \<Rightarrow> tool_handler \<Rightarrow> tool_result \<times> tool_handler" where
  "register_machine lib w args client h =
     (let name = arg_str args ''name''; host = arg_str args ''host''; sshUser = arg_str args ''ssh_user'';
          shell = arg_str args ''shell''; identityFile = arg_str args ''identity_file''
      in if th_machines h = None then (ToolError machines_unconfigured, h)
         else if name = '''' then (ToolError ''name is required'', h)
         else if \<not> valid_name name then
           (ToolError ''machine name must be alphanumeric with hyphens/underscores only (no paths, no spaces)'', h)
         else if host = '''' then (ToolError ''host is required'', h)
         else if \<not> valid_host host then (ToolError ''host must be an IP or hostname'', h)
         else if sshUser = '''' then (ToolError ''ssh_user is required'', h)
         else if ssh_user_injectable sshUser then (ToolError injectable_text, h)
         else if shell \<notin> {'''', shell_posix, shell_powershell} then
           (ToolError (''shell must be '' @ lib_quote lib shell_posix @ '' or '' @ lib_quote lib shell_powershell), h)
         else if identityFile \<noteq> '''' \<and> \<not> valid_path identityFile then
           (ToolError ''identity_file must be an absolute path'', h)
         else queue_registry_op w ''register_machine''
                ([(''name'', name), (''host'', host), (''ssh_user'', sshUser)]
                 @ (if shell = '''' then [] else [(''shell'', shell)])
                 @ (if identityFile = '''' then [] else [(''identity_file'', identityFile)]))
                (''register machine '' @ name @ '' at '' @ host @ '' as user '' @ sshUser
                 @ (if shell = '''' then '''' else '', shell='' @ shell)
                 @ (if identityFile = '''' then '''' else '', identity_file='' @ identityFile))
                client h)"

definition list_machines :: "golib \<Rightarrow> tool_handler \<Rightarrow> tool_result" where
  "list_machines lib h =
     (case th_machines h of
        None \<Rightarrow> ToolError machines_unconfigured
      | Some ms \<Rightarrow> ToolJson (JArr (map (machine_json lib) (ms_list ms))))"

definition delete_machine :: "tool_world \<Rightarrow> tool_args \<Rightarrow> string \<Rightarrow> tool_handler \<Rightarrow> tool_result \<times> tool_handler" where
  "delete_machine w args client h =
     (let name = arg_str args ''name'' in
      if th_machines h = None then (ToolError machines_unconfigured, h)
      else if name = '''' then (ToolError ''name is required'', h)
      else queue_registry_op w ''delete_machine'' [(''name'', name)]
             (''delete machine '' @ name @ '' from the relay registry'') client h)"

section \<open>withdraw_request\<close>

definition withdraw_request :: "tool_world \<Rightarrow> tool_args \<Rightarrow> tool_handler \<Rightarrow> tool_result \<times> tool_handler" where
  "withdraw_request w args h =
     (let rid = arg_str args ''request_id''; reason = arg_str args ''reason'' in
      if rid = '''' \<or> reason = '''' then (ToolError ''request_id and reason are required'', h)
      else case withdraw (tw_clock w 0) rid reason (th_store h) of
        ((False, st), s) \<Rightarrow>
          (ToolError (if st = StatusPending then ''request '' @ rid @ '' not found''
             else ''request '' @ rid @ '' is '' @ status_str st @ '', only pending requests can be withdrawn''),
           h\<lparr>th_store := s\<rparr>)
      | ((True, _), s) \<Rightarrow>
          (ToolJson (JObj [(''request_id'', JStr rid), (''status'', JStr (status_str StatusWithdrawn))]),
           tool_log (tw_clock w 1) ''request_withdrawn'' rid
             [(''tool'', JStr ''withdraw_request''), (''withdraw_reason'', JStr reason)] (h\<lparr>th_store := s\<rparr>)))"

section \<open>dispatchTool\<close>

text \<open>Every tool but get_result, which may have to wait, answers at once.\<close>

definition dispatch_now :: "golib \<Rightarrow> tool_world \<Rightarrow> string \<Rightarrow> tool_args \<Rightarrow> string \<Rightarrow> tool_handler \<Rightarrow> tool_result \<times> tool_handler" where
  "dispatch_now lib w name args client h =
     (if name = ''request_command'' then request_command_retired h
      else if name = ''request_command_for_relay'' then request_command_for_relay lib w args client h
      else if name = ''request_command_for_host'' then request_command_for_host lib w args client h
      else if name = ''list_requests'' then (list_requests_tool lib args h, h)
      else if name = ''register_container'' then register_container w args client h
      else if name = ''list_containers'' then (list_containers lib h, h)
      else if name = ''delete_container'' then delete_container w args client h
      else if name = ''exec_container'' then exec_container w args client h
      else if name = ''register_machine'' then register_machine lib w args client h
      else if name = ''list_machines'' then (list_machines lib h, h)
      else if name = ''delete_machine'' then delete_machine w args client h
      else if name = ''exec_machine'' then exec_machine lib w args client h
      else if name = ''write_file'' then write_file lib w args client h
      else if name = ''http_request'' then http_request w args client h
      else if name = ''run_script'' then run_script (lib_sha256 lib) w args client h
      else if name = ''create_script'' then create_script lib w args client h
      else if name = ''create_then_run'' then create_then_run lib w args client h
      else if name = ''install_relay_ssh'' then install_relay_ssh lib w args client h
      else if name = ''install_ssh_key'' then install_ssh_key lib w args client h
      else if name = ''withdraw_request'' then withdraw_request w args h
      else (ToolError (''unknown tool: '' @ name), h))"

definition dispatch_tool :: "golib \<Rightarrow> tool_world \<Rightarrow> (wake \<times> store) list \<Rightarrow> string \<Rightarrow> tool_args \<Rightarrow> string
    \<Rightarrow> tool_handler \<Rightarrow> tool_result option \<times> tool_handler" where
  "dispatch_tool lib w wakes name args client h =
     (if name = ''get_result'' then (get_result lib args wakes h, h)
      else apfst Some (dispatch_now lib w name args client h))"

end
