(* ===== verification/Submit_Wait.thy ===== *)
theory Submit_Wait
  imports Tools
begin

text \<open>
  mcp/submit_wait.go: the optional wait of a submitting tool. The call is held until its request
  settles, the wait expires or the client goes away; the model sees the wake-ups of that loop as a
  list (\<open>Tick\<close> of the poll ticker, \<open>Expired\<close> of the timer, \<open>Gone\<close> of the context), each with the store
  the loop then reads. \<open>None\<close> is a call still held.
\<close>

section \<open>The cap\<close>

definition max_submit_wait :: int where "max_submit_wait = 50 * second"

definition wait_tools :: "string list" where
  "wait_tools = [''request_command_for_relay'', ''request_command_for_host'', ''exec_container'',
     ''exec_machine'', ''write_file'', ''http_request'', ''run_script'', ''create_script'', ''create_then_run'',
     ''install_relay_ssh'', ''install_ssh_key'', ''register_container'', ''delete_container'',
     ''register_machine'', ''delete_machine'']"

text \<open>\<open>raw\<close> is the value of \<^verbatim>\<open>MHR_MAX_WAIT\<close>, empty when unset.\<close>

definition max_wait_from_env :: "string \<Rightarrow> int" where
  "max_wait_from_env raw =
     (if raw = '''' then max_submit_wait
      else case atoi raw of
        None \<Rightarrow> max_submit_wait
      | Some secs \<Rightarrow>
          if secs \<le> 0 then max_submit_wait
          else let d = wrap64 (secs * second) in if d < max_submit_wait then d else max_submit_wait)"

definition parse_wait :: "tool_args \<Rightarrow> int \<Rightarrow> string + int" where
  "parse_wait args cap =
     (case int_arg_strict args ''wait'' of
        Inl v \<Rightarrow> Inl (not_a_number ''wait'' v)
      | Inr secs \<Rightarrow>
          if secs < 0 then Inl ''wait must be >= 0 seconds''
          else if secs > quot cap second then Inr cap
          else Inr (wrap64 (secs * second)))"

section \<open>Waiting\<close>

primrec settled :: "status \<Rightarrow> bool" where
  "settled StatusPending = False"
| "settled StatusApproved = False"
| "settled StatusDenied = True"
| "settled StatusRunning = False"
| "settled StatusComplete = True"
| "settled StatusTimeout = True"
| "settled StatusError = True"
| "settled StatusWithdrawn = True"

definition settled_result :: "golib \<Rightarrow> request \<Rightarrow> (string \<times> jval) list \<Rightarrow> tool_result" where
  "settled_result lib r sub =
     (let extras = filter (\<lambda>(k, v). k \<noteq> ''request_id'' \<and> k \<noteq> ''status'') sub in
      if extras = [] then request_result lib r
      else (case request_result lib r of
              ToolJson (JObj payload) \<Rightarrow> ToolJson (JObj (AList.update ''submission'' (JObj extras) payload))
            | res \<Rightarrow> res))"

definition expired_result :: "(string \<times> jval) list \<Rightarrow> request option \<Rightarrow> int \<Rightarrow> tool_result" where
  "expired_result sub r wait =
     ToolJson (JObj
       (let out = AList.update ''wait_seconds'' (JInt (quot wait second))
                    (AList.update ''wait_expired'' (JBool True) sub)
        in case r of None \<Rightarrow> out
           | Some r \<Rightarrow> AList.update ''current_status'' (JStr (status_str (r_status r))) out))"

fun await_loop :: "golib \<Rightarrow> string \<Rightarrow> (string \<times> jval) list \<Rightarrow> tool_result \<Rightarrow> int \<Rightarrow> store \<Rightarrow> (wake \<times> store) list
    \<Rightarrow> tool_result option" where
  "await_loop lib rid sub submitted wait s wakes =
     (case store_get s rid of
        None \<Rightarrow> Some submitted
      | Some r \<Rightarrow>
          if settled (r_status r) then Some (settled_result lib r sub)
          else (case wakes of
                  [] \<Rightarrow> None
                | (e, s') # rest \<Rightarrow>
                    (case e of
                       Tick \<Rightarrow> await_loop lib rid sub submitted wait s' rest
                     | Gone \<Rightarrow> Some submitted
                     | Expired \<Rightarrow>
                         (case store_get s' rid of
                            None \<Rightarrow> Some (expired_result sub None wait)
                          | Some r' \<Rightarrow> if settled (r_status r') then Some (settled_result lib r' sub)
                                       else Some (expired_result sub (Some r') wait)))))"

definition await_settled :: "golib \<Rightarrow> tool_result \<Rightarrow> int \<Rightarrow> store \<Rightarrow> (wake \<times> store) list \<Rightarrow> tool_result option" where
  "await_settled lib submitted wait s wakes =
     (case submitted of
        ToolJson (JObj sub) \<Rightarrow>
          (case map_of sub ''request_id'' of
             Some (JStr rid) \<Rightarrow>
               if rid = '''' then Some submitted else await_loop lib rid sub submitted wait s wakes
           | _ \<Rightarrow> Some submitted)
      | _ \<Rightarrow> Some submitted)"

definition handle_context :: "golib \<Rightarrow> tool_world \<Rightarrow> (wake \<times> store) list \<Rightarrow> string \<Rightarrow> tool_args \<Rightarrow> string
    \<Rightarrow> tool_handler \<Rightarrow> tool_result option \<times> tool_handler" where
  "handle_context lib w wakes name args client h =
     (if name \<notin> set wait_tools then dispatch_tool lib w wakes name args client h
      else case parse_wait args (th_max_wait h) of
        Inl e \<Rightarrow> (Some (ToolError e), h)
      | Inr wait \<Rightarrow>
          (case dispatch_now lib w name args client h of
             (res, h') \<Rightarrow>
               if wait \<le> 0 \<or> is_tool_error res then (Some res, h')
               else (await_settled lib res wait (th_store h') wakes, h')))"

text \<open>Handle: no context to end the wait early.\<close>

definition handle_tool :: "golib \<Rightarrow> tool_world \<Rightarrow> (wake \<times> store) list \<Rightarrow> string \<Rightarrow> tool_args \<Rightarrow> string
    \<Rightarrow> tool_handler \<Rightarrow> tool_result option \<times> tool_handler" where
  "handle_tool lib w wakes name args client h =
     handle_context lib w (filter (\<lambda>(e, _). e \<noteq> Gone) wakes) name args client h"

end
