(* ===== verification/Mcp_Server.thy ===== *)
theory Mcp_Server
  imports Submit_Wait Web_Handler
begin

text \<open>
  mcp/server.go and mcp/types.go: the event streams of the MCP port, the JSON-RPC dispatch and the
  delivery of answers. Decoding a JSON text into the request struct is encoding/json's, an argument
  here, as are the schemas tools/list answers with (\<open>tools_json\<close> of Tool_Schemas).
\<close>

section \<open>JSON-RPC\<close>

text \<open>An absent id is \<open>None\<close>; omitempty leaves it out of the answer.\<close>

record rpc_request =
  rq_id :: "jval option"
  rq_method :: string
  rq_params :: "jval option"

record call_params =
  cp_name :: string
  cp_arguments :: tool_args

datatype rpc_result = RpcResult jval | RpcError int string

record rpc_response =
  rs_id :: "jval option"
  rs_result :: rpc_result

definition rpc_response_json :: "rpc_response \<Rightarrow> jval" where
  "rpc_response_json rs = JObj
     ([(''jsonrpc'', JStr ''2.0'')]
      @ (case rs_id rs of None \<Rightarrow> [] | Some v \<Rightarrow> [(''id'', v)])
      @ (case rs_result rs of
           RpcResult v \<Rightarrow> [(''result'', v)]
         | RpcError code msg \<Rightarrow> [(''error'', JObj [(''code'', JInt code), (''message'', JStr msg)])]))"

definition content_block :: "string \<Rightarrow> jval" where
  "content_block t = JObj [(''type'', JStr ''text''), (''text'', JStr t)]"

primrec tool_result_json :: "golib \<Rightarrow> tool_result \<Rightarrow> jval" where
  "tool_result_json lib (ToolError e) = JObj [(''content'', JArr [content_block e]), (''isError'', JBool True)]"
| "tool_result_json lib (ToolJson v) = JObj [(''content'', JArr [content_block (lib_marshal lib v)])]"

definition initialize_result :: jval where
  "initialize_result = JObj
     [(''protocolVersion'', JStr ''2024-11-05''), (''capabilities'', JObj [(''tools'', JObj [])]),
      (''serverInfo'', JObj [(''name'', JStr ''human-relay''), (''version'', JStr ''0.1.0'')])]"

text \<open>dispatch: no answer to the initialized notification, and none yet while a tool call is held.\<close>

datatype dispatched = NoAnswer | StillHeld | Answer rpc_response

definition dispatch_rpc :: "golib \<Rightarrow> jval \<Rightarrow> (jval option \<Rightarrow> call_params) \<Rightarrow> tool_world \<Rightarrow> (wake \<times> store) list
    \<Rightarrow> rpc_request \<Rightarrow> string \<Rightarrow> tool_handler \<Rightarrow> dispatched \<times> tool_handler" where
  "dispatch_rpc lib schemas decode_call w wakes rq client h =
     (let answer = (\<lambda>v. Answer \<lparr>rs_id = rq_id rq, rs_result = v\<rparr>) in
      if rq_method rq = ''initialize'' then (answer (RpcResult initialize_result), h)
      else if rq_method rq = ''notifications/initialized'' then (NoAnswer, h)
      else if rq_method rq = ''tools/list'' then (answer (RpcResult (JObj [(''tools'', schemas)])), h)
      else if rq_method rq = ''tools/call'' then
        (let p = decode_call (rq_params rq) in
         case handle_context lib w wakes (cp_name p) (cp_arguments p) client h of
           (None, h') \<Rightarrow> (StillHeld, h')
         | (Some res, h') \<Rightarrow> (answer (RpcResult (tool_result_json lib res)), h'))
      else if rq_method rq = ''ping'' then (answer (RpcResult (JObj [])), h)
      else (answer (RpcError (-32601) (''method not found: '' @ rq_method rq)), h))"

section \<open>Streams\<close>

definition default_sse_keepalive :: int where "default_sse_keepalive = 15 * second"

definition keepalive_from_env :: "string \<Rightarrow> int" where
  "keepalive_from_env raw =
     (if raw = '''' then default_sse_keepalive
      else case atoi raw of
        None \<Rightarrow> default_sse_keepalive
      | Some secs \<Rightarrow> if secs \<le> 0 then default_sse_keepalive else wrap64 (secs * second))"

text \<open>A session is its channel, a buffer of at most 100 messages.\<close>

record server =
  sv_clients :: "string \<rightharpoonup> string list"
  sv_next_id :: int
  sv_keepalive :: int

definition new_server :: "string \<Rightarrow> server" where
  "new_server raw = \<lparr>sv_clients = Map.empty, sv_next_id = 0, sv_keepalive = keepalive_from_env raw\<rparr>"

text \<open>handleSSE up to its loop. time.NewTicker panics on an interval that is not positive, after
  the session was registered; net/http recovers and closes the connection.\<close>

datatype stream = Streaming string | Panicked string

definition session_name :: "int \<Rightarrow> string" where
  "session_name n = ''session-'' @ itoa n"

definition open_stream :: "server \<Rightarrow> stream \<times> server" where
  "open_stream sv =
     (let n = wrap64 (sv_next_id sv + 1); sid = session_name n;
          sv' = sv\<lparr>sv_next_id := n, sv_clients := (sv_clients sv)(sid \<mapsto> [])\<rparr>
      in (if sv_keepalive sv \<le> 0 then Panicked sid else Streaming sid, sv'))"

definition endpoint_event :: "string \<Rightarrow> string" where
  "endpoint_event sid = ''event: endpoint'' @ [CHR 0x0A] @ ''data: /message?sessionId='' @ sid @ [CHR 0x0A, CHR 0x0A]"

text \<open>The loop's three cases.\<close>

definition close_stream :: "string \<Rightarrow> server \<Rightarrow> server" where
  "close_stream sid sv = sv\<lparr>sv_clients := (sv_clients sv)(sid := None)\<rparr>"

definition next_message :: "string \<Rightarrow> server \<Rightarrow> string option \<times> server" where
  "next_message sid sv =
     (case sv_clients sv sid of
        Some (m # q) \<Rightarrow>
          (Some (''event: message'' @ [CHR 0x0A] @ ''data: '' @ m @ [CHR 0x0A, CHR 0x0A]),
           sv\<lparr>sv_clients := (sv_clients sv)(sid \<mapsto> q)\<rparr>)
      | _ \<Rightarrow> (None, sv))"

definition keepalive_ping :: string where
  "keepalive_ping = '': ping'' @ [CHR 0x0A, CHR 0x0A]"

section \<open>Messages\<close>

text \<open>The scanner's lines, joined without their ends; a line of a mebibyte stops it. If nothing was
  read that way, what is left of the body is.\<close>

definition scan_limit :: nat where "scan_limit = 1024 * 1024"

definition drop_cr :: "string \<Rightarrow> string" where
  "drop_cr l = (if l \<noteq> [] \<and> last l = CHR 0x0D then butlast l else l)"

fun scan_lines :: "string list \<Rightarrow> string" where
  "scan_lines [] = ''''"
| "scan_lines (l # ls) = (if length l \<ge> scan_limit then '''' else drop_cr l @ scan_lines ls)"

definition message_body :: "string \<Rightarrow> string" where
  "message_body raw =
     (let b = scan_lines (split_on CHR 0x0A raw) in
      if b \<noteq> '''' then b
      else drop scan_limit (str_join [CHR 0x0A]
             (dropWhile (\<lambda>l. drop_cr l = '''' \<and> length l < scan_limit) (split_on CHR 0x0A raw))))"

text \<open>handleMessage up to dispatch, and from its answer on. A stream that ended while the call ran
  took its channel with it; a full channel drops the answer.\<close>

definition message_request :: "(string \<Rightarrow> rpc_request option) \<Rightarrow> string \<Rightarrow> string \<Rightarrow> server \<Rightarrow> reply + rpc_request" where
  "message_request decode sid raw sv =
     (case sv_clients sv sid of
        None \<Rightarrow> Inl (http_error ''unknown session'' 400)
      | Some _ \<Rightarrow>
          (case decode (message_body raw) of
             None \<Rightarrow> Inl (http_error ''invalid JSON'' 400)
           | Some rq \<Rightarrow> Inr rq))"

definition accepted :: reply where
  "accepted = \<lparr>rp_code = 202, rp_headers = [], rp_body = RawBytes ''''\<rparr>"

definition message_answer :: "golib \<Rightarrow> string \<Rightarrow> dispatched \<Rightarrow> server \<Rightarrow> reply option \<times> server" where
  "message_answer lib sid d sv =
     (case d of
        StillHeld \<Rightarrow> (None, sv)
      | NoAnswer \<Rightarrow> (Some accepted, sv)
      | Answer rs \<Rightarrow>
          (Some accepted,
           (case sv_clients sv sid of
              None \<Rightarrow> sv
            | Some q \<Rightarrow> sv\<lparr>sv_clients := (sv_clients sv)
                (sid \<mapsto> chan_send 100 (lib_marshal lib (rpc_response_json rs)) q)\<rparr>)))"

definition handle_message :: "golib \<Rightarrow> jval \<Rightarrow> (string \<Rightarrow> rpc_request option) \<Rightarrow> (jval option \<Rightarrow> call_params) \<Rightarrow> tool_world
    \<Rightarrow> (wake \<times> store) list \<Rightarrow> auth_ctx \<Rightarrow> string \<Rightarrow> string \<Rightarrow> server \<Rightarrow> tool_handler
    \<Rightarrow> reply option \<times> server \<times> tool_handler" where
  "handle_message lib schemas decode decode_call w wakes ctx sid raw sv h =
     (case message_request decode sid raw sv of
        Inl rep \<Rightarrow> (Some rep, sv, h)
      | Inr rq \<Rightarrow>
          (case dispatch_rpc lib schemas decode_call w wakes rq (ctx_client_from ctx) h of
             (d, h') \<Rightarrow>
               (case message_answer lib sid d sv of (rep, sv') \<Rightarrow> (rep, sv', h'))))"

datatype route = RouteStream | RouteMessage | RouteNone

definition serve_route :: "string \<Rightarrow> string \<Rightarrow> route" where
  "serve_route path meth =
     (if path = ''/sse'' \<and> meth = ''GET'' then RouteStream
      else if prefix ''/message'' path \<and> meth = ''POST'' then RouteMessage
      else RouteNone)"

end
