(* ===== verification/Tool_Outcome.thy ===== *)
theory Tool_Outcome
  imports Submit_Wait
begin

text \<open>
  The contract every tool handler of mcp/tools.go keeps, stated once: a call either refuses, and
  then the store is untouched, or files exactly one pending request of its own. One lemma per tool
  discharges it; withdraw_request and the reading tools have their own.
\<close>

section \<open>The contract\<close>

definition probe_events :: "string set" where
  "probe_events = {''write_file_probe_failed'', ''write_file_source_probe_failed''}"

text \<open>Nothing but failed probes was recorded.\<close>

definition quiet :: "tool_handler \<Rightarrow> tool_handler \<Rightarrow> bool" where
  "quiet h h' \<longleftrightarrow> (\<exists>es. h' = h\<lparr>th_audit := th_audit h @ es\<rparr> \<and> ev_event ` set es \<subseteq> probe_events)"

text \<open>A request as an Add function makes it for this call.\<close>

definition fresh_request :: "tool_world \<Rightarrow> string \<Rightarrow> request \<Rightarrow> bool" where
  "fresh_request w client r \<longleftrightarrow> r_id r = tw_id w \<and> r_client r = client \<and> r_status r = StatusPending
     \<and> r_result r = None \<and> \<not> r_output_gated r \<and> r_display_command r = ''''"

definition refuses :: "tool_handler \<Rightarrow> tool_result \<times> tool_handler \<Rightarrow> bool" where
  "refuses h out \<longleftrightarrow> is_tool_error (fst out) \<and> quiet h (snd out)"

definition files :: "tool_world \<Rightarrow> string \<Rightarrow> tool_handler \<Rightarrow> tool_result \<times> tool_handler \<Rightarrow> bool" where
  "files w client h out \<longleftrightarrow>
     (\<exists>h1 r display fs extra. quiet h h1 \<and> fresh_request w client r
        \<and> out = filed w (r, publish r (th_store h)) display fs extra h1)"

definition outcome :: "tool_world \<Rightarrow> string \<Rightarrow> tool_handler \<Rightarrow> tool_result \<times> tool_handler \<Rightarrow> bool" where
  "outcome w client h out \<longleftrightarrow> refuses h out \<or> files w client h out"

lemma quiet_refl [simp]: "quiet h h"
  by (rule exI [where x = "[]", THEN iffD2 [OF quiet_def]]) simp

lemma quiet_fields:
  assumes "quiet h h'"
  shows "th_store h' = th_store h" "th_containers h' = th_containers h" "th_machines h' = th_machines h"
    "th_host_ip h' = th_host_ip h" "th_ssh_config h' = th_ssh_config h" "th_scripts_dir h' = th_scripts_dir h"
    "th_pubkey_file h' = th_pubkey_file h" "th_max_wait h' = th_max_wait h" "prefix (th_audit h) (th_audit h')"
  using assms by (auto simp: quiet_def)

lemma quiet_trans: "quiet h h1 \<Longrightarrow> quiet h1 h2 \<Longrightarrow> quiet h h2"
  unfolding quiet_def by (elim exE conjE, rule_tac x = "es @ esa" in exI) auto

lemma outcome_error [simp]: "outcome w client h (ToolError e, h)"
  by (simp add: outcome_def refuses_def)

lemma outcome_error_quiet: "quiet h h' \<Longrightarrow> outcome w client h (ToolError e, h')"
  by (simp add: outcome_def refuses_def)

lemma outcome_files:
  assumes "quiet h h1" and "fresh_request w client r" and "th_store h1 = s"
  shows "outcome w client h (filed w (r, publish r s) display fs extra h1)"
proof -
  have "th_store h = s" using assms quiet_fields(1) by metis
  with assms have "quiet h h1 \<and> fresh_request w client r
      \<and> filed w (r, publish r s) display fs extra h1 = filed w (r, publish r (th_store h)) display fs extra h1"
    by simp
  then have "files w client h (filed w (r, publish r s) display fs extra h1)" unfolding files_def by blast
  then show ?thesis by (simp add: outcome_def)
qed

text \<open>Every Add function publishes a fresh request.\<close>

lemma outcome_store_add:
  "quiet h h1 \<Longrightarrow> outcome w client h (filed w (store_add (tw_id w) t c as reason wd sh tm client (th_store h1)) d fs ex h1)"
  by (simp add: store_add_def Let_def outcome_files fresh_request_def pending_request_def)

lemma outcome_store_add_http:
  "quiet h h1 \<Longrightarrow> outcome w client h
     (filed w (store_add_http_form (tw_id w) t m u hs b ff fd reason tm client (th_store h1)) d fs ex h1)"
  by (simp add: store_add_http_form_def Let_def outcome_files fresh_request_def pending_request_def)

lemma outcome_store_add_script:
  "quiet h h1 \<Longrightarrow> outcome w client h
     (filed w (store_add_script_typed sha (tw_id w) t typ n as reason tm stdin client (th_store h1)) d fs ex h1)"
  by (simp add: store_add_script_typed_def Let_def outcome_files fresh_request_def pending_request_def)

lemma outcome_store_add_registry:
  "quiet h h1 \<Longrightarrow> outcome w client h
     (filed w (store_add_registry_op (tw_id w) t op as reason client (th_store h1)) d fs ex h1)"
  by (simp add: store_add_registry_op_def Let_def outcome_files fresh_request_def pending_request_def)

lemma outcome_store_add_stdin:
  "quiet h h1 \<Longrightarrow> outcome w client h
     (filed w (store_add_with_stdin sha (tw_id w) t c as reason wd sh tm stdin client (th_store h1)) d fs ex h1)"
  by (simp add: store_add_with_stdin_def Let_def outcome_files fresh_request_def pending_request_def)

lemmas outcome_adds = outcome_store_add outcome_store_add_http outcome_store_add_script
  outcome_store_add_registry outcome_store_add_stdin

section \<open>The tools keep it\<close>

lemma relay_outcome: "outcome w client h (request_command_for_relay lib w args client h)"
  by (simp add: request_command_for_relay_def outcome_adds split: sum.split)

lemma host_outcome: "outcome w client h (request_command_for_host lib w args client h)"
  by (simp add: request_command_for_host_def Let_def outcome_adds split: sum.split)

lemma container_outcome: "outcome w client h (exec_container w args client h)"
  by (simp add: exec_container_def Let_def outcome_adds split: option.split)

lemma machine_outcome: "outcome w client h (exec_machine lib w args client h)"
  by (simp add: exec_machine_def Let_def outcome_adds split: option.split)

lemma http_outcome: "outcome w client h (http_request w args client h)"
  by (simp add: http_request_def Let_def outcome_adds split: sum.split)

lemma run_script_outcome: "outcome w client h (run_script sha w args client h)"
  by (simp add: run_script_def store_add_script_def Let_def outcome_adds)

lemma create_script_outcome: "outcome w client h (create_script lib w args client h)"
  by (simp add: create_script_def Let_def outcome_adds)

lemma create_then_run_outcome: "outcome w client h (create_then_run lib w args client h)"
  by (simp add: create_then_run_def Let_def outcome_adds split: list.split)

lemma registry_outcome: "outcome w client h (queue_registry_op w op as reason client h)"
  by (simp add: queue_registry_op_def outcome_adds)

lemma registry_tool_outcomes:
  "outcome w client h (register_container w args client h)"
  "outcome w client h (delete_container w args client h)"
  "outcome w client h (register_machine lib w args client h)"
  "outcome w client h (delete_machine w args client h)"
  by (simp_all add: register_container_def delete_container_def register_machine_def delete_machine_def
      Let_def registry_outcome)

lemma tool_log_quiet: "ev \<in> probe_events \<Longrightarrow> quiet h (tool_log now ev rid fs h)"
  by (auto simp: quiet_def tool_log_def audit_log_def)

lemma overwrite_probe_quiet: "quiet h (snd (overwrite_probe w ctid host path target h))"
  by (simp add: overwrite_probe_def tool_log_quiet probe_events_def split: option.split probe.split)

lemma source_probe_quiet: "quiet h (snd (source_probe w ctid host path target h))"
  by (simp add: source_probe_def tool_log_quiet probe_events_def split: option.split probe.split)

lemma write_inline_outcome: "outcome w client h (write_file_inline lib w args path reason content client h)"
  by (simp add: write_file_inline_def Let_def outcome_adds overwrite_probe_quiet case_prod_beta split: sum.split)

lemma write_source_outcome: "outcome w client h (write_file_from_source w args path reason sp sh sc client h)"
proof -
  have two: "quiet h (snd (overwrite_probe w c ho pa dt (snd (source_probe w c' ho' pa' st h))))" for c ho pa dt c' ho' pa' st
    by (rule quiet_trans [OF source_probe_quiet overwrite_probe_quiet])
  show ?thesis
    by (simp add: write_file_from_source_def Let_def case_prod_beta outcome_adds two outcome_error_quiet
        source_probe_quiet split: sum.split)
qed

lemma write_file_outcome: "outcome w client h (write_file lib w args client h)"
  by (simp add: write_file_def Let_def write_inline_outcome write_source_outcome split: sum.split content_arg.split)

lemma relay_key_outcome: "outcome w client h (install_relay_ssh lib w args client h)"
  by (simp add: install_relay_ssh_def Let_def outcome_adds split: sum.split)

lemma machine_key_outcome: "outcome w client h (install_ssh_key_machine lib w name key reason tm client h)"
  by (simp add: install_ssh_key_machine_def outcome_adds case_prod_beta split: option.split)

lemma key_outcome: "outcome w client h (install_ssh_key lib w args client h)"
  by (simp add: install_ssh_key_def Let_def outcome_adds machine_key_outcome split: option.split)

lemmas tool_outcomes = relay_outcome host_outcome container_outcome machine_outcome http_outcome
  run_script_outcome create_script_outcome create_then_run_outcome registry_tool_outcomes
  write_file_outcome relay_key_outcome key_outcome

text \<open>A tool that takes \<open>wait\<close> is a submitting one.\<close>

lemma submitting_outcome:
  "name \<in> set wait_tools \<Longrightarrow> outcome w client h (dispatch_now lib w name args client h)"
  unfolding wait_tools_def list.set insert_iff empty_iff
  by (elim disjE FalseE; simp add: dispatch_now_def tool_outcomes)

section \<open>The interface\<close>

text \<open>Calls of named tools that keep the contract, as the rest of the port relies on them.\<close>

locale submitting_tools =
  fixes call :: "string \<Rightarrow> tool_world \<Rightarrow> tool_args \<Rightarrow> string \<Rightarrow> tool_handler \<Rightarrow> tool_result \<times> tool_handler"
    and names :: "string set"
  assumes contract: "name \<in> names \<Longrightarrow> outcome w client h (call name w args client h)"
begin

lemma refused_untouched:
  assumes "name \<in> names" and "is_tool_error (fst (call name w args client h))"
  shows "quiet h (snd (call name w args client h))"
proof (cases "refuses h (call name w args client h)")
  case True
  then show ?thesis by (simp add: refuses_def)
next
  case False
  then show ?thesis
    using contract [OF assms(1), of w client h args] assms(2)
    by (auto simp: outcome_def files_def filed_def pending_reply_def Let_def)
qed

lemma accepted_files:
  assumes "name \<in> names" and "\<not> is_tool_error (fst (call name w args client h))"
  obtains h1 r display fs extra where "quiet h h1" "fresh_request w client r"
    "call name w args client h = filed w (r, publish r (th_store h)) display fs extra h1"
  using contract [OF assms(1), of w client h args] assms(2)
  by (auto simp: outcome_def refuses_def files_def)

lemma accepted_result:
  assumes "name \<in> names" and "\<not> is_tool_error (fst (call name w args client h))"
  shows "\<exists>extra. fst (call name w args client h)
     = ToolJson (JObj ((''request_id'', JStr (tw_id w)) # (''status'', JStr ''pending'') # extra))"
  by (rule accepted_files [OF assms]) (auto simp: filed_def pending_reply_def fresh_request_def Let_def)

end

interpretation mcp_tools: submitting_tools "\<lambda>name w. dispatch_now lib w name" "set wait_tools" for lib
  by unfold_locales (rule submitting_outcome)

section \<open>A handler to try things on\<close>

definition demo_tools :: tool_handler where
  "demo_tools = new_tool_handler new_store demo_containers (Some demo_machines) ''10.0.0.1'' [] max_submit_wait"

definition demo_tool_world :: tool_world where
  "demo_tool_world = \<lparr>tw_id = ''r1'', tw_clock = \<lambda>n. 7, tw_nano = 99, tw_probe = None,
     tw_stat = \<lambda>p. StatNotExist, tw_read = \<lambda>p. Inl ''unreadable'', tw_minutes = \<lambda>t. ''then'',
     tw_base64_error = \<lambda>s. ''illegal data''\<rparr>"

definition demo_df :: tool_args where
  "demo_df = [(''command'', JStr ''df''), (''args'', JArr [JStr ''-h'']), (''reason'', JStr ''disk'')]"

end
