(* ===== verification/Agent_System.thy ===== *)
theory Agent_System
  imports Relay_System Mcp_Server Tool_Outcome
begin

text \<open>
  The two ports on one store. The tool handlers of the MCP port and the web handler share the
  request store, the audit log and the registries; whatever a message to the MCP port does is a
  sequence of the agent's steps of the interleaved system, so the system's safety properties
  speak about the tools as written.
\<close>

section \<open>The shared state\<close>

definition shares :: "tool_handler \<Rightarrow> handler \<Rightarrow> bool" where
  "shares t h \<longleftrightarrow> th_store t = h_store h \<and> th_audit t = h_audit h
     \<and> rg_containers (h_registries h) = Some (th_containers t) \<and> rg_machines (h_registries h) = th_machines t"

definition with_tools :: "tool_handler \<Rightarrow> handler \<Rightarrow> handler" where
  "with_tools t h = h\<lparr>h_store := th_store t, h_audit := th_audit t\<rparr>"

text \<open>The steps an agent can take in the name of a client.\<close>

fun agent_label :: "string \<Rightarrow> label \<Rightarrow> bool" where
  "agent_label client (Submit r) \<longleftrightarrow> r_client r = client"
| "agent_label client (SetDisplay rid c) = True"
| "agent_label client (AgentWithdraw now rid reason) = True"
| "agent_label client (Note now ev rid fs) = True"
| "agent_label client _ = False"

definition agent_trace :: "string \<Rightarrow> handler \<Rightarrow> thread list \<Rightarrow> handler \<Rightarrow> bool" where
  "agent_trace client h ts h' \<longleftrightarrow> (\<exists>tr. list_all (\<lambda>(u, l). agent_label client l) tr
     \<and> exec_trace sys_step \<lparr>y_handler = h, y_threads = ts\<rparr> tr \<lparr>y_handler = h', y_threads = ts\<rparr>)"

lemma agent_trace_refl [simp]: "agent_trace client h ts h"
  unfolding agent_trace_def by (rule exI [of _ "[]"]) simp

lemma agent_trace_trans [trans]: "agent_trace client h ts h1 \<Longrightarrow> agent_trace client h1 ts h2 \<Longrightarrow> agent_trace client h ts h2"
proof -
  assume "agent_trace client h ts h1" "agent_trace client h1 ts h2"
  then obtain tr tr' where "list_all (\<lambda>(u, l). agent_label client l) (tr @ tr')"
    "exec_trace sys_step \<lparr>y_handler = h, y_threads = ts\<rparr> (tr @ tr') \<lparr>y_handler = h2, y_threads = ts\<rparr>"
    unfolding agent_trace_def by (fastforce intro: exec_trace_append)
  then show ?thesis unfolding agent_trace_def by blast
qed

lemma agent_trace_step:
  assumes "sys_step \<lparr>y_handler = h, y_threads = ts\<rparr> l \<lparr>y_handler = h', y_threads = ts\<rparr>" and "agent_label client l"
  shows "agent_trace client h ts h'"
  unfolding agent_trace_def
  by (rule exI [of _ "[(\<lparr>y_handler = h, y_threads = ts\<rparr>, l)]"]) (use assms in \<open>auto intro: exec_trace.intros\<close>)

lemmas agent_steps = agent_trace_step [OF sys_step.submit] agent_trace_step [OF sys_step.set_display]
  agent_trace_step [OF sys_step.agent_withdraw] agent_trace_step [OF sys_step.note_event]

lemma agent_notes:
  assumes "ev_event ` set es \<inter> approval_events = {}"
  shows "agent_trace client h ts (h\<lparr>h_audit := h_audit h @ es\<rparr>)"
  using assms
proof (induction es arbitrary: h)
  case Nil
  then show ?case by simp
next
  case (Cons e es)
  let ?h = "log_event (ev_timestamp e) (ev_event e) (ev_request_id e) (ev_fields e) h"
  have h: "?h = h\<lparr>h_audit := h_audit h @ [e]\<rparr>" by (simp add: log_event_def audit_log_def)
  have "agent_trace client h ts ?h"
    by (rule agent_steps(4)) (use Cons.prems in auto)
  moreover have "agent_trace client ?h ts (?h\<lparr>h_audit := h_audit ?h @ es\<rparr>)"
    using Cons.prems by (intro Cons.IH) auto
  ultimately show ?case by (simp add: h agent_trace_trans [of client h ts "h\<lparr>h_audit := h_audit h @ [e]\<rparr>"])
qed

section \<open>Tool calls\<close>

lemma with_tools_same: "shares t h \<Longrightarrow> with_tools t h = h"
  by (simp add: shares_def with_tools_def)

lemma quiet_trace:
  assumes "shares t h" and "quiet t t'" shows "agent_trace client h ts (with_tools t' h)"
proof -
  obtain es where es: "t' = t\<lparr>th_audit := th_audit t @ es\<rparr>" "ev_event ` set es \<subseteq> probe_events"
    using assms(2) by (auto simp: quiet_def)
  have "agent_trace client h ts (h\<lparr>h_audit := h_audit h @ es\<rparr>)"
    using es(2) by (intro agent_notes) (auto simp: probe_events_def approval_events_def)
  with assms(1) show ?thesis by (simp add: es(1) shares_def with_tools_def)
qed

text \<open>Filing: the Add function, the display command and the audit entry are three steps.\<close>

lemma filed_trace:
  assumes shares: "shares t h" and fresh: "fresh_request w client r" "st_requests (th_store t) (tw_id w) = None"
  shows "agent_trace client h ts (with_tools (snd (filed w (r, publish r (th_store t)) display fs extra t)) h)"
proof -
  define h1 where "h1 = with_store h (publish r (h_store h))"
  define h2 where "h2 = (case display of None \<Rightarrow> h1 | Some d \<Rightarrow> with_store h1 (snd (set_display_command (r_id r) d (h_store h1))))"
  have "new_request r" "st_requests (h_store h) (r_id r) = None"
    using shares fresh by (auto simp: new_request_def fresh_request_def shares_def)
  then have "agent_trace client h ts h1"
    unfolding h1_def by (rule agent_steps(1)) (use fresh(1) in \<open>simp add: fresh_request_def\<close>)
  also have "agent_trace client h1 ts h2"
    by (cases display) (auto simp: h2_def intro: agent_steps(2))
  also have "agent_trace client h2 ts (log_event (tw_clock w 1) ''request_created'' (r_id r) fs h2)"
    by (rule agent_steps(4)) (simp_all add: approval_events_def)
  also have "log_event (tw_clock w 1) ''request_created'' (r_id r) fs h2
      = with_tools (snd (filed w (r, publish r (th_store t)) display fs extra t)) h"
    using shares by (cases display) (simp_all add: filed_def h2_def h1_def Let_def tool_log_def log_event_def
        with_tools_def shares_def)
  finally show ?thesis .
qed

lemma shares_quiet: "shares t h \<Longrightarrow> quiet t t' \<Longrightarrow> shares t' (with_tools t' h)"
  by (auto simp: shares_def with_tools_def quiet_fields)

lemma outcome_trace:
  assumes "shares t h" and "st_requests (th_store t) (tw_id w) = None" and "outcome w client t out"
  shows "agent_trace client h ts (with_tools (snd out) h)"
proof (cases "refuses t out")
  case True
  then show ?thesis using assms(1) by (auto simp: refuses_def intro: quiet_trace)
next
  case False
  with assms(3) obtain t1 r display fs extra where q: "quiet t t1" and r: "fresh_request w client r"
    and out: "out = filed w (r, publish r (th_store t)) display fs extra t1"
    by (auto simp: outcome_def files_def)
  let ?h1 = "with_tools t1 h"
  have s1: "th_store t1 = th_store t" using quiet_fields(1) [OF q] .
  have "agent_trace client h ts ?h1" using quiet_trace [OF assms(1) q] .
  also have "agent_trace client ?h1 ts (with_tools (snd out) ?h1)"
    using filed_trace [OF shares_quiet [OF assms(1) q] r] assms(2) by (simp add: out s1)
  also have "with_tools (snd out) ?h1 = with_tools (snd out) h" by (simp add: with_tools_def)
  finally show ?thesis .
qed

lemma withdraw_trace:
  assumes "shares t h" shows "agent_trace client h ts (with_tools (snd (withdraw_request w args t)) h)"
proof -
  let ?rid = "arg_str args ''request_id''" and ?reason = "arg_str args ''reason''"
  obtain ok st s where wd: "withdraw (tw_clock w 0) ?rid ?reason (h_store h) = ((ok, st), s)"
    by (metis surj_pair)
  have one: "agent_trace client h ts (with_store h s)"
    using agent_steps(3) [where h = h and ts = ts and now = "tw_clock w 0" and rid = ?rid and reason = ?reason] wd by simp
  have two: "agent_trace client (with_store h s) ts (log_event (tw_clock w 1) ''request_withdrawn'' ?rid
      [(''tool'', JStr ''withdraw_request''), (''withdraw_reason'', JStr ?reason)] (with_store h s))"
    by (rule agent_steps(4)) (simp_all add: approval_events_def)
  show ?thesis
    using one agent_trace_trans [OF one two] assms wd
    by (cases ok) (auto simp: withdraw_request_def Let_def with_tools_same with_tools_def shares_def tool_log_def
        log_event_def)
qed

context submitting_tools
begin

lemma call_trace:
  assumes "name \<in> names" and "shares t h" and "st_requests (th_store t) (tw_id w) = None"
  shows "agent_trace client h ts (with_tools (snd (call name w args client t)) h)"
  by (rule outcome_trace [OF assms(2,3) contract [OF assms(1)]])

end

lemma dispatch_trace:
  assumes "shares t h" and "st_requests (th_store t) (tw_id w) = None"
  shows "agent_trace client h ts (with_tools (snd (dispatch_now lib w name args client t)) h)"
proof (cases "name \<in> set wait_tools")
  case True
  then show ?thesis using assms by (rule mcp_tools.call_trace)
next
  case False
  then show ?thesis
    using assms(1) by (simp add: dispatch_now_def wait_tools_def withdraw_trace request_command_retired_def with_tools_same)
qed

section \<open>Messages\<close>

text \<open>What a call does to the shared state is done when the tool returns, the wait only reads.\<close>

lemma handle_context_trace:
  assumes "shares t h" and "st_requests (th_store t) (tw_id w) = None"
  shows "agent_trace client h ts (with_tools (snd (handle_context lib w wakes name args client t)) h)"
  using dispatch_trace [OF assms, of client ts lib name args] with_tools_same [OF assms(1)]
  by (auto simp: handle_context_def dispatch_tool_def apfst_def map_prod_def split: sum.split prod.splits)

lemma dispatch_rpc_trace:
  assumes "shares t h" and "st_requests (th_store t) (tw_id w) = None"
  shows "agent_trace client h ts (with_tools (snd (dispatch_rpc lib schemas decode_call w wakes rq client t)) h)"
proof -
  let ?p = "decode_call (rq_params rq)"
  obtain res t' where c: "handle_context lib w wakes (cp_name ?p) (cp_arguments ?p) client t = (res, t')"
    by (metis surj_pair)
  have "agent_trace client h ts (with_tools t' h)"
    using handle_context_trace [OF assms, of client ts lib wakes "cp_name ?p" "cp_arguments ?p"] by (simp add: c)
  then show ?thesis
    using with_tools_same [OF assms(1)] by (cases res) (simp_all add: dispatch_rpc_def Let_def c)
qed

text \<open>A tool call leaves the registries and the settings of its handler alone.\<close>

definition settings :: "tool_handler \<Rightarrow> tool_handler" where
  "settings t = t\<lparr>th_store := new_store, th_audit := []\<rparr>"

lemma settings_store [simp]:
  "settings (t\<lparr>th_store := s\<rparr>) = settings t" "settings (t\<lparr>th_audit := a\<rparr>) = settings t"
  "settings (tool_log now ev rid fs t) = settings t"
  by (simp_all add: settings_def tool_log_def)

lemma settings_filed [simp]: "settings (snd (filed w added display fs extra t)) = settings t"
  by (simp add: filed_def Let_def split: prod.split)

lemma outcome_settings: "outcome w client t out \<Longrightarrow> settings (snd out) = settings t"
  by (auto simp: outcome_def refuses_def files_def quiet_def)

context submitting_tools
begin

lemma call_settings: "name \<in> names \<Longrightarrow> settings (snd (call name w args client t)) = settings t"
  by (rule outcome_settings [OF contract])

end

lemma dispatch_settings: "settings (snd (dispatch_now lib w name args client t)) = settings t"
proof (cases "name \<in> set wait_tools")
  case True
  then show ?thesis by (rule mcp_tools.call_settings)
next
  case False
  then show ?thesis
    by (simp add: dispatch_now_def wait_tools_def withdraw_request_def Let_def request_command_retired_def
        split: prod.split bool.split)
qed

lemma handle_context_settings: "settings (snd (handle_context lib w wakes name args client t)) = settings t"
  using dispatch_settings [of lib w name args client t]
  by (auto simp: handle_context_def dispatch_tool_def apfst_def map_prod_def split: sum.split prod.splits)

lemma dispatch_rpc_settings:
  "settings (snd (dispatch_rpc lib schemas decode_call w wakes rq client t)) = settings t"
proof -
  let ?p = "decode_call (rq_params rq)"
  obtain res t' where c: "handle_context lib w wakes (cp_name ?p) (cp_arguments ?p) client t = (res, t')"
    by (metis surj_pair)
  then have "settings t' = settings t"
    using handle_context_settings [of lib w wakes "cp_name ?p" "cp_arguments ?p" client t] by simp
  then show ?thesis by (cases res) (simp_all add: dispatch_rpc_def Let_def c)
qed

lemma shares_settings:
  assumes "shares t h" and "settings t' = settings t" shows "shares t' (with_tools t' h)"
proof -
  have "th_containers t' = th_containers t" "th_machines t' = th_machines t"
    using arg_cong [OF assms(2), of th_containers] arg_cong [OF assms(2), of th_machines]
    by (simp_all add: settings_def)
  with assms(1) show ?thesis by (simp add: shares_def with_tools_def)
qed

lemma handle_message_cases:
  assumes "handle_message lib schemas decode decode_call w wakes ctx sid raw sv t = (rep, sv', t')"
  shows "t' = t \<or> (\<exists>rq. t' = snd (dispatch_rpc lib schemas decode_call w wakes rq (ctx_client_from ctx) t))"
  using assms by (auto simp: handle_message_def split: sum.splits prod.splits) (metis snd_conv)+

section \<open>The MCP port in the system\<close>

text \<open>Whatever a message to the MCP port does is a sequence of steps of the interleaved system that an
  agent may take in the caller's name. The tools as written are therefore covered by every property
  of that system.\<close>

lemma message_trace:
  assumes "shares t h" and "st_requests (th_store t) (tw_id w) = None"
    and "t' = snd (snd (handle_message lib schemas decode decode_call w wakes ctx sid raw sv t))"
  shows "agent_trace (ctx_client_from ctx) h ts (with_tools t' h) \<and> shares t' (with_tools t' h)"
proof -
  consider "t' = t" | rq where "t' = snd (dispatch_rpc lib schemas decode_call w wakes rq (ctx_client_from ctx) t)"
    using assms(3) handle_message_cases by (metis surj_pair snd_conv)
  then show ?thesis
  proof cases
    case 1
    then show ?thesis using assms(1) by (simp add: with_tools_same)
  next
    case 2
    then show ?thesis
      using dispatch_rpc_trace [OF assms(1,2)] shares_settings [OF assms(1) dispatch_rpc_settings] by simp
  qed
qed

definition demo_server :: server where
  "demo_server = snd (open_stream (new_server ''''))"

definition demo_decode :: "string \<Rightarrow> rpc_request option" where
  "demo_decode raw = Some \<lparr>rq_id = Some (JInt 1), rq_method = ''tools/call'', rq_params = Some (JStr raw)\<rparr>"

definition demo_call :: "string \<Rightarrow> tool_args \<Rightarrow> jval option \<Rightarrow> call_params" where
  "demo_call name args v = \<lparr>cp_name = name, cp_arguments = args\<rparr>"

definition demo_shared :: handler where
  "demo_shared = (new_handler new_store [] Map.empty)
     \<lparr>h_registries := \<lparr>rg_containers = Some demo_containers, rg_machines = Some demo_machines\<rparr>\<rparr>"

definition demo_after :: tool_handler where
  "demo_after = snd (snd (handle_message demo_lib (JArr []) demo_decode (demo_call ''request_command_for_relay'' demo_df)
     demo_tool_world [] (ctx_with_client ''ci'' no_ctx) ''session-1'' ''{}'' demo_server demo_tools))"

lemma demo_shares: "shares demo_tools demo_shared"
  by (simp add: shares_def demo_tools_def demo_shared_def new_tool_handler_def new_handler_def)

lemma demo_fresh: "st_requests (th_store demo_tools) (tw_id demo_tool_world) = None"
  by (simp add: demo_tools_def new_tool_handler_def demo_tool_world_def new_store_def)

lemma session_name_1: "session_name 1 = ''session-1''"
  by code_simp

lemma demo_session: "sv_clients demo_server ''session-1'' = Some []" "sv_keepalive demo_server = 15 * second"
  by (simp_all add: demo_server_def open_stream_def new_server_def session_name_1 wrap64_def
      keepalive_from_env_def default_sse_keepalive_def Let_def)

text \<open>The call the demonstrations make: dispatch of a tool the decoders name.\<close>

lemma demo_message:
  "snd (snd (handle_message demo_lib (JArr []) demo_decode (demo_call name args) w [] ctx ''session-1'' raw demo_server t))
   = snd (handle_context demo_lib w [] name args (ctx_client_from ctx) t)"
  by (simp add: handle_message_def message_request_def demo_session demo_decode_def dispatch_rpc_def Let_def
      demo_call_def message_answer_def split: prod.split option.split)

lemma demo_after_store:
  "st_requests (th_store demo_after) ''r1'' \<noteq> None" "ctx_client_from (ctx_with_client ''ci'' no_ctx) = ''ci''"
  by (simp_all add: demo_after_def demo_message handle_context_def wait_tools_def dispatch_now_def parse_wait_def
      demo_df_def int_arg_strict_def demo_tools_def new_tool_handler_def request_command_for_relay_def
      parse_command_request_def arg_str_def arg_strings_def arg_bool_def check_bash_c_arg_splitting_def
      filed_def tool_log_def store_add_def publish_def demo_tool_world_def pending_request_def Let_def
      ctx_client_from_def ctx_with_client_def no_ctx_def split: prod.split)

section \<open>What the port cannot do\<close>

text \<open>What an agent can make of a stored request: leave it, or withdraw it while it is pending.\<close>

definition agent_may_turn :: "request \<Rightarrow> request \<Rightarrow> bool" where
  "agent_may_turn r r' \<longleftrightarrow> r' = r \<or> (r_status r = StatusPending
     \<and> (\<exists>now reason. r' = r\<lparr>r_status := StatusWithdrawn, r_withdraw_reason := reason, r_decided_at := Some now\<rparr>))"

text \<open>The effect of a call under a fresh identifier on the store and the audit log.\<close>

definition agent_effect :: "string \<Rightarrow> string \<Rightarrow> tool_handler \<Rightarrow> tool_handler \<Rightarrow> bool" where
  "agent_effect rid client t t' \<longleftrightarrow> settings t' = settings t
     \<and> (\<forall>i r. st_requests (th_store t) i = Some r \<longrightarrow> (\<exists>r'. st_requests (th_store t') i = Some r' \<and> agent_may_turn r r'))
     \<and> (\<forall>i r'. st_requests (th_store t) i = None \<and> st_requests (th_store t') i = Some r' \<longrightarrow>
          i = rid \<and> r_client r' = client \<and> r_status r' = StatusPending \<and> r_result r' = None \<and> \<not> r_output_gated r')
     \<and> (\<exists>es. th_audit t' = th_audit t @ es \<and> ev_event ` set es \<inter> approval_events = {})"

lemma agent_effect_refl [simp]: "agent_effect rid client t t"
  by (auto simp: agent_effect_def agent_may_turn_def)

text \<open>A failed probe is no approval.\<close>

lemma probes_disjoint: "E \<subseteq> probe_events \<Longrightarrow> E \<inter> approval_events = {}"
  by (auto simp: probe_events_def approval_events_def)

lemma agent_effect_quiet: "quiet t t' \<Longrightarrow> agent_effect rid client t t'"
  unfolding quiet_def by (elim exE conjE) (auto simp: agent_effect_def agent_may_turn_def probes_disjoint)

lemma publish_requests: "st_requests (publish r s) = (st_requests s)(r_id r \<mapsto> r)"
  by (simp add: publish_def)

lemma filed_store:
  "th_store (snd (filed w (r, publish r s) display fs extra t))
   = (case display of None \<Rightarrow> publish r s | Some d \<Rightarrow> put_request (r_id r) (r\<lparr>r_display_command := d\<rparr>) (publish r s))"
  by (simp add: filed_def Let_def tool_log_def set_display_command_def publish_def split: option.split)

lemma filed_audit:
  "\<exists>e. th_audit (snd (filed w added display fs extra t)) = th_audit t @ [e] \<and> ev_event e = ''request_created''"
  by (cases added) (simp add: filed_def Let_def tool_log_def audit_log_def)

lemma outcome_effect:
  assumes "st_requests (th_store t) (tw_id w) = None" and "outcome w client t out"
  shows "agent_effect (tw_id w) client t (snd out)"
proof (cases "refuses t out")
  case True
  then show ?thesis by (simp add: refuses_def agent_effect_quiet)
next
  case False
  with assms(2) obtain t1 r display fs extra where q: "quiet t t1" and r: "fresh_request w client r"
    and out: "out = filed w (r, publish r (th_store t)) display fs extra t1"
    by (auto simp: outcome_def files_def)
  have id: "r_id r = tw_id w" using r by (simp add: fresh_request_def)
  obtain e where e: "th_audit (snd out) = th_audit t1 @ [e]" "ev_event e = ''request_created''"
    using filed_audit out by metis
  have stored: "st_requests (th_store (snd out)) i = (if i = tw_id w
      then Some (case display of None \<Rightarrow> r | Some d \<Rightarrow> r\<lparr>r_display_command := d\<rparr>) else st_requests (th_store t) i)" for i
    by (cases display) (simp_all add: out filed_store publish_requests id)
  have "settings (snd out) = settings t" using assms(2) by (rule outcome_settings)
  moreover have "\<exists>es. th_audit (snd out) = th_audit t @ es \<and> ev_event ` set es \<inter> approval_events = {}"
  proof -
    obtain es where "t1 = t\<lparr>th_audit := th_audit t @ es\<rparr>" "ev_event ` set es \<subseteq> probe_events"
      using q by (auto simp: quiet_def)
    with e show ?thesis using probes_disjoint [of "ev_event ` set es"]
      by (intro exI [of _ "es @ [e]"]) (auto simp: approval_events_def)
  qed
  ultimately show ?thesis
    using assms(1) r by (cases display) (auto simp: agent_effect_def stored agent_may_turn_def fresh_request_def)
qed

lemma withdraw_effect: "agent_effect rid client t (snd (withdraw_request w args t))"
  by (auto simp: withdraw_request_def Let_def withdraw_def agent_effect_def agent_may_turn_def tool_log_def
      audit_log_def approval_events_def split: option.split)

context submitting_tools
begin

lemma call_effect:
  "name \<in> names \<Longrightarrow> st_requests (th_store t) (tw_id w) = None \<Longrightarrow>
     agent_effect (tw_id w) client t (snd (call name w args client t))"
  by (rule outcome_effect [OF _ contract])

end

lemma dispatch_effect:
  assumes "st_requests (th_store t) (tw_id w) = None"
  shows "agent_effect (tw_id w) client t (snd (dispatch_now lib w name args client t))"
proof (cases "name \<in> set wait_tools")
  case True
  then show ?thesis using assms by (rule mcp_tools.call_effect)
next
  case False
  then show ?thesis
    by (simp add: dispatch_now_def wait_tools_def withdraw_effect request_command_retired_def)
qed

text \<open>C7. No message to the MCP port, whatever it holds and whoever sends it, approves, denies, runs
  or releases anything: stored requests stay as they are but for a pending one that its own call
  withdraws, the only new request is pending and the caller's, the registries and settings stay,
  and no approval event enters the audit log.\<close>

theorem mcp_port_cannot_approve:
  assumes "st_requests (th_store t) (tw_id w) = None"
  shows "agent_effect (tw_id w) (ctx_client_from ctx) t
           (snd (snd (handle_message lib schemas decode decode_call w wakes ctx sid raw sv t)))"
proof -
  have call: "agent_effect (tw_id w) c t (snd (handle_context lib w wakes name args c t))" for name args c
    using dispatch_effect [OF assms, of c lib name args]
    by (auto simp: handle_context_def dispatch_tool_def apfst_def map_prod_def split: sum.split prod.splits)
  have "agent_effect (tw_id w) c t (snd (dispatch_rpc lib schemas decode_call w wakes rq c t))" for rq c
    using call [of c "cp_name (decode_call (rq_params rq))" "cp_arguments (decode_call (rq_params rq))"]
    by (auto simp: dispatch_rpc_def Let_def split: prod.splits option.splits)
  then show ?thesis
    by (metis handle_message_cases agent_effect_refl surj_pair snd_conv)
qed

theorem mcp_port_cannot_approve_witness:
  "agent_effect ''r1'' ''ci'' demo_tools demo_after \<and> st_requests (th_store demo_after) ''r1'' \<noteq> None"
  using mcp_port_cannot_approve [OF demo_fresh, of "ctx_with_client ''ci'' no_ctx" demo_lib "JArr []" demo_decode
      "demo_call ''request_command_for_relay'' demo_df" "[]" "''session-1''" "''{}''" demo_server] demo_after_store
  by (simp add: demo_after_def demo_tool_world_def)

end
