(* ===== verification/Tool_Safety.thy ===== *)
theory Tool_Safety
  imports Agent_System
begin

text \<open>
  What the tools of the MCP port promise: a refused call files nothing and an accepted one files
  exactly one pending request; the command lines are read by the far shell as they were meant; a
  registry request changes what was asked; gated output never reaches an agent; a held call ends.
\<close>

lemmas demo_tool_eval = handle_context_def wait_tools_def dispatch_now_def parse_wait_def
  demo_df_def int_arg_strict_def demo_tools_def new_tool_handler_def request_command_for_relay_def
  parse_command_request_def arg_str_def arg_strings_def arg_bool_def check_bash_c_arg_splitting_def
  filed_def tool_log_def store_add_def publish_def demo_tool_world_def pending_request_def Let_def

lemma demo_id: "tw_id demo_tool_world = ''r1''"
  by (simp add: demo_tool_world_def)

section \<open>Properties: what a call files\<close>

text \<open>C12. A tool that submits either refuses, and then the store is as it was, or answers with the
  identifier of one new request: pending, the caller's, without result, last in the order and
  offered to the watchers, all other requests untouched.\<close>

theorem tool_call_effect:
  assumes "name \<in> set wait_tools" and "dispatch_now lib w name args client t = (res, t')"
  shows "(is_tool_error res \<and> th_store t' = th_store t)
     \<or> (\<exists>r extra. res = ToolJson (JObj ((''request_id'', JStr (tw_id w)) # (''status'', JStr ''pending'') # extra))
          \<and> st_requests (th_store t') = (st_requests (th_store t))(tw_id w \<mapsto> r)
          \<and> r_id r = tw_id w \<and> r_client r = client \<and> r_status r = StatusPending \<and> r_result r = None
          \<and> st_order (th_store t') = st_order (th_store t) @ [tw_id w]
          \<and> st_notify (th_store t') = chan_send 100 (tw_id w) (st_notify (th_store t)))"
proof -
  have out: "outcome w client t (res, t')" using submitting_outcome [OF assms(1)] assms(2) by metis
  show ?thesis
  proof (cases "refuses t (res, t')")
    case True
    then show ?thesis by (simp add: refuses_def quiet_fields)
  next
    case False
    with out obtain t1 r display fs extra where r: "fresh_request w client r"
      and o: "(res, t') = filed w (r, publish r (th_store t)) display fs extra t1"
      by (auto simp: outcome_def files_def)
    have store: "th_store t' = (case display of None \<Rightarrow> publish r (th_store t)
        | Some d \<Rightarrow> put_request (r_id r) (r\<lparr>r_display_command := d\<rparr>) (publish r (th_store t)))"
      using filed_store [of w r "th_store t" display fs extra t1] o by (metis snd_conv)
    have res: "res = pending_reply r extra" using o by (simp add: filed_def Let_def)
    show ?thesis
      using r unfolding store res
      by (intro disjI2 exI [where x = "case display of None \<Rightarrow> r | Some d \<Rightarrow> r\<lparr>r_display_command := d\<rparr>"] exI [where x = extra])
        (cases display, simp_all add: fresh_request_def pending_reply_def publish_def put_request_def)
  qed
qed

theorem tool_call_effect_witness:
  "\<exists>r. st_requests (th_store (snd (dispatch_now demo_lib demo_tool_world ''request_command_for_relay'' demo_df ''ci'' demo_tools))) ''r1''
       = Some r \<and> r_client r = ''ci'' \<and> r_status r = StatusPending"
proof -
  obtain res t' where d: "dispatch_now demo_lib demo_tool_world ''request_command_for_relay'' demo_df ''ci'' demo_tools = (res, t')"
    by (metis surj_pair)
  then have "\<not> is_tool_error res"
    by (auto simp: demo_tool_eval pending_reply_def)
  moreover have "''request_command_for_relay'' \<in> set wait_tools" by (simp add: wait_tools_def)
  ultimately show ?thesis
    using tool_call_effect [OF _ d] unfolding d demo_id by auto
qed

section \<open>Properties: command lines\<close>

text \<open>The request a call files is the argument of \<open>filed\<close>, with its display command.\<close>

definition filed_request :: "string \<Rightarrow> tool_result \<times> tool_handler \<Rightarrow> request option" where
  "filed_request rid out = st_requests (th_store (snd out)) rid"

lemma filed_request_filed [simp]:
  "r_id r = rid \<Longrightarrow> filed_request rid (filed w (r, publish r s) display fs extra t)
     = Some (case display of None \<Rightarrow> r | Some d \<Rightarrow> r\<lparr>r_display_command := d\<rparr>)"
  by (cases display) (simp_all add: filed_request_def filed_store publish_requests)

lemma filed_request_add [simp]:
  "filed_request rid (filed w (store_add rid now c as reason wd sh tm client s) display fs extra t)
     = Some ((pending_request rid now)\<lparr>r_command := c, r_args := as, r_reason := reason, r_client := client,
         r_working_dir := wd, r_shell := sh, r_timeout := tm,
         r_display_command := (case display of None \<Rightarrow> '''' | Some d \<Rightarrow> d)\<rparr>)"
  by (cases display) (simp_all add: store_add_def Let_def pending_request_def)

lemma filed_request_stdin [simp]:
  "filed_request rid (filed w (store_add_with_stdin sha rid now c as reason wd sh tm stdin client s) display fs extra t)
     = Some ((pending_request rid now)\<lparr>r_command := c, r_args := as, r_reason := reason, r_client := client,
         r_working_dir := wd, r_shell := sh, r_timeout := tm, r_stdin := stdin,
         r_stdin_len := int (length stdin), r_stdin_sha256 := stdin_digest sha stdin,
         r_display_command := (case display of None \<Rightarrow> '''' | Some d \<Rightarrow> d)\<rparr>)"
  by (cases display) (simp_all add: store_add_with_stdin_def Let_def pending_request_def)

lemma filed_request_registry [simp]:
  "filed_request rid (filed w (store_add_registry_op rid now op as reason client s) display fs extra t)
     = Some ((pending_request rid now)\<lparr>r_type := ''registry_op'', r_registry_op := op, r_registry_args := as,
         r_reason := reason, r_client := client,
         r_display_command := (case display of None \<Rightarrow> '''' | Some d \<Rightarrow> d)\<rparr>)"
  by (cases display) (simp_all add: store_add_registry_op_def Let_def pending_request_def)

lemma filed_request_script [simp]:
  "filed_request rid (filed w (store_add_script_typed sha rid now ty n as reason tm stdin client s) display fs extra t)
     = Some ((pending_request rid now)\<lparr>r_type := ty, r_script_name := n, r_script_args := as, r_reason := reason,
         r_client := client, r_timeout := tm, r_stdin := stdin, r_stdin_len := int (length stdin),
         r_stdin_sha256 := stdin_digest sha stdin,
         r_display_command := (case display of None \<Rightarrow> '''' | Some d \<Rightarrow> d)\<rparr>)"
  by (cases display) (simp_all add: store_add_script_typed_def Let_def pending_request_def)

text \<open>Words of plain characters need no quotes.\<close>

lemma sh_scan_word: "list_all sh_plain w \<Longrightarrow> w \<noteq> [] \<Longrightarrow>
   sh_scan Unquoted None (w @ CHR '' '' # rest) = map_option ((#) (ShWord w)) (sh_scan Unquoted None rest)"
  by (cases "sh_scan Unquoted None rest") (simp_all add: sh_scan_plain)

lemma sh_tokens_sh_c: "sh_tokens (remote_line [''sh'', ''-c'', shell_quote s]) = Some [ShWord ''sh'', ShWord ''-c'', ShWord s]"
proof -
  have "remote_line [''sh'', ''-c'', shell_quote s] = ''sh'' @ CHR '' '' # ''-c'' @ CHR '' '' # shell_quote s"
    by (simp add: remote_line_def)
  then show ?thesis
    unfolding sh_tokens_def
    using sh_scan_word [of "''sh''" "''-c'' @ CHR '' '' # shell_quote s"] sh_scan_word [of "''-c''" "shell_quote s"]
      sh_scan_quote [of None s "[]"]
    by (simp add: sh_plain_def sh_ops_def sh_unread_def)
qed

text \<open>C24. A host command arrives as it was written: the login shell of the host splits the line the
  relay hands to ssh into exactly the command and its arguments, whatever characters they hold; with
  \<open>shell\<close> it hands the joined line as one word to \<open>sh -c\<close>. So nothing in an argument is read twice.\<close>

theorem host_command_reads_back:
  assumes "parse_command_request args = Inr cr" and "host = (if arg_str args ''host'' = '''' then th_host_ip t else arg_str args ''host'')"
    and "valid_host host" and "cq_working_dir cr = ''''"
  shows "\<exists>r remote. filed_request (tw_id w) (request_command_for_host lib w args client t) = Some r
     \<and> r_command r = ''ssh'' \<and> \<not> r_shell r \<and> r_args r = ssh_prefix t @ [''root@'' @ host, ''--''] @ remote
     \<and> sh_tokens (remote_line remote) = Some (map ShWord (if cq_shell cr
          then [''sh'', ''-c'', joined (cq_command cr) (cq_args cr)] else cq_command cr # cq_args cr))"
proof -
  let ?remote = "if cq_shell cr then [''sh'', ''-c'', shell_quote (joined (cq_command cr) (cq_args cr))]
    else map shell_quote (cq_command cr # cq_args cr)"
  have "sh_tokens (remote_line ?remote) = Some (map ShWord (if cq_shell cr
      then [''sh'', ''-c'', joined (cq_command cr) (cq_args cr)] else cq_command cr # cq_args cr))"
    using sh_tokens_quoted_words [of "cq_command cr # cq_args cr"] by (cases "cq_shell cr") (simp_all add: sh_tokens_sh_c)
  then show ?thesis
    using assms
    by (intro exI [where x = "(pending_request (tw_id w) (tw_clock w 0))\<lparr>r_command := ''ssh'', r_args := host_argv t host cr,
        r_reason := ''[HOST '' @ host @ '' - runs on the Proxmox host, NOT in the relay container] '' @ cq_reason cr,
        r_client := client, r_timeout := cq_timeout cr\<rparr>"] exI [where x = ?remote])
      (simp add: request_command_for_host_def Let_def host_argv_def pending_request_def)
qed

theorem host_command_reads_back_witness:
  "\<exists>r remote. filed_request ''r1'' (request_command_for_host demo_lib demo_tool_world demo_df ''ci'' demo_tools) = Some r
     \<and> r_args r = [''root@10.0.0.1'', ''--''] @ remote
     \<and> sh_tokens (remote_line remote) = Some [ShWord ''df'', ShWord ''-h'']"
proof -
  let ?cr = "\<lparr>cq_command = ''df'', cq_args = [''-h''], cq_reason = ''disk'', cq_working_dir = '''', cq_shell = False, cq_timeout = 0\<rparr>"
  have "parse_command_request demo_df = Inr ?cr"
    by (simp add: parse_command_request_def demo_df_def arg_defs Let_def check_bash_c_arg_splitting_def)
  moreover have "valid_host ''10.0.0.1''"
    by code_simp
  ultimately show ?thesis
    using host_command_reads_back [of demo_df ?cr "''10.0.0.1''" demo_tools demo_tool_world demo_lib "''ci''"]
    by (auto simp: demo_tools_def new_tool_handler_def demo_df_def arg_str_def ssh_prefix_def demo_id)
qed

section \<open>Properties: where quoting is missing\<close>

text \<open>The first command of a token list.\<close>

definition first_command :: "sh_token list \<Rightarrow> string list" where
  "first_command ts = map (\<lambda>x. case x of ShWord w \<Rightarrow> w | ShOp c \<Rightarrow> [c]) (takeWhile (\<lambda>x. case x of ShWord _ \<Rightarrow> True | ShOp _ \<Rightarrow> False) ts)"

text \<open>Installing a key over direct SSH cannot work: the script is handed to ssh as a bare word
  after \<open>sh -c\<close>, so the login shell of the container splits it and the first command it runs is
  \<open>sh -c mkdir\<close>, mkdir without an operand; it fails and \<open>&&\<close> drops the rest, the line that appends
  the key among it. The tool answers and the reviewer sees a key installation all the same.\<close>

theorem direct_key_install_is_bare_mkdir:
  assumes "valid_ssh_key (trim_space (arg_str args ''public_key''))" and "arg_str args ''public_key'' \<noteq> ''''"
    and "arg_str args ''reason'' \<noteq> ''''" and "arg_str args ''machine'' = ''''" and "int_arg args ''ctid'' \<noteq> 0"
    and "cs_get (th_containers t) (int_arg args ''ctid'') = Some c" and "c_has_relay_ssh c"
  shows "\<exists>r remote ts. filed_request (tw_id w) (install_ssh_key lib w args client t) = Some r
     \<and> r_command r = ''ssh'' \<and> r_args r = ssh_prefix t @ [container_user c @ ''@'' @ c_ip c, ''--''] @ remote
     \<and> sh_tokens (remote_line remote) = Some ts
     \<and> first_command ts = [''sh'', ''-c'', ''mkdir'', ''-p'', ''/root/.ssh'']"
proof -
  have "sh_tokens (remote_line [''sh'', ''-c'', key_append_command]) = Some (map ShWord [''sh'', ''-c'', ''mkdir'', ''-p'', ''/root/.ssh'']
      @ map ShOp ''&&'' @ map ShWord [''cat''] @ map ShOp ''>>'' @ map ShWord [''/root/.ssh/authorized_keys''] @ map ShOp ''&&''
      @ map ShWord [''chmod'', ''600'', ''/root/.ssh/authorized_keys''] @ map ShOp ''&&'' @ map ShWord [''chmod'', ''700'', ''/root/.ssh''])"
    by code_simp
  then show ?thesis
    using assms
    by (simp add: install_ssh_key_def Let_def key_append_argv_def first_command_def pending_request_def)
qed

definition demo_relay_containers :: container_store where
  "demo_relay_containers = \<lparr>cs_path = ''containers.json'', cs_containers = [(133, \<lparr>c_ctid = 133, c_ip = ''10.0.0.5'',
     c_hostname = ''web'', c_has_relay_ssh = True, c_ssh_user = '''', c_created_at = 3, c_updated_at = 3\<rparr>)], cs_disk = NoFile\<rparr>"

definition demo_key :: tool_args where
  "demo_key = [(''ctid'', JInt 133), (''public_key'', JStr ''ssh-ed25519 AAAA''), (''reason'', JStr ''access'')]"

theorem direct_key_install_is_bare_mkdir_witness:
  "\<exists>r remote ts. filed_request ''r1'' (install_ssh_key demo_lib demo_tool_world demo_key ''ci''
       (demo_tools\<lparr>th_containers := demo_relay_containers\<rparr>)) = Some r
     \<and> r_args r = [''root@10.0.0.5'', ''--''] @ remote
     \<and> sh_tokens (remote_line remote) = Some ts \<and> first_command ts = [''sh'', ''-c'', ''mkdir'', ''-p'', ''/root/.ssh'']"
proof -
  let ?t = "demo_tools\<lparr>th_containers := demo_relay_containers\<rparr>"
  have key: "valid_ssh_key (trim_space ''ssh-ed25519 AAAA'')" by code_simp
  have args: "arg_str demo_key ''public_key'' = ''ssh-ed25519 AAAA''" "arg_str demo_key ''reason'' = ''access''"
    "arg_str demo_key ''machine'' = ''''" "int_arg demo_key ''ctid'' = 133"
    by (simp_all add: demo_key_def arg_str_def int_arg_def)
  obtain c where c: "cs_get (th_containers ?t) 133 = Some c" "c_has_relay_ssh c" "container_user c = ''root''" "c_ip c = ''10.0.0.5''"
    by (simp add: demo_relay_containers_def cs_get_def container_user_def)
  have "ssh_prefix ?t = []" by (simp add: ssh_prefix_def demo_tools_def new_tool_handler_def)
  with c show ?thesis
    using direct_key_install_is_bare_mkdir [of demo_key ?t c demo_tool_world demo_lib "''ci''"]
    by (simp add: args key demo_id) blast
qed

text \<open>A container command without \<open>shell\<close> is no argument vector on its way: a container reached
  through \<open>pct exec\<close> gets its words unquoted through the login shell of the Proxmox host, so an
  argument that holds an operator ends the pct command and what follows runs on the host itself.\<close>

definition demo_escape :: tool_args where
  "demo_escape = [(''ctid'', JInt 133), (''command'', JStr ''echo''), (''args'', JArr [JStr ''hi; reboot'']), (''reason'', JStr ''greet'')]"

theorem container_argument_runs_on_host:
  "\<exists>r remote. filed_request ''r1'' (exec_container demo_tool_world demo_escape ''ci''
       (demo_tools\<lparr>th_containers := demo_relay_containers\<lparr>cs_containers := [(133, \<lparr>c_ctid = 133, c_ip = ''10.0.0.5'',
          c_hostname = ''web'', c_has_relay_ssh = False, c_ssh_user = '''', c_created_at = 3, c_updated_at = 3\<rparr>)]\<rparr>\<rparr>)) = Some r
     \<and> r_command r = ''ssh'' \<and> r_args r = ''root@10.0.0.1'' # remote
     \<and> sh_tokens (remote_line remote) = Some (map ShWord [''pct'', ''exec'', ''133'', ''--'', ''echo'', ''hi'']
          @ [ShOp CHR '';'', ShWord ''reboot''])"
proof -
  have "itoa 133 = ''133''" by code_simp
  moreover have "sh_tokens (remote_line [''pct'', ''exec'', ''133'', ''--'', ''echo'', ''hi; reboot''])
      = Some (map ShWord [''pct'', ''exec'', ''133'', ''--'', ''echo'', ''hi''] @ [ShOp CHR '';'', ShWord ''reboot''])"
    by code_simp
  ultimately show ?thesis
    unfolding demo_id [symmetric]
    by (simp add: exec_container_def demo_escape_def arg_defs Let_def check_bash_c_arg_splitting_def demo_tools_def
        new_tool_handler_def cs_get_def container_argv_def ssh_prefix_def pending_request_def)
qed

section \<open>Properties: registry requests\<close>

text \<open>What the executor does with an operation, by its arguments.\<close>

lemma execute_register_container:
  assumes "r_registry_op r = ''register_container''" and "rg_containers rg = Some cs"
    and "atoi (gomap_str (r_registry_args r) ''ctid'') = Some n"
  shows "rg_containers (snd (execute_registry_op lib now io r rg)) = Some (snd (cs_register now (io_containers io) n
     (gomap_str (r_registry_args r) ''ip'') (gomap_str (r_registry_args r) ''hostname'')
     (gomap_str (r_registry_args r) ''has_relay_ssh'' = ''true'') (gomap_str (r_registry_args r) ''ssh_user'') cs))"
  using assms by (simp add: execute_registry_op_def Let_def split: prod.split sum.split)

lemma execute_delete_container:
  assumes "r_registry_op r = ''delete_container''" and "rg_containers rg = Some cs"
    and "atoi (gomap_str (r_registry_args r) ''ctid'') = Some n"
  shows "rg_containers (snd (execute_registry_op lib now io r rg)) = Some (snd (cs_delete (io_containers io) n cs))"
  using assms by (simp add: execute_registry_op_def Let_def split: prod.split option.split)

lemma execute_register_machine:
  assumes "r_registry_op r = ''register_machine''" and "rg_machines rg = Some ms"
  shows "rg_machines (snd (execute_registry_op lib now io r rg)) = Some (snd (ms_register now (io_machines io)
     (gomap_str (r_registry_args r) ''name'') (gomap_str (r_registry_args r) ''host'')
     (gomap_str (r_registry_args r) ''ssh_user'') (gomap_str (r_registry_args r) ''shell'')
     (gomap_str (r_registry_args r) ''identity_file'') ms))"
  using assms by (simp add: execute_registry_op_def Let_def split: prod.split sum.split)

lemma execute_delete_machine:
  assumes "r_registry_op r = ''delete_machine''" and "rg_machines rg = Some ms"
  shows "rg_machines (snd (execute_registry_op lib now io r rg))
     = Some (snd (ms_delete (io_machines io) (gomap_str (r_registry_args r) ''name'') ms))"
  using assms by (simp add: execute_registry_op_def Let_def split: prod.split option.split)

text \<open>The request an accepted registry tool files.\<close>

definition asks :: "string \<Rightarrow> (string, string) gomap \<Rightarrow> request \<Rightarrow> bool" where
  "asks op as r \<longleftrightarrow> r_type r = ''registry_op'' \<and> r_registry_op r = op \<and> r_registry_args r = as"

lemma queue_registry_op_files:
  "\<exists>r. filed_request (tw_id w) (queue_registry_op w op as reason client t) = Some r \<and> asks op as r"
  by (simp add: queue_registry_op_def asks_def pending_request_def)

lemma queued_files: "\<exists>reason. out = queue_registry_op w op as reason client t \<Longrightarrow>
   \<exists>r. filed_request (tw_id w) out = Some r \<and> asks op as r"
  using queue_registry_op_files by metis

lemma register_container_files:
  assumes "\<not> is_tool_error (fst (register_container w args client t))"
  shows "\<exists>r. filed_request (tw_id w) (register_container w args client t) = Some r
     \<and> asks ''register_container'' ([(''ctid'', itoa (int_arg args ''ctid'')), (''ip'', arg_str args ''ip''),
         (''hostname'', arg_str args ''hostname''), (''has_relay_ssh'', bool_str (arg_bool args ''has_relay_ssh''))]
         @ (if arg_str args ''ssh_user'' = '''' then [] else [(''ssh_user'', arg_str args ''ssh_user'')])) r"
proof (rule queued_files)
  have "int_arg args ''ctid'' \<noteq> 0" "arg_str args ''ip'' \<noteq> ''''" "arg_str args ''hostname'' \<noteq> ''''"
    "\<not> ssh_user_injectable (arg_str args ''ssh_user'')"
    using assms by (auto simp: register_container_def Let_def split: if_splits)
  then show "\<exists>reason. register_container w args client t = queue_registry_op w ''register_container''
      ([(''ctid'', itoa (int_arg args ''ctid'')), (''ip'', arg_str args ''ip''),
        (''hostname'', arg_str args ''hostname''), (''has_relay_ssh'', bool_str (arg_bool args ''has_relay_ssh''))]
       @ (if arg_str args ''ssh_user'' = '''' then [] else [(''ssh_user'', arg_str args ''ssh_user'')])) reason client t"
    unfolding register_container_def Let_def by (simp only: if_False simp_thms) blast
qed

lemma delete_container_files:
  assumes "\<not> is_tool_error (fst (delete_container w args client t))"
  shows "\<exists>r. filed_request (tw_id w) (delete_container w args client t) = Some r
     \<and> asks ''delete_container'' [(''ctid'', itoa (int_arg args ''ctid''))] r"
proof (rule queued_files)
  have "int_arg args ''ctid'' \<noteq> 0" using assms by (auto simp: delete_container_def Let_def)
  then show "\<exists>reason. delete_container w args client t
      = queue_registry_op w ''delete_container'' [(''ctid'', itoa (int_arg args ''ctid''))] reason client t"
    unfolding delete_container_def Let_def by (simp only: if_False simp_thms) blast
qed

lemma register_machine_files:
  assumes "\<not> is_tool_error (fst (register_machine lib w args client t))"
  shows "\<exists>r. filed_request (tw_id w) (register_machine lib w args client t) = Some r
     \<and> asks ''register_machine'' ([(''name'', arg_str args ''name''), (''host'', arg_str args ''host''),
         (''ssh_user'', arg_str args ''ssh_user'')]
         @ (if arg_str args ''shell'' = '''' then [] else [(''shell'', arg_str args ''shell'')])
         @ (if arg_str args ''identity_file'' = '''' then [] else [(''identity_file'', arg_str args ''identity_file'')])) r"
proof (rule queued_files)
  have "th_machines t \<noteq> None" "arg_str args ''name'' \<noteq> ''''" "valid_name (arg_str args ''name'')"
    "arg_str args ''host'' \<noteq> ''''" "valid_host (arg_str args ''host'')" "arg_str args ''ssh_user'' \<noteq> ''''"
    "\<not> ssh_user_injectable (arg_str args ''ssh_user'')"
    "arg_str args ''shell'' \<in> {'''', shell_posix, shell_powershell}"
    "\<not> (arg_str args ''identity_file'' \<noteq> '''' \<and> \<not> valid_path (arg_str args ''identity_file''))"
    using assms by (auto simp: register_machine_def Let_def split: if_splits)
  then show "\<exists>reason. register_machine lib w args client t = queue_registry_op w ''register_machine''
      ([(''name'', arg_str args ''name''), (''host'', arg_str args ''host''), (''ssh_user'', arg_str args ''ssh_user'')]
       @ (if arg_str args ''shell'' = '''' then [] else [(''shell'', arg_str args ''shell'')])
       @ (if arg_str args ''identity_file'' = '''' then [] else [(''identity_file'', arg_str args ''identity_file'')])) reason client t"
    unfolding register_machine_def Let_def by (simp only: if_False simp_thms) blast
qed

lemma delete_machine_files:
  assumes "\<not> is_tool_error (fst (delete_machine w args client t))"
  shows "\<exists>r. filed_request (tw_id w) (delete_machine w args client t) = Some r
     \<and> asks ''delete_machine'' [(''name'', arg_str args ''name'')] r"
proof (rule queued_files)
  have "th_machines t \<noteq> None" "arg_str args ''name'' \<noteq> ''''"
    using assms by (auto simp: delete_machine_def Let_def split: if_splits)
  then show "\<exists>reason. delete_machine w args client t
      = queue_registry_op w ''delete_machine'' [(''name'', arg_str args ''name'')] reason client t"
    unfolding delete_machine_def Let_def by (simp only: if_False simp_thms) blast
qed

text \<open>C26. A registry request says what it will do. The map of strings an accepted registry tool files,
  given to the executor after the approval, performs on the registry exactly the operation the
  agent's arguments name: the number and the flag are read back from their decimal and boolean
  texts, an absent optional field as empty.\<close>

theorem registry_tools_round_trip:
  assumes "\<not> is_tool_error (fst out)" and "in_int64 (int_arg args ''ctid'')"
    and rg: "rg = \<lparr>rg_containers = Some cs, rg_machines = Some ms\<rparr>"
  shows "(out = register_container w args client t \<longrightarrow> (\<exists>r. filed_request (tw_id w) out = Some r
           \<and> rg_containers (snd (execute_registry_op lib now io r rg)) = Some (snd (cs_register now (io_containers io)
               (int_arg args ''ctid'') (arg_str args ''ip'') (arg_str args ''hostname'')
               (arg_bool args ''has_relay_ssh'') (arg_str args ''ssh_user'') cs))))
     \<and> (out = delete_container w args client t \<longrightarrow> (\<exists>r. filed_request (tw_id w) out = Some r
           \<and> rg_containers (snd (execute_registry_op lib now io r rg))
             = Some (snd (cs_delete (io_containers io) (int_arg args ''ctid'') cs))))
     \<and> (out = register_machine lib w args client t \<longrightarrow> (\<exists>r. filed_request (tw_id w) out = Some r
           \<and> rg_machines (snd (execute_registry_op lib now io r rg)) = Some (snd (ms_register now (io_machines io)
               (arg_str args ''name'') (arg_str args ''host'') (arg_str args ''ssh_user'') (arg_str args ''shell'')
               (arg_str args ''identity_file'') ms))))
     \<and> (out = delete_machine w args client t \<longrightarrow> (\<exists>r. filed_request (tw_id w) out = Some r
           \<and> rg_machines (snd (execute_registry_op lib now io r rg))
             = Some (snd (ms_delete (io_machines io) (arg_str args ''name'') ms))))"
proof -
  have a: "atoi (itoa (int_arg args ''ctid'')) = Some (int_arg args ''ctid'')" using assms(2) by (rule atoi_itoa)
  have flag: "(bool_str b = ''true'') = b" for b by (simp add: bool_str_def)
  note exec = execute_register_container execute_delete_container execute_register_machine execute_delete_machine
  show ?thesis
  proof (intro conjI impI)
    assume "out = register_container w args client t"
    then show "\<exists>r. filed_request (tw_id w) out = Some r \<and> rg_containers (snd (execute_registry_op lib now io r rg)) = Some (snd (cs_register now (io_containers io)
               (int_arg args ''ctid'') (arg_str args ''ip'') (arg_str args ''hostname'')
               (arg_bool args ''has_relay_ssh'') (arg_str args ''ssh_user'') cs))"
      using register_container_files assms(1) by (fastforce simp: asks_def rg exec a flag gomap_str_def)
  next
    assume "out = delete_container w args client t"
    then show "\<exists>r. filed_request (tw_id w) out = Some r \<and> rg_containers (snd (execute_registry_op lib now io r rg))
             = Some (snd (cs_delete (io_containers io) (int_arg args ''ctid'') cs))"
      using delete_container_files assms(1) by (fastforce simp: asks_def rg exec a flag gomap_str_def)
  next
    assume "out = register_machine lib w args client t"
    then show "\<exists>r. filed_request (tw_id w) out = Some r \<and> rg_machines (snd (execute_registry_op lib now io r rg)) = Some (snd (ms_register now (io_machines io)
               (arg_str args ''name'') (arg_str args ''host'') (arg_str args ''ssh_user'') (arg_str args ''shell'')
               (arg_str args ''identity_file'') ms))"
      using register_machine_files assms(1) by (fastforce simp: asks_def rg exec a flag gomap_str_def)
  next
    assume "out = delete_machine w args client t"
    then show "\<exists>r. filed_request (tw_id w) out = Some r \<and> rg_machines (snd (execute_registry_op lib now io r rg))
             = Some (snd (ms_delete (io_machines io) (arg_str args ''name'') ms))"
      using delete_machine_files assms(1) by (fastforce simp: asks_def rg exec a flag gomap_str_def)
  qed
qed

definition demo_register :: tool_args where
  "demo_register = [(''ctid'', JNum (F64 133 0)), (''ip'', JStr ''10.0.0.5''), (''hostname'', JStr ''web''), (''has_relay_ssh'', JBool True)]"

theorem registry_tools_round_trip_witness:
  "\<exists>r. filed_request ''r1'' (register_container demo_tool_world demo_register ''ci'' demo_tools) = Some r
     \<and> rg_containers (snd (execute_registry_op demo_lib 9 \<lparr>io_containers = WriteOK, io_machines = WriteOK\<rparr> r
           \<lparr>rg_containers = Some demo_containers, rg_machines = Some demo_machines\<rparr>))
         = Some (snd (cs_register 9 WriteOK 133 ''10.0.0.5'' ''web'' True '''' demo_containers))"
proof -
  have args: "int_arg demo_register ''ctid'' = 133" "arg_str demo_register ''ip'' = ''10.0.0.5''"
    "arg_str demo_register ''hostname'' = ''web''" "arg_bool demo_register ''has_relay_ssh''"
    "arg_str demo_register ''ssh_user'' = ''''"
    by (simp_all add: demo_register_def arg_defs f64_int_def in_int64_def min_int64_def max_int64_def)
  have "\<not> is_tool_error (fst (register_container demo_tool_world demo_register ''ci'' demo_tools))"
    by (simp add: register_container_def Let_def args ssh_user_injectable_def queue_registry_op_def
        filed_def pending_reply_def split: prod.split)
  moreover have "in_int64 (int_arg demo_register ''ctid'')" by (simp add: args in_int64_def min_int64_def max_int64_def)
  ultimately show ?thesis
    using registry_tools_round_trip [of "register_container demo_tool_world demo_register ''ci'' demo_tools" demo_register
        "\<lparr>rg_containers = Some demo_containers, rg_machines = Some demo_machines\<rparr>" demo_containers demo_machines
        demo_tool_world "''ci''" demo_tools demo_lib 9 "\<lparr>io_containers = WriteOK, io_machines = WriteOK\<rparr>"]
    by (simp add: args demo_id)
qed

section \<open>Properties: reading\<close>

text \<open>Two runs of a call that see stores differing only in withheld output.\<close>

abbreviation same_wakes :: "(wake \<times> store) list \<Rightarrow> (wake \<times> store) list \<Rightarrow> bool" where
  "same_wakes \<equiv> list_all2 (\<lambda>(e, s) (e', s'). e = e' \<and> stores_differ_in_gated s s')"

lemma differ_get:
  assumes "stores_differ_in_gated s s'"
  shows "rel_option (\<lambda>r r'. redact_gated_output r = redact_gated_output r' \<and> r_status r = r_status r')
     (store_get s rid) (store_get s' rid)"
proof -
  have "rel_option (\<lambda>r r'. r = r' \<or> gated_variants r r') (store_get s rid) (store_get s' rid)"
    using assms by (simp add: stores_differ_in_gated_def store_get_def)
  then show ?thesis by (rule option.rel_mono_strong) (auto dest: redact_variants gated_variants_status)
qed

lemma differ_get_cases:
  assumes "stores_differ_in_gated s s'"
  obtains (none) "store_get s rid = None" "store_get s' rid = None"
    | (some) r r' where "store_get s rid = Some r" "store_get s' rid = Some r'"
        "request_result lib r = request_result lib r'" "\<And>sub. settled_result lib r sub = settled_result lib r' sub"
        "r_status r = r_status r'"
proof (cases "store_get s rid")
  case None
  then show ?thesis using differ_get [OF assms, of rid] none by simp
next
  case (Some r)
  then obtain r' where r': "store_get s' rid = Some r'" "redact_gated_output r = redact_gated_output r'" "r_status r = r_status r'"
    using differ_get [OF assms, of rid] by (auto simp: option_rel_Some1)
  then have "request_result lib r = request_result lib r'" by (simp only: request_result_def)
  moreover from this have "settled_result lib r sub = settled_result lib r' sub" for sub by (simp only: settled_result_def)
  ultimately show ?thesis using some Some r'(1,3) by blast
qed

declare get_result_loop.simps [simp del] await_loop.simps [simp del]

lemma get_result_loop_differ:
  "same_wakes wakes wakes' \<Longrightarrow> stores_differ_in_gated s s' \<Longrightarrow>
     get_result_loop lib rid s wakes = get_result_loop lib rid s' wakes'"
proof (induction wakes arbitrary: s s' wakes')
  case Nil
  from Nil(2) show ?case by (cases rule: differ_get_cases [where rid = rid and lib = lib]) (use Nil(1) in \<open>simp_all add: get_result_loop.simps [of lib rid _ "[]"]\<close>)
next
  case (Cons x wakes)
  obtain e s1 where x: "x = (e, s1)" by force
  with Cons.prems(1) obtain s1' rest where w': "wakes' = (e, s1') # rest"
    and rest: "same_wakes wakes rest" "stores_differ_in_gated s1 s1'"
    by (auto simp: list_all2_Cons1)
  from Cons.prems(2) show ?case
    by (cases rule: differ_get_cases [where rid = rid and lib = lib]) (simp_all add: x w' Cons.IH [OF rest] get_result_loop.simps [of lib rid s] get_result_loop.simps [of lib rid s'])
qed

lemma await_loop_differ:
  "same_wakes wakes wakes' \<Longrightarrow> stores_differ_in_gated s s' \<Longrightarrow>
     await_loop lib rid sub submitted wait s wakes = await_loop lib rid sub submitted wait s' wakes'"
proof (induction wakes arbitrary: s s' wakes')
  case Nil
  from Nil(2) show ?case
    by (cases rule: differ_get_cases [where rid = rid and lib = lib]) (use Nil(1) in \<open>simp_all add: await_loop.simps [of lib rid sub submitted wait _ "[]"]\<close>)
next
  case (Cons x wakes)
  obtain e s1 where x: "x = (e, s1)" by force
  with Cons.prems(1) obtain s1' rest where w': "wakes' = (e, s1') # rest"
    and rest: "same_wakes wakes rest" "stores_differ_in_gated s1 s1'"
    by (auto simp: list_all2_Cons1)
  have exp: "(case store_get s1 rid of None \<Rightarrow> Some (expired_result sub None wait)
        | Some r \<Rightarrow> if settled (r_status r) then Some (settled_result lib r sub) else Some (expired_result sub (Some r) wait))
      = (case store_get s1' rid of None \<Rightarrow> Some (expired_result sub None wait)
        | Some r \<Rightarrow> if settled (r_status r) then Some (settled_result lib r sub) else Some (expired_result sub (Some r) wait))"
    using rest(2) by (cases rule: differ_get_cases [where rid = rid and lib = lib])
      (simp_all add: expired_result_def)
  from Cons.prems(2) show ?case
    by (cases rule: differ_get_cases [where rid = rid and lib = lib])
      (simp_all add: x w' Cons.IH [OF rest] exp await_loop.simps [of lib rid sub submitted wait s]
        await_loop.simps [of lib rid sub submitted wait s'] split: wake.split)
qed

lemma withdraw_differ:
  assumes "stores_differ_in_gated (th_store t) s'"
  shows "fst (withdraw_request w args (t\<lparr>th_store := s'\<rparr>)) = fst (withdraw_request w args t)"
proof -
  have "fst (withdraw now rid reason s') = fst (withdraw now rid reason (th_store t))" for now rid reason
    using assms by (cases rule: differ_get_cases [where rid = rid]) (simp_all add: withdraw_def store_get_def)
  then show ?thesis
    by (auto simp: withdraw_request_def Let_def split: prod.split bool.split) (metis fst_conv prod.inject)+
qed

lemma await_settled_differ:
  "same_wakes wakes wakes' \<Longrightarrow> stores_differ_in_gated s s' \<Longrightarrow>
     await_settled lib submitted wait s' wakes' = await_settled lib submitted wait s wakes"
  by (simp add: await_settled_def await_loop_differ split: tool_result.split jval.split option.split)

text \<open>C13. No MCP answer carries output that a person has not released: for two states of the store
  that differ only in the bytes and headers of gated results (their lengths, exit codes and HTTP
  statuses agree), every tool that does not submit answers the same, and so does the wait of a
  submitting one, whatever happens to the store while the call is held.\<close>

theorem agents_never_read_gated_output:
  assumes "stores_differ_in_gated (th_store t) s'" and "same_wakes wakes wakes'"
  shows "(name \<notin> set wait_tools \<longrightarrow>
            fst (dispatch_tool lib w wakes' name args client (t\<lparr>th_store := s'\<rparr>))
          = fst (dispatch_tool lib w wakes name args client t))
       \<and> await_settled lib submitted wait s' wakes' = await_settled lib submitted wait (th_store t) wakes"
proof
  have get: "get_result lib args wakes' (t\<lparr>th_store := s'\<rparr>) = get_result lib args wakes t"
    using assms(1) get_result_loop_differ [OF assms(2,1), of lib "arg_str args ''request_id''"]
    by (cases rule: differ_get_cases [where rid = "arg_str args ''request_id''" and lib = lib])
      (simp_all add: get_result_def Let_def)
  have list: "list_requests_tool lib args (t\<lparr>th_store := s'\<rparr>) = list_requests_tool lib args t"
    using list_differ_in_gated [OF assms(1)] by (simp add: list_requests_tool_def)
  show "name \<notin> set wait_tools \<longrightarrow> fst (dispatch_tool lib w wakes' name args client (t\<lparr>th_store := s'\<rparr>))
      = fst (dispatch_tool lib w wakes name args client t)"
    using get list withdraw_differ [OF assms(1), of w args]
    by (simp add: dispatch_tool_def dispatch_now_def wait_tools_def apfst_def map_prod_def request_command_retired_def
        list_containers_def list_machines_def case_prod_beta)
  show "await_settled lib submitted wait s' wakes' = await_settled lib submitted wait (th_store t) wakes"
    using await_settled_differ [OF assms(2,1)] .
qed

theorem agents_never_read_gated_output_witness:
  "fst (dispatch_tool demo_lib demo_tool_world [] ''get_result'' [(''request_id'', JStr ''r1'')] ''ci''
      (demo_tools\<lparr>th_store := gated_store ''secret1''\<rparr>))
   = fst (dispatch_tool demo_lib demo_tool_world [] ''get_result'' [(''request_id'', JStr ''r1'')] ''ci''
      (demo_tools\<lparr>th_store := gated_store ''secret2''\<rparr>))"
proof -
  have "stores_differ_in_gated (th_store (demo_tools\<lparr>th_store := gated_store ''secret2''\<rparr>)) (gated_store ''secret1'')"
    by (auto simp: stores_differ_in_gated_def gated_store_def publish_def new_store_def pending_request_def
        gated_variants_def zero_result_def)
  from agents_never_read_gated_output [OF this, of "[]" "[]" "''get_result''" demo_lib demo_tool_world
      "[(''request_id'', JStr ''r1'')]" "''ci''"]
  show ?thesis by (simp add: wait_tools_def)
qed

section \<open>Properties: waiting\<close>

lemma await_loop_ends:
  "\<exists>(e, s')\<in>set wakes. e \<noteq> Tick \<Longrightarrow> \<exists>res. await_loop lib rid sub submitted wait s wakes = Some res"
proof (induction wakes arbitrary: s)
  case Nil
  then show ?case by simp
next
  case (Cons x wakes)
  obtain e s1 where x: "x = (e, s1)" by force
  show ?case
    using Cons
    by (cases e) (auto simp: x await_loop.simps [of lib rid sub submitted wait s] split: option.split)
qed

lemma get_result_loop_ends:
  "\<exists>(e, s')\<in>set wakes. e = Expired \<Longrightarrow> \<exists>res. get_result_loop lib rid s wakes = Some res"
proof (induction wakes arbitrary: s)
  case Nil
  then show ?case by simp
next
  case (Cons x wakes)
  obtain e s1 where x: "x = (e, s1)" by force
  show ?case
    using Cons by (auto simp: x get_result_loop.simps [of lib rid s] split: option.split)
qed

text \<open>C27. No call is held for ever: once its timer has fired, every tool call has its answer, whatever
  the store does meanwhile; a submitting call has it as soon as its client is gone too.\<close>

theorem held_call_ends:
  assumes "\<exists>(e, s')\<in>set wakes. e = Expired \<or> (e = Gone \<and> name \<in> set wait_tools)"
  shows "\<exists>res. fst (handle_context lib w wakes name args client t) = Some res"
proof (cases "name \<in> set wait_tools")
  case True
  have "\<exists>(e, s')\<in>set wakes. e \<noteq> Tick" using assms by auto
  then have "\<exists>res. await_settled lib submitted wait s wakes = Some res" for submitted wait s
    using await_loop_ends [of wakes] by (simp add: await_settled_def split: tool_result.split jval.split option.split)
  then show ?thesis using True by (simp add: handle_context_def split: sum.split prod.split)
next
  case False
  then have "\<exists>(e, s')\<in>set wakes. e = Expired" using assms by auto
  then have "\<exists>res. get_result lib args wakes t = Some res"
    using get_result_loop_ends [of wakes lib] by (simp add: get_result_def Let_def split: option.split)
  then show ?thesis using False by (auto simp: handle_context_def dispatch_tool_def apfst_def map_prod_def split: prod.split)
qed

theorem held_call_ends_witness:
  "fst (handle_context demo_lib demo_tool_world [(Tick, publish demo_request new_store)] ''get_result''
     [(''request_id'', JStr ''r1''), (''timeout'', JNum (F64 30 0))] ''ci''
     (demo_tools\<lparr>th_store := publish demo_request new_store\<rparr>)) = None
 \<and> (\<exists>res. fst (handle_context demo_lib demo_tool_world
       [(Tick, publish demo_request new_store), (Expired, publish demo_request new_store)] ''get_result''
     [(''request_id'', JStr ''r1''), (''timeout'', JNum (F64 30 0))] ''ci''
     (demo_tools\<lparr>th_store := publish demo_request new_store\<rparr>)) = Some res)"
proof (rule conjI)
  let ?s = "publish demo_request new_store"
  have "store_get ?s ''r1'' = Some demo_request"
    by (simp add: store_get_def publish_def demo_request_def pending_request_def new_store_def)
  moreover have "r_status demo_request = StatusPending" by (simp add: demo_request_def pending_request_def)
  ultimately have "get_result_loop demo_lib ''r1'' ?s [(Tick, ?s)] = None"
    by (simp add: get_result_loop.simps [of _ _ _ "[(Tick, ?s)]"] get_result_loop.simps [of _ _ _ "[]"])
  moreover have "0 < f64_int (F64 30 0)" by code_simp
  ultimately show "fst (handle_context demo_lib demo_tool_world [(Tick, ?s)] ''get_result''
     [(''request_id'', JStr ''r1''), (''timeout'', JNum (F64 30 0))] ''ci'' (demo_tools\<lparr>th_store := ?s\<rparr>)) = None"
    by (simp add: handle_context_def wait_tools_def dispatch_tool_def get_result_def arg_str_def arg_float_int_def Let_def)
qed (rule held_call_ends, simp)

text \<open>C28. And none is answered early by the wait itself: while its request is unsettled and only ticks
  arrive, a submitting call stays held; the request's settling ends it with the result.\<close>

theorem wait_follows_the_request:
  assumes "submitted = ToolJson (JObj sub)" and "map_of sub ''request_id'' = Some (JStr rid)" and "rid \<noteq> ''''"
    and "\<forall>u\<in>set (s # map snd before). \<exists>r. store_get u rid = Some r \<and> \<not> settled (r_status r)"
    and "\<forall>e\<in>set (map fst before). e = Tick"
  shows "await_settled lib submitted wait s before = None
     \<and> (store_get s1 rid = Some r \<and> settled (r_status r) \<longrightarrow>
          await_settled lib submitted wait s (before @ [(Tick, s1)]) = Some (settled_result lib r sub))"
proof -
  have "await_loop lib rid sub submitted wait s before = None
      \<and> (store_get s1 rid = Some r \<and> settled (r_status r) \<longrightarrow>
           await_loop lib rid sub submitted wait s (before @ [(Tick, s1)]) = Some (settled_result lib r sub))"
    using assms(4,5)
  proof (induction before arbitrary: s)
    case Nil
    then show ?case
      by (auto simp: await_loop.simps [of lib rid sub submitted wait s] await_loop.simps [of lib rid sub submitted wait s1])
  next
    case (Cons x before)
    obtain s2 where x: "x = (Tick, s2)" using Cons.prems(2) by (cases x) auto
    have "await_loop lib rid sub submitted wait s (x # rest) = await_loop lib rid sub submitted wait s2 rest" for rest
      using Cons.prems(1) by (auto simp: x await_loop.simps [of lib rid sub submitted wait s])
    moreover have "\<forall>u\<in>set (s2 # map snd before). \<exists>r. store_get u rid = Some r \<and> \<not> settled (r_status r)"
      and "\<forall>e\<in>set (map fst before). e = Tick"
      using Cons.prems by (auto simp: x)
    ultimately show ?case using Cons.IH [of s2] by simp
  qed
  then show ?thesis using assms(1-3) by (simp add: await_settled_def)
qed

theorem wait_follows_the_request_witness:
  "await_settled demo_lib (ToolJson (JObj [(''request_id'', JStr ''r1'')])) second (publish demo_request new_store)
     [(Tick, publish demo_request new_store)] = None"
  by (rule wait_follows_the_request [where rid = "''r1''" and sub = "[(''request_id'', JStr ''r1'')]", THEN conjunct1])
    (auto simp: store_get_def publish_def demo_request_def pending_request_def)

section \<open>Properties: limits\<close>

lemma parse_wait_Inr:
  assumes "parse_wait args cap = Inr wait"
  shows "\<exists>secs. 0 \<le> secs \<and> wait = (if secs > quot cap second then cap else wrap64 (secs * second))"
proof (cases "int_arg_strict args ''wait''")
  case (Inr secs)
  with assms show ?thesis
    by (intro exI [of _ secs]) (cases "secs < 0"; cases "secs > quot cap second"; simp add: parse_wait_def)
qed (use assms in \<open>simp add: parse_wait_def\<close>)

lemma max_wait_atoi:
  "atoi raw = Some n \<Longrightarrow> 0 < n \<Longrightarrow> max_wait_from_env raw = min (wrap64 (n * second)) max_submit_wait"
  by (cases "raw = ''''") (simp_all add: max_wait_from_env_def Let_def min_def atoi_def)

lemma wrap64_seconds:
  "0 < n \<Longrightarrow> n \<le> 9223372036 \<Longrightarrow> wrap64 (n * second) = n * second"
  by (simp add: wrap64_def second_def)

lemma wrap64_seconds_over:
  assumes "9223372037 \<le> n" and "n \<le> 18446744073"
  shows "wrap64 (n * second) < 0"
proof -
  let ?x = "n * 1000000000 + 9223372036854775808" and ?m = "18446744073709551616 :: int"
  have "(?x - ?m) mod ?m = ?x - ?m" using assms by (intro mod_pos_pos_trivial) simp_all
  then have "?x mod ?m = ?x - ?m" by (simp only: minus_mod_self2)
  then show ?thesis using assms by (simp add: wrap64_def second_def)
qed

text \<open>C29. The wait of a submitting call is bounded. The cap an operator configures can only lower the
  built-in fifty seconds; the time such a call is held is never more than the cap in force: a longer
  wait is cut to it, a negative one and one that is no number are refused. A positive number of seconds
  whose nanoseconds fit 64 bits is taken as it is. The multiplication has a gap above that: from
  9223372037 to 18446744073 seconds the cap wraps to a negative one, and under a negative cap no call
  waits at all.\<close>

theorem wait_bounded:
  assumes "parse_wait args (max_wait_from_env raw) = Inr wait"
  shows "max_wait_from_env raw \<le> max_submit_wait \<and> wait \<le> max_submit_wait
     \<and> (0 \<le> max_wait_from_env raw \<longrightarrow> 0 \<le> wait \<and> wait \<le> max_wait_from_env raw)
     \<and> (max_wait_from_env raw < 0 \<longrightarrow> wait \<le> 0)
     \<and> (\<forall>n. atoi raw = Some n \<longrightarrow> 0 < n \<longrightarrow> n \<le> 9223372036 \<longrightarrow>
          max_wait_from_env raw = min (n * second) max_submit_wait)
     \<and> (\<forall>n. atoi raw = Some n \<longrightarrow> 9223372037 \<le> n \<longrightarrow> n \<le> 18446744073 \<longrightarrow> max_wait_from_env raw < 0)"
proof -
  let ?cap = "max_wait_from_env raw"
  have cap: "?cap \<le> max_submit_wait" by (simp add: max_wait_from_env_def Let_def split: option.split)
  obtain secs where secs: "0 \<le> secs" and wait: "wait = (if secs > quot ?cap second then ?cap else wrap64 (secs * second))"
    using parse_wait_Inr [OF assms] by (elim exE conjE)
  have cut: "0 \<le> wait \<and> wait \<le> ?cap" if "0 \<le> ?cap"
  proof (cases "secs > quot ?cap second")
    case True
    then show ?thesis using that wait by simp
  next
    case False
    then have "secs \<le> ?cap div second" using that by (simp add: second_def)
    then have "secs * second \<le> ?cap" unfolding second_def by linarith
    moreover from this have "in_int64 (secs * second)"
      using cap secs by (simp add: in_int64_def min_int64_def max_int64_def max_submit_wait_def second_def)
    ultimately show ?thesis using False wait secs by (simp add: second_def)
  qed
  have none: "wait \<le> 0" if "?cap < 0"
  proof (cases "secs > quot ?cap second")
    case True
    then show ?thesis using that wait by simp
  next
    case False
    have "quot ?cap second \<le> 0"
      using that by (simp add: quot_def second_def)
    with False secs have "secs = 0" by simp
    then show ?thesis using wait that False by (simp add: wrap64_def)
  qed
  have "wait \<le> max_submit_wait" using cap cut none by (cases "?cap < 0") (auto simp: max_submit_wait_def second_def)
  moreover have "?cap = min (n * second) max_submit_wait" if "atoi raw = Some n" "0 < n" "n \<le> 9223372036" for n
    using max_wait_atoi [OF that(1,2)] wrap64_seconds [OF that(2,3)] by simp
  moreover have "?cap < 0" if "atoi raw = Some n" "9223372037 \<le> n" "n \<le> 18446744073" for n
    using max_wait_atoi [OF that(1)] wrap64_seconds_over [OF that(2,3)] that(2) by simp
  ultimately show ?thesis using cap cut none by blast
qed

definition demo_wait :: tool_args where
  "demo_wait = [(''wait'', JInt 90)]"

theorem wait_bounded_witness:
  "parse_wait demo_wait (max_wait_from_env '''') = Inr max_submit_wait \<and> max_submit_wait = 50000000000
   \<and> 0 \<le> max_wait_from_env ''''
   \<and> max_wait_from_env ''9223372037'' < 0"
proof -
  have atoi: "atoi ''9223372037'' = Some 9223372037"
    by (simp add: atoi_def atoi_digits_def char_digit_def in_int64_def min_int64_def max_int64_def)
  have q: "parse_wait [] (max_wait_from_env ''9223372037'') = Inr (max_wait_from_env ''9223372037'')
      \<or> parse_wait [] (max_wait_from_env ''9223372037'') = Inr 0"
    by (simp add: parse_wait_def int_arg_strict_def wrap64_def)
  have p: "parse_wait demo_wait (max_wait_from_env '''') = Inr max_submit_wait"
    by (simp add: parse_wait_def demo_wait_def int_arg_strict_def max_wait_from_env_def max_submit_wait_def second_def)
  have "max_wait_from_env ''9223372037'' < 0"
    using q atoi wait_bounded [of "[]" "''9223372037''"] by (elim disjE) simp_all
  with p wait_bounded [OF p] show ?thesis by (simp add: max_wait_from_env_def max_submit_wait_def second_def)
qed

section \<open>Properties: split shell commands\<close>

lemma arg_splitting_text_nonempty [simp]: "arg_splitting_text sh c shown fixed \<noteq> []"
  by (simp add: arg_splitting_text_def)

lemma splitting_in_args_found:
  assumes "sh = ''bash'' \<or> sh = ''sh''" and "\<not> str_contains word '' ''" and "''-c'' \<notin> set pre"
  shows "splitting_in_args (pre @ sh # ''-c'' # word # extra # rest) \<noteq> []"
  using assms(3)
proof (induction pre)
  case Nil
  then show ?case using assms(1,2) by auto
next
  case (Cons a pre)
  show ?case
  proof (cases pre)
    case Nil
    then show ?thesis using Cons assms by auto
  next
    case (Cons b pre')
    then obtain c cs where "pre' @ sh # ''-c'' # word # extra # rest = c # cs"
      by (cases pre') auto
    then show ?thesis using Cons Cons.IH Cons.prems by auto
  qed
qed

lemma split_command_blocked:
  assumes "sh = ''bash'' \<or> sh = ''sh''" and "\<not> str_contains word '' ''" and "''-c'' \<notin> set pre"
    and "command # args = pre @ sh # ''-c'' # word # extra # rest"
  shows "check_bash_c_arg_splitting command args \<noteq> []"
proof (cases pre)
  case Nil
  then show ?thesis using assms by (simp add: check_bash_c_arg_splitting_def)
next
  case (Cons a pre')
  then have args: "args = pre' @ sh # ''-c'' # word # extra # rest" "command = a" "''-c'' \<notin> set pre'"
    using assms by auto
  then have "args ! 0 \<noteq> ''-c''" using assms(1) by (cases pre') auto
  then show ?thesis
    using splitting_in_args_found [OF assms(1,2) args(3)] args(1) by (simp add: check_bash_c_arg_splitting_def)
qed

text \<open>The mistake that wiped a crontab is refused: when the first \<open>-c\<close> of a command and its
  arguments follows \<open>bash\<close> or \<open>sh\<close>, and one word without blanks is followed by more arguments (which
  the shell would take for positional parameters), no tool that runs commands without \<open>shell\<close> files
  the request.\<close>

theorem split_shell_command_refused:
  assumes "sh = ''bash'' \<or> sh = ''sh''" and "\<not> str_contains word '' ''" and "''-c'' \<notin> set pre"
    and "arg_str args ''command'' # arg_strings args ''args'' = pre @ sh # ''-c'' # word # extra # rest"
    and "\<not> arg_bool args ''shell''"
    and "name \<in> {''request_command_for_relay'', ''request_command_for_host'', ''exec_container'', ''exec_machine''}"
  shows "is_tool_error (fst (dispatch_now lib w name args client t)) \<and> snd (dispatch_now lib w name args client t) = t"
proof -
  have b: "check_bash_c_arg_splitting (arg_str args ''command'') (arg_strings args ''args'') \<noteq> []"
    using split_command_blocked [OF assms(1-4)] .
  then have "\<exists>e. parse_command_request args = Inl e"
    using assms(5) by (simp add: parse_command_request_def Let_def)
  then obtain e where "parse_command_request args = Inl e" ..
  then have "request_command_for_relay lib w args client t = (ToolError e, t)"
    and "request_command_for_host lib w args client t = (ToolError e, t)"
    by (simp_all add: request_command_for_relay_def request_command_for_host_def)
  moreover have "is_tool_error (fst (exec_container w args client t)) \<and> snd (exec_container w args client t) = t"
    using b assms(5) by (simp add: exec_container_def Let_def)
  moreover have "is_tool_error (fst (exec_machine lib w args client t)) \<and> snd (exec_machine lib w args client t) = t"
    using b assms(5) by (simp add: exec_machine_def Let_def split: option.split)
  moreover have "dispatch_now lib w name args client t \<in> {request_command_for_relay lib w args client t,
      request_command_for_host lib w args client t, exec_container w args client t, exec_machine lib w args client t}"
    using assms(6) by (elim insertE emptyE) (simp_all only: dispatch_now_def, simp_all)
  ultimately show ?thesis by auto
qed

definition demo_crontab :: tool_args where
  "demo_crontab = [(''command'', JStr ''bash''), (''args'', JArr [JStr ''-c'', JStr ''crontab'', JStr ''-l'']), (''reason'', JStr ''look'')]"

theorem split_shell_command_refused_witness:
  "is_tool_error (fst (dispatch_now demo_lib demo_tool_world ''request_command_for_host'' demo_crontab ''ci'' demo_tools))"
proof -
  have args: "arg_str demo_crontab ''command'' # arg_strings demo_crontab ''args'' = [] @ ''bash'' # ''-c'' # ''crontab'' # ''-l'' # []"
    "\<not> arg_bool demo_crontab ''shell''"
    by (simp_all add: demo_crontab_def arg_defs)
  have "\<not> str_contains ''crontab'' '' ''" by code_simp
  from split_shell_command_refused [OF _ this _ args, of "''request_command_for_host''"] show ?thesis by simp
qed

section \<open>Properties: scripts\<close>

lemma detect_agrees: "detect_script_ext lib c = detect_script_type lib c"
  by (simp add: detect_script_ext_def detect_script_type_def split: sum.split jval.split)

lemma target_name_path: "valid_script_path n \<Longrightarrow> valid_script_path (target_name n)"
proof -
  assume n: "valid_script_path n"
  have "valid_name ''oneshot''" by code_simp
  then show ?thesis using n by (auto simp: target_name_def valid_script_path_def)
qed

lemma valid_script_path_no_dots:
  assumes "valid_script_path n" shows "list_all (\<lambda>seg. seg \<noteq> '''' \<and> CHR ''.'' \<notin> set seg \<and> CHR ''/'' \<notin> set seg) (split_on CHR ''/'' n)"
proof -
  have "valid_name s \<Longrightarrow> s \<noteq> '''' \<and> CHR ''.'' \<notin> set s \<and> CHR ''/'' \<notin> set s" for s
  proof -
    assume "valid_name s"
    moreover have "\<not> is_alnum CHR ''.''" "\<not> is_alnum CHR ''/''" by code_simp+
    ultimately show ?thesis by (auto simp: valid_name_def list_all_iff split: list.splits)
  qed
  with assms show ?thesis by (auto simp: valid_script_path_def list_all_iff)
qed

text \<open>C34. What the reviewer of a create-then-run is shown is what will happen: the script name and
  extension in the display command are those of the file the executor will write, although the two
  detect the type separately; the file lies below the scripts directory (no segment of its name is
  empty or holds a dot or a slash), its bytes are the content of the call, and no shell, Python or
  JSON script of that name existed when the call was accepted.\<close>

theorem create_then_run_as_shown:
  assumes "create_then_run lib w args client t = (res, t')" and "\<not> is_tool_error res"
  shows "\<exists>r. filed_request (tw_id w) (res, t') = Some r \<and> r_type r = ''script_create_then_run''
     \<and> r_stdin r = arg_str args ''content''
     \<and> th_scripts_dir t @ ''/'' @ take (length (r_script_name r) + length (detect_script_type lib (r_stdin r)))
          (drop (length ''create_then_run '') (r_display_command r))
        = script_path (th_scripts_dir t) (r_script_name r) (detect_script_type lib (r_stdin r))
     \<and> list_all (\<lambda>seg. seg \<noteq> '''' \<and> CHR ''.'' \<notin> set seg \<and> CHR ''/'' \<notin> set seg) (split_on CHR ''/'' (r_script_name r))
     \<and> list_all (\<lambda>ext. tw_stat w (script_path (th_scripts_dir t) (r_script_name r) ext) \<noteq> StatOk) [''.sh'', ''.py'', ''.json'']"
proof -
  let ?name = "arg_str args ''name''" and ?content = "arg_str args ''content''"
  let ?target = "target_name ?name"
  have ok: "valid_script_path ?name" "filter (\<lambda>p. tw_stat w p = StatOk) (script_variants t ?target) = []"
    and given: "?name \<noteq> ''''" "?content \<noteq> ''''" "arg_str args ''reason'' \<noteq> ''''"
    using assms by (auto simp: create_then_run_def Let_def split: if_splits list.splits)
  have segs: "list_all (\<lambda>seg. seg \<noteq> '''' \<and> CHR ''.'' \<notin> set seg \<and> CHR ''/'' \<notin> set seg) (split_on CHR ''/'' ?target)"
    using ok(1) by (intro valid_script_path_no_dots target_name_path)
  have absent: "list_all (\<lambda>ext. tw_stat w (script_path (th_scripts_dir t) ?target ext) \<noteq> StatOk) [''.sh'', ''.py'', ''.json'']"
    using ok(2) by (simp add: script_variants_def script_path_def split: if_splits)
  show ?thesis
    unfolding assms(1) [symmetric]
    using segs absent
    by (simp add: create_then_run_def Let_def ok given joined_def detect_agrees script_path_def pending_request_def)
qed

definition demo_oneshot :: tool_args where
  "demo_oneshot = [(''name'', JStr ''fix''), (''content'', JStr ''#!/bin/sh''), (''reason'', JStr ''repair'')]"

theorem create_then_run_as_shown_witness:
  "\<exists>r. filed_request ''r1'' (create_then_run demo_lib demo_tool_world demo_oneshot ''ci'' demo_tools) = Some r
     \<and> r_stdin r = ''#!/bin/sh'' \<and> r_type r = ''script_create_then_run''"
proof -
  obtain res t' where o: "create_then_run demo_lib demo_tool_world demo_oneshot ''ci'' demo_tools = (res, t')" by (metis surj_pair)
  have args: "arg_str demo_oneshot ''name'' = ''fix''" "arg_str demo_oneshot ''content'' = ''#!/bin/sh''"
    "arg_str demo_oneshot ''reason'' = ''repair''"
    by (simp_all add: demo_oneshot_def arg_str_def)
  have "valid_script_path ''fix''" by code_simp
  then have "\<not> is_tool_error (fst (create_then_run demo_lib demo_tool_world demo_oneshot ''ci'' demo_tools))"
    by (simp add: create_then_run_def Let_def args script_variants_def demo_tool_world_def filed_def pending_reply_def
        split: prod.split)
  then have "\<not> is_tool_error res" by (simp add: o)
  from create_then_run_as_shown [OF o this] show ?thesis
    unfolding o demo_id args by (elim exE conjE) (intro exI conjI; assumption)
qed

end
