(* ===== verification/Tool_Writes.thy ===== *)
theory Tool_Writes
  imports Tool_Safety
begin

text \<open>
  write_file of mcp/tools.go and mcp/machine_shell.go, from the agent's arguments to what the far side
  does: which machine the ssh command goes to and what its shell reads, on the POSIX, pct and
  PowerShell routes and for content streamed from another machine. The readers of Machine_Shell and the
  one of PowerShell statements below stand for the far side.
\<close>

section \<open>Lines the far shells read\<close>

lemma itoa_plain: "list_all sh_plain (itoa i)"
proof -
  have "list_all (\<lambda>n. sh_plain (digit_char n)) [0..<10]" by code_simp
  then have dig: "n < 10 \<Longrightarrow> sh_plain (digit_char n)" for n by (simp add: list_all_iff)
  have "list_all sh_plain (nat_str n)" for n
    by (induction n rule: nat_str.induct) (subst nat_str.simps, simp add: dig)
  then show ?thesis by (simp add: itoa_def sh_plain_def sh_ops_def sh_unread_def)
qed

lemma itoa_nonempty [simp]: "itoa i \<noteq> []"
  by (simp add: itoa_def)

lemma mode_plain: "valid_mode m \<Longrightarrow> list_all sh_plain m \<and> m \<noteq> []"
  by (auto simp: valid_mode_def sh_plain_def sh_ops_def sh_unread_def split: list.splits)

lemma cat_chmod_reads:
  "list_all sh_plain m \<Longrightarrow> m \<noteq> [] \<Longrightarrow> sh_tokens (cat_chmod path m) =
     Some [ShWord ''cat'', ShOp CHR ''>'', ShWord path, ShOp CHR ''&'', ShOp CHR ''&'',
           ShWord ''chmod'', ShWord m, ShWord path]"
  using sh_scan_quote [of None path "[]"]
  by (simp add: sh_tokens_def cat_chmod_def sh_scan_quote sh_scan_plain sh_ops_def sh_unread_def)

text \<open>The pct route goes through \<open>sh -c\<close> without quotes: the host's login shell reads
  \<open>sh -c cat > tmp\<close> as its first command, which copies the input all the same.\<close>

lemma pct_push_reads:
  assumes "list_all sh_plain m" "m \<noteq> []" "list_all sh_plain tmp" "tmp \<noteq> []"
  shows "sh_tokens (remote_line [''sh'', ''-c'', pct_push_command tmp ctid path m]) = Some
     ([ShWord ''sh'', ShWord ''-c'', ShWord ''cat'', ShOp CHR ''>'', ShWord tmp, ShOp CHR ''&'', ShOp CHR ''&'']
      @ [ShWord ''pct'', ShWord ''push'', ShWord (itoa ctid), ShWord tmp, ShWord path, ShOp CHR ''&'', ShOp CHR ''&'']
      @ [ShWord ''pct'', ShWord ''exec'', ShWord (itoa ctid), ShWord ''--'', ShWord ''chmod'', ShWord m, ShWord path,
         ShOp CHR ''&'', ShOp CHR ''&''] @ [ShWord ''rm'', ShWord tmp])"
  using assms itoa_plain [of ctid] sh_scan_plain [of tmp None "[]"]
  by (simp add: sh_tokens_def remote_line_def pct_push_command_def sh_scan_quote sh_scan_plain sh_ops_def sh_unread_def)

section \<open>What PowerShell executes\<close>

text \<open>The statements of a script: split at the semicolons outside single quotes, the blanks before each
  dropped. Double quotes, back quotes, comments, pipes, line ends and bytes beyond ASCII (PowerShell
  takes typographic quotes for quotes) make the reader give up.\<close>

fun ps_scan :: "bool \<Rightarrow> string \<Rightarrow> string \<Rightarrow> string list option" where
  "ps_scan q w [] = (if q then None else Some [w])"
| "ps_scan q w (c # cs) =
     (if 128 \<le> (of_char c :: nat) \<or> c = CHR 0x0A \<or> c = CHR 0x0D then None
      else if c = CHR 0x27 then ps_scan (\<not> q) (w @ [c]) cs
      else if q then ps_scan q (w @ [c]) cs
      else if c \<in> {CHR 0x22, CHR 0x60, CHR ''#'', CHR ''|'', CHR ''&''} then None
      else if c = CHR '';'' then map_option ((#) w) (ps_scan q [] cs)
      else ps_scan q (w @ [c]) cs)"

definition ps_statements :: "string \<Rightarrow> string list option" where
  "ps_statements script = map_option (map (dropWhile ((=) CHR '' ''))) (ps_scan False [] script)"

definition ps_clean :: "string \<Rightarrow> bool" where
  "ps_clean s \<longleftrightarrow> list_all (\<lambda>c. (of_char c :: nat) < 128 \<and> c \<noteq> CHR 0x0A \<and> c \<noteq> CHR 0x0D) s"

lemma ps_scan_quoted:
  "ps_clean s \<Longrightarrow> ps_scan True w (concat (map (\<lambda>x. if x = CHR 0x27 then [CHR 0x27, CHR 0x27] else [x]) s) @ CHR 0x27 # rest)
     = ps_scan False (w @ concat (map (\<lambda>x. if x = CHR 0x27 then [CHR 0x27, CHR 0x27] else [x]) s) @ [CHR 0x27]) rest"
  by (induction s arbitrary: w) (auto simp: ps_clean_def)

lemma ps_scan_quote: "ps_clean s \<Longrightarrow> ps_scan False w (pwsh_quote s @ rest) = ps_scan False (w @ pwsh_quote s) rest"
  using ps_scan_quoted [of s "w @ [CHR 0x27]" rest] by (simp add: pwsh_quote_def replace_all_char)

text \<open>What has to be read to write a path, given as a literal, from base64 on standard input.\<close>

definition ps_write_statements :: "string \<Rightarrow> string list" where
  "ps_write_statements lit =
     [''$ErrorActionPreference='' @ CHR 0x27 # ''Stop'' @ [CHR 0x27], ''$b=[Console]::In.ReadToEnd()'',
      ''$bytes=[Convert]::FromBase64String($b)'', ''$path='' @ lit, ''$dir=Split-Path -Parent $path'',
      ''if($dir){[void](New-Item -ItemType Directory -Force -Path $dir)}'', ''[IO.File]::WriteAllBytes($path,$bytes)'']"

lemma ps_write_reads:
  assumes "ps_clean path"
  shows "ps_statements (ps_write_file_script path) = Some (ps_write_statements (pwsh_quote path))"
proof -
  have q: "pwsh_quote ''Stop'' = CHR 0x27 # ''Stop'' @ [CHR 0x27]" by code_simp
  show ?thesis
    using ps_scan_quote [OF assms]
    by (simp add: ps_statements_def ps_write_file_script_def ps_write_statements_def str_join_Cons q)
qed

section \<open>Where a write goes and what it does there\<close>

text \<open>The far side of a target: a POSIX shell, the Proxmox host pushing a file into a container, or
  PowerShell.\<close>

datatype far_side = PosixShell | PctPush string int | PowerShell

definition write_far :: "tool_world \<Rightarrow> tool_handler \<Rightarrow> string \<Rightarrow> int \<Rightarrow> far_side option" where
  "write_far w t machineName ctid =
     (if machineName \<noteq> '''' then
        (case th_machines t of
           None \<Rightarrow> None
         | Some ms \<Rightarrow> map_option (\<lambda>m. if m_shell m = shell_powershell then PowerShell else PosixShell) (ms_get ms machineName))
      else if ctid > 0 then
        map_option (\<lambda>c. if c_has_relay_ssh c then PosixShell else PctPush (tmp_file w) ctid) (cs_get (th_containers t) ctid)
      else Some PosixShell)"

definition write_dest :: "tool_handler \<Rightarrow> string \<Rightarrow> int \<Rightarrow> string \<Rightarrow> string list option" where
  "write_dest t machineName ctid host =
     (if machineName \<noteq> '''' then
        (case th_machines t of None \<Rightarrow> None | Some ms \<Rightarrow> map_option (machine_ssh_base t) (ms_get ms machineName))
      else if ctid > 0 then
        map_option (\<lambda>c. ssh_prefix t
          @ [if c_has_relay_ssh c then container_user c @ ''@'' @ c_ip c else ''root@'' @ th_host_ip t, ''--''])
          (cs_get (th_containers t) ctid)
      else Some (ssh_prefix t @ [''root@'' @ host, ''--'']))"

definition cat_tokens :: "string \<Rightarrow> string \<Rightarrow> sh_token list" where
  "cat_tokens path fmode =
     [ShWord ''cat'', ShOp CHR ''>'', ShWord path, ShOp CHR ''&'', ShOp CHR ''&'',
      ShWord ''chmod'', ShWord fmode, ShWord path]"

text \<open>Copy the input to a file of the host, push it into container \<open>n\<close>, set its mode there, remove it.\<close>

definition push_tokens :: "string \<Rightarrow> int \<Rightarrow> string \<Rightarrow> string \<Rightarrow> sh_token list" where
  "push_tokens tmp n path fmode =
     [ShWord ''cat'', ShOp CHR ''>'', ShWord tmp, ShOp CHR ''&'', ShOp CHR ''&'']
     @ [ShWord ''pct'', ShWord ''push'', ShWord (itoa n), ShWord tmp, ShWord path, ShOp CHR ''&'', ShOp CHR ''&'']
     @ [ShWord ''pct'', ShWord ''exec'', ShWord (itoa n), ShWord ''--'', ShWord ''chmod'', ShWord fmode, ShWord path,
        ShOp CHR ''&'', ShOp CHR ''&''] @ [ShWord ''rm'', ShWord tmp]"

text \<open>The remote words write standard input to the path, on that far side. The first command of the
  pct line may be run through \<open>sh -c\<close>, which changes nothing for cat without operands. PowerShell has
  no octal modes.\<close>

fun command_lands :: "far_side \<Rightarrow> string list \<Rightarrow> string \<Rightarrow> string \<Rightarrow> bool" where
  "command_lands PosixShell remote path fmode = (sh_tokens (remote_line remote) = Some (cat_tokens path fmode))"
| "command_lands (PctPush tmp n) remote path fmode =
     (sh_tokens (remote_line remote) \<in>
        {Some (push_tokens tmp n path fmode), Some (ShWord ''sh'' # ShWord ''-c'' # push_tokens tmp n path fmode)})"
| "command_lands PowerShell remote path fmode =
     (\<exists>e script lit. remote = [''powershell'', ''-NoProfile'', ''-EncodedCommand'', e] \<and> ps_decoded e = Some (runes script)
        \<and> ps_statements script = Some (ps_write_statements lit) \<and> pwsh_literal lit = Some (path, []))"

fun input_carries :: "far_side \<Rightarrow> string \<Rightarrow> string \<Rightarrow> bool" where
  "input_carries PowerShell stdin content = (b64_decode std_alphabet True stdin = Some content)"
| "input_carries far stdin content = (stdin = content)"

lemma tmp_file_plain: "list_all sh_plain (tmp_file w) \<and> tmp_file w \<noteq> []"
  using itoa_plain by (simp add: tmp_file_def sh_plain_def sh_ops_def sh_unread_def)

lemma cat_chmod_lands: "valid_mode m \<Longrightarrow> command_lands PosixShell [cat_chmod path m] path m"
  using cat_chmod_reads [of m path] by (simp add: cat_tokens_def remote_line_def mode_plain)

lemma pct_push_lands:
  "valid_mode m \<Longrightarrow> command_lands (PctPush (tmp_file w) ctid) [''sh'', ''-c'', pct_push_command (tmp_file w) ctid path m] path m"
  using pct_push_reads [of m "tmp_file w" ctid path] mode_plain [of m] tmp_file_plain [of w] by (simp add: push_tokens_def)

lemma powershell_lands: "ps_clean path \<Longrightarrow> command_lands PowerShell (ps_invoke (ps_write_file_script path)) path m"
  using ps_decoded_encoded [of "ps_write_file_script path"] ps_write_reads [of path] pwsh_literal_quote [of "[]" path]
  by (auto simp: ps_invoke_def)

lemma path_char_clean:
  assumes "is_alnum c \<or> c \<in> set '' ._/:-'' \<or> c = CHR 0x5C"
  shows "(of_char c :: nat) < 128 \<and> c \<noteq> CHR 0x0A \<and> c \<noteq> CHR 0x0D"
proof -
  have "\<not> is_alnum (CHR 0x0A) \<and> \<not> is_alnum (CHR 0x0D)" by code_simp
  moreover have "is_alnum c \<Longrightarrow> (of_char c :: nat) < 128" by (auto simp: is_alnum_def is_word_def is_alpha_us_def is_digit_def Let_def)
  ultimately show ?thesis using assms by auto
qed

lemma machine_path_clean: "valid_machine_path p \<Longrightarrow> ps_clean p"
  using path_char_clean by (simp add: valid_machine_path_def ps_clean_def list_all_iff)

lemma write_target_lands:
  assumes "write_target_of lib w t machineName ctid host path fmode content = Inr tg" and "valid_mode fmode"
    and "cs_wf (th_containers t)" and "machineName \<noteq> '''' \<longrightarrow> valid_machine_path path"
  shows "\<exists>far dest remote. write_far w t machineName ctid = Some far \<and> write_dest t machineName ctid host = Some dest
     \<and> wt_argv tg = dest @ remote \<and> command_lands far remote path fmode \<and> input_carries far (wt_stdin tg) content"
proof (cases "machineName = ''''")
  case False
  then obtain ms m where "th_machines t = Some ms" "ms_get ms machineName = Some m"
    using assms(1) by (auto simp: write_target_of_def split: option.splits)
  with False assms(1,2,4) show ?thesis
    using powershell_lands [of path fmode] machine_path_clean [of path] cat_chmod_lands [of fmode path]
    by (auto simp: write_target_of_def write_far_def write_dest_def machine_write_remote_def b64_decode_encode
        simp del: command_lands.simps)
next
  case True
  show ?thesis
  proof (cases "ctid > 0")
    case pos: True
    then obtain c where c: "cs_get (th_containers t) ctid = Some c"
      using assms(1) True by (auto simp: write_target_of_def split: option.splits)
    then have "c_ctid c = ctid" by (rule creg.lookup_key [OF assms(3)])
    with pos c True assms(1,2) show ?thesis
      using pct_push_lands [of fmode w ctid path] cat_chmod_lands [of fmode path]
      by (auto simp: write_target_of_def write_far_def write_dest_def simp del: command_lands.simps split: if_splits)
  next
    case False
    with True assms(1,2) show ?thesis
      using cat_chmod_lands [of fmode path]
      by (auto simp: write_target_of_def write_far_def write_dest_def simp del: command_lands.simps)
  qed
qed

lemma write_inline_filed:
  assumes "valid_mode (mode_arg args)" and "int_arg_strict args ''ctid'' = Inr ctid"
    and "\<not> (arg_str args ''host'' = '''' \<and> ctid = 0 \<and> arg_str args ''machine'' = '''')"
    and "write_target_of lib w t (arg_str args ''machine'') ctid (arg_str args ''host'') path (mode_arg args) content = Inr tg"
  shows "\<exists>r. filed_request (tw_id w) (write_file_inline lib w args path reason content client t) = Some r
     \<and> r_command r = ''ssh'' \<and> \<not> r_shell r \<and> r_args r = wt_argv tg \<and> r_stdin r = wt_stdin tg"
  using assms by (auto simp: write_file_inline_def Let_def pending_request_def case_prod_beta)

section \<open>Properties: content in the call\<close>

text \<open>C25. An accepted write_file with its content in the call files one ssh command to the machine,
  container or host asked for, and to no other: the words after it, read by the far side, write
  standard input to the very path, with the very mode on a POSIX side, through the host and into the
  container of the very number on the pct route, and as the seven statements of the PowerShell script
  on a Windows machine, which has no octal modes; and the input is the content, verbatim, or in base64
  for PowerShell. (The container registry is well formed, which all its operations keep.)\<close>

theorem write_file_lands:
  assumes "content_of w args = Inr (Inline content)" and "write_file lib w args client t = (res, t')"
    and "\<not> is_tool_error res" and "cs_wf (th_containers t)"
  shows "\<exists>r far dest remote. filed_request (tw_id w) (res, t') = Some r \<and> r_command r = ''ssh'' \<and> \<not> r_shell r
     \<and> write_far w t (arg_str args ''machine'') (int_arg args ''ctid'') = Some far
     \<and> write_dest t (arg_str args ''machine'') (int_arg args ''ctid'') (arg_str args ''host'') = Some dest
     \<and> r_args r = dest @ remote
     \<and> command_lands far remote (arg_str args ''path'') (mode_arg args) \<and> input_carries far (r_stdin r) content"
proof -
  let ?path = "arg_str args ''path''" and ?machine = "arg_str args ''machine''" and ?host = "arg_str args ''host''"
  have w: "write_file lib w args client t
      = write_file_inline lib w args ?path (arg_str args ''reason'') content client t"
    and path: "?machine \<noteq> '''' \<longrightarrow> valid_machine_path ?path"
    using assms(1-3) by (auto simp: write_file_def Let_def split: if_splits)
  obtain ctid where ctid: "int_arg_strict args ''ctid'' = Inr ctid" and mode: "valid_mode (mode_arg args)"
    using assms(2,3) unfolding w by (auto simp: write_file_inline_def Let_def split: if_splits sum.splits)
  obtain tg where tg: "write_target_of lib w t ?machine ctid ?host ?path (mode_arg args) content = Inr tg"
    using assms(2,3) mode unfolding w
    by (auto simp: write_file_inline_def Let_def ctid split: if_splits sum.splits)
  have "\<not> (?host = '''' \<and> ctid = 0 \<and> ?machine = '''')"
    using assms(2,3) mode unfolding w by (auto simp: write_file_inline_def Let_def ctid)
  then obtain r where "filed_request (tw_id w) (res, t') = Some r" "r_command r = ''ssh''" "\<not> r_shell r"
    "r_args r = wt_argv tg" "r_stdin r = wt_stdin tg"
    using write_inline_filed [OF mode ctid _ tg] unfolding assms(2) [symmetric] w by blast
  with write_target_lands [OF tg mode assms(4) path] int_arg_strict_agrees [OF ctid] show ?thesis by metis
qed

definition demo_write :: tool_args where
  "demo_write = [(''path'', JStr ''/etc/motd''), (''content'', JStr ''hi''), (''machine'', JStr ''win''), (''reason'', JStr ''greet'')]"

lemma demo_write_args:
  "arg_str demo_write ''path'' = ''/etc/motd''" "arg_str demo_write ''machine'' = ''win''"
  "arg_str demo_write ''reason'' = ''greet''"
  by (simp_all add: demo_write_def arg_str_def)

theorem write_file_lands_witness:
  "\<exists>r far dest remote. filed_request ''r1'' (write_file demo_lib demo_tool_world demo_write ''ci'' demo_tools) = Some r
     \<and> write_far demo_tool_world demo_tools ''win'' 0 = Some far
     \<and> dest = [''lara@h1'', ''--''] \<and> r_args r = dest @ remote \<and> command_lands far remote ''/etc/motd'' ''0644''
     \<and> input_carries far (r_stdin r) ''hi''"
proof -
  have c: "content_of demo_tool_world demo_write = Inr (Inline ''hi'')"
    by (simp add: content_of_def demo_write_def arg_defs Let_def)
  obtain res t' where o: "write_file demo_lib demo_tool_world demo_write ''ci'' demo_tools = (res, t')" by (metis surj_pair)
  have path: "valid_machine_path ''/etc/motd''" "valid_mode ''0644''" by code_simp+
  have "\<not> is_tool_error (fst (write_file demo_lib demo_tool_world demo_write ''ci'' demo_tools))"
    using path by (simp add: write_file_def c demo_write_args) (simp add: write_file_inline_def write_target_of_def mode_arg_def demo_write_def arg_defs Let_def
        demo_tools_def new_tool_handler_def demo_machines_def ms_get_def filed_def pending_reply_def store_add_with_stdin_def
        split: prod.split)
  then have e: "\<not> is_tool_error res" by (simp add: o)
  have d: "write_dest demo_tools ''win'' (int_arg demo_write ''ctid'') (arg_str demo_write ''host'') = Some [''lara@h1'', ''--'']"
    by (simp add: write_dest_def demo_tools_def new_tool_handler_def demo_machines_def ms_get_def machine_ssh_base_def
        ssh_prefix_def)
  have m: "mode_arg demo_write = ''0644''" "int_arg demo_write ''ctid'' = 0"
    by (simp_all add: mode_arg_def demo_write_def arg_str_def int_arg_def)
  have wf: "cs_wf (th_containers demo_tools)"
    by (simp add: cs_wf_def gomap_wf_def demo_tools_def new_tool_handler_def demo_containers_def)
  from write_file_lands [OF c o e wf] d show ?thesis unfolding o demo_id demo_write_args m by fastforce
qed

section \<open>Lines read piece by piece\<close>

text \<open>A piece that reads as these tokens by itself and before a blank.\<close>

definition reads :: "string \<Rightarrow> sh_token list \<Rightarrow> bool" where
  "reads l ts \<longleftrightarrow> sh_tokens l = Some ts
     \<and> (\<forall>rest. sh_scan Unquoted None (l @ CHR '' '' # rest) = map_option ((@) ts) (sh_scan Unquoted None rest))"

lemma reads_tokens: "reads l ts \<Longrightarrow> sh_tokens l = Some ts"
  by (simp add: reads_def)

lemma map_option_append: "map_option ((@) ts) (map_option ((@) us) x) = map_option ((@) (ts @ us)) x"
  by (cases x) simp_all

lemma reads_join: "reads a ts \<Longrightarrow> reads b us \<Longrightarrow> reads (a @ CHR '' '' # b) (ts @ us)"
  by (simp add: reads_def sh_tokens_def map_option_append)

lemma reads_word:
  assumes "\<And>rest. sh_scan Unquoted None (l @ rest) = sh_scan Unquoted (Some w) rest"
  shows "reads l [ShWord w]"
  using assms [of "[]"] assms by (simp add: reads_def sh_tokens_def)

lemma reads_plain: "list_all sh_plain w \<Longrightarrow> w \<noteq> [] \<Longrightarrow> reads w [ShWord w]"
  by (rule reads_word) (simp add: sh_scan_plain)

lemma reads_quote: "reads (shell_quote s) [ShWord s]"
  by (rule reads_word) (simp add: sh_scan_quote)

lemma reads_pipe: "reads ''|'' [ShOp CHR ''|'']"
proof -
  have "(@) [x] = (#) x" for x :: sh_token by (rule ext) simp
  then show ?thesis by (simp add: reads_def sh_tokens_def sh_ops_def option.map_comp comp_def)
qed

text \<open>A line of pieces, each of which is one word.\<close>

lemma reads_words:
  "list_all2 (\<lambda>l w. reads l [ShWord w]) ls ws \<Longrightarrow> ls \<noteq> [] \<Longrightarrow> reads (str_join '' '' ls) (map ShWord ws)"
proof (induction rule: list_all2_induct)
  case (Cons l ls w ws)
  then show ?case
    using reads_join [of l "[ShWord w]" "str_join '' '' ls" "map ShWord ws"]
    by (cases "ls = []") (simp_all add: str_join_Cons)
qed simp

lemma reads_line: "list_all (\<lambda>w. list_all sh_plain w \<and> w \<noteq> []) ws \<Longrightarrow> ws \<noteq> [] \<Longrightarrow> reads (str_join '' '' ws) (map ShWord ws)"
  by (rule reads_words) (simp_all add: list_all2_conv_all_nth list_all_length reads_plain)

text \<open>Between double quotes all but four characters stand for themselves.\<close>

definition dq_plain :: "char \<Rightarrow> bool" where
  "dq_plain c \<longleftrightarrow> c \<notin> {CHR 0x22, CHR ''$'', CHR 0x60, CHR 0x5C}"

lemma sh_scan_double:
  "list_all dq_plain s \<Longrightarrow> sh_scan Double (Some w) (s @ CHR 0x22 # rest) = sh_scan Unquoted (Some (w @ s)) rest"
  by (induction s arbitrary: w) (auto simp: dq_plain_def)

lemma reads_dquoted: "list_all dq_plain s \<Longrightarrow> reads (dquoted s) [ShWord s]"
  by (rule reads_word) (simp add: dquoted_def sh_scan_double)

lemma plain_dq: "list_all sh_plain s \<Longrightarrow> list_all dq_plain s"
  by (auto simp: list_all_iff sh_plain_def sh_unread_def dq_plain_def)

text \<open>Host names and absolute paths are plain.\<close>

lemma alnum_plain: "is_alnum c \<or> c \<in> set ''._/-'' \<Longrightarrow> sh_plain c"
proof -
  have "list_all (\<lambda>x. \<not> is_alnum x) [CHR ''|'', CHR ''&'', CHR '';'', CHR ''<'', CHR ''>'', CHR ''$'', CHR 0x60, CHR 0x5C,
      CHR ''('', CHR '')'', CHR 0x0A, CHR ''*'', CHR ''?'', CHR ''['', CHR ''#'', CHR ''!'', CHR ''{'', CHR ''}'',
      CHR 0x27, CHR 0x22, CHR '' '', CHR 0x09]" by code_simp
  then show "is_alnum c \<or> c \<in> set ''._/-'' \<Longrightarrow> sh_plain c"
    by (auto simp: sh_plain_def sh_ops_def sh_unread_def)
qed

lemma host_plain: "valid_host s \<Longrightarrow> list_all sh_plain s \<and> s \<noteq> []"
  using alnum_plain by (auto simp: valid_host_def list_all_iff)

lemma path_plain: "valid_path p \<Longrightarrow> list_all sh_plain p \<and> p \<noteq> []"
  using alnum_plain by (auto simp: valid_path_def list_all_iff split: list.splits)

lemma quote_plain: "list_all sh_plain s \<Longrightarrow> shell_quote s = CHR 0x27 # s @ [CHR 0x27]"
proof -
  assume s: "list_all sh_plain s"
  then have "concat (map (\<lambda>c. if c = CHR 0x27 then [CHR 0x27, CHR 0x22, CHR 0x27, CHR 0x22, CHR 0x27] else [c]) s) = s"
    by (induction s) (auto simp: sh_plain_def)
  then show ?thesis by (simp only: shell_quote_eq)
qed

section \<open>Content streamed from another machine\<close>

text \<open>How the source is read: the ssh destination and the words run there.\<close>

definition read_source :: "tool_handler \<Rightarrow> string \<Rightarrow> int \<Rightarrow> string \<Rightarrow> (string \<times> string list) option" where
  "read_source t sourceHost sourceCtid sourcePath =
     (if sourceCtid > 0 then
        map_option (\<lambda>c. if c_has_relay_ssh c then (container_user c @ ''@'' @ c_ip c, [''cat'', sourcePath])
                        else (''root@'' @ th_host_ip t, [''pct'', ''exec'', itoa sourceCtid, ''--'', ''cat'', sourcePath]))
          (cs_get (th_containers t) sourceCtid)
      else Some (''root@'' @ (if sourceHost = '''' then th_host_ip t else sourceHost), [''cat'', sourcePath]))"

text \<open>The relay's own shell reads its part: the ssh binary with its options, the two targets. A registered
  user and address are quoted, the host's address is not.\<close>

definition plain_setup :: "tool_handler \<Rightarrow> bool" where
  "plain_setup t \<longleftrightarrow> valid_host (th_host_ip t) \<and> list_all (\<lambda>w. list_all sh_plain w \<and> w \<noteq> []) (ssh_prefix t)"

lemma ssh_bin_reads:
  assumes "plain_setup t" shows "reads (ssh_bin t) (map ShWord (''ssh'' # ssh_prefix t))"
proof -
  have "ssh_bin t = str_join '' '' (''ssh'' # ssh_prefix t)" by (simp add: ssh_bin_def str_join_Cons)
  moreover have "list_all sh_plain ''ssh''" by (simp add: sh_plain_def sh_ops_def sh_unread_def)
  ultimately show ?thesis using reads_line [of "''ssh'' # ssh_prefix t"] assms by (simp add: plain_setup_def)
qed

lemma root_plain: "valid_host s \<Longrightarrow> list_all sh_plain (''root@'' @ s) \<and> ''root@'' @ s \<noteq> []"
  using host_plain [of s] by (simp add: sh_plain_def sh_ops_def sh_unread_def)

text \<open>The words the tool spells out.\<close>

lemma fixed_words:
  "reads ''--'' [ShWord ''--'']" "reads ''cat'' [ShWord ''cat'']" "reads ''pct'' [ShWord ''pct'']"
  "reads ''exec'' [ShWord ''exec'']"
  by (rule reads_plain; simp add: sh_plain_def sh_ops_def sh_unread_def)+

lemma after_ssh:
  assumes "plain_setup t" and "list_all2 (\<lambda>l w. reads l [ShWord w]) ls ws" and "ls \<noteq> []"
  shows "reads (ssh_bin t @ CHR '' '' # str_join '' '' ls) (map ShWord (''ssh'' # ssh_prefix t @ ws))"
  using reads_join [OF ssh_bin_reads [OF assms(1)] reads_words [OF assms(2,3)]] by simp

lemma source_reads:
  assumes "source_side t sourceHost sourceCtid sourcePath = Inr (cmd, target, asked)" and "plain_setup t"
    and "cs_wf (th_containers t)" and "valid_path sourcePath"
  shows "\<exists>dest remote. read_source t sourceHost sourceCtid sourcePath = Some (dest, remote)
     \<and> reads cmd (map ShWord (''ssh'' # ssh_prefix t @ dest # ''--'' # remote))
     \<and> sh_tokens (remote_line remote) = Some (map ShWord remote)"
proof -
  have p: "list_all sh_plain sourcePath" "sourcePath \<noteq> []" using path_plain [OF assms(4)] by simp_all
  have w: "reads sourcePath [ShWord sourcePath]" "reads (itoa n) [ShWord (itoa n)]" for n
    using reads_plain p itoa_plain by simp_all
  have cat: "sh_tokens (remote_line [''cat'', sourcePath]) = Some (map ShWord [''cat'', sourcePath])"
    using reads_words [of "[''cat'', sourcePath]" "[''cat'', sourcePath]"] w fixed_words reads_tokens
    by (simp add: remote_line_def)
  have pct: "sh_tokens (remote_line [''pct'', ''exec'', itoa n, ''--'', ''cat'', sourcePath])
      = Some (map ShWord [''pct'', ''exec'', itoa n, ''--'', ''cat'', sourcePath])" for n
    using reads_words [of "[''pct'', ''exec'', itoa n, ''--'', ''cat'', sourcePath]" "[''pct'', ''exec'', itoa n, ''--'', ''cat'', sourcePath]"]
      w fixed_words reads_tokens by (simp add: remote_line_def)
  have root: "reads (''root@'' @ s) [ShWord (''root@'' @ s)]" if "valid_host s" for s
    using root_plain [OF that] reads_plain by blast
  have host: "valid_host (th_host_ip t)" using assms(2) by (simp add: plain_setup_def)
  show ?thesis
  proof (cases "sourceCtid > 0")
    case True
    then obtain c where c: "cs_get (th_containers t) sourceCtid = Some c"
      using assms(1) by (auto simp: source_side_def split: option.splits)
    then have n: "c_ctid c = sourceCtid" by (rule creg.lookup_key [OF assms(3)])
    show ?thesis
    proof (cases "c_has_relay_ssh c")
      case relay: True
      let ?u = "container_user c @ ''@'' @ c_ip c"
      have "reads (ssh_bin t @ CHR '' '' # str_join '' '' [shell_quote ?u, ''--'', ''cat'', shell_quote sourcePath])
          (map ShWord (''ssh'' # ssh_prefix t @ [?u, ''--'', ''cat'', sourcePath]))"
        by (rule after_ssh [OF assms(2)]) (simp_all add: reads_quote fixed_words)
      moreover have "cmd = ssh_bin t @ CHR '' '' # str_join '' '' [shell_quote ?u, ''--'', ''cat'', shell_quote sourcePath]"
        using assms(1) True c relay by (simp add: source_side_def str_join_Cons)
      ultimately show ?thesis using True c relay cat by (simp add: read_source_def)
    next
      case False
      have "reads (ssh_bin t @ CHR '' '' # str_join '' ''
            [''root@'' @ th_host_ip t, ''--'', ''pct'', ''exec'', itoa sourceCtid, ''--'', ''cat'', shell_quote sourcePath])
          (map ShWord (''ssh'' # ssh_prefix t
            @ [''root@'' @ th_host_ip t, ''--'', ''pct'', ''exec'', itoa sourceCtid, ''--'', ''cat'', sourcePath]))"
        by (rule after_ssh [OF assms(2)]) (simp_all only: list_all2_Cons list_all2_Nil root [OF host] reads_quote fixed_words w simp_thms list.simps)
      moreover have "cmd = ssh_bin t @ CHR '' '' # str_join '' ''
            [''root@'' @ th_host_ip t, ''--'', ''pct'', ''exec'', itoa sourceCtid, ''--'', ''cat'', shell_quote sourcePath]"
        using assms(1) True c False n by (simp add: source_side_def str_join_Cons)
      ultimately show ?thesis using True c False pct by (simp add: read_source_def)
    qed
  next
    case False
    let ?h = "if sourceHost = '''' then th_host_ip t else sourceHost"
    have h: "valid_host ?h" and cmd: "cmd = ssh_bin t @ CHR '' '' # str_join '' '' [''root@'' @ ?h, ''--'', ''cat'', shell_quote sourcePath]"
      using assms(1) False by (auto simp: source_side_def Let_def str_join_Cons split: if_splits)
    have "reads (ssh_bin t @ CHR '' '' # str_join '' '' [''root@'' @ ?h, ''--'', ''cat'', shell_quote sourcePath])
        (map ShWord (''ssh'' # ssh_prefix t @ [''root@'' @ ?h, ''--'', ''cat'', sourcePath]))"
      by (rule after_ssh [OF assms(2)]) (simp_all only: list_all2_Cons list_all2_Nil root [OF h] reads_quote fixed_words simp_thms list.simps)
    then show ?thesis unfolding cmd using False cat by (simp add: read_source_def)
  qed
qed

lemma cat_chmod_dq: "list_all sh_plain path \<Longrightarrow> valid_mode m \<Longrightarrow> list_all dq_plain (cat_chmod path m)"
  using plain_dq [of path] plain_dq [of m] mode_plain [of m] by (simp add: cat_chmod_def quote_plain dq_plain_def)

lemma pct_push_dq:
  "list_all sh_plain path \<Longrightarrow> valid_mode m \<Longrightarrow> list_all dq_plain (pct_push_command (tmp_file w) n path m)"
  using plain_dq [of path] plain_dq [of m] mode_plain [of m] plain_dq [of "tmp_file w"] tmp_file_plain [of w]
    plain_dq [OF itoa_plain, of n]
  by (simp add: pct_push_command_def quote_plain dq_plain_def)

lemma pct_push_plain_lands:
  assumes "valid_mode m"
  shows "command_lands (PctPush (tmp_file w) n) [pct_push_command (tmp_file w) n path m] path m"
  using mode_plain [OF assms] tmp_file_plain [of w] itoa_plain [of n] sh_scan_plain [of "tmp_file w" None "[]"]
  by (simp add: push_tokens_def sh_tokens_def remote_line_def pct_push_command_def sh_scan_quote sh_scan_plain
      sh_ops_def sh_unread_def)

lemma dest_reads:
  assumes "dest_side w t host ctid path fmode = Inr (cmd, target, route)" and "plain_setup t"
    and "cs_wf (th_containers t)" and "valid_path path" and "valid_mode fmode" and "valid_host host"
  shows "\<exists>far dst remote. write_far w t '''' ctid = Some far \<and> write_dest t '''' ctid host = Some dst
     \<and> reads cmd (map ShWord (''ssh'' # dst @ [remote])) \<and> command_lands far [remote] path fmode"
proof -
  have p: "list_all sh_plain path" using path_plain [OF assms(4)] by simp
  note cat = reads_dquoted [OF cat_chmod_dq [OF p assms(5)]]
  note push = reads_dquoted [OF pct_push_dq [OF p assms(5)]]
  have root: "reads (''root@'' @ s) [ShWord (''root@'' @ s)]" if "valid_host s" for s
    using root_plain [OF that] reads_plain by blast
  have host: "valid_host (th_host_ip t)" using assms(2) by (simp add: plain_setup_def)
  have line: "reads (ssh_bin t @ CHR '' '' # str_join '' '' [q, ''--'', dquoted s])
      (map ShWord (''ssh'' # (ssh_prefix t @ [u, ''--'']) @ [s]))"
    if "reads q [ShWord u]" "reads (dquoted s) [ShWord s]" for q u s
    using after_ssh [OF assms(2), of "[q, ''--'', dquoted s]" "[u, ''--'', s]"] that fixed_words by simp
  show ?thesis
  proof (cases "ctid > 0")
    case True
    then obtain c where c: "cs_get (th_containers t) ctid = Some c"
      using assms(1) by (auto simp: dest_side_def split: option.splits)
    then have n: "c_ctid c = ctid" by (rule creg.lookup_key [OF assms(3)])
    show ?thesis
    proof (cases "c_has_relay_ssh c")
      case relay: True
      let ?u = "container_user c @ ''@'' @ c_ip c"
      have "cmd = ssh_bin t @ CHR '' '' # str_join '' '' [shell_quote ?u, ''--'', dquoted (cat_chmod path fmode)]"
        using assms(1) True c relay by (simp add: dest_side_def str_join_Cons)
      then have "reads cmd (map ShWord (''ssh'' # (ssh_prefix t @ [?u, ''--'']) @ [cat_chmod path fmode]))"
        by (simp only: line [OF reads_quote cat])
      then show ?thesis
        using True c relay cat_chmod_lands [OF assms(5), of path]
        by (simp add: write_far_def write_dest_def del: command_lands.simps) blast
    next
      case False
      let ?u = "''root@'' @ th_host_ip t" and ?p = "pct_push_command (tmp_file w) ctid path fmode"
      have "cmd = ssh_bin t @ CHR '' '' # str_join '' '' [?u, ''--'', dquoted ?p]"
        using assms(1) True c False n by (simp add: dest_side_def str_join_Cons)
      then have "reads cmd (map ShWord (''ssh'' # (ssh_prefix t @ [?u, ''--'']) @ [?p]))"
        by (simp only: line [OF root [OF host] push])
      then show ?thesis
        using True c False pct_push_plain_lands [OF assms(5), of w ctid path]
        by (simp add: write_far_def write_dest_def del: command_lands.simps) blast
    qed
  next
    case False
    have "cmd = ssh_bin t @ CHR '' '' # str_join '' '' [''root@'' @ host, ''--'', dquoted (cat_chmod path fmode)]"
      using assms(1) False by (auto simp: dest_side_def str_join_Cons)
    then have "reads cmd (map ShWord (''ssh'' # (ssh_prefix t @ [''root@'' @ host, ''--'']) @ [cat_chmod path fmode]))"
      by (simp only: line [OF root [OF assms(6)] cat])
    then show ?thesis
      using False cat_chmod_lands [OF assms(5), of path]
      by (simp add: write_far_def write_dest_def del: command_lands.simps) blast
  qed
qed

section \<open>Properties: content streamed from elsewhere\<close>

text \<open>C38. An accepted write_file with a source path (and no machine) files one pipeline for the relay's own
  shell. That shell reads it as exactly two ssh commands joined by one pipe: the first goes to the
  source asked for and runs cat on the very source path there; the second goes to the container or host
  asked for and hands it, as one word, a line its shell reads as writing standard input to the very
  path with the very mode, through the host into the container of the very number on the pct route.
  Nothing in a path, a registered user or an address is read twice. (The relay's own host address and
  ssh options are plain words, and the container registry is well formed.)\<close>

theorem source_write_streams:
  assumes "content_of w args = Inr (FromSource sourcePath sourceHost sourceCtid)"
    and "write_file lib w args client t = (res, t')" and "\<not> is_tool_error res"
    and "arg_str args ''machine'' = ''''" and "plain_setup t" and "cs_wf (th_containers t)"
  shows "\<exists>r dest remote far dst line. filed_request (tw_id w) (res, t') = Some r \<and> r_shell r \<and> r_args r = [] \<and> r_stdin r = ''''
     \<and> read_source t sourceHost sourceCtid sourcePath = Some (dest, remote)
     \<and> sh_tokens (remote_line remote) = Some (map ShWord remote)
     \<and> write_far w t '''' (int_arg args ''ctid'') = Some far
     \<and> write_dest t '''' (int_arg args ''ctid'')
          (if arg_str args ''host'' = '''' then th_host_ip t else arg_str args ''host'') = Some dst
     \<and> sh_tokens (r_command r) = Some (map ShWord (''ssh'' # ssh_prefix t @ dest # ''--'' # remote)
          @ ShOp CHR ''|'' # map ShWord (''ssh'' # dst @ [line]))
     \<and> command_lands far [line] (arg_str args ''path'') (mode_arg args)"
proof -
  let ?path = "arg_str args ''path''" and ?host = "if arg_str args ''host'' = '''' then th_host_ip t else arg_str args ''host''"
  have w: "write_file lib w args client t
      = write_file_from_source w args ?path (arg_str args ''reason'') sourcePath sourceHost sourceCtid client t"
    and path: "valid_path ?path"
    using assms(1-4) by (auto simp: write_file_def Let_def split: if_splits)
  have src: "valid_path sourcePath"
    using assms(1) by (auto simp: content_of_def Let_def split: sum.splits if_splits)
  note out = assms(2) [unfolded w write_file_from_source_def Let_def]
  obtain ctid where mode: "valid_mode (mode_arg args)" and ctid: "int_arg_strict args ''ctid'' = Inr ctid" and host: "valid_host ?host"
    using out assms(3) by (auto split: if_splits sum.splits)
  obtain srcCmd srcTarget asked where ss: "source_side t sourceHost sourceCtid sourcePath = Inr (srcCmd, srcTarget, asked)"
    using out assms(3) mode ctid host by (cases "source_side t sourceHost sourceCtid sourcePath") auto
  obtain dstCmd dstTarget route where ds: "dest_side w t ?host ctid ?path (mode_arg args) = Inr (dstCmd, dstTarget, route)"
    using out assms(3) mode ctid host ss by (cases "dest_side w t ?host ctid ?path (mode_arg args)") auto
  obtain sl sz t1 where pr: "source_probe w sourceCtid asked sourcePath srcTarget t = (Inr (sl, sz), t1)"
    using out assms(3) mode ctid host ss ds
    by (cases "source_probe w sourceCtid asked sourcePath srcTarget t"; cases "fst (source_probe w sourceCtid asked sourcePath srcTarget t)") auto
  obtain ol t2 where op: "overwrite_probe w ctid ?host ?path dstTarget t1 = (ol, t2)" by (metis surj_pair)
  have "\<exists>r. filed_request (tw_id w) (res, t') = Some r \<and> r_shell r \<and> r_args r = [] \<and> r_stdin r = ''''
      \<and> r_command r = srcCmd @ '' | '' @ dstCmd"
    using mode ctid host ss ds pr op unfolding assms(2) [symmetric] w
    by (simp add: write_file_from_source_def Let_def pending_request_def)
  then obtain r where r: "filed_request (tw_id w) (res, t') = Some r" "r_shell r" "r_args r = []" "r_stdin r = ''''"
    "r_command r = srcCmd @ '' | '' @ dstCmd" by blast
  obtain dest remote where d: "read_source t sourceHost sourceCtid sourcePath = Some (dest, remote)"
      "reads srcCmd (map ShWord (''ssh'' # ssh_prefix t @ dest # ''--'' # remote))" "sh_tokens (remote_line remote) = Some (map ShWord remote)"
    using source_reads [OF ss assms(5,6) src] by blast
  obtain far dst line where e: "write_far w t '''' ctid = Some far" "write_dest t '''' ctid ?host = Some dst"
      "reads dstCmd (map ShWord (''ssh'' # dst @ [line]))" "command_lands far [line] ?path (mode_arg args)"
    using dest_reads [OF ds assms(5,6) path mode host] by blast
  have "reads (srcCmd @ CHR '' '' # ''|'' @ CHR '' '' # dstCmd)
      (map ShWord (''ssh'' # ssh_prefix t @ dest # ''--'' # remote) @ [ShOp CHR ''|''] @ map ShWord (''ssh'' # dst @ [line]))"
    by (rule reads_join [OF d(2) reads_join [OF reads_pipe e(3)]])
  then have "sh_tokens (r_command r) = Some (map ShWord (''ssh'' # ssh_prefix t @ dest # ''--'' # remote)
      @ ShOp CHR ''|'' # map ShWord (''ssh'' # dst @ [line]))" using reads_tokens r(5) by fastforce
  with r d e int_arg_strict_agrees [OF ctid] show ?thesis by metis
qed

definition demo_stream :: tool_args where
  "demo_stream = [(''path'', JStr ''/srv/in''), (''source_path'', JStr ''/srv/out''), (''source_host'', JStr ''h2''),
     (''host'', JStr ''h1''), (''reason'', JStr ''copy'')]"

theorem source_write_streams_witness:
  "\<exists>r line. filed_request ''r1'' (write_file demo_lib demo_tool_world demo_stream ''ci'' demo_tools) = Some r
     \<and> sh_tokens (r_command r) = Some (map ShWord [''ssh'', ''root@h2'', ''--'', ''cat'', ''/srv/out''] @ [ShOp CHR ''|'']
          @ map ShWord [''ssh'', ''root@h1'', ''--'', line])
     \<and> command_lands PosixShell [line] ''/srv/in'' ''0644''"
proof -
  have args: "arg_str demo_stream ''path'' = ''/srv/in''" "arg_str demo_stream ''machine'' = ''''"
    "arg_str demo_stream ''reason'' = ''copy''" "arg_str demo_stream ''host'' = ''h1''" "int_arg demo_stream ''ctid'' = 0"
    "int_arg_strict demo_stream ''ctid'' = Inr 0" "mode_arg demo_stream = ''0644''"
    by (simp_all add: demo_stream_def arg_defs mode_arg_def)
  have ok: "valid_path ''/srv/in''" "valid_path ''/srv/out''" "valid_mode ''0644''" "valid_host ''h1''" "valid_host ''h2''"
    "valid_host ''10.0.0.1''" by code_simp+
  have c: "content_of demo_tool_world demo_stream = Inr (FromSource ''/srv/out'' ''h2'' 0)"
    using ok(2) by (simp add: content_of_def demo_stream_def arg_defs Let_def)
  obtain res t' where o: "write_file demo_lib demo_tool_world demo_stream ''ci'' demo_tools = (res, t')" by (metis surj_pair)
  have "\<not> is_tool_error (fst (write_file demo_lib demo_tool_world demo_stream ''ci'' demo_tools))"
    using ok by (simp add: write_file_def c args)
      (simp add: write_file_from_source_def args Let_def source_side_def dest_side_def source_probe_def
        overwrite_probe_def probe_of_def demo_tool_world_def filed_def pending_reply_def store_add_def)
  then have e: "\<not> is_tool_error res" by (simp add: o)
  have t: "plain_setup demo_tools" "cs_wf (th_containers demo_tools)" "ssh_prefix demo_tools = []"
    using ok(6) by (simp_all add: plain_setup_def cs_wf_def gomap_wf_def demo_tools_def new_tool_handler_def demo_containers_def ssh_prefix_def)
  obtain r dest remote far dst line where r: "filed_request (tw_id demo_tool_world) (res, t') = Some r"
    and d: "read_source demo_tools ''h2'' 0 ''/srv/out'' = Some (dest, remote)" "write_far demo_tool_world demo_tools '''' 0 = Some far"
      "write_dest demo_tools '''' 0 ''h1'' = Some dst"
    and tk: "sh_tokens (r_command r) = Some (map ShWord (''ssh'' # ssh_prefix demo_tools @ dest # ''--'' # remote)
          @ ShOp CHR ''|'' # map ShWord (''ssh'' # dst @ [line]))" and l: "command_lands far [line] ''/srv/in'' ''0644''"
    using source_write_streams [OF c o e args(2) t(1,2)] unfolding args by auto
  from d have "dest = ''root@h2''" "remote = [''cat'', ''/srv/out'']" "far = PosixShell" "dst = [''root@h1'', ''--'']"
    by (simp_all add: read_source_def write_dest_def write_far_def t(3))
  with r tk l show ?thesis unfolding o t(3) demo_id by (intro exI [where x = r] exI [where x = line]) simp
qed

end
