(* ===== verification/Tool_Schemas.thy ===== *)
theory Tool_Schemas
  imports Tool_Outcome Mcp_Server Web_Safety
begin

text \<open>
  The tools as they are advertised: ToolDefinitions and commandToolProps of mcp/tools.go, the struct
  tags of mcp/types.go that make JSON of them, and the wait property submit_wait.go adds at start-up;
  then what the schemas promise and the handlers keep.
\<close>

section \<open>Data\<close>

text \<open>\<open>None\<close> for a nil pointer or interface, the empty list for a nil slice: omitempty leaves them
  out. A property map is an association list; json.Marshal sorts its keys.\<close>

record property =
  pr_type :: string
  pr_description :: string
  pr_items :: "string option"
  pr_enum :: "string list"
  pr_default :: "jval option"

record tool_annotations =
  ta_title :: string
  ta_read_only :: "bool option"
  ta_destructive :: "bool option"
  ta_idempotent :: "bool option"
  ta_open_world :: "bool option"

record tool =
  tl_name :: string
  tl_description :: string
  tl_properties :: "(string, property) gomap"
  tl_required :: "string list"
  tl_annotations :: tool_annotations

definition property_of :: "string \<Rightarrow> string \<Rightarrow> property" where
  "property_of ty d = \<lparr>pr_type = ty, pr_description = d, pr_items = None, pr_enum = [], pr_default = None\<rparr>"

definition no_annotations :: tool_annotations where
  "no_annotations = \<lparr>ta_title = '''', ta_read_only = None, ta_destructive = None, ta_idempotent = None, ta_open_world = None\<rparr>"

definition red_circle :: string where
  "red_circle = [CHR 0xF0, CHR 0x9F, CHR 0x94, CHR 0xB4]"

definition opt_bool :: "string \<Rightarrow> bool option \<Rightarrow> (string \<times> jval) list" where
  "opt_bool k b = (case b of None \<Rightarrow> [] | Some v \<Rightarrow> [(k, JBool v)])"

definition property_json :: "property \<Rightarrow> jval" where
  "property_json p = JObj
     ([(''type'', JStr (pr_type p)), (''description'', JStr (pr_description p))]
      @ (case pr_items p of None \<Rightarrow> [] | Some ty \<Rightarrow> [(''items'', JObj [(''type'', JStr ty)])])
      @ (if pr_enum p = [] then [] else [(''enum'', jstrs (pr_enum p))])
      @ (case pr_default p of None \<Rightarrow> [] | Some v \<Rightarrow> [(''default'', v)]))"

definition input_schema_json :: "tool \<Rightarrow> jval" where
  "input_schema_json t = JObj
     ([(''type'', JStr ''object''), (''properties'', JObj (map (\<lambda>(k, p). (k, property_json p)) (tl_properties t)))]
      @ (if tl_required t = [] then [] else [(''required'', jstrs (tl_required t))]))"

definition annotations_json :: "tool_annotations \<Rightarrow> jval" where
  "annotations_json a = JObj
     (opt_str ''title'' (ta_title a) @ opt_bool ''readOnlyHint'' (ta_read_only a)
      @ opt_bool ''destructiveHint'' (ta_destructive a) @ opt_bool ''idempotentHint'' (ta_idempotent a)
      @ opt_bool ''openWorldHint'' (ta_open_world a))"

definition tool_json :: "tool \<Rightarrow> jval" where
  "tool_json t = JObj
     [(''name'', JStr (tl_name t)), (''description'', JStr (tl_description t)),
      (''inputSchema'', input_schema_json t), (''annotations'', annotations_json (tl_annotations t))]"

section \<open>ToolDefinitions\<close>

definition command_tool_props :: "bool \<Rightarrow> (string \<times> property) list" where
  "command_tool_props withHost =
     [(''command'', property_of ''string'' ''The command/binary to execute''),
      (''args'', (property_of ''array'' (concat [''Arguments to pass to the command. Each element is passed as its own argv entry (quoted for the remote '',
         ''shell on the host route), so spaces and shell metacharacters inside an argument are not re-split.'']))
         \<lparr>pr_items := Some ''string''\<rparr>),
      (''reason'', property_of ''string'' ''Why this command needs to be run (shown to the human reviewer)''),
      (''working_dir'', property_of ''string'' ''Working directory for command execution (relay route only; the host route rejects it)''),
      (''shell'', property_of ''boolean'' ''If true, run via sh -c (allows pipes/redirects but less secure). Default false.''),
      (''timeout'', property_of ''integer'' ''Command timeout in seconds (default: server default, max: server max)'')]
     @ (if withHost then [(''host'', property_of ''string'' ''Host to run the command on (IP or hostname). Defaults to the configured Proxmox host.'')] else [])"

definition tool_request_command :: tool where
  "tool_request_command = \<lparr>
     tl_name = ''request_command'',
     tl_description = concat [red_circle, '' RETIRED 2026-09-14 '', em_dash,
         '' every call to this name is REJECTED with an explanation. It ran in the relay container but never '',
         ''said so, which is how a command meant for the host came back with `pct: not found` and a command '',
         ''meant for the relay got hand-wrapped in ssh. Use `request_command_for_relay` (runs in the relay container, '',
         ''CTID 131) or `request_command_for_host` (the relay builds the ssh itself).''],
     tl_properties = [(''command'', property_of ''string'' ''The command/binary to execute''),
       (''args'', (property_of ''array'' ''Arguments to pass to the command'')
          \<lparr>pr_items := Some ''string''\<rparr>),
       (''reason'', property_of ''string'' ''Why this command needs to be run (shown to the human reviewer)''),
       (''working_dir'', property_of ''string'' ''Working directory for command execution''),
       (''shell'', property_of ''boolean'' ''If true, run via sh -c (allows pipes/redirects but less secure). Default false.''),
       (''timeout'', property_of ''integer'' ''Command timeout in seconds (default: server default, max: server max)'')],
     tl_required = [''command'', ''reason''],
     tl_annotations = no_annotations\<lparr>ta_destructive := Some False, ta_open_world := Some True\<rparr>\<rparr>"

definition tool_request_command_for_relay :: tool where
  "tool_request_command_for_relay = \<lparr>
     tl_name = ''request_command_for_relay'',
     tl_description = concat [''Submit a command for human approval that runs INSIDE THE RELAY CONTAINER (Docker, CTID 131). `pct`, '',
         ''`qm` and other Proxmox host binaries are NOT in PATH here, and it is a different filesystem from '',
         ''every host you write to. For a command that must run on the Proxmox host, use request_command_for_host. '',
         ''Returns a request ID for get_result.''],
     tl_properties = command_tool_props False,
     tl_required = [''command'', ''reason''],
     tl_annotations = no_annotations\<lparr>ta_destructive := Some False, ta_open_world := Some True\<rparr>\<rparr>"

definition tool_request_command_for_host :: tool where
  "tool_request_command_for_host = \<lparr>
     tl_name = ''request_command_for_host'',
     tl_description = concat [''Submit a command for human approval that runs ON THE PROXMOX HOST via ssh. The relay builds the ssh '',
         ''invocation itself (`ssh root@<host> -- <command> <args...>`), so arguments are passed as argv and '',
         ''a shell never re-splits them - you do not hand-roll the ssh wrapper, which is where `&&`/pipe/quote '',
         ''mangling used to silently run the wrong half of a command. `host` defaults to the configured Proxmox '',
         ''host. For a command that runs in the relay container, use request_command_for_relay.''],
     tl_properties = command_tool_props True,
     tl_required = [''command'', ''reason''],
     tl_annotations = no_annotations\<lparr>ta_destructive := Some False, ta_open_world := Some True\<rparr>\<rparr>"

definition tool_get_result :: tool where
  "tool_get_result = \<lparr>
     tl_name = ''get_result'',
     tl_description = concat [''Get the result of a previously submitted command request. Supports blocking poll '', em_dash,
         '' if timeout is set, the server will hold the connection until the request is decided or the timeout '',
         ''expires. To skip this second call, pass `wait` to the approving tool itself: it returns this same '',
         ''payload once the request has run.''],
     tl_properties = [(''request_id'', property_of ''string'' (concat [''The request ID returned by request_command_for_relay, request_command_for_host, write_file, exec_container, '',
          ''or any other approving tool.''])),
       (''timeout'', property_of ''integer'' ''How long to wait (in seconds) for a decision before returning. Default: 0 (return immediately).'')],
     tl_required = [''request_id''],
     tl_annotations = no_annotations\<lparr>ta_read_only := Some True\<rparr>\<rparr>"

definition tool_list_requests :: tool where
  "tool_list_requests = \<lparr>
     tl_name = ''list_requests'',
     tl_description = ''List command requests, optionally filtered by status.'',
     tl_properties = [(''status'', (property_of ''string'' ''Filter by status'')
          \<lparr>pr_enum := [''pending'', ''approved'', ''denied'', ''running'', ''complete'', ''timeout'', ''error'']\<rparr>)],
     tl_required = [],
     tl_annotations = no_annotations\<lparr>ta_read_only := Some True\<rparr>\<rparr>"

definition tool_register_container :: tool where
  "tool_register_container = \<lparr>
     tl_name = ''register_container'',
     tl_description = concat [''Register or update a container in the relay'', [CHR 0x27],
         ''s container registry. Requires human approval '', em_dash,
         '' returns a request ID that can be used to poll for the result; the registry is only written once '',
         ''the human approves.''],
     tl_properties = [(''ctid'', property_of ''integer'' ''Container ID (e.g. 133)''),
       (''ip'', property_of ''string'' ''Container IP address (e.g. 192.168.10.90)''),
       (''hostname'', property_of ''string'' ''Container hostname (e.g. archivebox)''),
       (''has_relay_ssh'', (property_of ''boolean'' ''Whether the relay has direct SSH access to this container (default: false)'')
          \<lparr>pr_default := Some (JBool False)\<rparr>),
       (''ssh_user'', (property_of ''string'' ''SSH username for this container (default: root)'')
          \<lparr>pr_default := Some (JStr ''root'')\<rparr>)],
     tl_required = [''ctid'', ''ip'', ''hostname''],
     tl_annotations = no_annotations\<lparr>ta_idempotent := Some True\<rparr>\<rparr>"

definition tool_list_containers :: tool where
  "tool_list_containers = \<lparr>
     tl_name = ''list_containers'',
     tl_description = concat [''List all containers in the relay'', [CHR 0x27], ''s container registry. Instant '', em_dash,
         '' no human approval needed.''],
     tl_properties = [],
     tl_required = [],
     tl_annotations = no_annotations\<lparr>ta_read_only := Some True\<rparr>\<rparr>"

definition tool_delete_container :: tool where
  "tool_delete_container = \<lparr>
     tl_name = ''delete_container'',
     tl_description = concat [''Remove a container from the relay'', [CHR 0x27],
         ''s container registry. Use this to retire stale or recycled CTID registrations (e.g. a deprecated '',
         ''pseudo-CTID now migrated to the machine registry). Does NOT touch the actual container '', em_dash,
         '' only the registry entry. Requires human approval '', em_dash,
         '' returns a request ID that can be used to poll for the result.''],
     tl_properties = [(''ctid'', property_of ''integer'' ''Container ID to remove from the registry'')],
     tl_required = [''ctid''],
     tl_annotations = no_annotations\<lparr>ta_idempotent := Some True\<rparr>\<rparr>"

definition tool_exec_container :: tool where
  "tool_exec_container = \<lparr>
     tl_name = ''exec_container'',
     tl_description = concat [''Execute a command inside a container. Looks up the container in the registry and routes via direct '',
         ''SSH (if relay has access) or via pct exec on the Proxmox host. Requires human approval.''],
     tl_properties = [(''ctid'', property_of ''integer'' ''Container ID to execute in (e.g. 133)''),
       (''command'', property_of ''string'' ''The command to execute inside the container''),
       (''args'', (property_of ''array'' ''Arguments to pass to the command'')
          \<lparr>pr_items := Some ''string''\<rparr>),
       (''reason'', property_of ''string'' (concat [''Why you need to run this command '', em_dash, '' shown to the human reviewer''])),
       (''shell'', property_of ''boolean'' ''If true, wrap command in sh -c on the remote side (default: false)''),
       (''timeout'', property_of ''integer'' ''Command timeout in seconds (default: server default, max: server max)'')],
     tl_required = [''ctid'', ''command'', ''reason''],
     tl_annotations = no_annotations\<lparr>ta_open_world := Some True\<rparr>\<rparr>"

definition tool_register_machine :: tool where
  "tool_register_machine = \<lparr>
     tl_name = ''register_machine'',
     tl_description = concat [''Register or update a non-LXC SSH target (Windows workstation, bare-metal host, VM, WSL instance) '',
         ''in the relay'', [CHR 0x27],
         ''s machine registry, keyed by a string name. This is the first-class home for SSH targets that aren'',
         [CHR 0x27], ''t Proxmox containers '', em_dash, '' use it instead of registering a fake '', [CHR 0x27],
         ''pseudo-CTID'', [CHR 0x27], '' in the container registry. Requires human approval '', em_dash,
         '' returns a request ID that can be used to poll for the result; the registry is only written once '',
         ''the human approves.''],
     tl_properties = [(''name'', property_of ''string'' (concat [''Machine name '', em_dash, '' the lookup key (e.g. '', [CHR 0x27], ''corsair-win'', [CHR 0x27],
          ''). Alphanumeric with hyphens/underscores.''])),
       (''host'', property_of ''string'' ''IP or hostname the relay SSHes to (e.g. 100.106.181.59 or corsair.tailnet.ts.net)''),
       (''ssh_user'', property_of ''string'' (concat [''SSH login user on the machine (required '', em_dash,
          '' unlike containers there is no root default)''])),
       (''shell'', (property_of ''string'' (concat [''Remote shell for command construction: '', [CHR 0x27], ''posix'', [CHR 0x27], '' (default '',
          em_dash, '' sh/bash, Linux/macOS/WSL) or '', [CHR 0x27], ''powershell'', [CHR 0x27],
          '' (Windows). Drives how exec/write_file/key-install build the remote command.'']))
          \<lparr>pr_enum := [''posix'', ''powershell''], pr_default := Some (JStr ''posix'')\<rparr>),
       (''identity_file'', property_of ''string'' (concat [''Optional path to a specific SSH private key on the relay (e.g. /root/.ssh-data/id_rsa). Omit to use '',
          ''the relay'', [CHR 0x27], ''s default key.'']))],
     tl_required = [''name'', ''host'', ''ssh_user''],
     tl_annotations = no_annotations\<lparr>ta_idempotent := Some True\<rparr>\<rparr>"

definition tool_list_machines :: tool where
  "tool_list_machines = \<lparr>
     tl_name = ''list_machines'',
     tl_description = concat [''List all machines in the relay'', [CHR 0x27], ''s machine registry. Instant '', em_dash,
         '' no human approval needed.''],
     tl_properties = [],
     tl_required = [],
     tl_annotations = no_annotations\<lparr>ta_read_only := Some True\<rparr>\<rparr>"

definition tool_delete_machine :: tool where
  "tool_delete_machine = \<lparr>
     tl_name = ''delete_machine'',
     tl_description = concat [''Remove a machine from the relay'', [CHR 0x27], ''s machine registry. Requires human approval '',
         em_dash, '' returns a request ID that can be used to poll for the result.''],
     tl_properties = [(''name'', property_of ''string'' ''Machine name to remove'')],
     tl_required = [''name''],
     tl_annotations = no_annotations\<lparr>ta_idempotent := Some True\<rparr>\<rparr>"

definition tool_exec_machine :: tool where
  "tool_exec_machine = \<lparr>
     tl_name = ''exec_machine'',
     tl_description = concat [''Execute a command on a registered machine (non-LXC SSH target). Looks up the machine in the registry '',
         ''and routes via direct SSH, building the remote command for the machine'', [CHR 0x27],
         ''s shell (posix or powershell). For powershell machines, shell=true runs the command through PowerShell '',
         ''via -EncodedCommand (the dashboard decodes it for the reviewer). Requires human approval.''],
     tl_properties = [(''machine'', property_of ''string'' (concat [''Machine name to execute on (e.g. '', [CHR 0x27], ''corsair-win'', [CHR 0x27], '')''])),
       (''command'', property_of ''string'' ''The command/binary to execute on the machine''),
       (''args'', (property_of ''array'' ''Arguments to pass to the command'')
          \<lparr>pr_items := Some ''string''\<rparr>),
       (''reason'', property_of ''string'' (concat [''Why you need to run this command '', em_dash, '' shown to the human reviewer''])),
       (''shell'', property_of ''boolean'' (concat [''If true, run the command through the machine'', [CHR 0x27],
          ''s shell (sh -c for posix; PowerShell -EncodedCommand for powershell). Default false (direct binary '',
          ''invocation).''])),
       (''timeout'', property_of ''integer'' ''Command timeout in seconds (default: server default, max: server max)'')],
     tl_required = [''machine'', ''command'', ''reason''],
     tl_annotations = no_annotations\<lparr>ta_open_world := Some True\<rparr>\<rparr>"

definition tool_write_file :: tool where
  "tool_write_file = \<lparr>
     tl_name = ''write_file'',
     tl_description = concat [''Write a file to a host or container. Content is piped via stdin (never on the shell command line), '',
         ''so quotes, backticks, $, and newlines pass through unharmed. Pass plain text as `content`, raw binary '',
         ''as `content_base64`, or stream from a remote host with `source_path` (+ `source_host`/`source_ctid`) '',
         ''so the bytes never transit the agent context. Exactly one content method is required. Requires human '',
         ''approval.''],
     tl_properties = [(''path'', property_of ''string'' ''Absolute path on the target (e.g. /opt/grafana/dashboards/backup-status.json)''),
       (''content'', property_of ''string'' (concat [''File content as plain text (UTF-8). Preferred for config files, scripts, and other text. Use content_base64 '',
          ''for raw binary.''])),
       (''content_base64'', property_of ''string'' (concat [''File content, base64-encoded. Use for raw binary files or content with non-UTF-8 bytes. For text, '',
          ''use `content` instead.''])),
       (''source_path'', property_of ''string'' (concat [''Stream the file from this absolute path on source_host/source_ctid (default: Proxmox host) instead '',
          ''of passing content inline. The bytes flow source -> relay -> destination over SSH and never transit '',
          ''the agent context. Mutually exclusive with content/content_base64.''])),
       (''source_host'', property_of ''string'' ''Source IP to stream from (requires source_path). Mutually exclusive with source_ctid.''),
       (''source_ctid'', property_of ''integer'' (concat [''Source container to stream from (requires source_path; registry routing: direct SSH, or pct exec '',
          ''via the Proxmox host). Mutually exclusive with source_host.''])),
       (''host'', property_of ''string'' ''Target IP (default: Proxmox host). Ignored if ctid is set''),
       (''ctid'', property_of ''integer'' ''If set, write to this container (looks up registry for routing)''),
       (''machine'', property_of ''string'' (concat [''If set, write to this registered machine (non-LXC SSH target; takes precedence over host). For powershell '',
          ''machines the content is base64-streamed over stdin and decoded on the far side (binary-safe); mode '',
          ''is ignored (Windows uses ACLs).''])),
       (''mode'', property_of ''string'' (concat [''File permissions, e.g. '', [CHR 0x22], ''0755'', [CHR 0x22], '' (default: '', [CHR 0x22], ''0644'',
          [CHR 0x22], '')''])),
       (''reason'', property_of ''string'' ''Why this file needs to be written (shown to the human reviewer)''),
       (''timeout'', property_of ''integer'' ''Command timeout in seconds (default: server default, max: server max)'')],
     tl_required = [''path'', ''reason''],
     tl_annotations = no_annotations\<lparr>ta_open_world := Some True\<rparr>\<rparr>"

definition tool_install_relay_ssh :: tool where
  "tool_install_relay_ssh = \<lparr>
     tl_name = ''install_relay_ssh'',
     tl_description = concat [''Install the relay'', [CHR 0x27],
         ''s own SSH public key on a container so the relay can SSH directly to it. Always routes through pct '',
         ''exec on the Proxmox host (since the target doesn'', [CHR 0x27],
         ''t have relay SSH yet). After success, automatically updates the container registry with has_relay_ssh=true. '',
         ''Requires human approval.''],
     tl_properties = [(''ctid'', property_of ''integer'' ''Target container ID (e.g. 125)''),
       (''reason'', property_of ''string'' (concat [''Why you need to install the relay'', [CHR 0x27], ''s SSH key (shown to the human reviewer)''])),
       (''timeout'', property_of ''integer'' ''Command timeout in seconds (default: server default, max: server max)'')],
     tl_required = [''ctid'', ''reason''],
     tl_annotations = no_annotations\<lparr>ta_open_world := Some True\<rparr>\<rparr>"

definition tool_http_request :: tool where
  "tool_http_request = \<lparr>
     tl_name = ''http_request'',
     tl_description = concat [''Make an HTTP request (GET, POST, PUT, PATCH, DELETE) through the human approval flow. The human reviewer '',
         ''sees the full request details before approving. Useful for API calls (Trello, Slack, etc.) where '',
         ''you want human-in-the-loop control.''],
     tl_properties = [(''method'', (property_of ''string'' ''HTTP method'')
          \<lparr>pr_enum := [''GET'', ''POST'', ''PUT'', ''PATCH'', ''DELETE'', ''HEAD'']\<rparr>),
       (''url'', property_of ''string'' ''The full URL to request (e.g. https://api.trello.com/1/cards)''),
       (''headers'', property_of ''object'' (concat [''HTTP headers as key-value pairs (e.g. {'', [CHR 0x22], ''Authorization'', [CHR 0x22], '': '',
          [CHR 0x22], ''Bearer token'', [CHR 0x22], '', '', [CHR 0x22], ''Content-Type'', [CHR 0x22], '': '',
          [CHR 0x22], ''application/json'', [CHR 0x22], ''})''])),
       (''body'', property_of ''string'' ''Request body (typically JSON). Omit for GET/DELETE/HEAD requests. Mutually exclusive with form_file.''),
       (''form_file'', property_of ''object'' (concat [''Send a multipart/form-data body with a file part streamed from a remote host at execution time '',
          em_dash,
          '' the bytes never transit the agent context. Keys: source_path (required, absolute path), source_host '',
          ''OR source_ctid (default: Proxmox host), field (form field name, default '', [CHR 0x22], ''file'',
          [CHR 0x22],
          ''), filename (default: source basename). POST/PUT/PATCH only; mutually exclusive with body.''])),
       (''form_fields'', property_of ''object'' (concat [''Extra string fields for the multipart body (requires form_file), e.g. {'', [CHR 0x22], ''name'',
          [CHR 0x22], '': '', [CHR 0x22], ''report.xlsx'', [CHR 0x22], ''}.''])),
       (''reason'', property_of ''string'' ''Why this request needs to be made (shown to the human reviewer)''),
       (''timeout'', property_of ''integer'' ''Request timeout in seconds (default: server default, max: server max)'')],
     tl_required = [''method'', ''url'', ''reason''],
     tl_annotations = no_annotations\<lparr>ta_open_world := Some True\<rparr>\<rparr>"

definition tool_run_script :: tool where
  "tool_run_script = \<lparr>
     tl_name = ''run_script'',
     tl_description = concat [''Run a named script on the relay. Supports shell scripts (.sh), Python scripts (.py), and JSON pipeline '',
         ''definitions (.json). Lookup order: .sh, .py, .json. Environment variables are available in all script '',
         ''types. Requires human approval.''],
     tl_properties = [(''name'', property_of ''string'' (concat [''Script name (e.g. '', [CHR 0x27], ''queue-to-doing'', [CHR 0x27],
          ''). Must match a file at /scripts/{name}.sh on the relay.''])),
       (''args'', (property_of ''array'' (concat [''Arguments to pass to the script. For shell/Python: positional args ($1, $2 / sys.argv). For JSON '',
          ''pipelines: available as ${1}, ${2}, etc.'']))
          \<lparr>pr_items := Some ''string''\<rparr>),
       (''reason'', property_of ''string'' ''Why this script needs to run (shown to the human reviewer)''),
       (''timeout'', property_of ''integer'' ''Script timeout in seconds (default: server default, max: server max)'')],
     tl_required = [''name'', ''reason''],
     tl_annotations = no_annotations\<lparr>ta_open_world := Some True\<rparr>\<rparr>"

definition tool_create_script :: tool where
  "tool_create_script = \<lparr>
     tl_name = ''create_script'',
     tl_description = concat [''Create or update a script on the relay. The human reviewer sees the full content before approving. '',
         ''Supports JSON pipelines, Python scripts, and shell scripts. Type is auto-detected: JSON objects become '',
         ''.json, shebang lines (#!/bin/bash, #!/bin/sh) become .sh, everything else becomes .py. Use run_script '',
         ''to execute them.''],
     tl_properties = [(''name'', property_of ''string'' (concat [''Script name (e.g. '', [CHR 0x27], ''queue-to-doing'', [CHR 0x27],
          ''). Alphanumeric, hyphens, and underscores only.''])),
       (''content'', property_of ''string'' (concat [''The full script content. JSON objects are saved as .json pipelines, scripts starting with #!/bin/bash '',
          ''or #!/bin/sh as .sh, everything else as .py.''])),
       (''reason'', property_of ''string'' ''Why this script is being created/updated (shown to the human reviewer)'')],
     tl_required = [''name'', ''content'', ''reason''],
     tl_annotations = no_annotations\<lparr>ta_open_world := Some True\<rparr>\<rparr>"

definition tool_create_then_run :: tool where
  "tool_create_then_run = \<lparr>
     tl_name = ''create_then_run'',
     tl_description = concat [''Create a oneshot script and run it in a single approval. The default target is /opt/human-relay/scripts/oneshot/<name>.{sh,py,json} '',
         ''(extension auto-detected from content, same rules as create_script). If <name> contains a slash it '',
         ''is used as-is (no oneshot/ prefix). Refuses if a file already exists at any extension of the target '',
         ''path. After the run, the script persists on disk and can be re-run via run_script(name='',
         [CHR 0x22], ''oneshot/<name>'', [CHR 0x22],
         ''). Use this for fire-once automation where a separate create_script + run_script round-trip would '',
         ''waste an approval.''],
     tl_properties = [(''name'', property_of ''string'' (concat [''Script name. Alphanumeric segments (hyphens/underscores allowed) joined by single slashes. No leading/trailing/double '',
          ''slashes, no '', [CHR 0x27], ''.'', [CHR 0x27], '' or '', [CHR 0x27], ''..'', [CHR 0x27],
          '' segments. Plain names default to oneshot/<name>.''])),
       (''content'', property_of ''string'' (concat [''The full script content. JSON objects saved as .json pipelines, scripts starting with #!/bin/bash '',
          ''or #!/bin/sh as .sh, everything else as .py.''])),
       (''args'', (property_of ''array'' ''Arguments passed to the script when it runs. Same shape as run_script args.'')
          \<lparr>pr_items := Some ''string''\<rparr>),
       (''reason'', property_of ''string'' ''Why this script is being created and run (shown to the human reviewer alongside the script content)''),
       (''timeout'', property_of ''integer'' ''Script timeout in seconds (default: server default, max: server max)'')],
     tl_required = [''name'', ''content'', ''reason''],
     tl_annotations = no_annotations\<lparr>ta_open_world := Some True\<rparr>\<rparr>"

definition tool_install_ssh_key :: tool where
  "tool_install_ssh_key = \<lparr>
     tl_name = ''install_ssh_key'',
     tl_description = concat [''Install an arbitrary SSH public key on a container. Routes via direct SSH if the relay has access, '',
         ''otherwise via pct exec through the Proxmox host. WARNING: This tool can grant SSH access to any key '',
         em_dash, '' use with caution. Requires human approval.''],
     tl_properties = [(''ctid'', property_of ''integer'' ''Target container ID (e.g. 125). Provide this OR machine.''),
       (''machine'', property_of ''string'' (concat [''Target machine name (non-LXC SSH target). Provide this OR ctid. Appends to the login user'',
          [CHR 0x27], ''s authorized_keys (~/.ssh on posix, %USERPROFILE%'', [CHR 0x5C],
          ''.ssh on powershell).''])),
       (''public_key'', property_of ''string'' (concat [''The SSH public key to install (e.g. '', [CHR 0x27], ''ssh-ed25519 AAAA... user@host'', [CHR 0x27],
          '')''])),
       (''reason'', property_of ''string'' ''Why you need to install this SSH key (shown to the human reviewer)''),
       (''timeout'', property_of ''integer'' ''Command timeout in seconds (default: server default, max: server max)'')],
     tl_required = [''public_key'', ''reason''],
     tl_annotations = no_annotations\<lparr>ta_destructive := Some False, ta_open_world := Some True\<rparr>\<rparr>"

definition tool_withdraw_request :: tool where
  "tool_withdraw_request = \<lparr>
     tl_name = ''withdraw_request'',
     tl_description = concat [''Retract a pending request before a human has decided on it. Use this when the agent realizes a submitted '',
         ''request was wrong (typo, stale plan, wrong target) and wants to prevent execution without waiting '',
         ''for the human to deny it. The request stays visible in the dashboard as WITHDRAWN with the supplied '',
         ''reason, but approve/deny/whitelist buttons are replaced with Mark Read. Only pending requests can '',
         ''be withdrawn; approved/running/complete/denied requests return an error.''],
     tl_properties = [(''request_id'', property_of ''string'' (concat [''The request ID returned by a previous tool call (request_command_for_relay, request_command_for_host, '',
          ''write_file, http_request, run_script, etc.)''])),
       (''reason'', property_of ''string'' ''Why the request is being withdrawn. Shown to the human reviewer alongside the WITHDRAWN marker.'')],
     tl_required = [''request_id'', ''reason''],
     tl_annotations = no_annotations\<lparr>ta_open_world := Some False\<rparr>\<rparr>"

definition declared_tools :: "tool list" where
  "declared_tools = [tool_request_command, tool_request_command_for_relay, tool_request_command_for_host, tool_get_result, tool_list_requests, tool_register_container, tool_list_containers, tool_delete_container, tool_exec_container, tool_register_machine, tool_list_machines, tool_delete_machine, tool_exec_machine, tool_write_file, tool_install_relay_ssh, tool_http_request, tool_run_script, tool_create_script, tool_create_then_run, tool_install_ssh_key, tool_withdraw_request]"

section \<open>The wait argument\<close>

definition wait_property :: "int \<Rightarrow> property" where
  "wait_property cap = property_of ''integer'' (concat
     [''Optional. Seconds to hold this call until the request is decided and has run, then return get_result'', [CHR 0x27],
      ''s payload in this same call. 0 (default) returns the request ID at once. Capped server-side at '',
      itoa (quot cap second), '' s (larger values are clamped); if the wait runs out first, the usual pending '',
      ''response comes back with wait_expired: true, so poll get_result with the request ID. '',
      ''It does not approve anything: an unapproved request still waits for a human.''])"

text \<open>init of submit_wait.go.\<close>

definition add_wait :: "int \<Rightarrow> tool \<Rightarrow> tool" where
  "add_wait cap t = (if tl_name t \<in> set wait_tools
     then t\<lparr>tl_properties := AList.update ''wait'' (wait_property cap) (tl_properties t)\<rparr> else t)"

definition tool_definitions :: "int \<Rightarrow> tool list" where
  "tool_definitions cap = map (add_wait cap) declared_tools"

text \<open>The \<open>schemas\<close> the server's tools/list answers with.\<close>

definition tools_json :: "int \<Rightarrow> jval" where
  "tools_json cap = JArr (map tool_json (tool_definitions cap))"

section \<open>What is advertised\<close>

lemmas tool_defs = tool_request_command_def tool_request_command_for_relay_def tool_request_command_for_host_def
  tool_get_result_def tool_list_requests_def tool_register_container_def tool_list_containers_def
  tool_delete_container_def tool_exec_container_def tool_register_machine_def tool_list_machines_def
  tool_delete_machine_def tool_exec_machine_def tool_write_file_def tool_install_relay_ssh_def
  tool_http_request_def tool_run_script_def tool_create_script_def tool_create_then_run_def
  tool_install_ssh_key_def tool_withdraw_request_def

definition dispatched_names :: "string list" where
  "dispatched_names = [''request_command'', ''request_command_for_relay'', ''request_command_for_host'', ''get_result'',
     ''list_requests'', ''register_container'', ''list_containers'', ''delete_container'', ''exec_container'',
     ''register_machine'', ''list_machines'', ''delete_machine'', ''exec_machine'', ''write_file'', ''install_relay_ssh'',
     ''http_request'', ''run_script'', ''create_script'', ''create_then_run'', ''install_ssh_key'', ''withdraw_request'']"

lemma declared_names: "map tl_name declared_tools = dispatched_names"
  by (simp add: declared_tools_def tool_defs dispatched_names_def)

lemma declared_required: "map (\<lambda>t. (tl_name t, tl_required t)) declared_tools =
  [(''request_command'', [''command'', ''reason'']), (''request_command_for_relay'', [''command'', ''reason'']),
   (''request_command_for_host'', [''command'', ''reason'']), (''get_result'', [''request_id'']), (''list_requests'', []),
   (''register_container'', [''ctid'', ''ip'', ''hostname'']), (''list_containers'', []), (''delete_container'', [''ctid'']),
   (''exec_container'', [''ctid'', ''command'', ''reason'']), (''register_machine'', [''name'', ''host'', ''ssh_user'']),
   (''list_machines'', []), (''delete_machine'', [''name'']), (''exec_machine'', [''machine'', ''command'', ''reason'']),
   (''write_file'', [''path'', ''reason'']), (''install_relay_ssh'', [''ctid'', ''reason'']),
   (''http_request'', [''method'', ''url'', ''reason'']), (''run_script'', [''name'', ''reason'']),
   (''create_script'', [''name'', ''content'', ''reason'']), (''create_then_run'', [''name'', ''content'', ''reason'']),
   (''install_ssh_key'', [''public_key'', ''reason'']), (''withdraw_request'', [''request_id'', ''reason''])]"
  by (simp add: declared_tools_def tool_defs)

lemma declared_read_only: "map tl_name (filter (\<lambda>t. ta_read_only (tl_annotations t) = Some True) declared_tools)
   = [''get_result'', ''list_requests'', ''list_containers'', ''list_machines'']"
  by (simp add: declared_tools_def tool_defs no_annotations_def)

lemma declared_have_no_wait: "list_all (\<lambda>t. ''wait'' \<notin> fst ` set (tl_properties t)
     \<and> list_all (\<lambda>k. k \<in> fst ` set (tl_properties t)) (tl_required t) \<and> gomap_ok (tl_properties t)) declared_tools"
  by (simp add: declared_tools_def tool_defs command_tool_props_def)

section \<open>What is required is checked\<close>

lemma missing_arg [simp]:
  "map_of args k = None \<Longrightarrow> arg_str args k = ''''" "map_of args k = None \<Longrightarrow> int_arg args k = 0"
  by (simp_all add: arg_str_def int_arg_def)

text \<open>A call refused on the spot: an error, and the handler as it was.\<close>

definition rejects :: "tool_handler \<Rightarrow> tool_result \<times> tool_handler \<Rightarrow> bool" where
  "rejects t out \<longleftrightarrow> (\<exists>e. out = (ToolError e, t))"

lemma rejects_error [simp]: "rejects t (ToolError e, t)"
  by (simp add: rejects_def)

lemma rejects_if: "(b \<Longrightarrow> rejects t x) \<Longrightarrow> (\<not> b \<Longrightarrow> rejects t y) \<Longrightarrow> rejects t (if b then x else y)"
  by simp

lemma parse_rejects:
  "map_of args ''command'' = None \<or> map_of args ''reason'' = None \<Longrightarrow> \<exists>e. parse_command_request args = Inl e"
  by (auto simp: parse_command_request_def Let_def)

lemma commands_reject:
  assumes "map_of args ''command'' = None \<or> map_of args ''reason'' = None"
  shows "rejects t (request_command_for_relay lib w args client t)" "rejects t (request_command_for_host lib w args client t)"
  using parse_rejects [OF assms] by (auto simp: request_command_for_relay_def request_command_for_host_def)

lemma container_rejects:
  "map_of args ''ctid'' = None \<or> map_of args ''command'' = None \<or> map_of args ''reason'' = None \<Longrightarrow>
     rejects t (exec_container w args client t)"
  by (auto simp: exec_container_def Let_def)

lemma machine_rejects:
  "map_of args ''machine'' = None \<or> map_of args ''command'' = None \<or> map_of args ''reason'' = None \<Longrightarrow>
     rejects t (exec_machine lib w args client t)"
  by (auto simp: exec_machine_def Let_def split: option.split)

lemma register_container_rejects:
  "map_of args ''ctid'' = None \<or> map_of args ''ip'' = None \<or> map_of args ''hostname'' = None \<Longrightarrow>
     rejects t (register_container w args client t)"
  by (auto simp: register_container_def Let_def)

lemma register_machine_rejects:
  "map_of args ''name'' = None \<or> map_of args ''host'' = None \<or> map_of args ''ssh_user'' = None \<Longrightarrow>
     rejects t (register_machine lib w args client t)"
  by (auto simp: register_machine_def Let_def)

lemma deletes_reject:
  "map_of args ''ctid'' = None \<Longrightarrow> rejects t (delete_container w args client t)"
  "map_of args ''name'' = None \<Longrightarrow> rejects t (delete_machine w args client t)"
  by (simp_all add: delete_container_def delete_machine_def Let_def)

lemma write_rejects:
  "map_of args ''path'' = None \<or> map_of args ''reason'' = None \<Longrightarrow> rejects t (write_file lib w args client t)"
  by (auto simp: write_file_def Let_def)

lemma http_rejects:
  "map_of args ''method'' = None \<or> map_of args ''url'' = None \<or> map_of args ''reason'' = None \<Longrightarrow>
     rejects t (http_request w args client t)"
  by (auto simp: http_request_def Let_def)

lemma scripts_reject:
  "map_of args ''name'' = None \<or> map_of args ''reason'' = None \<Longrightarrow> rejects t (run_script sha w args client t)"
  "map_of args ''name'' = None \<or> map_of args ''content'' = None \<or> map_of args ''reason'' = None \<Longrightarrow>
     rejects t (create_script lib w args client t)"
  "map_of args ''name'' = None \<or> map_of args ''content'' = None \<or> map_of args ''reason'' = None \<Longrightarrow>
     rejects t (create_then_run lib w args client t)"
  by (auto simp: run_script_def create_script_def create_then_run_def Let_def)

lemma keys_reject:
  "map_of args ''ctid'' = None \<or> map_of args ''reason'' = None \<Longrightarrow> rejects t (install_relay_ssh lib w args client t)"
  "map_of args ''public_key'' = None \<or> map_of args ''reason'' = None \<Longrightarrow> rejects t (install_ssh_key lib w args client t)"
  by (auto simp: install_relay_ssh_def install_ssh_key_def Let_def)

lemma withdraw_rejects:
  "map_of args ''request_id'' = None \<or> map_of args ''reason'' = None \<Longrightarrow> rejects t (withdraw_request w args t)"
  by (auto simp: withdraw_request_def Let_def)

lemma retired_rejects: "rejects t (request_command_retired t)"
  by (simp add: request_command_retired_def)

lemmas tools_reject = commands_reject container_rejects machine_rejects register_container_rejects
  register_machine_rejects deletes_reject write_rejects http_rejects scripts_reject keys_reject
  withdraw_rejects retired_rejects

text \<open>The cases of the switch.\<close>

lemma dispatch_cases:
  "dispatch_now lib w ''request_command'' args client h = request_command_retired h"
  "dispatch_now lib w ''request_command_for_relay'' args client h = request_command_for_relay lib w args client h"
  "dispatch_now lib w ''request_command_for_host'' args client h = request_command_for_host lib w args client h"
  "dispatch_now lib w ''list_requests'' args client h = (list_requests_tool lib args h, h)"
  "dispatch_now lib w ''register_container'' args client h = register_container w args client h"
  "dispatch_now lib w ''list_containers'' args client h = (list_containers lib h, h)"
  "dispatch_now lib w ''delete_container'' args client h = delete_container w args client h"
  "dispatch_now lib w ''exec_container'' args client h = exec_container w args client h"
  "dispatch_now lib w ''register_machine'' args client h = register_machine lib w args client h"
  "dispatch_now lib w ''list_machines'' args client h = (list_machines lib h, h)"
  "dispatch_now lib w ''delete_machine'' args client h = delete_machine w args client h"
  "dispatch_now lib w ''exec_machine'' args client h = exec_machine lib w args client h"
  "dispatch_now lib w ''write_file'' args client h = write_file lib w args client h"
  "dispatch_now lib w ''http_request'' args client h = http_request w args client h"
  "dispatch_now lib w ''run_script'' args client h = run_script (lib_sha256 lib) w args client h"
  "dispatch_now lib w ''create_script'' args client h = create_script lib w args client h"
  "dispatch_now lib w ''create_then_run'' args client h = create_then_run lib w args client h"
  "dispatch_now lib w ''install_relay_ssh'' args client h = install_relay_ssh lib w args client h"
  "dispatch_now lib w ''install_ssh_key'' args client h = install_ssh_key lib w args client h"
  "dispatch_now lib w ''withdraw_request'' args client h = withdraw_request w args h"
  by (simp_all add: dispatch_now_def)

lemma required_checked:
  assumes "(name, req) \<in> set (map (\<lambda>t. (tl_name t, tl_required t)) declared_tools)"
    and "list_ex (\<lambda>k. map_of args k = None) req" and "name \<noteq> ''get_result''"
  shows "rejects t (dispatch_now lib w name args client t)"
  using assms unfolding declared_required
  by (simp only: list.set insert_iff empty_iff prod.inject simp_thms)
    (elim disjE conjE; simp add: dispatch_cases tools_reject)

section \<open>Properties: schemas and handlers\<close>

lemma keys_update: "fst ` set (AList.update k v m) = insert k (fst ` set m)"
  by (induction m) auto

text \<open>The handler behind each name, in the order of the schemas.\<close>

definition handler_table :: "golib \<Rightarrow> tool_world \<Rightarrow> (wake \<times> store) list \<Rightarrow> tool_args \<Rightarrow> string \<Rightarrow> tool_handler
    \<Rightarrow> (string \<times> (tool_result option \<times> tool_handler)) list" where
  "handler_table lib w wakes args client h =
     [(''request_command'', apfst Some (request_command_retired h)),
      (''request_command_for_relay'', apfst Some (request_command_for_relay lib w args client h)),
      (''request_command_for_host'', apfst Some (request_command_for_host lib w args client h)),
      (''get_result'', (get_result lib args wakes h, h)),
      (''list_requests'', (Some (list_requests_tool lib args h), h)),
      (''register_container'', apfst Some (register_container w args client h)),
      (''list_containers'', (Some (list_containers lib h), h)),
      (''delete_container'', apfst Some (delete_container w args client h)),
      (''exec_container'', apfst Some (exec_container w args client h)),
      (''register_machine'', apfst Some (register_machine lib w args client h)),
      (''list_machines'', (Some (list_machines lib h), h)),
      (''delete_machine'', apfst Some (delete_machine w args client h)),
      (''exec_machine'', apfst Some (exec_machine lib w args client h)),
      (''write_file'', apfst Some (write_file lib w args client h)),
      (''install_relay_ssh'', apfst Some (install_relay_ssh lib w args client h)),
      (''http_request'', apfst Some (http_request w args client h)),
      (''run_script'', apfst Some (run_script (lib_sha256 lib) w args client h)),
      (''create_script'', apfst Some (create_script lib w args client h)),
      (''create_then_run'', apfst Some (create_then_run lib w args client h)),
      (''install_ssh_key'', apfst Some (install_ssh_key lib w args client h)),
      (''withdraw_request'', apfst Some (withdraw_request w args h))]"

lemma handler_table_names: "map fst (handler_table lib w wakes args client h) = dispatched_names"
  by (simp add: handler_table_def dispatched_names_def)

lemma dispatch_by_table:
  "dispatch_tool lib w wakes name args client h =
     (case map_of (handler_table lib w wakes args client h) name of
        Some out \<Rightarrow> out
      | None \<Rightarrow> (Some (ToolError (''unknown tool: '' @ name)), h))"
proof (cases "name \<in> set dispatched_names")
  case True
  then show ?thesis
    by (simp only: dispatched_names_def list.set insert_iff empty_iff simp_thms)
      (elim disjE; simp add: dispatch_tool_def dispatch_cases handler_table_def)
next
  case False
  then have "map_of (handler_table lib w wakes args client h) name = None"
    unfolding map_of_eq_None_iff handler_table_names [of lib w wakes args client h, symmetric] by simp
  moreover have "dispatch_tool lib w wakes name args client h = (Some (ToolError (''unknown tool: '' @ name)), h)"
    using False by (simp add: dispatched_names_def dispatch_tool_def dispatch_now_def)
  ultimately show ?thesis by simp
qed

text \<open>C33. The server advertises exactly the tools it dispatches. The names of the advertised tools are
  distinct and are exactly the names that have a handler: a call to an advertised name is answered by
  its own handler, and every other name is answered as unknown and changes nothing. Each schema is
  consistent, its required parameters are among its properties, and the \<open>wait\<close> property is there
  exactly for the tools whose calls wait.\<close>

theorem tools_advertised_as_dispatched:
  "map tl_name (tool_definitions cap) = map fst (handler_table lib w wakes args client h)
   \<and> distinct (map tl_name (tool_definitions cap))
   \<and> (\<forall>t\<in>set (tool_definitions cap). set (tl_required t) \<subseteq> fst ` set (tl_properties t)
        \<and> (''wait'' \<in> fst ` set (tl_properties t) \<longleftrightarrow> tl_name t \<in> set wait_tools))
   \<and> dispatch_tool lib w wakes name args client h =
       (case map_of (handler_table lib w wakes args client h) name of
          Some out \<Rightarrow> out
        | None \<Rightarrow> (Some (ToolError (''unknown tool: '' @ name)), h))"
proof -
  have name: "tl_name (add_wait cap t) = tl_name t" "tl_required (add_wait cap t) = tl_required t" for t
    by (simp_all add: add_wait_def)
  have props: "fst ` set (tl_properties (add_wait cap t))
      = (if tl_name t \<in> set wait_tools then insert ''wait'' (fst ` set (tl_properties t)) else fst ` set (tl_properties t))" for t
    by (simp add: add_wait_def keys_update)
  have each: "set (tl_required t) \<subseteq> fst ` set (tl_properties t) \<and> (''wait'' \<in> fst ` set (tl_properties t) \<longleftrightarrow> tl_name t \<in> set wait_tools)"
    if t: "t \<in> set (tool_definitions cap)" for t
  proof -
    from t obtain t0 where t0: "t0 \<in> set declared_tools" "t = add_wait cap t0" unfolding tool_definitions_def by auto
    then have "''wait'' \<notin> fst ` set (tl_properties t0)" "set (tl_required t0) \<subseteq> fst ` set (tl_properties t0)"
      using declared_have_no_wait by (auto simp: list_all_iff)
    then show ?thesis by (auto simp: t0(2) name props)
  qed
  have names: "map tl_name (tool_definitions cap) = dispatched_names"
    using declared_names by (simp add: tool_definitions_def name comp_def)
  moreover have "distinct dispatched_names" by (simp add: dispatched_names_def)
  ultimately show ?thesis using each handler_table_names dispatch_by_table by metis
qed

theorem tools_advertised_as_dispatched_witness:
  "(\<exists>t\<in>set (tool_definitions 0). tl_name t = ''write_file'' \<and> ''wait'' \<in> fst ` set (tl_properties t))
   \<and> fst (dispatch_tool demo_lib demo_tool_world [] ''rm'' [] ''ci'' demo_tools) = Some (ToolError ''unknown tool: rm'')
   \<and> fst (dispatch_tool demo_lib demo_tool_world [] ''list_machines'' [] ''ci'' demo_tools)
       = Some (list_machines demo_lib demo_tools)"
proof -
  note all = tools_advertised_as_dispatched [of 0 demo_lib demo_tool_world "[]" "[]" "''ci''" demo_tools]
  have "''write_file'' \<in> set (map tl_name (tool_definitions 0))"
    using all [of "''rm''", THEN conjunct1] by (simp add: handler_table_def)
  then obtain t where t: "t \<in> set (tool_definitions 0)" "tl_name t = ''write_file''" by auto
  moreover have "''wait'' \<in> fst ` set (tl_properties t)"
    using all [of "''rm''"] t by (simp add: wait_tools_def)
  moreover have "fst (dispatch_tool demo_lib demo_tool_world [] ''rm'' [] ''ci'' demo_tools) = Some (ToolError ''unknown tool: rm'')"
    using all [of "''rm''"] by (simp add: handler_table_def)
  moreover have "fst (dispatch_tool demo_lib demo_tool_world [] ''list_machines'' [] ''ci'' demo_tools)
       = Some (list_machines demo_lib demo_tools)"
    using all [of "''list_machines''"] by (simp add: handler_table_def)
  ultimately show ?thesis by blast
qed

text \<open>C32. The schemas' promises are kept: a tool annotated read-only leaves the store, the audit log and
  all settings as they are whatever its arguments, and a call that leaves out a required parameter is
  refused with an error before anything changes.\<close>

theorem schema_promises_kept:
  assumes "t \<in> set (tool_definitions cap)"
  shows "(ta_read_only (tl_annotations t) = Some True \<longrightarrow> snd (dispatch_tool lib w wakes (tl_name t) args client h) = h)
     \<and> (list_ex (\<lambda>k. map_of args k = None) (tl_required t) \<longrightarrow>
          (\<exists>e. dispatch_tool lib w wakes (tl_name t) args client h = (Some (ToolError e), h)))"
proof -
  from assms obtain t0 where t0: "t0 \<in> set declared_tools" and "t = add_wait cap t0" unfolding tool_definitions_def by auto
  then have t: "tl_name t = tl_name t0" "tl_required t = tl_required t0" "tl_annotations t = tl_annotations t0"
    by (simp_all add: add_wait_def)
  have pair: "(tl_name t0, tl_required t0) \<in> set (map (\<lambda>t. (tl_name t, tl_required t)) declared_tools)" using t0 by force
  have "tl_name t0 \<in> set (map tl_name (filter (\<lambda>t. ta_read_only (tl_annotations t) = Some True) declared_tools))"
    if "ta_read_only (tl_annotations t0) = Some True"
    using t0 that by force
  then have ro: "ta_read_only (tl_annotations t0) = Some True \<longrightarrow> snd (dispatch_tool lib w wakes (tl_name t0) args client h) = h"
    unfolding declared_read_only by (auto simp: dispatch_tool_def dispatch_cases)
  have "\<exists>e. dispatch_tool lib w wakes (tl_name t0) args client h = (Some (ToolError e), h)"
    if missing: "list_ex (\<lambda>k. map_of args k = None) (tl_required t0)"
  proof (cases "tl_name t0 = ''get_result''")
    case True
    then have "tl_required t0 = [''request_id'']"
      using pair unfolding declared_required by simp
    then show ?thesis using True missing by (simp add: dispatch_tool_def get_result_def Let_def)
  next
    case False
    then show ?thesis
      using required_checked [OF pair missing, of h lib w client] by (auto simp: rejects_def dispatch_tool_def apfst_def)
  qed
  with ro show ?thesis by (simp add: t)
qed

theorem schema_promises_kept_witness:
  "\<exists>e. dispatch_tool demo_lib demo_tool_world [] ''exec_machine'' [(''machine'', JStr ''win'')] ''ci'' demo_tools
     = (Some (ToolError e), demo_tools)"
proof -
  have "(''exec_machine'', [''machine'', ''command'', ''reason'']) \<in> set (map (\<lambda>t. (tl_name t, tl_required t)) declared_tools)"
    unfolding declared_required by simp
  then obtain t where t: "t \<in> set declared_tools" "tl_name t = ''exec_machine''" "tl_required t = [''machine'', ''command'', ''reason'']"
    by auto
  have "add_wait 0 t \<in> set (tool_definitions 0)" using t(1) by (simp add: tool_definitions_def)
  moreover have "tl_name (add_wait 0 t) = ''exec_machine''" "tl_required (add_wait 0 t) = [''machine'', ''command'', ''reason'']"
    using t(2,3) by (simp_all add: add_wait_def)
  ultimately show ?thesis
    using schema_promises_kept [of "add_wait 0 t" 0 demo_lib demo_tool_world "[]" "[(''machine'', JStr ''win'')]" "''ci''" demo_tools] by simp
qed

end
