(* ===== verification/Mcp_Streams.thy ===== *)
theory Mcp_Streams
  imports Agent_System
begin

text \<open>
  The event streams of the MCP port as a type: the invariant of the session table, that every
  operation of the server keeps it, and that an answer reaches the caller's own session only.
\<close>

section \<open>The invariant\<close>

lemma digit_char_inject: "a < 10 \<Longrightarrow> b < 10 \<Longrightarrow> digit_char a = digit_char b \<Longrightarrow> a = b"
  by (metis char_digit_digit_char option.inject)

lemma nat_str_inject: "nat_str a = nat_str b \<Longrightarrow> a = b"
  by (metis digits_val_nat_str option.inject)

lemma session_name_inject: "0 \<le> a \<Longrightarrow> 0 \<le> b \<Longrightarrow> session_name a = session_name b \<Longrightarrow> a = b"
  using nat_str_inject [of "nat a" "nat b"] by (simp add: session_name_def itoa_def)

text \<open>Every registered session carries a number drawn before, and no channel is over its buffer.\<close>

definition server_wf :: "server \<Rightarrow> bool" where
  "server_wf sv \<longleftrightarrow> 0 \<le> sv_next_id sv \<and> sv_next_id sv \<le> max_int64
     \<and> (\<forall>sid q. sv_clients sv sid = Some q \<longrightarrow> length q \<le> 100
          \<and> (\<exists>n. 0 < n \<and> n \<le> sv_next_id sv \<and> sid = session_name n))"

lemma server_wf_new: "server_wf (new_server raw)"
  by (simp add: server_wf_def new_server_def max_int64_def)

lemma server_wf_close: "server_wf sv \<Longrightarrow> server_wf (close_stream sid sv)"
  by (auto simp: server_wf_def close_stream_def)

lemma server_wf_next: "server_wf sv \<Longrightarrow> server_wf (snd (next_message sid sv))"
  by (auto simp: server_wf_def next_message_def split: option.split list.split) force+

lemma server_wf_answer: "server_wf sv \<Longrightarrow> server_wf (snd (message_answer lib sid d sv))"
  by (auto simp: server_wf_def message_answer_def chan_send_bound split: dispatched.split option.split)

lemma handle_message_server:
  "fst (snd (handle_message lib schemas decode decode_call w wakes ctx sid raw sv t)) = sv
   \<or> (\<exists>rq d t'. message_request decode sid raw sv = Inr rq
        \<and> dispatch_rpc lib schemas decode_call w wakes rq (ctx_client_from ctx) t = (d, t')
        \<and> fst (snd (handle_message lib schemas decode decode_call w wakes ctx sid raw sv t)) = snd (message_answer lib sid d sv))"
  by (auto simp: handle_message_def split: sum.split prod.split)

lemma server_wf_message:
  "server_wf sv \<Longrightarrow> server_wf (fst (snd (handle_message lib schemas decode decode_call w wakes ctx sid raw sv t)))"
  using handle_message_server [of lib schemas decode decode_call w wakes ctx sid raw sv t] server_wf_answer by fastforce

section \<open>Properties\<close>

text \<open>C30. The session table is well typed from start-up on, whatever the environment configured: every
  registered session has a name drawn before and at most a hundred waiting messages, and every
  operation of the server keeps it so. A stream is opened under a name no session has, with an empty
  channel, until the counter has run through 64 bits.\<close>

theorem server_operations_wf:
  assumes "server_wf sv" and "sv_next_id sv < max_int64"
  shows "server_wf (new_server raw) \<and> server_wf (snd (open_stream sv)) \<and> server_wf (close_stream sid sv)
     \<and> server_wf (snd (next_message sid sv))
     \<and> server_wf (fst (snd (handle_message lib schemas decode decode_call w wakes ctx sid body sv t)))
     \<and> sv_clients sv (session_name (sv_next_id sv + 1)) = None
     \<and> sv_clients (snd (open_stream sv)) = (sv_clients sv)(session_name (sv_next_id sv + 1) \<mapsto> [])"
proof -
  let ?n = "sv_next_id sv + 1"
  have range: "0 \<le> sv_next_id sv" using assms(1) by (simp add: server_wf_def)
  have n: "wrap64 ?n = ?n"
    using range assms(2) by (intro wrap64_id) (simp add: in_int64_def min_int64_def)
  have fresh: "sv_clients sv (session_name ?n) = None"
  proof (rule ccontr)
    assume "sv_clients sv (session_name ?n) \<noteq> None"
    then obtain k where "0 < k" "k \<le> sv_next_id sv" "session_name ?n = session_name k"
      using assms(1) unfolding server_wf_def by blast
    then show False using session_name_inject [of ?n k] range by simp
  qed
  have opened: "sv_clients (snd (open_stream sv)) = (sv_clients sv)(session_name ?n \<mapsto> [])" "sv_next_id (snd (open_stream sv)) = ?n"
    by (simp_all add: open_stream_def Let_def n)
  have "server_wf (snd (open_stream sv))"
    unfolding server_wf_def opened using assms range by (auto simp: server_wf_def) force+
  then show ?thesis
    using assms fresh opened(1)
    by (simp add: server_wf_new server_wf_close server_wf_next server_wf_message)
qed

theorem server_operations_wf_witness:
  "sv_clients (snd (open_stream (new_server ''''))) ''session-1'' = Some []"
proof -
  have "server_wf (new_server '''')" "sv_next_id (new_server '''') < max_int64"
    by (simp_all add: server_wf_new) (simp add: new_server_def max_int64_def)
  from server_operations_wf [OF this] show ?thesis
    by (simp add: new_server_def session_name_1)
qed

text \<open>C31. An answer goes to the session of its call and to no other. A message is answered on the
  caller's channel only, with the id of the request, behind what waits there, and is dropped when
  that channel is full or the session has closed; a message to an unknown session or one that is no
  JSON-RPC request is refused and neither runs a tool nor touches a channel.\<close>

theorem answers_stay_in_session:
  assumes "out = handle_message lib schemas decode decode_call w wakes ctx sid body sv t"
  shows "(\<forall>other. other \<noteq> sid \<longrightarrow> sv_clients (fst (snd out)) other = sv_clients sv other)
     \<and> (sv_clients (fst (snd out)) sid = sv_clients sv sid
        \<or> (\<exists>rq q v. decode (message_body body) = Some rq \<and> sv_clients sv sid = Some q \<and> length q < 100
             \<and> sv_clients (fst (snd out)) sid = Some (q @ [lib_marshal lib (rpc_response_json \<lparr>rs_id = rq_id rq, rs_result = v\<rparr>)])))
     \<and> (sv_clients sv sid = None \<or> decode (message_body body) = None \<longrightarrow> snd out = (sv, t))"
proof -
  have id: "\<exists>v. rs = \<lparr>rs_id = rq_id rq, rs_result = v\<rparr>"
    if "dispatch_rpc lib schemas decode_call w wakes rq c t = (Answer rs, t')" for rq c rs t'
    using that by (auto simp: dispatch_rpc_def Let_def split: if_splits prod.splits option.splits)
  have req: "message_request decode sid body sv = Inr rq \<Longrightarrow> decode (message_body body) = Some rq" for rq
    by (auto simp: message_request_def split: option.splits)
  have other: "other \<noteq> sid \<Longrightarrow> sv_clients (snd (message_answer lib sid d sv)) other = sv_clients sv other" for other d
    by (simp add: message_answer_def split: dispatched.split option.split)
  have own: "sv_clients (snd (message_answer lib sid d sv)) sid = sv_clients sv sid
      \<or> (\<exists>rs q. d = Answer rs \<and> sv_clients sv sid = Some q \<and> length q < 100
           \<and> sv_clients (snd (message_answer lib sid d sv)) sid = Some (q @ [lib_marshal lib (rpc_response_json rs)]))" for d
    by (auto simp: message_answer_def chan_send_def split: dispatched.split option.split)
  have refused: "sv_clients sv sid = None \<or> decode (message_body body) = None \<longrightarrow> snd out = (sv, t)"
    by (auto simp: assms handle_message_def message_request_def split: option.split)
  from handle_message_server [of lib schemas decode decode_call w wakes ctx sid body sv t] show ?thesis
  proof (elim disjE exE conjE)
    assume "fst (snd (handle_message lib schemas decode decode_call w wakes ctx sid body sv t)) = sv"
    then show ?thesis using refused by (simp add: assms)
  next
    fix rq d t'
    assume "message_request decode sid body sv = Inr rq"
      and d: "dispatch_rpc lib schemas decode_call w wakes rq (ctx_client_from ctx) t = (d, t')"
      and sv': "fst (snd (handle_message lib schemas decode decode_call w wakes ctx sid body sv t)) = snd (message_answer lib sid d sv)"
    then have rq: "decode (message_body body) = Some rq" by (rule_tac req)
    have sv'': "fst (snd out) = snd (message_answer lib sid d sv)" using sv' by (simp add: assms)
    show ?thesis
      unfolding sv'' using refused other own [of d] id [of rq "ctx_client_from ctx" _ t'] d rq by blast
  qed
qed

theorem answers_stay_in_session_witness:
  "sv_clients (fst (snd (handle_message demo_lib (JArr []) demo_decode (demo_call ''list_machines'' []) demo_tool_world []
      no_ctx ''session-9'' ''{}'' demo_server demo_tools))) ''session-1'' = Some []"
  using answers_stay_in_session [where sid = "''session-9''" and sv = demo_server, OF refl, of demo_lib "JArr []" demo_decode
      "demo_call ''list_machines'' []" demo_tool_world "[]" no_ctx "''{}''" demo_tools] demo_session(1)
  by simp

end
