(* ===== verification/Approver_Env.thy ===== *)
theory Approver_Env
  imports Auth
begin

text \<open>
  approver_env.go, reexec_unix.go and the start of main.go: how the relay learns who may
  approve. An environment block is the list of its entries, duplicates included. The checks that
  end in log.Fatal are the left side of a sum.
\<close>

definition approver_token_var :: string where "approver_token_var = ''MHR_APPROVER_TOKEN''"
definition approver_digest_var :: string where "approver_digest_var = ''MHR_APPROVER_TOKEN_SHA256''"

section \<open>Reading the environment\<close>

text \<open>\<open>raw\<close> is /proc/self/environ when it could be read; otherwise os.Environ is used.\<close>

definition initial_environ :: "string option \<Rightarrow> string list \<Rightarrow> string list" where
  "initial_environ raw os_environ =
     (case raw of None \<Rightarrow> os_environ
      | Some r \<Rightarrow> filter (\<lambda>kv. kv \<noteq> '''') (split_on (CHR 0x00) r))"

record approver_env =
  ae_token :: string
  ae_digest_hex :: string

datatype env_error = SetTwice string | WhitespaceOnly string

definition no_env :: approver_env where
  "no_env = \<lparr>ae_token = '''', ae_digest_hex = ''''\<rparr>"

fun read_env_from :: "(string \<Rightarrow> nat) \<Rightarrow> approver_env \<Rightarrow> string list \<Rightarrow> env_error + approver_env" where
  "read_env_from seen e [] = Inr e"
| "read_env_from seen e (kv # rest) =
     (case str_cut CHR ''='' kv of
        None \<Rightarrow> read_env_from seen e rest
      | Some (key, val) \<Rightarrow>
          if key \<noteq> approver_token_var \<and> key \<noteq> approver_digest_var then read_env_from seen e rest
          else
            let seen' = seen(key := seen key + 1) in
            if seen' key > 1 then Inl (SetTwice key)
            else if val \<noteq> '''' \<and> trim_space val = '''' then Inl (WhitespaceOnly key)
            else read_env_from seen'
                   (if key = approver_token_var then e\<lparr>ae_token := val\<rparr> else e\<lparr>ae_digest_hex := val\<rparr>) rest)"

definition read_approver_env :: "string list \<Rightarrow> env_error + approver_env" where
  "read_approver_env environ = read_env_from (\<lambda>_. 0) no_env environ"

definition approver_value_present :: "string list \<Rightarrow> bool" where
  "approver_value_present environ =
     list_ex (\<lambda>kv. case str_cut CHR ''='' kv of None \<Rightarrow> False
              | Some (key, val) \<Rightarrow> val \<noteq> '''' \<and> (key = approver_token_var \<or> key = approver_digest_var))
       environ"

definition is_approver_entry :: "string \<Rightarrow> bool" where
  "is_approver_entry kv \<longleftrightarrow> prefix (approver_token_var @ ''='') kv \<or> prefix (approver_digest_var @ ''='') kv"

definition scrubbed_approver_env :: "string list \<Rightarrow> string \<Rightarrow> string list" where
  "scrubbed_approver_env environ digestHex =
     filter (\<lambda>kv. \<not> is_approver_entry kv) environ @ [approver_digest_var @ ''='' @ digestHex]"

section \<open>Re-exec\<close>

text \<open>What scrubPlaintextApproverToken does: nothing, or replace the process by this binary
  with another environment (if that fails the relay does not start).\<close>

definition scrub_plaintext :: "(string \<Rightarrow> string) \<Rightarrow> string list \<Rightarrow> string list option" where
  "scrub_plaintext sha environ =
     (case read_approver_env environ of
        Inl _ \<Rightarrow> None
      | Inr e \<Rightarrow> if ae_token e = '''' \<or> ae_digest_hex e \<noteq> '''' then None
                 else Some (scrubbed_approver_env environ (hex_encode (sha (ae_token e)))))"

section \<open>The approver's digest\<close>

datatype startup_error = BadEnvironment env_error | BothSet | BadDigest | Backstop
  | NoAuthToken | SharedWithAuthToken | SharedWithClient string | ClientRegistryError registry_error

definition approver_digest_from_env :: "(string \<Rightarrow> string) \<Rightarrow> string list \<Rightarrow> startup_error + string option" where
  "approver_digest_from_env sha environ =
     (case read_approver_env environ of
        Inl e \<Rightarrow> Inl (BadEnvironment e)
      | Inr e \<Rightarrow>
          if ae_token e \<noteq> '''' \<and> ae_digest_hex e \<noteq> '''' then Inl BothSet
          else if ae_token e \<noteq> '''' then Inr (Some (sha (ae_token e)))
          else if ae_digest_hex e \<noteq> '''' then
            (case parse_token_digest (trim_space (ae_digest_hex e)) of
               None \<Rightarrow> Inl BadDigest | Some d \<Rightarrow> Inr (Some d))
          else if approver_value_present environ then Inl Backstop
          else Inr None)"

section \<open>Settings\<close>

text \<open>os.Getenv reads the first entry of a key.\<close>

fun env_lookup :: "string list \<Rightarrow> string \<Rightarrow> string" where
  "env_lookup [] key = ''''"
| "env_lookup (kv # rest) key =
     (case str_cut CHR ''='' kv of
        Some (k, v) \<Rightarrow> if k = key then v else env_lookup rest key
      | None \<Rightarrow> env_lookup rest key)"

definition env_int :: "string list \<Rightarrow> string \<Rightarrow> int \<Rightarrow> int" where
  "env_int environ key def =
     (let v = env_lookup environ key in
      if v \<noteq> '''' then (case atoi v of Some n \<Rightarrow> n | None \<Rightarrow> def) else def)"

definition env_string :: "string list \<Rightarrow> string \<Rightarrow> string \<Rightarrow> string" where
  "env_string environ key def = (let v = env_lookup environ key in if v \<noteq> '''' then v else def)"

definition allowed_dirs_from :: "string list \<Rightarrow> string list" where
  "allowed_dirs_from environ =
     (let dirs = env_lookup environ ''MHR_ALLOWED_DIRS'' in
      if dirs \<noteq> '''' then filter (\<lambda>d. d \<noteq> '''') (map trim_space (split_on CHR '','' dirs)) else [])"

section \<open>Starting\<close>

text \<open>What main hands to the two ports: the MCP port's verifier, the web port's, and whether
  decisions need the approver. The approver variables are read from the initial environment block
  \<open>block\<close>, the auth token through os.Getenv from Go's copy.\<close>

record ports =
  pt_mcp :: verifier
  pt_web :: verifier
  pt_approver_required :: bool

definition start_ports :: "(string \<Rightarrow> string) \<Rightarrow> string list \<Rightarrow> string list \<Rightarrow> client_registry
    \<Rightarrow> startup_error + ports" where
  "start_ports sha block environ reg =
     (let authToken = env_lookup environ ''MHR_AUTH_TOKEN'' in
      if authToken = '''' then Inl NoAuthToken
      else
        let v = new_verifier sha authToken in
        (case approver_digest_from_env sha block of
           Inl e \<Rightarrow> Inl e
         | Inr None \<Rightarrow> Inr \<lparr>pt_mcp = v, pt_web = v, pt_approver_required = False\<rparr>
         | Inr (Some d) \<Rightarrow>
             if d = sha authToken then Inl SharedWithAuthToken
             else (case match_digest d reg of
                     Some name \<Rightarrow> Inl (SharedWithClient name)
                   | None \<Rightarrow> Inr \<lparr>pt_mcp = v, pt_web = with_approver_digest d v,
                                  pt_approver_required = True\<rparr>)))"

section \<open>Client commands\<close>

text \<open>handleClientCommand: whether the arguments were a client command, its exit code, what it
  prints to stdout, and the file it leaves. Every command loads the registry anew.\<close>

definition client_line :: "golib \<Rightarrow> client \<Rightarrow> string" where
  "client_line lib c =
     cl_name c @ CHR 0x09 # lib_time lib (cl_created_at c) @ CHR 0x09
       # (case cl_last_seen_at c of None \<Rightarrow> ''never'' | Some t \<Rightarrow> lib_time lib t)
       @ CHR 0x09 # (if revoked c then ''revoked'' else ''active'')"

definition handle_client_command :: "golib \<Rightarrow> int \<Rightarrow> string + string \<Rightarrow> client list write_outcome
    \<Rightarrow> string list \<Rightarrow> string \<Rightarrow> client list disk \<Rightarrow> (int \<times> string list) option \<times> client list disk" where
  "handle_client_command lib now rnd w args path d =
     (case args of
        [] \<Rightarrow> (None, d)
      | cmd # params \<Rightarrow>
          if cmd = ''-client-add'' then
            (case params of
               name # _ \<Rightarrow>
                 if name = '''' then (Some (2, []), d)
                 else (case new_client_registry path d of
                         Inl _ \<Rightarrow> (Some (1, []), d)
                       | Inr reg \<Rightarrow>
                           (case cr_add (lib_sha256 lib) now rnd w name reg of
                              (Inl _, reg') \<Rightarrow> (Some (1, []), cr_disk reg')
                            | (Inr token, reg') \<Rightarrow> (Some (0, [token]), cr_disk reg')))
             | [] \<Rightarrow> (Some (2, []), d))
          else if cmd = ''-client-list'' then
            (case new_client_registry path d of
               Inl _ \<Rightarrow> (Some (1, []), d)
             | Inr reg \<Rightarrow> (Some (0, map (client_line lib) (cr_list reg)), d))
          else if cmd = ''-client-revoke'' then
            (case params of
               name # _ \<Rightarrow>
                 if name = '''' then (Some (2, []), d)
                 else (case new_client_registry path d of
                         Inl _ \<Rightarrow> (Some (1, []), d)
                       | Inr reg \<Rightarrow>
                           (case cr_revoke now w name reg of
                              (Some _, reg') \<Rightarrow> (Some (1, []), cr_disk reg')
                            | (None, reg') \<Rightarrow> (Some (0, []), cr_disk reg')))
             | [] \<Rightarrow> (Some (2, []), d))
          else (None, d))"

section \<open>Lemmas\<close>

lemma var_no_eq: "CHR ''='' \<notin> set approver_token_var" "CHR ''='' \<notin> set approver_digest_var"
  by (simp_all add: approver_token_var_def approver_digest_var_def)

lemma vars_differ [simp]: "approver_token_var \<noteq> approver_digest_var" "approver_digest_var \<noteq> approver_token_var"
  by (simp_all add: approver_token_var_def approver_digest_var_def)

text \<open>The two ways the file looks at an entry agree.\<close>

lemma is_approver_entry_cut:
  "is_approver_entry kv \<longleftrightarrow>
     (\<exists>key val. str_cut CHR ''='' kv = Some (key, val) \<and> (key = approver_token_var \<or> key = approver_digest_var))"
  using str_cut_prefix [OF var_no_eq(1), of kv] str_cut_prefix [OF var_no_eq(2), of kv]
  by (auto simp: is_approver_entry_def)

text \<open>The settings of the two variables, and what reading them amounts to.\<close>

definition settings :: "string \<Rightarrow> string list \<Rightarrow> string list" where
  "settings key environ = concat (map (\<lambda>kv. case str_cut CHR ''='' kv of None \<Rightarrow> []
     | Some (k, v) \<Rightarrow> if k = key then [v] else []) environ)"

lemma settings_Cons:
  "settings key (kv # rest) = (case str_cut CHR ''='' kv of None \<Rightarrow> []
     | Some (k, v) \<Rightarrow> if k = key then [v] else []) @ settings key rest"
  by (simp add: settings_def)

definition usable :: "string \<Rightarrow> bool" where
  "usable v \<longleftrightarrow> v = '''' \<or> trim_space v \<noteq> ''''"

definition last_or :: "string \<Rightarrow> string list \<Rightarrow> string" where
  "last_or d vs = (case vs of [] \<Rightarrow> d | v # _ \<Rightarrow> v)"

lemma read_env_from_Inr:
  "read_env_from seen e environ = Inr e' \<longleftrightarrow>
     (\<forall>key\<in>{approver_token_var, approver_digest_var}.
        (settings key environ = [] \<or> seen key + length (settings key environ) \<le> 1)
        \<and> (\<forall>v\<in>set (settings key environ). usable v))
     \<and> e' = \<lparr>ae_token = last_or (ae_token e) (settings approver_token_var environ),
             ae_digest_hex = last_or (ae_digest_hex e) (settings approver_digest_var environ)\<rparr>"
proof (induction environ arbitrary: seen e)
  case Nil
  then show ?case by (cases e) (auto simp: settings_def last_or_def)
next
  case (Cons kv rest)
  show ?case
  proof (cases "str_cut CHR ''='' kv")
    case None
    then show ?thesis by (simp add: settings_Cons Cons.IH)
  next
    case (Some kval)
    obtain key val where kv: "str_cut CHR ''='' kv = Some (key, val)" using Some by (cases kval) auto
    consider "key = approver_token_var" | "key = approver_digest_var"
      | "key \<noteq> approver_token_var" "key \<noteq> approver_digest_var" by blast
    then show ?thesis
    proof cases
      case 1
      then show ?thesis
        by (cases "settings approver_token_var rest")
          (auto simp: settings_Cons kv Cons.IH Let_def usable_def last_or_def)
    next
      case 2
      then show ?thesis
        by (cases "settings approver_digest_var rest")
          (auto simp: settings_Cons kv Cons.IH Let_def usable_def last_or_def)
    next
      case 3
      then show ?thesis by (simp add: settings_Cons kv Cons.IH)
    qed
  qed
qed

lemma read_approver_env_Inr:
  "read_approver_env environ = Inr e \<longleftrightarrow>
     (\<forall>key\<in>{approver_token_var, approver_digest_var}.
        length (settings key environ) \<le> 1 \<and> (\<forall>v\<in>set (settings key environ). usable v))
     \<and> e = \<lparr>ae_token = last_or '''' (settings approver_token_var environ),
            ae_digest_hex = last_or '''' (settings approver_digest_var environ)\<rparr>"
  by (auto simp: read_approver_env_def read_env_from_Inr no_env_def)

lemma settings_append: "settings key (a @ b) = settings key a @ settings key b"
  by (simp add: settings_def)

lemma settings_scrubbed:
  "key = approver_token_var \<or> key = approver_digest_var \<Longrightarrow>
     settings key (filter (\<lambda>kv. \<not> is_approver_entry kv) environ) = []"
proof (induction environ)
  case Nil
  then show ?case by (simp add: settings_def)
next
  case (Cons kv rest)
  then show ?case
    by (cases "str_cut CHR ''='' kv") (auto simp: settings_Cons is_approver_entry_cut)
qed

lemma approver_value_present_iff:
  "approver_value_present environ \<longleftrightarrow>
     (\<exists>v\<in>set (settings approver_token_var environ) \<union> set (settings approver_digest_var environ). v \<noteq> '''')"
proof (induction environ)
  case Nil
  then show ?case by (simp add: settings_def approver_value_present_def)
next
  case (Cons kv rest)
  then show ?case
    by (cases "str_cut CHR ''='' kv") (auto simp: settings_Cons approver_value_present_def)
qed

text \<open>Letters and digits are not white space; a hexadecimal string has nothing to trim.\<close>

definition plain_bytes :: "string \<Rightarrow> bool" where
  "plain_bytes s \<longleftrightarrow> (\<forall>c\<in>set s. 48 \<le> (of_char c :: nat) \<and> (of_char c :: nat) < 128)"

lemma find_prefix_None: "\<forall>p\<in>set ps. p \<noteq> [] \<longrightarrow> hd p \<noteq> c \<Longrightarrow> find_prefix ps (c # s) = None"
  by (induction ps) (auto simp: prefix_Cons)

lemma space_bytes:
  "\<forall>p\<in>set go_spaces. (of_char (hd p) :: nat) < 48 \<or> 128 \<le> (of_char (hd p) :: nat)"
  "\<forall>p\<in>set (map rev go_spaces). (of_char (hd p) :: nat) < 48 \<or> 128 \<le> (of_char (hd p) :: nat)"
  by (simp_all add: go_spaces_def)

lemma hex_bytes: "\<forall>c\<in>set ''0123456789abcdef''. 48 \<le> (of_char c :: nat) \<and> (of_char c :: nat) < 128"
  by simp

lemma trim_front_plain:
  assumes "ps = go_spaces \<or> ps = map rev go_spaces" and "plain_bytes s"
  shows "trim_front ps s = s"
proof (cases s)
  case Nil
  have "find_prefix ps [] = None" by (induction ps) auto
  with Nil show ?thesis by (simp add: trim_front.simps [of ps "[]"])
next
  case (Cons c t)
  have c: "48 \<le> (of_char c :: nat) \<and> (of_char c :: nat) < 128"
    using assms(2) by (simp add: plain_bytes_def Cons)
  have "(of_char (hd p) :: nat) < 48 \<or> 128 \<le> (of_char (hd p) :: nat)" if "p \<in> set ps" for p
    using assms(1) that space_bytes by blast
  with c have "\<forall>p\<in>set ps. hd p \<noteq> c" by fastforce
  then show ?thesis by (simp add: Cons trim_front.simps [of ps "c # t"] find_prefix_None)
qed

lemma trim_space_plain: "plain_bytes s \<Longrightarrow> trim_space s = s"
  by (simp add: trim_space_def trim_front_plain) (simp add: trim_front_plain plain_bytes_def)

lemma trim_space_hex: "trim_space (hex_encode d) = hex_encode d"
  by (rule trim_space_plain) (use hex_encode_chars [of d] hex_bytes in \<open>auto simp: plain_bytes_def\<close>)

lemma hex_encode_Nil_iff [simp]: "hex_encode d = [] \<longleftrightarrow> d = []"
  using length_hex_encode [of d] by (cases d) auto

lemma digest_round_trip:
  assumes "length d = 32"
  shows "parse_token_digest (trim_space (hex_encode d)) = Some d"
  using assms by (simp add: trim_space_hex parse_token_digest_def)

section \<open>Properties\<close>

text \<open>C18. Scrubbing keeps the configuration and drops the plaintext: the environment a re-exec
  hands on holds no entry of MHR_APPROVER_TOKEN and exactly one digest entry, keeps every other
  entry in order, configures the same approver digest the plaintext did, and is not re-exec'd
  again.\<close>

theorem scrub_keeps_the_approver:
  assumes "scrub_plaintext sha environ = Some environ'" and "\<And>x. length (sha x) = 32"
  shows "approver_digest_from_env sha environ' = approver_digest_from_env sha environ
       \<and> (\<exists>tok. approver_digest_from_env sha environ' = Inr (Some (sha tok)) \<and> settings approver_token_var environ = [tok])
       \<and> (\<forall>kv\<in>set environ'. \<not> prefix (approver_token_var @ ''='') kv)
       \<and> filter (\<lambda>kv. \<not> is_approver_entry kv) environ' = filter (\<lambda>kv. \<not> is_approver_entry kv) environ
       \<and> length (filter is_approver_entry environ') = 1
       \<and> scrub_plaintext sha environ' = None"
proof -
  obtain e where e: "read_approver_env environ = Inr e" and tok: "ae_token e \<noteq> ''''" and hx: "ae_digest_hex e = ''''"
    and environ': "environ' = scrubbed_approver_env environ (hex_encode (sha (ae_token e)))"
    using assms(1) by (auto simp: scrub_plaintext_def split: sum.splits if_splits)
  let ?hex = "hex_encode (sha (ae_token e))"
  let ?kv = "approver_digest_var @ CHR ''='' # ?hex"
  have ne: "?hex \<noteq> ''''" using assms(2) [of "ae_token e"] by auto
  have cut: "str_cut CHR ''='' ?kv = Some (approver_digest_var, ?hex)"
    by (rule str_cut_append) (rule var_no_eq)
  have env': "environ' = filter (\<lambda>kv. \<not> is_approver_entry kv) environ @ [?kv]"
    by (simp add: environ' scrubbed_approver_env_def)
  have set': "settings approver_token_var environ' = []" "settings approver_digest_var environ' = [?hex]"
    by (simp_all add: env' settings_append settings_scrubbed settings_Cons cut) (simp_all add: settings_def)
  then have read': "read_approver_env environ' = Inr \<lparr>ae_token = '''', ae_digest_hex = ?hex\<rparr>"
    by (simp add: read_approver_env_Inr last_or_def usable_def trim_space_hex ne)
  have dig: "approver_digest_from_env sha environ' = Inr (Some (sha (ae_token e)))"
    using ne by (simp add: approver_digest_from_env_def read' digest_round_trip assms(2))
  have dig0: "approver_digest_from_env sha environ = Inr (Some (sha (ae_token e)))"
    using tok hx by (simp add: approver_digest_from_env_def e)
  have one: "settings approver_token_var environ = [ae_token e]"
    using e tok by (cases "settings approver_token_var environ") (auto simp: read_approver_env_Inr last_or_def)
  have is_kv: "is_approver_entry ?kv" by (auto simp: is_approver_entry_cut cut)
  have "\<not> prefix (approver_token_var @ ''='') kv" if "kv \<in> set environ'" for kv
    using that str_cut_prefix [OF var_no_eq(1), of kv] cut by (auto simp: env' is_approver_entry_def)
  moreover have "length (filter is_approver_entry environ') = 1" by (simp add: env' is_kv)
  moreover have "filter (\<lambda>kv. \<not> is_approver_entry kv) environ' = filter (\<lambda>kv. \<not> is_approver_entry kv) environ"
    by (simp add: env' is_kv)
  moreover have "scrub_plaintext sha environ' = None" by (simp add: scrub_plaintext_def read')
  ultimately show ?thesis using dig dig0 one by auto
qed

definition demo_sha :: "string \<Rightarrow> string" where
  "demo_sha s = take 32 (s @ replicate 32 CHR 0x00)"

lemma demo_sha_length: "length (demo_sha x) = 32"
  by (simp add: demo_sha_def)

lemma demo_token_not_space: "trim_space ''tok'' = ''tok''"
  by (rule trim_space_plain) (simp add: plain_bytes_def)

theorem scrub_keeps_the_approver_witness:
  "\<exists>environ'. scrub_plaintext demo_sha [''A=1'', ''MHR_APPROVER_TOKEN=tok'', ''MHR_APPROVER_TOKEN_SHA256=''] = Some environ'
     \<and> approver_digest_from_env demo_sha environ' = Inr (Some (demo_sha ''tok''))"
proof -
  let ?env = "[''A=1'', ''MHR_APPROVER_TOKEN=tok'', ''MHR_APPROVER_TOKEN_SHA256='']"
  have s: "settings approver_token_var ?env = [''tok'']" "settings approver_digest_var ?env = ['''']"
    by (simp_all add: settings_def approver_token_var_def approver_digest_var_def)
  then have "read_approver_env ?env = Inr \<lparr>ae_token = ''tok'', ae_digest_hex = ''''\<rparr>"
    by (simp add: read_approver_env_Inr last_or_def usable_def demo_token_not_space)
  then obtain environ' where e: "scrub_plaintext demo_sha ?env = Some environ'"
    by (simp add: scrub_plaintext_def)
  from scrub_keeps_the_approver [OF this demo_sha_length] e s show ?thesis by auto
qed

text \<open>Legacy mode is never entered by accident: the relay starts without an approver only
  when no entry of either variable carries a value, and the backstop that re-checks this can never
  be what refuses, because every other outcome was decided before it.\<close>

theorem legacy_mode_only_when_unset:
  "(approver_digest_from_env sha environ = Inr None \<longleftrightarrow>
      \<not> approver_value_present environ \<and> length (settings approver_token_var environ) \<le> 1
      \<and> length (settings approver_digest_var environ) \<le> 1)
   \<and> approver_digest_from_env sha environ \<noteq> Inl Backstop"
proof (cases "read_approver_env environ")
  case (Inl err)
  then have "\<nexists>e. read_approver_env environ = Inr e" by simp
  then have "\<not> (\<forall>key\<in>{approver_token_var, approver_digest_var}.
      length (settings key environ) \<le> 1 \<and> (\<forall>v\<in>set (settings key environ). usable v))"
    unfolding read_approver_env_Inr by simp
  then show ?thesis
    using Inl by (auto simp: approver_digest_from_env_def approver_value_present_iff usable_def)
next
  case (Inr e)
  then have s: "length (settings approver_token_var environ) \<le> 1" "length (settings approver_digest_var environ) \<le> 1"
    and e: "e = \<lparr>ae_token = last_or '''' (settings approver_token_var environ),
                ae_digest_hex = last_or '''' (settings approver_digest_var environ)\<rparr>"
    by (simp_all add: read_approver_env_Inr)
  have one: "(\<exists>v\<in>set vs. v \<noteq> '''') \<longleftrightarrow> last_or '''' vs \<noteq> ''''" if "length vs \<le> 1" for vs
    using that by (cases vs) (auto simp: last_or_def)
  have "approver_value_present environ \<longleftrightarrow> ae_token e \<noteq> '''' \<or> ae_digest_hex e \<noteq> ''''"
    using one [OF s(1)] one [OF s(2)] by (auto simp: approver_value_present_iff e)
  then show ?thesis
    using Inr s by (auto simp: approver_digest_from_env_def split: option.split)
qed

lemma verify_role_Some:
  assumes "cr_wf r"
  shows "fst (verify_role sha now w v tok (Some r)) = Some (c, ap) \<longleftrightarrow>
     tok \<noteq> '''' \<and>
     (if vf_approver v = Some (sha tok) then c = approver_client_name \<and> ap
      else if vf_master v = Some (sha tok) then c = master_client_name \<and> \<not> ap
      else fst (cr_verify sha now w tok r) = Some c \<and> \<not> ap)"
  by (auto simp: verify_role_def Let_def split: prod.split)

lemma accepted_by_registry:
  "cr_wf r \<Longrightarrow> fst (cr_verify sha now w tok r) = Some n \<Longrightarrow> active_digest r n (sha tok)"
  using cr_verify_iff [of r sha now w tok] by blast

text \<open>C17. When the relay starts with an approver, no token serves two roles: whatever token the
  MCP port accepts is not the approver on the web port, the MCP port never grants the approver
  role, and the web port grants it to exactly the tokens with the configured digest.\<close>

theorem startup_separates_credentials:
  assumes "cr_wf reg" and "start_ports sha block environ reg = Inr p" and "pt_approver_required p"
  shows "\<exists>d. approver_digest_from_env sha block = Inr (Some d)
       \<and> (\<forall>tok c ap. fst (verify_role sha now w (pt_mcp p) tok (Some reg)) = Some (c, ap) \<longrightarrow>
            \<not> ap \<and> sha tok \<noteq> d)
       \<and> (\<forall>tok. (\<exists>c. fst (verify_role sha now w (pt_web p) tok (Some reg)) = Some (c, True))
            \<longleftrightarrow> tok \<noteq> '''' \<and> sha tok = d)"
proof -
  let ?auth = "env_lookup environ ''MHR_AUTH_TOKEN''"
  obtain d where d: "approver_digest_from_env sha block = Inr (Some d)" and ne: "d \<noteq> sha ?auth"
    and none: "match_digest d reg = None" and auth: "?auth \<noteq> ''''"
    and p: "p = \<lparr>pt_mcp = new_verifier sha ?auth, pt_web = with_approver_digest d (new_verifier sha ?auth),
                 pt_approver_required = True\<rparr>"
    using assms(2,3) by (auto simp: start_ports_def Let_def split: if_splits sum.splits option.splits)
  have "\<not> ap \<and> sha tok \<noteq> d"
    if "fst (verify_role sha now w (pt_mcp p) tok (Some reg)) = Some (c, ap)" for tok c ap
  proof -
    have "\<not> ap \<and> (?auth \<noteq> '''' \<and> sha ?auth = sha tok \<or> fst (cr_verify sha now w tok reg) = Some c)"
      using that by (simp add: verify_role_Some [OF assms(1)] p new_verifier_def auth split: if_splits)
    then show ?thesis
      using ne none accepted_by_registry [OF assms(1), of sha now w tok c] match_digest_None [OF assms(1), of d]
      by (auto simp: active_digest_def)
  qed
  moreover have "(\<exists>c. fst (verify_role sha now w (pt_web p) tok (Some reg)) = Some (c, True))
      \<longleftrightarrow> tok \<noteq> '''' \<and> sha tok = d" for tok
    by (auto simp: verify_role_Some [OF assms(1)] p with_approver_digest_def)
  ultimately show ?thesis using d by blast
qed

theorem startup_separates_credentials_witness:
  "\<exists>p. start_ports demo_sha [''MHR_AUTH_TOKEN=auth'', ''MHR_APPROVER_TOKEN=tok''] [''MHR_AUTH_TOKEN=auth''] demo_clients = Inr p
     \<and> (\<exists>c. fst (verify_role demo_sha 5 WriteOK (pt_web p) ''tok'' (Some demo_clients)) = Some (c, True))
     \<and> \<not> (\<exists>c. fst (verify_role demo_sha 5 WriteOK (pt_web p) ''auth'' (Some demo_clients)) = Some (c, True))"
proof -
  let ?env = "[''MHR_AUTH_TOKEN=auth'', ''MHR_APPROVER_TOKEN=tok'']"
  have s: "settings approver_token_var ?env = [''tok'']" "settings approver_digest_var ?env = []"
    by (simp_all add: settings_def approver_token_var_def approver_digest_var_def)
  then have dig: "approver_digest_from_env demo_sha ?env = Inr (Some (demo_sha ''tok''))"
    by (simp add: approver_digest_from_env_def read_approver_env_Inr [THEN iffD2] last_or_def usable_def demo_token_not_space)
  have au: "env_lookup [''MHR_AUTH_TOKEN=auth''] ''MHR_AUTH_TOKEN'' = ''auth''" by simp
  have sep: "demo_sha ''tok'' \<noteq> demo_sha ''auth''" by (simp add: demo_sha_def)
  have "match_digest (demo_sha ''tok'') demo_clients = None"
    unfolding match_digest_None [OF demo_clients_wf]
    by (auto simp: demo_clients_def cr_get_def demo_client_def
        digest_bytes_def demo_sha_def split: if_splits)
  then obtain p where p: "start_ports demo_sha ?env [''MHR_AUTH_TOKEN=auth''] demo_clients = Inr p" and "pt_approver_required p"
    using sep by (simp add: start_ports_def au dig Let_def)
  from startup_separates_credentials [OF demo_clients_wf this, of 5 WriteOK]
  have "(\<exists>c. fst (verify_role demo_sha 5 WriteOK (pt_web p) tok (Some demo_clients)) = Some (c, True))
      \<longleftrightarrow> tok \<noteq> '''' \<and> demo_sha tok = demo_sha ''tok''" for tok
    using dig by auto
  from this [of "''tok''"] this [of "''auth''"] p sep show ?thesis by auto
qed

text \<open>A revocation from the command line does not reach a running relay: the server keeps
  accepting the client's token after \<^verbatim>\<open>-client-revoke\<close> reported success, and its next
  last-seen flush writes its own copy of the registry over the revocation, so a restart finds the
  client active again.\<close>

theorem command_line_revocation_is_lost:
  assumes "new_client_registry path d = Inr r" and "cr_wf r"
    and "active_digest r name (sha tok)" and "tok \<noteq> ''''" and "sha = lib_sha256 lib"
    and "handle_client_command lib t1 rnd w [''-client-revoke'', name] path d = (Some (0, []), d')"
  shows "(\<exists>q. new_client_registry path d' = Inr q \<and> \<not> active_digest q name (sha tok))
       \<and> (\<exists>n r' q. cr_verify sha t2 WriteOK tok r = (Some n, r')
       \<and> new_client_registry path (cr_disk r') = Inr q \<and> active_digest q name (sha tok))"
proof -
  have "name \<noteq> ''''" and rv: "\<exists>reg'. cr_revoke t1 w name r = (None, reg') \<and> d' = cr_disk reg'"
    using assms(1,6) by (auto simp: handle_client_command_def split: if_splits prod.splits option.splits)
  then obtain reg' where rv: "cr_revoke t1 w name r = (None, reg')" and d': "d' = cr_disk reg'" by blast
  obtain c where c: "cr_get r name = Some c" and g: "\<And>k. cr_get reg' k = (if k = name \<and> \<not> revoked c
           then Some (c\<lparr>cl_revoked_at := Some t1\<rparr>) else cr_get r k)"
    and wf1: "cr_wf reg'" and disk1: "\<not> revoked c \<Longrightarrow> cr_disk reg' = File (cr_sorted reg')"
    using cr_revoke_None [OF rv] assms(2) by metis
  have nr: "\<not> revoked c" using assms(3) c by (auto simp: active_digest_def)
  obtain q0 where "new_client_registry path d' = Inr q0" and "\<And>k. cr_get q0 k = cr_get reg' k"
    using reload_get [OF wf1 disk1 [OF nr]] d' by metis
  then have gone: "\<exists>q. new_client_registry path d' = Inr q \<and> \<not> active_digest q name (sha tok)"
    using g nr by (auto simp: active_digest_def revoked_def)
  obtain n r' where v: "cr_verify sha t2 WriteOK tok r = (Some n, r')"
    using cr_verify_iff [OF assms(2), of sha t2 WriteOK tok] assms(3,4)
    by (metis option.exhaust prod.exhaust_sel)
  have act: "active_digest r' name (sha tok)" and wf: "cr_wf r'"
    using cr_verify_wf [OF assms(2), of sha t2 WriteOK tok] cr_verify_active [of sha t2 WriteOK tok r name "sha tok"]
      assms(3) by (simp_all add: v)
  have "cr_last_saved r = None" using assms(1) by (auto simp: new_client_registry_def split: disk.splits)
  then have "cr_disk r' = File (cr_sorted r')"
    using v by (auto simp: cr_verify_def cr_maybe_save_def since_opt_def max_int64_def
        last_seen_flush_interval_def second_def cr_save_def cr_sorted_def split: if_splits option.splits)
  then obtain q where "new_client_registry path (cr_disk r') = Inr q" and "\<And>k. cr_get q k = cr_get r' k"
    using reload_get [OF wf] by metis
  with v act gone show ?thesis by (auto simp: active_digest_def)
qed

definition demo_auth_lib :: golib where
  "demo_auth_lib = \<lparr>lib_sha256 = \<lambda>x. x, lib_quote = \<lambda>s. s, lib_float = \<lambda>f. [], lib_time = itoa,
     lib_unmarshal = \<lambda>s. Inl [], lib_marshal = \<lambda>v. []\<rparr>"

definition demo_rows :: "client list" where
  "demo_rows = [demo_client ''a'' ''ta'', demo_client ''b'' ''tb'']"

theorem command_line_revocation_is_lost_witness:
  "\<exists>d' r n r'. new_client_registry ''clients.json'' (File demo_rows) = Inr r
     \<and> handle_client_command demo_auth_lib 7 (Inr []) WriteOK [''-client-revoke'', ''b''] ''clients.json'' (File demo_rows)
         = (Some (0, []), d')
     \<and> cr_verify (\<lambda>x. x) 8 WriteOK ''tb'' r = (Some n, r')"
proof -
  let ?r = "\<lparr>cr_path = ''clients.json'', cr_clients = load_list cl_name demo_rows, cr_last_saved = None,
    cr_disk = File demo_rows\<rparr>"
  have r: "new_client_registry ''clients.json'' (File demo_rows) = Inr ?r"
    by (simp add: new_client_registry_def)
  have rows: "load_list cl_name demo_rows = [(''a'', demo_client ''a'' ''ta''), (''b'', demo_client ''b'' ''tb'')]"
    by (simp add: load_list_def demo_rows_def demo_client_def)
  then have wf: "cr_wf ?r" by (simp add: cr_wf_def gomap_wf_def demo_client_def)
  have act: "active_digest ?r ''b'' ((\<lambda>x. x) ''tb'')"
    by (simp add: active_digest_def cr_get_def rows demo_client_def revoked_def digest_bytes_def)
  obtain d' where cmd: "handle_client_command demo_auth_lib 7 (Inr []) WriteOK [''-client-revoke'', ''b''] ''clients.json''
      (File demo_rows) = (Some (0, []), d')"
    by (simp add: handle_client_command_def r cr_revoke_def rows demo_client_def cr_save_def)
  have "\<exists>n r'. cr_verify (\<lambda>x. x) 8 WriteOK ''tb'' ?r = (Some n, r')"
    using command_line_revocation_is_lost [where sha = "\<lambda>x. x" and tok = "''tb''" and ?t2.0 = 8, OF r wf act _ _ cmd]
    by (auto simp: demo_auth_lib_def)
  with r cmd show ?thesis by blast
qed

end
