(* ===== verification/Middleware.thy ===== *)
theory Middleware
  imports Web_Handler Approver_Env
begin

text \<open>
  web/middleware.go, web/csp.go and the routing of main.go: what stands between a request and
  the handler. The verifier behind AuthMiddleware is an interface in the source; here it is a
  parameter with the locale \<open>role_verifier\<close> as its contract, interpreted on auth's verifier.
\<close>

section \<open>The verifier's contract\<close>

text \<open>\<open>check\<close> verifies a token and may change the verifier's state; \<open>holds\<close> says who a token
  stands for. Checking answers exactly that and changes nobody's answer.\<close>

locale role_verifier =
  fixes ok :: "'s \<Rightarrow> bool"
    and check :: "string \<Rightarrow> 's \<Rightarrow> (string \<times> bool) option \<times> 's"
    and holds :: "'s \<Rightarrow> string \<Rightarrow> string \<Rightarrow> bool \<Rightarrow> bool"
  assumes check_sound: "ok s \<Longrightarrow> fst (check tok s) = Some (c, ap) \<Longrightarrow> holds s tok c ap"
    and check_complete: "ok s \<Longrightarrow> holds s tok c ap \<Longrightarrow> fst (check tok s) \<noteq> None"
    and check_ok: "ok s \<Longrightarrow> ok (snd (check tok s))"
    and check_keeps: "ok s \<Longrightarrow> holds (snd (check tok s)) tok' c ap = holds s tok' c ap"
    and no_empty_token: "ok s \<Longrightarrow> \<not> holds s [] c ap"
begin

lemma check_None_iff: "ok s \<Longrightarrow> fst (check tok s) = None \<longleftrightarrow> (\<forall>c ap. \<not> holds s tok c ap)"
  using check_sound check_complete by (metis option.exhaust surj_pair)

lemma check_again: "ok s \<Longrightarrow> fst (check tok (snd (check tok' s))) = None \<longleftrightarrow> fst (check tok s) = None"
  by (simp add: check_None_iff check_ok check_keeps)

end

section \<open>AuthMiddleware\<close>

definition missing_bearer_hint :: string where
  "missing_bearer_hint = str_join [CHR 0x0A]
     [''unauthorized: this endpoint needs an \"Authorization: Bearer <token>\" header, and this request sent none.'',
      '''',
      ''oh lmao yea, you probably need the systemd service '' @ em_dash @ '' sorry bb.'',
      '''',
      ''If your MCP client cannot set a custom header, it cannot authenticate here directly,'',
      ''with any token. Route it through the loopback proxy instead '' @ em_dash @ '' the proxy injects the'',
      ''header on every request:'',
      '''',
      ''    systemctl start relay-mcp-proxy.service'',
      '''',
      ''then point the client at the proxy rather than at this relay:'',
      '''',
      ''    http://127.0.0.1:8099/sse'',
      '''',
      ''A client that CAN set headers (curl, a native MCP SDK) should just send the header itself.'']"

definition bearer_scheme :: string where "bearer_scheme = ''Bearer''"

definition unauthorized :: reply where "unauthorized = http_error ''unauthorized'' 401"

text \<open>The reply of a refused request, or the context the next handler runs in.\<close>

definition auth_middleware :: "(string \<Rightarrow> 's \<Rightarrow> (string \<times> bool) option \<times> 's) \<Rightarrow> string \<Rightarrow> auth_ctx \<Rightarrow> 's
    \<Rightarrow> (reply + auth_ctx) \<times> 's" where
  "auth_middleware check header ctx s =
     (let usesBearer = (header = bearer_scheme \<or> prefix (bearer_scheme @ '' '') header);
          provided = trim_space (trim_prefix header bearer_scheme)
      in if \<not> usesBearer \<or> provided = '''' then (Inl (http_error missing_bearer_hint 401), s)
         else (case check provided s of
                 (None, s') \<Rightarrow> (Inl unauthorized, s')
               | (Some (client, approver), s') \<Rightarrow>
                   let ctx1 = ctx_with_client client ctx;
                       ctx2 = (if approver then ctx_with_approver ctx1 else ctx1)
                   in (Inr ctx2, s')))"

section \<open>CSRFMiddleware\<close>

definition csrf_allows :: "string \<Rightarrow> string \<Rightarrow> string \<Rightarrow> string \<Rightarrow> bool" where
  "csrf_allows meth origin reqHost urlHost =
     (if meth = ''GET'' \<or> meth = ''HEAD'' \<or> meth = ''OPTIONS'' then True
      else if origin = '''' then True
      else
        let host = (if reqHost = '''' then urlHost else reqHost) in
        if \<not> str_contains origin host then
          (let o1 = trim_prefix origin ''http://'';
               o2 = trim_prefix o1 ''https://'';
               originHost = hd (split_on CHR ''/'' o2);
               hostNoPort = hd (split_on CHR '':'' host);
               originNoPort = hd (split_on CHR '':'' originHost)
           in hostNoPort = originNoPort)
        else True)"

section \<open>The web port\<close>

record web_request =
  wq_method :: string
  wq_path :: string
  wq_authorization :: string
  wq_origin :: string
  wq_host :: string
  wq_url_host :: string

text \<open>The mux of main.go: the event stream and the dashboard page are open, everything else
  goes through authentication and then the origin check.\<close>

definition web_entry :: "(string \<Rightarrow> 's \<Rightarrow> (string \<times> bool) option \<times> 's) \<Rightarrow> web_request \<Rightarrow> 's
    \<Rightarrow> (reply + auth_ctx) \<times> 's" where
  "web_entry check q s =
     (if wq_path q = ''/events'' then (Inr no_ctx, s)
      else if wq_method q = ''GET'' \<and> wq_path q = ''/'' then (Inr no_ctx, s)
      else case auth_middleware check (wq_authorization q) no_ctx s of
             (Inl e, s') \<Rightarrow> (Inl e, s')
           | (Inr ctx, s') \<Rightarrow>
               if csrf_allows (wq_method q) (wq_origin q) (wq_host q) (wq_url_host q) then (Inr ctx, s')
               else (Inl (http_error ''CSRF validation failed'' 403), s'))"

section \<open>The page\<close>

definition page_csp :: "string \<Rightarrow> string" where
  "page_csp nonce =
     ''default-src 'self'; '' @ ''script-src 'nonce-'' @ nonce @ [CHR 0x27] @ ''; '' @
     ''style-src 'self' 'unsafe-inline'; '' @ ''img-src 'self' data:; '' @ ''connect-src 'self'; '' @
     ''object-src 'none'; '' @ ''base-uri 'none'; '' @ ''form-action 'self'; '' @ ''frame-ancestors 'none'' @ [CHR 0x27]"

text \<open>\<open>rnd\<close> is what crypto/rand delivered: nothing, or 18 bytes.\<close>

definition serve_page :: "string option \<Rightarrow> reply" where
  "serve_page rnd =
     (case rnd of
        None \<Rightarrow> http_error ''internal error'' 500
      | Some b \<Rightarrow> \<lparr>rp_code = 200,
          rp_headers = [(''Content-Security-Policy'', page_csp (b64_encode url_alphabet False b)),
                        (''X-Content-Type-Options'', ''nosniff''), (''X-Frame-Options'', ''DENY''),
                        (''Content-Type'', ''text/html; charset=utf-8'')],
          rp_body = Page\<rparr>)"

section \<open>The relay's verifier keeps the contract\<close>

definition relay_check :: "(string \<Rightarrow> string) \<Rightarrow> int \<Rightarrow> client list write_outcome \<Rightarrow> verifier
    \<Rightarrow> string \<Rightarrow> client_registry \<Rightarrow> (string \<times> bool) option \<times> client_registry" where
  "relay_check sha now w v tok r =
     (case verify_role sha now w v tok (Some r) of (a, r') \<Rightarrow> (a, the r'))"

text \<open>Who a token stands for: the approver first, then the master, then an active client.\<close>

definition token_holds :: "(string \<Rightarrow> string) \<Rightarrow> verifier \<Rightarrow> client_registry \<Rightarrow> string \<Rightarrow> string \<Rightarrow> bool \<Rightarrow> bool" where
  "token_holds sha v r tok c ap \<longleftrightarrow> tok \<noteq> [] \<and>
     (if vf_approver v = Some (sha tok) then c = approver_client_name \<and> ap
      else if vf_master v = Some (sha tok) then c = master_client_name \<and> \<not> ap
      else active_digest r c (sha tok) \<and> \<not> ap)"

lemma relay_check_fst: "fst (relay_check sha now w v tok r) = fst (verify_role sha now w v tok (Some r))"
  by (simp add: relay_check_def case_prod_beta)

lemma relay_check_snd:
  "snd (relay_check sha now w v tok r) =
     (if tok = '''' \<or> vf_approver v = Some (sha tok) \<or> vf_master v = Some (sha tok) then r
      else snd (cr_verify sha now w tok r))"
  by (auto simp: relay_check_def verify_role_def Let_def split: prod.split)

lemma token_holds_checked [simp]:
  "token_holds sha v' (snd (relay_check sha now w v tok r)) t c ap = token_holds sha v' r t c ap"
  by (simp add: token_holds_def relay_check_snd)

interpretation relay_verifier: role_verifier cr_wf "relay_check sha now w v" "token_holds sha v"
  for sha :: "string \<Rightarrow> string" and now :: int and w :: "client list write_outcome" and v :: verifier
proof
  fix s tok c ap
  assume wf: "cr_wf s"
  show "fst (relay_check sha now w v tok s) = Some (c, ap) \<Longrightarrow> token_holds sha v s tok c ap"
    using accepted_by_registry [OF wf]
    by (auto simp: relay_check_fst verify_role_Some [OF wf] token_holds_def split: if_splits)
  show "token_holds sha v s tok c ap \<Longrightarrow> fst (relay_check sha now w v tok s) \<noteq> None"
  proof
    assume h: "token_holds sha v s tok c ap" and none: "fst (relay_check sha now w v tok s) = None"
    have no: "\<not> (tok \<noteq> '''' \<and> (if vf_approver v = Some (sha tok) then c = approver_client_name \<and> ap
        else if vf_master v = Some (sha tok) then c = master_client_name \<and> \<not> ap
        else fst (cr_verify sha now w tok s) = Some c \<and> \<not> ap))" for c ap
      using none verify_role_Some [OF wf, of sha now w v tok c ap] by (simp add: relay_check_fst)
    have "\<not> (vf_approver v = Some (sha tok)) \<and> \<not> (vf_master v = Some (sha tok))"
      using no [of approver_client_name True] no [of master_client_name False] h
      by (auto simp: token_holds_def split: if_splits)
    moreover from this have "fst (cr_verify sha now w tok s) = None"
      using no [of "the (fst (cr_verify sha now w tok s))" False] h
      by (cases "fst (cr_verify sha now w tok s)") (auto simp: token_holds_def)
    ultimately show False
      using h cr_verify_iff [OF wf, of sha now w tok] by (auto simp: token_holds_def)
  qed
  show "cr_wf (snd (relay_check sha now w v tok s))"
    using cr_verify_wf [OF wf] wf by (simp add: relay_check_snd)
  show "\<not> token_holds sha v s [] c ap" by (simp add: token_holds_def)
next
  fix s tok tok' c ap
  show "token_holds sha v (snd (relay_check sha now w v tok s)) tok' c ap = token_holds sha v s tok' c ap"
    by (rule token_holds_checked)
qed

section \<open>Properties\<close>

lemma trim_prefix_scheme: "prefix (bearer_scheme @ '' '') h \<Longrightarrow> trim_prefix h bearer_scheme = drop 6 h"
  by (auto simp: trim_prefix_def bearer_scheme_def prefix_def)

lemma trim_space_after_blank:
  assumes "plain_bytes tok" shows "trim_space (CHR '' '' # tok) = tok"
proof -
  have "find_prefix go_spaces (CHR '' '' # s) = Some [CHR '' '']" for s
    by (simp add: go_spaces_def char_of_eq_iff)
  then have "trim_front go_spaces (CHR '' '' # tok) = tok"
    by (subst trim_front.simps) (simp add: trim_front_plain assms)
  then show ?thesis using assms by (simp add: trim_space_def trim_front_plain plain_bytes_def)
qed

lemma bearer_token: "plain_bytes tok \<Longrightarrow> trim_space (drop 6 (''Bearer '' @ tok)) = tok"
  using trim_space_after_blank by simp

lemma ctx_of_admitted:
  "ctx_client_from (if ap then ctx_with_approver (ctx_with_client c no_ctx) else ctx_with_client c no_ctx) = c"
  "is_approver (if ap then ctx_with_approver (ctx_with_client c no_ctx) else ctx_with_client c no_ctx) = ap"
  by (simp_all add: ctx_client_from_def ctx_with_approver_def ctx_with_client_def is_approver_def no_ctx_def)

text \<open>The two ways through AuthMiddleware: without a token in the scheme, and by what the verifier
  says of the token.\<close>

lemma auth_middleware_cases:
  assumes "tok = trim_space (drop 6 header)"
  shows "auth_middleware check header no_ctx s =
     (if \<not> (prefix ''Bearer '' header \<and> tok \<noteq> '''') then (Inl (http_error missing_bearer_hint 401), s)
      else (case check tok s of (None, s') \<Rightarrow> (Inl unauthorized, s')
        | (Some (c, ap), s') \<Rightarrow>
            (Inr (if ap then ctx_with_approver (ctx_with_client c no_ctx) else ctx_with_client c no_ctx), s')))"
proof (cases "prefix ''Bearer '' header \<and> tok \<noteq> ''''")
  case False
  have "trim_space (trim_prefix bearer_scheme bearer_scheme) = ''''"
    by (simp add: trim_prefix_def)
  then show ?thesis
    using False assms trim_prefix_scheme [of header] by (auto simp: auth_middleware_def Let_def bearer_scheme_def)
next
  case True
  then have scheme: "prefix (bearer_scheme @ '' '') header" by (simp add: bearer_scheme_def)
  then show ?thesis
    using True assms trim_prefix_scheme [OF scheme]
    by (auto simp: auth_middleware_def Let_def split: prod.split option.split)
qed

lemma auth_middleware_admits:
  assumes "cr_wf r" and "auth_middleware (relay_check sha now w v) header no_ctx r = (Inr ctx, r')"
  shows "prefix ''Bearer '' header
    \<and> token_holds sha v r (trim_space (drop 6 header)) (ctx_client_from ctx) (is_approver ctx)"
proof -
  let ?t = "trim_space (drop 6 header)"
  obtain a r1 where c: "relay_check sha now w v ?t r = (a, r1)" by (metis surj_pair)
  obtain k ap where a: "a = Some (k, ap)" and pre: "prefix ''Bearer '' header"
    and ctx: "ctx = (if ap then ctx_with_approver (ctx_with_client k no_ctx) else ctx_with_client k no_ctx)"
    using assms(2) unfolding auth_middleware_cases [OF refl] c by (auto split: if_splits option.splits)
  have "fst (relay_check sha now w v ?t r) = Some (k, ap)" by (simp only: c a fst_conv)
  then have "token_holds sha v r ?t k ap" by (rule relay_verifier.check_sound [OF assms(1)])
  then show ?thesis using pre unfolding ctx ctx_of_admitted by blast
qed

lemma auth_middleware_keeps:
  assumes "cr_wf r" and "auth_middleware (relay_check sha now w v) header no_ctx r = (out, r')"
  shows "cr_wf r' \<and> (\<forall>t c ap. token_holds sha v' r' t c ap = token_holds sha v' r t c ap)"
proof -
  let ?t = "trim_space (drop 6 header)"
  have "r' = r \<or> r' = snd (relay_check sha now w v ?t r)"
    using assms(2) unfolding auth_middleware_cases [OF refl] by (auto split: if_splits prod.splits option.splits)
  then show ?thesis
    using assms(1) relay_verifier.check_ok [OF assms(1), of sha now w v ?t] token_holds_checked by (elim disjE) simp_all
qed

text \<open>C15. Authentication admits a request exactly when its header is the scheme, a space and a
  token that stands for someone; the context it passes on carries that client and the approver mark
  only for the approver's token; every other request gets a 401, whose text is the same for an
  unknown and for a revoked token; and no check changes whom any token stands for.\<close>

theorem auth_middleware_exact:
  assumes "cr_wf r" and "tok = trim_space (drop 6 header)"
    and "auth_middleware (relay_check sha now w v) header no_ctx r = (out, r')"
  shows "(\<forall>ctx. out = Inr ctx \<longrightarrow> prefix ''Bearer '' header \<and> token_holds sha v r tok (ctx_client_from ctx) (is_approver ctx))
       \<and> ((\<exists>ctx. out = Inr ctx) \<longleftrightarrow> prefix ''Bearer '' header \<and> (\<exists>c ap. token_holds sha v r tok c ap))
       \<and> (\<forall>rep. out = Inl rep \<longrightarrow> rp_code rep = 401
            \<and> (prefix ''Bearer '' header \<and> tok \<noteq> '''' \<longrightarrow> rep = unauthorized))
       \<and> cr_wf r' \<and> (\<forall>t c ap. token_holds sha v r' t c ap = token_holds sha v r t c ap)"
proof -
  note keep = auth_middleware_keeps [OF assms(1,3)]
  show ?thesis
  proof (cases "prefix ''Bearer '' header \<and> tok \<noteq> ''''")
    case False
    then have "out = Inl (http_error missing_bearer_hint 401)"
      using assms(3) unfolding auth_middleware_cases [OF assms(2)] by simp
    then show ?thesis
      using False keep relay_verifier.no_empty_token [OF assms(1)] by (auto simp: http_error_def)
  next
    case True
    have out: "out = (case fst (relay_check sha now w v tok r) of None \<Rightarrow> Inl unauthorized
        | Some (c, ap) \<Rightarrow> Inr (if ap then ctx_with_approver (ctx_with_client c no_ctx) else ctx_with_client c no_ctx))"
      using assms(3) True unfolding auth_middleware_cases [OF assms(2)] by (auto split: prod.splits option.splits)
    show ?thesis
    proof (cases "fst (relay_check sha now w v tok r)")
      case None
      then have "\<forall>c ap. \<not> token_holds sha v r tok c ap"
        using relay_verifier.check_None_iff [OF assms(1)] by metis
      with None out keep True show ?thesis by (auto simp: unauthorized_def http_error_def)
    next
      case (Some b)
      obtain c ap where b: "b = (c, ap)" by (cases b)
      then have h: "token_holds sha v r tok c ap"
        using relay_verifier.check_sound [OF assms(1)] Some by metis
      with Some b out keep True show ?thesis by (auto simp: ctx_of_admitted)
    qed
  qed
qed

theorem auth_middleware_exact_witness:
  "\<exists>ctx r'. auth_middleware (relay_check (\<lambda>x. x) 5 WriteOK \<lparr>vf_master = Some ''m'', vf_approver = Some ''boss''\<rparr>)
       ''Bearer boss'' no_ctx demo_clients = (Inr ctx, r') \<and> is_approver ctx"
proof -
  let ?v = "\<lparr>vf_master = Some ''m'', vf_approver = Some ''boss''\<rparr>"
  have t: "trim_space (drop 6 ''Bearer boss'') = ''boss''"
    using bearer_token [of "''boss''"] by (simp add: plain_bytes_def)
  obtain out r' where o: "auth_middleware (relay_check (\<lambda>x. x) 5 WriteOK ?v) ''Bearer boss'' no_ctx demo_clients = (out, r')"
    by (metis surj_pair)
  have "token_holds (\<lambda>x. x) ?v demo_clients ''boss'' approver_client_name True"
    by (simp add: token_holds_def)
  with auth_middleware_exact [OF demo_clients_wf t [symmetric] o]
  obtain ctx where "out = Inr ctx" and "token_holds (\<lambda>x. x) ?v demo_clients ''boss'' (ctx_client_from ctx) (is_approver ctx)"
    by auto
  with o show ?thesis by (auto simp: token_holds_def split: if_splits)
qed

text \<open>The origin check only asks whether the origin contains the host as text, so a
  foreign site whose name starts with the relay's host and port passes for a state-changing
  request.\<close>

theorem csrf_accepts_lookalike_origin:
  "csrf_allows ''POST'' (''http://'' @ host @ ''.evil.example'') host urlHost"
  if "host \<noteq> ''''"
proof -
  have "str_contains (''http://'' @ host @ ''.evil.example'') host"
    unfolding str_contains_iff by blast
  then show ?thesis using that by (auto simp: csrf_allows_def simp del: str_contains.simps append_Cons)
qed

theorem csrf_accepts_lookalike_origin_witness:
  "csrf_allows ''POST'' (''http://'' @ ''10.0.0.5:8090'' @ ''.evil.example'') ''10.0.0.5:8090'' ''''"
  by (rule csrf_accepts_lookalike_origin) simp

end
