(* ===== verification/Startup.thy ===== *)
theory Startup
  imports Mcp_Streams Middleware
begin

text \<open>
  main.go's main from its first line to the two listeners: the re-exec, the client subcommands, the
  settings, the credentials, the files, and the objects behind the ports. Everything it meets
  outside (the two views of the environment, the disk, the answers of the system calls) is a record;
  log lines are not modelled.
\<close>

section \<open>What start-up meets\<close>

text \<open>\<open>ss_proc_environ\<close> is /proc/self/environ, \<open>ss_os_environ\<close> what os.Environ lists and os.Getenv
  reads; an \<open>ss_exec\<close> that succeeds does not come back. Files are looked up by path.\<close>

record start_state =
  ss_lib :: golib
  ss_unix :: bool
  ss_proc_environ :: "string option"
  ss_os_environ :: "string list"
  ss_args :: "string list"
  ss_executable :: bool
  ss_exec :: bool
  ss_mkdir :: "string \<Rightarrow> bool"
  ss_clients :: "string \<Rightarrow> client list disk"
  ss_containers :: "string \<Rightarrow> container list disk"
  ss_machines :: "string \<Rightarrow> machine list disk"
  ss_whitelist :: "string \<Rightarrow> stored_rule list disk"
  ss_audit :: "string \<Rightarrow> string + audit"
  ss_fs :: fs
  ss_now :: int
  ss_random :: "string + string"
  ss_client_write :: "client list write_outcome"

datatype start_failure = NoExecutable | ExecFailed | DataDirFailed | BadCredentials startup_error
  | AuditFailed string | ContainersFailed registry_error | MachinesFailed registry_error
  | WhitelistFailed registry_error

text \<open>A relay that serves: the objects main built.\<close>

record serving =
  sg_handler :: handler
  sg_tools :: tool_handler
  sg_server :: server
  sg_clients :: client_registry
  sg_ports :: ports
  sg_exec_config :: exec_config
  sg_mcp_port :: int
  sg_web_port :: int
  sg_environ :: "string list"

text \<open>How the process goes on: as this binary anew with another environment, not at all after a
  client command (exit code, output, and the registry file), not at all after log.Fatal, or serving.\<close>

datatype start_outcome = Replaced "string list" | Exited int "string list" "client list disk"
  | Fatal start_failure | Serving serving

section \<open>The re-exec\<close>

definition scrub_elsewhere :: "string list \<Rightarrow> string list option" where
  "scrub_elsewhere environ = None"

definition scrub_at_start :: "start_state \<Rightarrow> start_outcome option" where
  "scrub_at_start s =
     (case (if ss_unix s then scrub_plaintext (lib_sha256 (ss_lib s)) else scrub_elsewhere)
             (initial_environ (ss_proc_environ s) (ss_os_environ s)) of
        None \<Rightarrow> None
      | Some environ' \<Rightarrow>
          Some (if \<not> ss_executable s then Fatal NoExecutable
                else if ss_exec s then Replaced environ' else Fatal ExecFailed))"

section \<open>Settings\<close>

text \<open>\<^verbatim>\<open>filepath.Join(dir, name)\<close>.\<close>

definition join_path :: "string \<Rightarrow> string \<Rightarrow> string" where
  "join_path dir name = path_clean (str_join ''/'' (filter (\<lambda>p. p \<noteq> '''') [dir, name]))"

definition data_dir :: "string list \<Rightarrow> string" where
  "data_dir environ = env_string environ ''MHR_DATA_DIR'' ''/opt/human-relay/data''"

definition clients_path :: "string list \<Rightarrow> string" where
  "clients_path environ = env_string environ ''MHR_CLIENTS_FILE'' (join_path (data_dir environ) ''clients.json'')"

definition exec_config_from :: "string list \<Rightarrow> exec_config" where
  "exec_config_from environ =
     \<lparr>ec_default_timeout = env_int environ ''MHR_DEFAULT_TIMEOUT'' 30,
      ec_max_timeout = env_int environ ''MHR_MAX_TIMEOUT'' 300,
      ec_allowed_dirs = allowed_dirs_from environ\<rparr>"

text \<open>os.Unsetenv of both approver variables, once they were read.\<close>

definition unset_approver :: "string list \<Rightarrow> string list" where
  "unset_approver environ = filter (\<lambda>kv. \<not> is_approver_entry kv) environ"

section \<open>The objects\<close>

text \<open>The handlers of both ports, on one store, one audit log and the same registries. The options
  of NewHandler are applied in order.\<close>

definition build_tools :: "string list \<Rightarrow> store \<Rightarrow> audit \<Rightarrow> container_store \<Rightarrow> machine_store \<Rightarrow> tool_handler" where
  "build_tools environ s al cs ms =
     (let t0 = new_tool_handler s cs (Some ms) (env_string environ ''MHR_HOST_IP'' '''') al
                 (max_wait_from_env (env_lookup environ ''MHR_MAX_WAIT''));
          sshCfg = env_lookup environ ''MHR_SSH_CONFIG'';
          t1 = (if sshCfg \<noteq> '''' then set_ssh_config sshCfg t0 else t0);
          t2 = set_relay_pubkey_file (env_string environ ''MHR_RELAY_PUBKEY_FILE'' ''/root/.ssh/id_ed25519.pub'') t1
      in set_scripts_dir (env_string environ ''MHR_SCRIPTS_DIR'' ''/scripts'') t2)"

definition build_handler :: "string list \<Rightarrow> store \<Rightarrow> audit \<Rightarrow> fs \<Rightarrow> container_store \<Rightarrow> machine_store \<Rightarrow> whitelist
    \<Rightarrow> bool \<Rightarrow> handler" where
  "build_handler environ s al fsys cs ms wl approverSet =
     with_approver_required approverSet
       (with_registries (Some cs) (Some ms)
         (with_scripts_dir (env_string environ ''MHR_SCRIPTS_DIR'' ''/scripts'')
           (with_whitelist wl
             (with_cooldown (wrap64 (env_int environ ''MHR_APPROVAL_COOLDOWN'' 30 * second))
               (new_handler s al fsys)))))"

text \<open>From the store on: the files are opened in this order, and the first failure ends it.\<close>

definition serve_with :: "start_state \<Rightarrow> client_registry \<Rightarrow> ports \<Rightarrow> start_outcome" where
  "serve_with s reg p =
     (let env0 = ss_os_environ s; environ = unset_approver env0; dir = data_dir env0; st = new_store in
      case ss_audit s (join_path dir ''audit.log'') of
        Inl e \<Rightarrow> Fatal (AuditFailed e)
      | Inr al \<Rightarrow>
      (case new_container_store (join_path dir ''containers.json'')
              (ss_containers s (join_path dir ''containers.json'')) of
        Inl e \<Rightarrow> Fatal (ContainersFailed e)
      | Inr cs \<Rightarrow>
      (case new_machine_store (join_path dir ''machines.json'')
              (ss_machines s (join_path dir ''machines.json'')) of
        Inl e \<Rightarrow> Fatal (MachinesFailed e)
      | Inr ms \<Rightarrow>
          let wlPath = env_string environ ''MHR_WHITELIST_FILE'' (join_path dir ''whitelist.json'') in
      (case whitelist_load wlPath (ss_whitelist s wlPath) of
        Inl e \<Rightarrow> Fatal (WhitelistFailed e)
      | Inr wl \<Rightarrow>
          Serving \<lparr>sg_handler = build_handler environ st al (ss_fs s) cs ms wl (pt_approver_required p),
                   sg_tools = build_tools environ st al cs ms,
                   sg_server = new_server (env_lookup environ ''MHR_SSE_KEEPALIVE''),
                   sg_clients = reg, sg_ports = p, sg_exec_config = exec_config_from env0,
                   sg_mcp_port = env_int env0 ''MHR_MCP_PORT'' 8080,
                   sg_web_port = env_int env0 ''MHR_WEB_PORT'' 8090,
                   sg_environ = environ\<rparr>))))"

text \<open>main.\<close>

definition relay_main :: "start_state \<Rightarrow> start_outcome" where
  "relay_main s =
     (case scrub_at_start s of
        Some out \<Rightarrow> out
      | None \<Rightarrow>
          let environ = ss_os_environ s; path = clients_path environ; d = ss_clients s path in
          if \<not> ss_mkdir s (data_dir environ) then Fatal DataDirFailed
          else
      (case handle_client_command (ss_lib s) (ss_now s) (ss_random s) (ss_client_write s) (ss_args s) path d of
        (Some (code, out), d') \<Rightarrow> Exited code out d'
      | (None, _) \<Rightarrow>
          if env_lookup environ ''MHR_AUTH_TOKEN'' = '''' then Fatal (BadCredentials NoAuthToken)
          else
      (case new_client_registry path d of
        Inl e \<Rightarrow> Fatal (BadCredentials (ClientRegistryError e))
      | Inr reg \<Rightarrow>
      (case start_ports (lib_sha256 (ss_lib s)) (initial_environ (ss_proc_environ s) environ) environ reg of
        Inl e \<Rightarrow> Fatal (BadCredentials e)
      | Inr p \<Rightarrow> serve_with s reg p))))"

section \<open>Lemmas\<close>

lemma build_tools_fields:
  "th_store (build_tools environ s al cs ms) = s" "th_audit (build_tools environ s al cs ms) = al"
  "th_containers (build_tools environ s al cs ms) = cs" "th_machines (build_tools environ s al cs ms) = Some ms"
  "th_max_wait (build_tools environ s al cs ms) = max_wait_from_env (env_lookup environ ''MHR_MAX_WAIT'')"
  by (simp_all add: build_tools_def Let_def new_tool_handler_def set_ssh_config_def set_relay_pubkey_file_def
      set_scripts_dir_def)

lemma build_handler_fields:
  "h_store (build_handler environ s al f cs ms wl b) = s" "h_audit (build_handler environ s al f cs ms wl b) = al"
  "h_registries (build_handler environ s al f cs ms wl b) = \<lparr>rg_containers = Some cs, rg_machines = Some ms\<rparr>"
  "h_approver_required (build_handler environ s al f cs ms wl b) = b"
  "h_whitelist (build_handler environ s al f cs ms wl b) = Some wl" "h_calls (build_handler environ s al f cs ms wl b) = []"
  by (simp_all add: build_handler_def new_handler_def with_cooldown_def with_whitelist_def with_scripts_dir_def
      with_registries_def with_approver_required_def)

lemma serve_with_Serving:
  assumes "serve_with s reg p = Serving g"
  obtains al cs ms wl path raw where "sg_handler g = build_handler (unset_approver (ss_os_environ s)) new_store al (ss_fs s)
        cs ms wl (pt_approver_required p)"
    and "sg_tools g = build_tools (unset_approver (ss_os_environ s)) new_store al cs ms"
    and "whitelist_load path (ss_whitelist s path) = Inr wl"
    and "sg_clients g = reg" and "sg_ports g = p" and "sg_server g = new_server raw"
    and "sg_environ g = unset_approver (ss_os_environ s)"
proof -
  let ?P = "\<lambda>al cs ms wl path raw. sg_handler g = build_handler (unset_approver (ss_os_environ s)) new_store al (ss_fs s)
        cs ms wl (pt_approver_required p)
      \<and> sg_tools g = build_tools (unset_approver (ss_os_environ s)) new_store al cs ms
      \<and> whitelist_load path (ss_whitelist s path) = Inr wl \<and> sg_clients g = reg \<and> sg_ports g = p
      \<and> sg_server g = new_server raw \<and> sg_environ g = unset_approver (ss_os_environ s)"
  have "\<exists>al cs ms wl path raw. ?P al cs ms wl path raw"
    using assms unfolding serve_with_def Let_def by (auto split: sum.splits intro!: exI)
  then show thesis using that by blast
qed

lemma start_ports_Inr:
  assumes "start_ports sha block environ reg = Inr p"
  shows "env_lookup environ ''MHR_AUTH_TOKEN'' \<noteq> ''''
     \<and> pt_mcp p = new_verifier sha (env_lookup environ ''MHR_AUTH_TOKEN'')
     \<and> (case approver_digest_from_env sha block of
          Inl e \<Rightarrow> False
        | Inr None \<Rightarrow> \<not> pt_approver_required p \<and> pt_web p = pt_mcp p
        | Inr (Some d) \<Rightarrow> pt_approver_required p \<and> pt_web p = with_approver_digest d (pt_mcp p))"
  using assms by (auto simp: start_ports_def Let_def split: if_splits sum.splits option.splits)

lemma relay_main_Serving:
  assumes "relay_main s = Serving g"
  obtains reg p where "scrub_at_start s = None"
    and "new_client_registry (clients_path (ss_os_environ s)) (ss_clients s (clients_path (ss_os_environ s))) = Inr reg"
    and "start_ports (lib_sha256 (ss_lib s)) (initial_environ (ss_proc_environ s) (ss_os_environ s)) (ss_os_environ s) reg = Inr p"
    and "serve_with s reg p = Serving g"
  using assms
  by (auto simp: relay_main_def scrub_at_start_def Let_def split: option.splits if_splits prod.splits sum.splits)

lemma new_client_registry_wf: "new_client_registry path d = Inr reg \<Longrightarrow> cr_wf reg"
  by (cases d) (auto simp: new_client_registry_def cr_wf_def, simp add: gomap_wf_def)

text \<open>Once the scrub had nothing to do, no entry of the block is a plaintext token, or the
  credentials are refused.\<close>

lemma no_scrub_no_plaintext:
  assumes "scrub_plaintext sha block = None" and "approver_digest_from_env sha block = Inr x"
  shows "\<forall>v\<in>set (settings approver_token_var block). v = ''''"
proof (cases "read_approver_env block")
  case (Inl e)
  then show ?thesis using assms(2) by (simp add: approver_digest_from_env_def)
next
  case (Inr e)
  then have tok: "ae_token e = last_or '''' (settings approver_token_var block)"
    and one: "length (settings approver_token_var block) \<le> 1"
    by (simp_all add: read_approver_env_Inr)
  have "ae_token e = ''''"
    using assms Inr by (auto simp: scrub_plaintext_def approver_digest_from_env_def split: if_splits)
  with tok one show ?thesis by (cases "settings approver_token_var block") (auto simp: last_or_def)
qed

lemma unset_approver_settings:
  "key = approver_token_var \<or> key = approver_digest_var \<Longrightarrow> settings key (unset_approver environ) = []"
  by (simp add: unset_approver_def settings_scrubbed)

lemma find_prefix_None_iff: "find_prefix ps s = None \<longleftrightarrow> (\<forall>p\<in>set ps. p \<noteq> [] \<longrightarrow> \<not> prefix p s)"
  by (induction ps) auto

lemma trim_space_idem [simp]: "trim_space (trim_space s) = trim_space s"
proof -
  define b where "b = rev (trim_front go_spaces s)"
  define u where "u = trim_front (map rev go_spaces) b"
  have t: "trim_space s = rev u" by (simp add: trim_space_def u_def b_def)
  have stop: "trim_front ps v = v" if "find_prefix ps v = None" for ps v
    using that by (simp add: trim_front.simps [of ps v])
  have "prefix (rev u) (rev b)" using trim_front_suffix [of "map rev go_spaces" b] by (simp add: u_def suffix_to_prefix)
  moreover have "find_prefix go_spaces (rev b) = None" by (simp add: b_def trim_front_no_prefix)
  ultimately have "find_prefix go_spaces (rev u) = None"
    by (auto simp: find_prefix_None_iff dest: prefix_order.trans)
  then have "trim_front go_spaces (rev u) = rev u" by (rule stop)
  moreover have "trim_front (map rev go_spaces) u = u" by (rule stop) (simp add: u_def trim_front_no_prefix)
  ultimately show ?thesis unfolding t by (simp add: trim_space_def)
qed

text \<open>What main leaves, fact by fact.\<close>

lemma serving_relay_facts:
  assumes "relay_main s = Serving g"
  shows "initial \<lparr>y_handler = sg_handler g, y_threads = []\<rparr>" "shares (sg_tools g) (sg_handler g)"
    "cr_wf (sg_clients g)" "server_wf (sg_server g)"
    "h_approver_required (sg_handler g) = pt_approver_required (sg_ports g)"
    "vf_approver (pt_mcp (sg_ports g)) = None"
    "approver_digest_from_env (lib_sha256 (ss_lib s)) (initial_environ (ss_proc_environ s) (ss_os_environ s))
       = Inr (vf_approver (pt_web (sg_ports g)))"
    "pt_approver_required (sg_ports g) \<longleftrightarrow> vf_approver (pt_web (sg_ports g)) \<noteq> None"
    "sg_environ g = unset_approver (ss_os_environ s)"
proof -
  let ?sha = "lib_sha256 (ss_lib s)" and ?block = "initial_environ (ss_proc_environ s) (ss_os_environ s)"
  obtain reg p where
        reg: "new_client_registry (clients_path (ss_os_environ s)) (ss_clients s (clients_path (ss_os_environ s))) = Inr reg"
    and p: "start_ports ?sha ?block (ss_os_environ s) reg = Inr p" and sw: "serve_with s reg p = Serving g"
    by (rule relay_main_Serving [OF assms])
  obtain al cs ms wl path raw where
      g: "sg_handler g = build_handler (unset_approver (ss_os_environ s)) new_store al (ss_fs s) cs ms wl (pt_approver_required p)"
         "sg_tools g = build_tools (unset_approver (ss_os_environ s)) new_store al cs ms"
         "sg_clients g = reg" "sg_ports g = p" "sg_server g = new_server raw"
         "sg_environ g = unset_approver (ss_os_environ s)"
    by (rule serve_with_Serving [OF sw])
  note ports = start_ports_Inr [OF p]
  obtain x where x: "approver_digest_from_env ?sha ?block = Inr x" using ports by (auto split: sum.splits)
  have none: "vf_approver (pt_mcp p) = None" using ports by (simp add: new_verifier_def)
  have "vf_approver (pt_web p) = x \<and> (pt_approver_required p \<longleftrightarrow> x \<noteq> None)"
    using ports none x by (cases x) (auto simp: with_approver_digest_def)
  then show "initial \<lparr>y_handler = sg_handler g, y_threads = []\<rparr>" "shares (sg_tools g) (sg_handler g)"
    "cr_wf (sg_clients g)" "server_wf (sg_server g)"
    "h_approver_required (sg_handler g) = pt_approver_required (sg_ports g)"
    "vf_approver (pt_mcp (sg_ports g)) = None"
    "approver_digest_from_env ?sha ?block = Inr (vf_approver (pt_web (sg_ports g)))"
    "pt_approver_required (sg_ports g) \<longleftrightarrow> vf_approver (pt_web (sg_ports g)) \<noteq> None"
    "sg_environ g = unset_approver (ss_os_environ s)"
    using none x new_client_registry_wf [OF reg]
    by (simp_all add: g initial_def shares_def build_handler_fields build_tools_fields server_wf_new)
qed

section \<open>Properties\<close>

text \<open>C9. A relay that serves is the system the other theories speak of. Nothing is stored or running;
  both ports share one store, one audit log and the same registries; the session table and the client
  registry are well formed; the web port demands the approver exactly when one is configured, and then
  its verifier alone knows the digest; no plaintext approver token is left in the environment the
  process was started with, and the commands it runs inherit no approver variable and every other
  entry.\<close>

theorem serving_relay_is_initial:
  assumes "relay_main s = Serving g"
    and "block = initial_environ (ss_proc_environ s) (ss_os_environ s)"
  shows "initial \<lparr>y_handler = sg_handler g, y_threads = []\<rparr>
       \<and> shares (sg_tools g) (sg_handler g) \<and> cr_wf (sg_clients g) \<and> server_wf (sg_server g)
       \<and> h_approver_required (sg_handler g) = pt_approver_required (sg_ports g)
       \<and> vf_approver (pt_mcp (sg_ports g)) = None
       \<and> approver_digest_from_env (lib_sha256 (ss_lib s)) block = Inr (vf_approver (pt_web (sg_ports g)))
       \<and> (pt_approver_required (sg_ports g) \<longleftrightarrow> vf_approver (pt_web (sg_ports g)) \<noteq> None)
       \<and> (ss_unix s \<longrightarrow> (\<forall>v\<in>set (settings approver_token_var block). v = ''''))
       \<and> settings approver_token_var (sg_environ g) = [] \<and> settings approver_digest_var (sg_environ g) = []
       \<and> sg_environ g = filter (\<lambda>kv. \<not> is_approver_entry kv) (ss_os_environ s)"
proof -
  note start = serving_relay_facts [OF assms(1)]
  have "scrub_at_start s = None" by (rule relay_main_Serving [OF assms(1)])
  then have "ss_unix s \<longrightarrow> (\<forall>v\<in>set (settings approver_token_var block). v = '''')"
    using no_scrub_no_plaintext [OF _ start(7)] assms(2) by (auto simp: scrub_at_start_def split: option.splits)
  with start assms(2) show ?thesis by (simp add: unset_approver_settings) (simp add: unset_approver_def)
qed

text \<open>A start the demonstrations share: the digest form of the approver variable, empty files.\<close>

definition demo_digest_entry :: string where
  "demo_digest_entry = approver_digest_var @ CHR ''='' # hex_encode (demo_sha ''tok'')"

definition demo_environ :: "string list" where
  "demo_environ = [''MHR_AUTH_TOKEN=auth'', demo_digest_entry]"

definition demo_start :: start_state where
  "demo_start = \<lparr>ss_lib = demo_auth_lib\<lparr>lib_sha256 := demo_sha\<rparr>, ss_unix = True, ss_proc_environ = None,
     ss_os_environ = demo_environ, ss_args = [], ss_executable = True, ss_exec = True, ss_mkdir = \<lambda>_. True,
     ss_clients = \<lambda>_. NoFile, ss_containers = \<lambda>_. NoFile, ss_machines = \<lambda>_. NoFile,
     ss_whitelist = \<lambda>_. File [\<lparr>sr_rule = \<lparr>rl_command = ''df'', rl_args = [''-h'']\<rparr>, sr_gate_output = False\<rparr>],
     ss_audit = \<lambda>_. Inr [], ss_fs = Map.empty, ss_now = 0, ss_random = Inr [], ss_client_write = WriteOK\<rparr>"

lemma demo_environ_settings:
  "settings approver_token_var demo_environ = []"
  "settings approver_digest_var demo_environ = [hex_encode (demo_sha ''tok'')]"
  "env_lookup demo_environ ''MHR_AUTH_TOKEN'' = ''auth''"
proof -
  have cut: "str_cut CHR ''='' demo_digest_entry = Some (approver_digest_var, hex_encode (demo_sha ''tok''))"
    unfolding demo_digest_entry_def by (rule str_cut_append) (rule var_no_eq)
  have auth: "str_cut CHR ''='' ''MHR_AUTH_TOKEN=auth'' = Some (''MHR_AUTH_TOKEN'', ''auth'')" by simp
  have no: "''MHR_AUTH_TOKEN'' \<noteq> approver_token_var" "''MHR_AUTH_TOKEN'' \<noteq> approver_digest_var"
    by (simp_all add: approver_token_var_def approver_digest_var_def)
  show "settings approver_token_var demo_environ = []"
    "settings approver_digest_var demo_environ = [hex_encode (demo_sha ''tok'')]"
    unfolding demo_environ_def settings_Cons cut auth using no by (simp_all add: settings_def)
  show "env_lookup demo_environ ''MHR_AUTH_TOKEN'' = ''auth''"
    unfolding demo_environ_def env_lookup.simps auth by simp
qed

lemma demo_digest:
  "read_approver_env demo_environ = Inr \<lparr>ae_token = '''', ae_digest_hex = hex_encode (demo_sha ''tok'')\<rparr>"
  "approver_digest_from_env demo_sha demo_environ = Inr (Some (demo_sha ''tok''))"
proof -
  have ne: "demo_sha ''tok'' \<noteq> []" using demo_sha_length [of "''tok''"] by auto
  show r: "read_approver_env demo_environ = Inr \<lparr>ae_token = '''', ae_digest_hex = hex_encode (demo_sha ''tok'')\<rparr>"
    using ne by (simp add: read_approver_env_Inr demo_environ_settings last_or_def usable_def trim_space_hex)
  show "approver_digest_from_env demo_sha demo_environ = Inr (Some (demo_sha ''tok''))"
    using ne by (simp add: approver_digest_from_env_def r digest_round_trip demo_sha_length)
qed

lemma demo_start_serves:
  "\<exists>g. relay_main demo_start = Serving g \<and> pt_approver_required (sg_ports g)
     \<and> vf_approver (pt_web (sg_ports g)) = Some (demo_sha ''tok'')
     \<and> (\<exists>wl. h_whitelist (sg_handler g) = Some wl \<and> wl_rules wl = [\<lparr>rl_command = ''df'', rl_args = [''-h'']\<rparr>])"
proof -
  have "scrub_at_start demo_start = None"
    by (simp add: scrub_at_start_def demo_start_def initial_environ_def scrub_plaintext_def demo_digest(1))
  moreover have "demo_sha ''tok'' \<noteq> demo_sha ''auth''" by (simp add: demo_sha_def)
  ultimately show ?thesis
    by (simp add: relay_main_def Let_def)
      (simp add: demo_start_def handle_client_command_def demo_environ_settings new_client_registry_def
        start_ports_def initial_environ_def demo_digest(2) match_digest_def serve_with_def new_container_store_def
        new_machine_store_def whitelist_load_def build_handler_fields with_approver_digest_def Let_def)
qed

theorem serving_relay_is_initial_witness:
  "\<exists>g. relay_main demo_start = Serving g \<and> initial \<lparr>y_handler = sg_handler g, y_threads = []\<rparr>
     \<and> h_approver_required (sg_handler g)"
proof -
  obtain g where g: "relay_main demo_start = Serving g" "pt_approver_required (sg_ports g)"
    using demo_start_serves by blast
  from serving_relay_is_initial [OF g(1) refl] g show ?thesis by auto
qed

end
