(* ===== verification/Relay_Ports.thy ===== *)
theory Relay_Ports
  imports Startup
begin

text \<open>
  The running relay behind its two listeners: what net/http hands to the web port goes through the
  outer mux and web_entry (main.go), then through the routes of RegisterRoutes (web/handler.go) into
  the interleaved system; a call to the MCP port goes through AuthMiddleware and then takes an
  agent's steps for as long as it is open. Requests come with their raw Authorization header, so the
  properties speak about tokens.
\<close>

section \<open>The mux\<close>

text \<open>http.ServeMux on patterns without methods, hosts or wildcards, for paths without percent
  escapes: the pattern itself, else the longest one that ends in a slash and begins the path.\<close>

fun longest_pattern :: "(string \<times> 'r) list \<Rightarrow> (string \<times> 'r) option" where
  "longest_pattern [] = None"
| "longest_pattern (pr # rest) =
     (case longest_pattern rest of
        None \<Rightarrow> Some pr
      | Some qr \<Rightarrow> if length (fst pr) < length (fst qr) then Some qr else Some pr)"

definition subtree_of :: "string \<Rightarrow> string \<Rightarrow> bool" where
  "subtree_of path pattern \<longleftrightarrow> pattern \<noteq> '''' \<and> last pattern = CHR ''/'' \<and> prefix pattern path"

definition mux_match :: "(string \<times> 'r) list \<Rightarrow> string \<Rightarrow> 'r option" where
  "mux_match routes path =
     (case map_of routes path of
        Some r \<Rightarrow> Some r
      | None \<Rightarrow> map_option snd (longest_pattern (filter (\<lambda>(p, _). subtree_of path p) routes)))"

text \<open>The mux answers a path that is not clean with a redirect, except for CONNECT.\<close>

definition clean_url_path :: "string \<Rightarrow> string" where
  "clean_url_path p =
     (if p = '''' then ''/''
      else let q = (if hd p \<noteq> CHR ''/'' then CHR ''/'' # p else p); np = path_clean q in
           if last q = CHR ''/'' \<and> np \<noteq> ''/'' then np @ ''/'' else np)"

definition mux_redirects :: "web_request \<Rightarrow> bool" where
  "mux_redirects q \<longleftrightarrow> wq_method q \<noteq> ''CONNECT'' \<and> clean_url_path (wq_path q) \<noteq> wq_path q"

datatype web_route = ToDashboard | ToList | ToAction | ToTurbocharge | ToWhitelist | ToWhitelistRemove | ToEvents

definition register_routes :: "(string \<times> web_route) list" where
  "register_routes =
     [(''/'', ToDashboard), (''/api/requests'', ToList), (''/api/requests/'', ToAction),
      (''/api/turbocharge'', ToTurbocharge), (''/api/whitelist'', ToWhitelist),
      (''/api/whitelist/remove'', ToWhitelistRemove), (''/events'', ToEvents)]"

section \<open>A call to the web port\<close>

text \<open>The request with what its body decodes to, the \<^verbatim>\<open>status\<close> of its query, and the channel an event
  stream would get.\<close>

record web_call =
  wc_request :: web_request
  wc_deny_reason :: string
  wc_turbo :: "int \<times> int"
  wc_whitelist :: "whitelist_body option"
  wc_remove :: "(string \<times> string list) option"
  wc_channel :: nat

text \<open>The step of the interleaved system a served call is; the dashboard and the list change nothing.\<close>

definition web_label :: "world \<Rightarrow> clock \<Rightarrow> auth_ctx \<Rightarrow> web_call \<Rightarrow> label option" where
  "web_label w clk ctx c =
     (let q = wc_request c; meth = wq_method q in
      case mux_match register_routes (wq_path q) of
        Some ToAction \<Rightarrow> Some (HttpAction ctx meth (wq_path q) (wc_deny_reason c))
      | Some ToTurbocharge \<Rightarrow> Some (Turbocharge clk ctx meth (fst (wc_turbo c)) (snd (wc_turbo c)))
      | Some ToWhitelist \<Rightarrow> Some (EditWhitelist w clk ctx meth (wc_whitelist c))
      | Some ToWhitelistRemove \<Rightarrow> Some (RemoveRule w clk ctx meth (wc_remove c))
      | Some ToEvents \<Rightarrow> Some (SseConnect (wc_channel c))
      | _ \<Rightarrow> None)"

section \<open>Steps\<close>

text \<open>The relay, the client registry behind both verifiers, and the contexts of the calls open on the
  MCP port.\<close>

record running =
  rn_relay :: relay
  rn_clients :: client_registry
  rn_calls :: "auth_ctx list"

datatype port_label =
    WebCall int "client list write_outcome" world clock web_call
  | McpCall int "client list write_outcome" string
  | McpStep auth_ctx label
  | McpReturn auth_ctx
  | Inside label

text \<open>What the relay does by itself: started calls and executions go on, the watchers run, event
  streams are read and closed.\<close>

fun background :: "(string \<Rightarrow> string) \<Rightarrow> label \<Rightarrow> bool" where
  "background sha (Advance i w clk) = True"
| "background sha (Watch f) = (f = sha)"
| "background sha WatchUpdates = True"
| "background sha (SseReceive c) = True"
| "background sha (SseDisconnect c) = True"
| "background sha _ = False"

inductive port_step :: "(string \<Rightarrow> string) \<Rightarrow> ports \<Rightarrow> running \<Rightarrow> port_label \<Rightarrow> running \<Rightarrow> bool"
  for sha :: "string \<Rightarrow> string" and p :: ports where
  web_redirected:
    "mux_redirects (wc_request c) \<Longrightarrow> port_step sha p s (WebCall now wo w clk c) s"
| web_refused:
    "\<not> mux_redirects (wc_request c) \<Longrightarrow>
     web_entry (relay_check sha now wo (pt_web p)) (wc_request c) (rn_clients s) = (Inl rep, r') \<Longrightarrow>
     port_step sha p s (WebCall now wo w clk c) (s\<lparr>rn_clients := r'\<rparr>)"
| web_read:
    "\<not> mux_redirects (wc_request c) \<Longrightarrow>
     web_entry (relay_check sha now wo (pt_web p)) (wc_request c) (rn_clients s) = (Inr ctx, r') \<Longrightarrow>
     web_label w clk ctx c = None \<Longrightarrow>
     port_step sha p s (WebCall now wo w clk c) (s\<lparr>rn_clients := r'\<rparr>)"
| web_served:
    "\<not> mux_redirects (wc_request c) \<Longrightarrow>
     web_entry (relay_check sha now wo (pt_web p)) (wc_request c) (rn_clients s) = (Inr ctx, r') \<Longrightarrow>
     web_label w clk ctx c = Some l \<Longrightarrow> sys_step (rn_relay s) l y' \<Longrightarrow>
     port_step sha p s (WebCall now wo w clk c) (s\<lparr>rn_relay := y', rn_clients := r'\<rparr>)"
| mcp_refused:
    "auth_middleware (relay_check sha now wo (pt_mcp p)) header no_ctx (rn_clients s) = (Inl rep, r') \<Longrightarrow>
     port_step sha p s (McpCall now wo header) (s\<lparr>rn_clients := r'\<rparr>)"
| mcp_admitted:
    "auth_middleware (relay_check sha now wo (pt_mcp p)) header no_ctx (rn_clients s) = (Inr ctx, r') \<Longrightarrow>
     port_step sha p s (McpCall now wo header) (s\<lparr>rn_clients := r', rn_calls := ctx # rn_calls s\<rparr>)"
| mcp_step:
    "ctx \<in> set (rn_calls s) \<Longrightarrow> agent_label (ctx_client_from ctx) l \<Longrightarrow> sys_step (rn_relay s) l y' \<Longrightarrow>
     port_step sha p s (McpStep ctx l) (s\<lparr>rn_relay := y'\<rparr>)"
| mcp_return:
    "port_step sha p s (McpReturn ctx) (s\<lparr>rn_calls := remove1 ctx (rn_calls s)\<rparr>)"
| inside:
    "background sha l \<Longrightarrow> sys_step (rn_relay s) l y' \<Longrightarrow> port_step sha p s (Inside l) (s\<lparr>rn_relay := y'\<rparr>)"

text \<open>The relay main started.\<close>

definition just_started :: "serving \<Rightarrow> running" where
  "just_started g = \<lparr>rn_relay = \<lparr>y_handler = sg_handler g, y_threads = []\<rparr>, rn_clients = sg_clients g, rn_calls = []\<rparr>"

section \<open>Who is admitted\<close>

text \<open>A header presents a credential with digest \<open>d\<close>.\<close>

definition presents :: "(string \<Rightarrow> string) \<Rightarrow> string \<Rightarrow> string \<Rightarrow> bool" where
  "presents sha d header \<longleftrightarrow> prefix ''Bearer '' header
     \<and> (let tok = trim_space (drop 6 header) in tok \<noteq> '''' \<and> sha tok = d)"

lemma web_entry_approver:
  assumes "cr_wf r" and "web_entry (relay_check sha now wo v) q r = (Inr ctx, r')" and "is_approver ctx"
  shows "\<exists>d. vf_approver v = Some d \<and> presents sha d (wq_authorization q)"
proof -
  have "auth_middleware (relay_check sha now wo v) (wq_authorization q) no_ctx r = (Inr ctx, r')"
    using assms(2,3) by (auto simp: web_entry_def is_approver_def no_ctx_def split: if_splits prod.splits sum.splits)
  from auth_middleware_admits [OF assms(1) this] assms(3) show ?thesis
    by (auto simp: presents_def token_holds_def Let_def split: if_splits)
qed

lemma web_entry_keeps:
  assumes "cr_wf r" and "web_entry (relay_check sha now wo v) q r = (out, r')"
  shows "cr_wf r' \<and> (\<forall>t c ap. token_holds sha v' r' t c ap = token_holds sha v' r t c ap)"
  using assms(2) auth_middleware_keeps [OF assms(1), of sha now wo v "wq_authorization q" _ r' v'] assms(1)
  by (auto simp: web_entry_def split: if_splits prod.splits sum.splits)

section \<open>Without the approver's token\<close>

text \<open>The request a thread carries is on the whitelist, and is the one stored under its name.\<close>

definition listed :: "(string \<Rightarrow> string) \<Rightarrow> whitelist option \<Rightarrow> request \<Rightarrow> bool" where
  "listed sha wl r \<longleftrightarrow> (\<exists>l. wl = Some l \<and> whitelist_match l (fst (whitelist_key sha r)) (snd (whitelist_key sha r)))"

definition covered :: "(string \<Rightarrow> string) \<Rightarrow> whitelist option \<Rightarrow> store \<Rightarrow> request \<Rightarrow> bool" where
  "covered sha wl s r \<longleftrightarrow> listed sha wl r \<and> (\<exists>r1. st_requests s (r_id r) = Some r1 \<and> core r1 = core r)"

lemma whitelist_key_core: "core r = core r' \<Longrightarrow> whitelist_key sha r = whitelist_key sha r'"
proof -
  have "whitelist_key sha (core r) = whitelist_key sha r" for r
    by (simp add: whitelist_key_def core_def Let_def)
  then show "core r = core r' \<Longrightarrow> whitelist_key sha r = whitelist_key sha r'" by metis
qed

lemma covered_core:
  "covered sha wl s r \<Longrightarrow> core r' = core r \<Longrightarrow> covered sha wl s r'"
  using whitelist_key_core [of r' r sha] core_id [of r' r] by (auto simp: covered_def listed_def)

lemma covered_mono: "covered sha wl s r \<Longrightarrow> store_evolves s s' \<Longrightarrow> covered sha wl s' r"
  unfolding covered_def store_evolves_def by metis

fun carried :: "thread \<Rightarrow> request option" where
  "carried (AtAuto r) = Some r"
| "carried (AtAutoApproved r) = Some r"
| "carried (AtExecStart r) = Some r"
| "carried (AtExecRun r) = Some r"
| "carried (AtExecEnd r res) = Some r"
| "carried _ = None"

definition thread_listed :: "(string \<Rightarrow> string) \<Rightarrow> whitelist option \<Rightarrow> store \<Rightarrow> thread \<Rightarrow> bool" where
  "thread_listed sha wl s t \<longleftrightarrow> (\<exists>r. carried t = Some r \<and> covered sha wl s r)"

text \<open>What a decision could change, and the new part of the audit log.\<close>

definition undecided :: "handler \<Rightarrow> handler \<Rightarrow> bool" where
  "undecided h h' \<longleftrightarrow> h_approver_required h' = h_approver_required h \<and> h_whitelist h' = h_whitelist h
     \<and> h_cooldown h' = h_cooldown h \<and> store_evolves (h_store h) (h_store h')
     \<and> (\<exists>es. h_audit h' = h_audit h @ es \<and> ''request_approved'' \<notin> ev_event ` set es)"

lemma undecided_trans: "undecided h h1 \<Longrightarrow> undecided h1 h2 \<Longrightarrow> undecided h h2"
  unfolding undecided_def by (elim conjE exE) (auto intro: store_evolves_trans)

lemma undecided_refl [simp]: "undecided h h"
  by (auto simp: undecided_def)

lemma approve_commit_undecided: "approve_commit now rid g h = (x, h') \<Longrightarrow> undecided h h'"
  by (auto simp: undecided_def evolves_ops dest!: approve_commit_fields)

lemma execute_end_events:
  "\<exists>es. h_audit (execute_end clk r res h) = h_audit h @ es \<and> ''request_approved'' \<notin> ev_event ` set es"
  by (auto simp: execute_end_def Let_def split: prod.split)

lemma execution_undecided:
  "undecided h (execute_begin clk r h)" "undecided h (snd (execute_body w t r h))"
  "undecided h (execute_end clk r res h)" "undecided h (auto_approve_finish now r h)"
  using execute_end_events [of clk r res h]
  by (auto simp: undecided_def evolves_ops final_status_def auto_approve_finish_def)

lemma execution_calls_same:
  "h_calls (execute_begin clk r h) = h_calls h" "h_calls (execute_end clk r res h) = h_calls h"
  "h_calls (auto_approve_finish now r h) = h_calls h"
  by simp_all

definition calls_listed :: "(string \<Rightarrow> string) \<Rightarrow> whitelist option \<Rightarrow> handler \<Rightarrow> bool" where
  "calls_listed sha wl h \<longleftrightarrow> (\<forall>rid c. (rid, c) \<in> set (h_calls h) \<longrightarrow> (\<exists>r. r_id r = rid \<and> covered sha wl (h_store h) r))"

lemma calls_listed_mono:
  "calls_listed sha wl h \<Longrightarrow> undecided h h' \<Longrightarrow> h_calls h' = h_calls h \<Longrightarrow> calls_listed sha wl h'"
  unfolding calls_listed_def undecided_def by (metis covered_mono)

lemma thread_listed_mono: "thread_listed sha wl (h_store h) t \<Longrightarrow> undecided h h' \<Longrightarrow> thread_listed sha wl (h_store h') t"
  by (auto simp: thread_listed_def undecided_def intro: covered_mono)

lemma thread_step_listed:
  assumes "thread_step w clk t h = (h', new)" and "thread_listed sha wl (h_store h) t"
    and wf: "store_wf (h_store h)" and "calls_listed sha wl h"
  shows "undecided h h' \<and> (\<forall>t'\<in>set new. thread_listed sha wl (h_store h') t') \<and> calls_listed sha wl h'"
proof -
  obtain r where r: "carried t = Some r" "covered sha wl (h_store h) r" using assms(2) by (auto simp: thread_listed_def)
  have keep: "covered sha wl (h_store h1) r" if "undecided h h1" for h1
    using that r(2) by (auto simp: undecided_def intro: covered_mono)
  show ?thesis
  proof (cases t)
    case (AtAuto req)
    obtain x h1 where c: "approve_commit (clk 0) (r_id req) False h = (x, h1)" by (metis surj_pair)
    note u = approve_commit_undecided [OF c]
    have calls: "calls_listed sha wl h1" by (rule calls_listed_mono [OF assms(4) u]) (use approve_commit_fields [OF c] in simp)
    show ?thesis
    proof (cases x)
      case None
      with AtAuto assms(1) c u calls show ?thesis by simp
    next
      case (Some q)
      obtain q1 where q: "r_id q = r_id r" "st_requests (h_store h1) (r_id q) = Some q1" "core q1 = core q"
        using approve_commit_Some [OF c [unfolded Some] wf] AtAuto r(1) by (auto simp: decided_copy_def)
      obtain r1 where r1: "st_requests (h_store h1) (r_id r) = Some r1" "core r1 = core r"
        using keep [OF u] by (auto simp: covered_def)
      have "covered sha wl (h_store h1) q"
        by (rule covered_core [OF keep [OF u]]) (use q r1 in simp)
      moreover have "new = [AtAutoApproved q]" "h' = h1" using AtAuto assms(1) c Some by auto
      ultimately show ?thesis using u calls by (simp add: thread_listed_def)
    qed
  next
    case (AtAutoApproved q)
    have h': "h' = auto_approve_finish (clk 0) q h" "new = [AtExecStart q]" "q = r" using AtAutoApproved assms(1) r(1) by auto
    show ?thesis
      unfolding h'(1,2) using execution_undecided(4) keep [OF execution_undecided(4)] calls_listed_mono [OF assms(4) execution_undecided(4)]
      by (simp add: thread_listed_def h'(3) del: finish_fields(4))
  next
    case (AtExecStart q)
    have h': "h' = execute_begin clk q h" "new = [AtExecRun q]" "q = r" using AtExecStart assms(1) r(1) by auto
    show ?thesis
      unfolding h'(1,2) using execution_undecided(1) keep [OF execution_undecided(1)] calls_listed_mono [OF assms(4) execution_undecided(1)]
      by (simp add: thread_listed_def h'(3) del: execute_begin_fields(1))
  next
    case (AtExecRun q)
    have h': "h' = snd (execute_body w (clk 0) q h)" "\<exists>res. new = [AtExecEnd q res]" "q = r"
      using AtExecRun assms(1) r(1) by (auto split: prod.splits)
    have "calls_listed sha wl h'"
      using assms(4) r(2) by (auto simp: calls_listed_def h'(1,3) execute_body_calls)
    then show ?thesis
      using h'(2) execution_undecided(2) r(2) by (auto simp: thread_listed_def h'(1,3))
  next
    case (AtExecEnd q res)
    have h': "h' = execute_end clk q res h" "new = []" using AtExecEnd assms(1) by auto
    show ?thesis
      unfolding h' using execution_undecided(3) calls_listed_mono [OF assms(4) execution_undecided(3)] by simp
  qed (use r in auto)
qed

text \<open>The invariant of a relay nobody decided on since \<open>h0\<close>.\<close>

definition unattended :: "(string \<Rightarrow> string) \<Rightarrow> handler \<Rightarrow> relay \<Rightarrow> bool" where
  "unattended sha h0 y \<longleftrightarrow> undecided h0 (y_handler y) \<and> store_wf (h_store (y_handler y))
     \<and> (\<forall>t\<in>set (y_threads y). thread_listed sha (h_whitelist h0) (h_store (y_handler y)) t)
     \<and> calls_listed sha (h_whitelist h0) (y_handler y)"

lemma unattended_step:
  assumes "unattended sha h0 \<lparr>y_handler = h, y_threads = ts\<rparr>" and "undecided h h'" and "h_calls h' = h_calls h"
    and "\<forall>t\<in>set new. thread_listed sha (h_whitelist h0) (h_store h') t"
  shows "unattended sha h0 \<lparr>y_handler = h', y_threads = ts @ new\<rparr>"
  using assms undecided_trans [OF _ assms(2), of h0] calls_listed_mono [OF _ assms(2,3)] thread_listed_mono [OF _ assms(2)]
  by (auto simp: unattended_def) (auto simp: undecided_def store_evolves_def)

lemma unattended_advance:
  assumes inv: "unattended sha h0 \<lparr>y_handler = h, y_threads = ts\<rparr>" and i: "i < length ts"
    and st: "thread_step w clk (ts ! i) h = (h', new)"
  shows "unattended sha h0 \<lparr>y_handler = h', y_threads = take i ts @ new @ drop (Suc i) ts\<rparr>"
proof -
  have t: "thread_listed sha (h_whitelist h0) (h_store h) (ts ! i)" and wf: "store_wf (h_store h)"
    and calls: "calls_listed sha (h_whitelist h0) h" and u0: "undecided h0 h"
    and ts: "\<And>t. t \<in> set ts \<Longrightarrow> thread_listed sha (h_whitelist h0) (h_store h) t"
    using inv i by (auto simp: unattended_def)
  note s = thread_step_listed [OF st t wf calls]
  then have "thread_listed sha (h_whitelist h0) (h_store h') t'" if "t' \<in> set (take i ts @ new @ drop (Suc i) ts)" for t'
    using that s thread_listed_mono [OF ts] by (auto dest!: in_set_takeD in_set_dropD)
  moreover have "store_wf (h_store h')" using s wf by (simp add: undecided_def store_evolves_def)
  ultimately show ?thesis using s undecided_trans [OF u0] by (simp add: unattended_def)
qed

lemma watch_take_undecided:
  assumes "watch_take sha h = (found, h')"
  shows "undecided h h' \<and> h_calls h' = h_calls h"
proof -
  have "h_audit h' = h_audit h \<and> h_approver_required h' = h_approver_required h \<and> h_calls h' = h_calls h
      \<and> h_whitelist h' = h_whitelist h \<and> h_cooldown h' = h_cooldown h"
    using assms by (auto simp: watch_take_def Let_def split: list.splits option.splits prod.splits if_splits)
  with watch_take_evolves [OF assms] show ?thesis by (simp add: undecided_def)
qed

lemma watch_take_covered:
  assumes "watch_take sha h = (Some r, h')" and "store_wf (h_store h)"
  shows "covered sha (h_whitelist h) (h_store h') r"
proof -
  obtain rid q where n: "st_notify (h_store h) = rid # q" using assms(1) by (cases "st_notify (h_store h)") (auto simp: watch_take_def)
  have r: "st_requests (h_store h) rid = Some r" and l: "listed sha (h_whitelist h) r"
    and s: "h_store h' = (h_store h)\<lparr>st_notify := q\<rparr>"
    using assms(1) n
    by (auto simp: watch_take_def listed_def store_get_def Let_def split: option.splits prod.splits if_splits)
  then show ?thesis using store_wf_get [OF assms(2) r] by (auto simp: covered_def)
qed

lemma unattended_sys_step:
  assumes "sys_step y l y'" and "unattended sha h0 y" and "background sha l \<or> agent_label client l"
  shows "unattended sha h0 y'"
  using assms
proof (induction rule: sys_step.induct)
  case (advance i ts w clk h h' new)
  then show ?case by (intro unattended_advance)
next
  case (watch f h found h' ts)
  then have f: "f = sha" and inv: "unattended sha h0 \<lparr>y_handler = h, y_threads = ts\<rparr>" by auto
  note u = watch_take_undecided [OF watch.hyps]
  have "h_whitelist h = h_whitelist h0" "store_wf (h_store h)" using inv by (simp_all add: unattended_def undecided_def)
  then have "\<forall>t\<in>set (map AtAuto (option_list found)). thread_listed sha (h_whitelist h0) (h_store h') t"
    using watch_take_covered [of sha h _ h'] watch.hyps f by (cases found) (auto simp: option_list_def thread_listed_def)
  then show ?case using unattended_step [OF inv] u by blast
next
  case (watch_updates h ts)
  have "undecided h (watch_updates_turn h)"
    using updates_turn_handler [of h] watch_updates_evolves [of h]
    by (auto simp: undecided_def watch_updates_turn_def split: list.split)
  then show ?case using unattended_step [OF watch_updates.prems(1), of _ "[]"] updates_turn_handler [of h] by simp
next
  case (submit r h ts)
  have "undecided h (with_store h (publish r (h_store h)))" using submit.hyps by (simp add: undecided_def evolves_publish)
  then show ?case using unattended_step [OF submit.prems(1), of _ "[]"] by simp
next
  case (agent_withdraw h ts now rid reason)
  have "undecided h (with_store h (snd (withdraw now rid reason (h_store h))))" by (simp add: undecided_def evolves_withdraw)
  then show ?case using unattended_step [OF agent_withdraw.prems(1), of _ "[]"] by simp
next
  case (set_display h ts rid c)
  have "undecided h (with_store h (snd (set_display_command rid c (h_store h))))" by (simp add: undecided_def evolves_display)
  then show ?case using unattended_step [OF set_display.prems(1), of _ "[]"] by simp
next
  case (note_event ev h ts now rid fs)
  have "undecided h (log_event now ev rid fs h)" using note_event.hyps by (auto simp: undecided_def approval_events_def)
  then show ?case using unattended_step [OF note_event.prems(1), of _ "[]"] by simp
next
  case (sse_receive_step h ts c)
  have "undecided h (snd (sse_receive c h))" by (simp add: undecided_def) (simp add: sse_receive_def split: option.split list.split)
  then show ?case using unattended_step [OF sse_receive_step.prems(1), of _ "[]"] by simp
next
  case (sse_disconnect_step h ts c)
  have "undecided h (sse_disconnect c h)" by (simp add: undecided_def) (simp add: sse_disconnect_def)
  then show ?case using unattended_step [OF sse_disconnect_step.prems(1), of _ "[]"] by simp
qed auto

text \<open>A caller without the approver mark, on any route.\<close>

lemma refused_decision:
  assumes "h_approver_required h" and "\<not> is_approver ctx" and "parse_action ctx meth path h = Inr act"
  shows "action_threads ctx reason act = []"
  using assms by (auto simp: parse_action_def authorize_decision_def split: list.splits if_splits)

lemma refused_atomic:
  assumes "h_approver_required h" and "\<not> is_approver ctx"
  shows "snd (handle_turbocharge clk ctx meth dm cs h) = h" "snd (handle_whitelist w clk ctx meth wb h) = h"
    "snd (handle_whitelist_remove w clk ctx meth rb h) = h"
  using assms by (simp_all add: handle_turbocharge_def handle_whitelist_def handle_whitelist_remove_def
      authorize_decision_def split: option.split)

lemma unattended_web_step:
  assumes "sys_step y l y'" and "unattended sha h0 y" and "h_approver_required h0" and "\<not> is_approver ctx"
    and "web_label w clk ctx c = Some l"
  shows "unattended sha h0 y'"
proof -
  have req: "h_approver_required (y_handler y)" using assms(2,3) by (simp add: unattended_def undecided_def)
  have l: "(\<exists>meth path reason. l = HttpAction ctx meth path reason) \<or> (\<exists>meth dm cs. l = Turbocharge clk ctx meth dm cs)
      \<or> (\<exists>meth wb. l = EditWhitelist w clk ctx meth wb) \<or> (\<exists>meth rb. l = RemoveRule w clk ctx meth rb)
      \<or> (\<exists>n. l = SseConnect n)"
    using assms(5) by (auto simp: web_label_def Let_def split: option.splits web_route.splits)
  from assms(1,2) req l show ?thesis
  proof (induction rule: sys_step.induct)
    case (http_accepted ctx' meth path h act ts reason)
    then have "action_threads ctx' reason act = []"
      using refused_decision [OF _ _ http_accepted.hyps] assms(4) by auto
    then show ?case using http_accepted.prems(1) by simp
  next
    case (sse_connect_step h ts n)
    have "undecided h (sse_connect n h)" by (simp add: undecided_def) (simp add: sse_connect_def)
    then show ?case using unattended_step [OF sse_connect_step.prems(1), of _ "[]"] by simp
  qed (use assms(4) in \<open>auto simp: refused_atomic\<close>)
qed

definition undecided_running :: "(string \<Rightarrow> string) \<Rightarrow> handler \<Rightarrow> running \<Rightarrow> bool" where
  "undecided_running sha h0 s \<longleftrightarrow> cr_wf (rn_clients s) \<and> unattended sha h0 (rn_relay s)"

lemma unattended_port_step:
  assumes "port_step sha p s l s'" and "undecided_running sha h0 s" and "h_approver_required h0"
    and "vf_approver (pt_web p) = Some d"
    and "\<And>now wo w clk c. l = WebCall now wo w clk c \<Longrightarrow> \<not> presents sha d (wq_authorization (wc_request c))"
  shows "undecided_running sha h0 s'"
  using assms
proof (induction rule: port_step.induct)
  case (web_served c now wo s ctx r' w clk l y')
  have wf: "cr_wf (rn_clients s)" and u: "unattended sha h0 (rn_relay s)"
    using web_served.prems(1) by (simp_all add: undecided_running_def)
  have "\<not> is_approver ctx"
    using web_entry_approver [OF wf web_served.hyps(2)] web_served.prems(3,4) by auto
  then have "unattended sha h0 y'"
    using unattended_web_step [OF web_served.hyps(4) u web_served.prems(2) _ web_served.hyps(3)] by blast
  then show ?case using web_entry_keeps [OF wf web_served.hyps(2)] by (simp add: undecided_running_def)
next
  case (mcp_step ctx s l y')
  then show ?case using unattended_sys_step [of _ l y'] by (auto simp: undecided_running_def)
next
  case (inside l s y')
  then show ?case using unattended_sys_step [of _ l y'] by (auto simp: undecided_running_def)
qed (auto simp: undecided_running_def dest: web_entry_keeps auth_middleware_keeps)

lemma exec_trace_states_on:
  assumes "exec_trace step s tr t" and "P s"
    and "\<And>u l u'. (u, l) \<in> set tr \<Longrightarrow> step u l u' \<Longrightarrow> P u \<Longrightarrow> P u'"
  shows "\<forall>u\<in>insert t (fst ` set tr). P u"
  using assms by (induction rule: exec_trace.induct) auto

text \<open>A request the whitelist lets run, stored under its name with this content.\<close>

lemma unattended_execution:
  assumes "unattended sha h0 y" and "AtExecStart r \<in> set (y_threads y) \<or> AtExecRun r \<in> set (y_threads y)"
  shows "\<exists>r1 wl. st_requests (h_store (y_handler y)) (r_id r) = Some r1 \<and> core r1 = core r
     \<and> h_whitelist h0 = Some wl \<and> whitelist_match wl (fst (whitelist_key sha r)) (snd (whitelist_key sha r))"
  using assms by (fastforce simp: unattended_def thread_listed_def covered_def listed_def)

section \<open>A concrete run\<close>

text \<open>An agent with the shared token submits a request to the relay of \<open>demo_start\<close>.\<close>

definition demo_serving :: serving where
  "demo_serving = (case relay_main demo_start of Serving g \<Rightarrow> g | _ \<Rightarrow> undefined)"

lemma demo_serving:
  "relay_main demo_start = Serving demo_serving" "vf_approver (pt_web (sg_ports demo_serving)) = Some (demo_sha ''tok'')"
  "\<exists>wl. h_whitelist (sg_handler demo_serving) = Some wl \<and> wl_rules wl = [\<lparr>rl_command = ''df'', rl_args = [''-h'']\<rparr>]"
  "lib_sha256 (ss_lib demo_start) = demo_sha"
  using demo_start_serves by (auto simp: demo_serving_def) (simp add: demo_start_def)

lemma demo_mcp_verifier: "pt_mcp (sg_ports demo_serving) = new_verifier demo_sha ''auth''"
proof -
  obtain reg p where p: "start_ports demo_sha (initial_environ (ss_proc_environ demo_start) (ss_os_environ demo_start))
      (ss_os_environ demo_start) reg = Inr p" and "serve_with demo_start reg p = Serving demo_serving"
    using demo_serving(4) by (metis relay_main_Serving [OF demo_serving(1)])
  then have "sg_ports demo_serving = p" by (metis serve_with_Serving)
  with start_ports_Inr [OF p] show ?thesis by (simp add: demo_start_def demo_environ_settings)
qed

definition demo_submitted :: request where
  "demo_submitted = demo_request\<lparr>r_client := master_client_name\<rparr>"

lemma demo_admitted:
  assumes "cr_wf r"
  shows "\<exists>r'. auth_middleware (relay_check demo_sha now w (new_verifier demo_sha ''auth'')) ''Bearer auth'' no_ctx r
     = (Inr (ctx_with_client master_client_name no_ctx), r')"
proof -
  let ?v = "new_verifier demo_sha ''auth''"
  have t: "trim_space (drop 6 ''Bearer auth'') = ''auth''"
    using bearer_token [of "''auth''"] by (simp add: plain_bytes_def)
  have "fst (verify_role demo_sha now w ?v ''auth'' (Some r)) = Some (master_client_name, False)"
    by (simp add: verify_role_Some [OF assms] new_verifier_def)
  then obtain r1 where "relay_check demo_sha now w ?v ''auth'' r = (Some (master_client_name, False), r1)"
    by (metis relay_check_fst prod.collapse)
  then show ?thesis unfolding auth_middleware_cases [OF t [symmetric]] by simp
qed

lemma demo_run:
  "\<exists>u v z. exec_trace (port_step demo_sha (sg_ports demo_serving)) (just_started demo_serving)
       [(u, McpCall 5 WriteOK ''Bearer auth''), (v, McpStep (ctx_with_client master_client_name no_ctx) (Submit demo_submitted))] z
     \<and> rn_relay z = \<lparr>y_handler = with_store (sg_handler demo_serving) (publish demo_submitted new_store), y_threads = []\<rparr>"
proof -
  let ?s = "just_started demo_serving" and ?ctx = "ctx_with_client master_client_name no_ctx"
  note start = serving_relay_facts [OF demo_serving(1)]
  have wf: "cr_wf (rn_clients ?s)" using start(3) by (simp add: just_started_def)
  obtain r' where adm: "auth_middleware (relay_check demo_sha 5 WriteOK (pt_mcp (sg_ports demo_serving))) ''Bearer auth'' no_ctx
      (rn_clients ?s) = (Inr ?ctx, r')"
    using demo_admitted [OF wf] demo_mcp_verifier by metis
  let ?v = "?s\<lparr>rn_clients := r', rn_calls := ?ctx # rn_calls ?s\<rparr>"
  have one: "port_step demo_sha (sg_ports demo_serving) ?s (McpCall 5 WriteOK ''Bearer auth'') ?v"
    by (rule port_step.mcp_admitted [OF adm])
  let ?h = "sg_handler demo_serving"
  have "sys_step \<lparr>y_handler = ?h, y_threads = []\<rparr> (Submit demo_submitted)
      \<lparr>y_handler = with_store ?h (publish demo_submitted (h_store ?h)), y_threads = []\<rparr>"
    using start(1) by (intro sys_step.submit)
      (simp_all add: new_request_def demo_submitted_def demo_request_def pending_request_def initial_def new_store_def)
  then have two: "port_step demo_sha (sg_ports demo_serving) ?v (McpStep ?ctx (Submit demo_submitted))
      (?v\<lparr>rn_relay := \<lparr>y_handler = with_store ?h (publish demo_submitted (h_store ?h)), y_threads = []\<rparr>\<rparr>)"
    by (intro port_step.mcp_step)
      (simp_all add: just_started_def demo_submitted_def ctx_client_from_def ctx_with_client_def no_ctx_def)
  show ?thesis
    by (intro exI conjI, rule exec_trace.next_step [where step = "port_step demo_sha (sg_ports demo_serving)", OF one],
        rule exec_trace.next_step [where step = "port_step demo_sha (sg_ports demo_serving)", OF two], rule exec_trace.stop)
      (use start(1) in \<open>simp add: initial_def\<close>)
qed

lemma demo_submitted_stored: "st_requests (publish demo_submitted new_store) ''r1'' = Some demo_submitted"
  by (simp add: publish_requests demo_submitted_def demo_request_def pending_request_def)

section \<open>Properties\<close>

text \<open>C1. From the first line of main to any later moment: as long as no request to the web port
  presents the approver's token, nothing is approved by hand, the whitelist and the cooldown are what
  they were at the start, and whatever runs is a request that the whitelist file held at start-up: in
  every state on the way, a request that is executing or about to execute, of whatever type, whether
  or not its execution makes a call outside, is stored under its name with this content and on that
  whitelist; so is every request in whose name a call was made. This holds for every interleaving of
  both ports, the watchers and the executions.\<close>

theorem only_the_approver_decides:
  assumes "relay_main s = Serving g" and "sha = lib_sha256 (ss_lib s)" and "vf_approver (pt_web (sg_ports g)) = Some d"
    and "exec_trace (port_step sha (sg_ports g)) (just_started g) tr z"
    and "\<forall>(u, l)\<in>set tr. case l of WebCall now wo w clk c \<Rightarrow> \<not> presents sha d (wq_authorization (wc_request c)) | _ \<Rightarrow> True"
  shows "h_whitelist (y_handler (rn_relay z)) = h_whitelist (sg_handler g)
       \<and> h_cooldown (y_handler (rn_relay z)) = h_cooldown (sg_handler g)
       \<and> (\<exists>es. h_audit (y_handler (rn_relay z)) = h_audit (sg_handler g) @ es \<and> ''request_approved'' \<notin> ev_event ` set es)
       \<and> (\<forall>u\<in>insert z (fst ` set tr). \<forall>r.
            AtExecStart r \<in> set (y_threads (rn_relay u)) \<or> AtExecRun r \<in> set (y_threads (rn_relay u)) \<longrightarrow>
            (\<exists>r1 wl. st_requests (h_store (y_handler (rn_relay u))) (r_id r) = Some r1 \<and> core r1 = core r
               \<and> h_whitelist (sg_handler g) = Some wl
               \<and> whitelist_match wl (fst (whitelist_key sha r)) (snd (whitelist_key sha r))))
       \<and> (\<forall>rid c. (rid, c) \<in> set (h_calls (y_handler (rn_relay z))) \<longrightarrow>
            (\<exists>r wl. st_requests (h_store (y_handler (rn_relay z))) rid = Some r \<and> h_whitelist (sg_handler g) = Some wl
               \<and> whitelist_match wl (fst (whitelist_key sha r)) (snd (whitelist_key sha r))))"
proof -
  let ?h0 = "sg_handler g"
  note start = serving_relay_facts [OF assms(1)]
  have "undecided_running sha ?h0 (just_started g)"
    using start(1,3)
    by (simp add: undecided_running_def just_started_def unattended_def calls_listed_def initial_def store_wf_new)
  then have all: "\<forall>u\<in>insert z (fst ` set tr). undecided_running sha ?h0 u"
  proof (rule exec_trace_states_on [OF assms(4)])
    fix u l u'
    assume in_tr: "(u, l) \<in> set tr" and st: "port_step sha (sg_ports g) u l u'" and u: "undecided_running sha ?h0 u"
    have "h_approver_required ?h0" using start(5,8) assms(3) by simp
    from unattended_port_step [OF st u this assms(3)] show "undecided_running sha ?h0 u'"
      using in_tr assms(5) by fastforce
  qed
  then have z: "undecided_running sha ?h0 z" by simp
  have "\<exists>r wl. st_requests (h_store (y_handler (rn_relay z))) rid = Some r \<and> h_whitelist ?h0 = Some wl
       \<and> whitelist_match wl (fst (whitelist_key sha r)) (snd (whitelist_key sha r))"
    if "(rid, c) \<in> set (h_calls (y_handler (rn_relay z)))" for rid c
  proof -
    obtain r where "r_id r = rid" "covered sha (h_whitelist ?h0) (h_store (y_handler (rn_relay z))) r"
      using z \<open>(rid, c) \<in> _\<close> by (auto simp: undecided_running_def unattended_def calls_listed_def)
    then obtain r1 wl where r1: "st_requests (h_store (y_handler (rn_relay z))) rid = Some r1" "core r1 = core r"
      and wl: "h_whitelist ?h0 = Some wl" "whitelist_match wl (fst (whitelist_key sha r)) (snd (whitelist_key sha r))"
      by (auto simp: covered_def listed_def)
    from wl(2) have "whitelist_match wl (fst (whitelist_key sha r1)) (snd (whitelist_key sha r1))"
      by (simp only: whitelist_key_core [OF r1(2)])
    with r1(1) wl(1) show ?thesis by blast
  qed
  moreover have "\<forall>u\<in>insert z (fst ` set tr). \<forall>r.
      AtExecStart r \<in> set (y_threads (rn_relay u)) \<or> AtExecRun r \<in> set (y_threads (rn_relay u)) \<longrightarrow>
      (\<exists>r1 wl. st_requests (h_store (y_handler (rn_relay u))) (r_id r) = Some r1 \<and> core r1 = core r
         \<and> h_whitelist ?h0 = Some wl \<and> whitelist_match wl (fst (whitelist_key sha r)) (snd (whitelist_key sha r)))"
    using all unattended_execution by (simp only: undecided_running_def) blast
  moreover have "h_whitelist (y_handler (rn_relay z)) = h_whitelist ?h0" "h_cooldown (y_handler (rn_relay z)) = h_cooldown ?h0"
    "\<exists>es. h_audit (y_handler (rn_relay z)) = h_audit ?h0 @ es \<and> ''request_approved'' \<notin> ev_event ` set es"
    using z by (simp_all add: undecided_running_def unattended_def undecided_def)
  ultimately show ?thesis by blast
qed

theorem only_the_approver_decides_witness:
  "\<exists>tr z. exec_trace (port_step demo_sha (sg_ports demo_serving)) (just_started demo_serving) tr z
     \<and> st_requests (h_store (y_handler (rn_relay z))) ''r1'' = Some demo_submitted
     \<and> h_whitelist (y_handler (rn_relay z)) = h_whitelist (sg_handler demo_serving)"
proof -
  obtain u v z where tr: "exec_trace (port_step demo_sha (sg_ports demo_serving)) (just_started demo_serving)
       [(u, McpCall 5 WriteOK ''Bearer auth''), (v, McpStep (ctx_with_client master_client_name no_ctx) (Submit demo_submitted))] z"
    and r: "st_requests (h_store (y_handler (rn_relay z))) ''r1'' = Some demo_submitted"
    using demo_run demo_submitted_stored by auto
  from only_the_approver_decides [OF demo_serving(1) demo_serving(4) [symmetric] demo_serving(2) tr] tr r
  show ?thesis by auto
qed

end
