(* ===== verification/Port_Safety.thy ===== *)
theory Port_Safety
  imports Relay_Ports
begin

text \<open>
  More of the running relay: under whose name requests are stored, that the approver does get
  through both layers to an execution, and an approver token that start-up takes and the web port
  can never see.
\<close>

section \<open>The running relay refines the interleaved system\<close>

text \<open>The request a step of the running relay executes.\<close>

definition runs_at :: "running \<Rightarrow> port_label \<Rightarrow> string option" where
  "runs_at s l = (case l of Inside k \<Rightarrow> runs_request (rn_relay s) k | _ \<Rightarrow> None)"

text \<open>A step of the running relay is a step of the system that runs the same request, or leaves the
  system alone.\<close>

lemma port_step_system:
  "port_step sha p s l s' \<Longrightarrow> rn_relay s' = rn_relay s
     \<or> (\<exists>k. sys_step (rn_relay s) k (rn_relay s') \<and> runs_at s l = runs_request (rn_relay s) k)"
proof (induction rule: port_step.induct)
  case (web_served c now wo s ctx r' w clk l y')
  then have "runs_request (rn_relay s) l = None"
    by (auto simp: web_label_def runs_request_def Let_def split: option.splits web_route.splits)
  with web_served.hyps(4) show ?case by (auto simp: runs_at_def)
next
  case (mcp_step ctx s l y')
  then have "runs_request (rn_relay s) l = None" by (cases l) (auto simp: runs_request_def)
  with mcp_step.hyps(3) show ?case by (auto simp: runs_at_def)
next
  case (inside l s y')
  then show ?case by (auto simp: runs_at_def)
qed auto

lemma port_trace_system:
  "exec_trace (port_step sha p) s tr z \<Longrightarrow> \<exists>tr'. exec_trace sys_step (rn_relay s) tr' (rn_relay z)"
proof (induction rule: exec_trace.induct)
  case (next_step s l s' tr t)
  then obtain tr' where tr': "exec_trace sys_step (rn_relay s') tr' (rn_relay t)" by blast
  from port_step_system [OF next_step.hyps(1)] show ?case
    using tr' exec_trace.next_step [where step = sys_step, OF _ tr'] by metis
qed (blast intro: exec_trace.stop)

lemma port_calls:
  "exec_trace (port_step sha p) s tr z \<Longrightarrow> (rid, c) \<in> set (h_calls (y_handler (rn_relay z))) \<Longrightarrow>
     (rid, c) \<in> set (h_calls (y_handler (rn_relay s))) \<or> (\<exists>(u, l)\<in>set tr. runs_at u l = Some rid)"
proof (induction rule: exec_trace.induct)
  case (next_step s l s' tr t)
  then show ?case
    using port_step_system [OF next_step.hyps(1)] calls_come_from_runs [of "rn_relay s" _ "rn_relay s'" rid c] by fastforce
qed simp

definition guarded_port :: "(string \<Rightarrow> string) \<Rightarrow> ports \<Rightarrow> running \<Rightarrow> port_label \<Rightarrow> running \<Rightarrow> bool" where
  "guarded_port sha p s l s' \<longleftrightarrow> sys_inv (rn_relay s) \<and> port_step sha p s l s'"

interpretation port_runs: decide_once "\<lambda>s. spent (rn_relay s)" "guarded_port sha p" runs_at for sha p
proof
  fix s l s' rid
  assume st: "guarded_port sha p s l s'" and run: "runs_at s l = Some rid"
  then obtain k where k: "l = Inside k" "runs_request (rn_relay s) k = Some rid" "sys_step (rn_relay s) k (rn_relay s')"
    by (auto simp: runs_at_def guarded_port_def elim: port_step.cases split: port_label.splits)
  then have "guarded_step (rn_relay s) k (rn_relay s')" using st by (simp add: guarded_step_def guarded_port_def)
  with k(2) show "\<not> spent (rn_relay s) rid" "spent (rn_relay s') rid"
    by (auto dest: relay_runs.grants_open relay_runs.grants_closes)
next
  fix s l s' rid
  assume "guarded_port sha p s l s'" and "spent (rn_relay s) rid"
  then show "spent (rn_relay s') rid"
    using port_step_system [of sha p s l s'] spent_stays by (auto simp: guarded_port_def)
qed

lemma guarded_port_trace:
  "exec_trace (port_step sha p) s tr z \<Longrightarrow> sys_inv (rn_relay s) \<Longrightarrow> exec_trace (guarded_port sha p) s tr z"
proof (induction rule: exec_trace.induct)
  case (next_step s l s' tr t)
  then have "sys_inv (rn_relay s')" using port_step_system [OF next_step.hyps(1)] sys_inv_step by metis
  with next_step.IH have "exec_trace (guarded_port sha p) s' tr t" by blast
  moreover have "guarded_port sha p s l s'" using next_step by (simp add: guarded_port_def)
  ultimately show ?case by (rule exec_trace.next_step [where step = "guarded_port sha p", rotated])
qed (rule exec_trace.stop)

section \<open>Which steps store a request\<close>

definition same_ids :: "store \<Rightarrow> store \<Rightarrow> bool" where
  "same_ids s s' \<longleftrightarrow> dom (st_requests s') = dom (st_requests s)"

lemma same_ids_refl [simp]: "same_ids s s"
  by (simp add: same_ids_def)

lemma same_ids_queues [simp]:
  "same_ids s (s\<lparr>st_notify := q\<rparr>)" "same_ids s (s\<lparr>st_updates := q\<rparr>)"
  by (simp_all add: same_ids_def)

lemma same_ids_ops [simp]:
  "same_ids s (snd (set_status now rid st s))" "same_ids s (snd (deny now rid reason s))"
  "same_ids s (snd (approve now rid g s))" "same_ids s (snd (withdraw now rid reason s))"
  "same_ids s (snd (release_output rid s))" "same_ids s (snd (set_result rid res st s))"
  "same_ids s (snd (set_display_command rid c s))"
  by (auto simp: same_ids_def set_status_def deny_def approve_def withdraw_def release_output_def set_result_def
      set_display_command_def put_request_def Let_def dom_def split: option.splits if_splits)

lemma thread_step_ids: "thread_step w clk t h = (h', new) \<Longrightarrow> same_ids (h_store h) (h_store h')"
proof (cases t)
  case (AtCommit ctx who rid gate)
  assume "thread_step w clk t h = (h', new)"
  then show ?thesis using AtCommit by (auto split: prod.splits option.splits dest!: approve_commit_fields)
next
  case (AtAuto req)
  assume "thread_step w clk t h = (h', new)"
  then show ?thesis using AtAuto by (auto split: prod.splits option.splits dest!: approve_commit_fields)
next
  case (AtExecRun r)
  assume "thread_step w clk t h = (h', new)"
  then show ?thesis
    using AtExecRun execute_body_fields(1) [of w "clk 0" r h] by (auto split: prod.splits simp del: execute_body_fields)
qed (auto split: sum.splits)

lemma watch_ids:
  "watch_take sha h = (found, h') \<Longrightarrow> same_ids (h_store h) (h_store h')" "same_ids (h_store h) (h_store (watch_updates_turn h))"
  by (auto simp: watch_take_def watch_updates_turn_def Let_def split: list.splits option.splits prod.splits if_splits)

lemma sys_step_ids:
  "sys_step y l y' \<Longrightarrow> (\<exists>r. l = Submit r \<and> h_store (y_handler y') = publish r (h_store (y_handler y)))
     \<or> same_ids (h_store (y_handler y)) (h_store (y_handler y'))"
  by (induction rule: sys_step.induct) (auto dest: thread_step_ids watch_ids(1) intro: watch_ids(2))

lemma core_client: "core r = core r' \<Longrightarrow> r_client r = r_client r'"
proof -
  have "r_client (core r) = r_client r" for r by (simp add: core_def)
  then show "core r = core r' \<Longrightarrow> r_client r = r_client r'" by metis
qed

text \<open>A stored request was stored before, with the same client, or is the one submitted.\<close>

lemma sys_step_client:
  assumes "sys_step y l y'" and "st_requests (h_store (y_handler y')) rid = Some r'"
  shows "(\<exists>r. st_requests (h_store (y_handler y)) rid = Some r \<and> r_client r = r_client r') \<or> l = Submit r'"
proof (cases "st_requests (h_store (y_handler y)) rid")
  case None
  then have "rid \<notin> dom (st_requests (h_store (y_handler y)))" "rid \<in> dom (st_requests (h_store (y_handler y')))"
    using assms(2) by auto
  then show ?thesis
    using sys_step_ids [OF assms(1)] assms(2) None unfolding same_ids_def by (auto simp: publish_requests split: if_splits)
next
  case (Some r)
  then obtain r1 where "st_requests (h_store (y_handler y')) rid = Some r1" "core r1 = core r"
    using sys_step_evolves [OF assms(1)] unfolding store_evolves_def by blast
  with assms(2) have "core r' = core r" by simp
  then have "r_client r = r_client r'" by (rule core_client [symmetric])
  with Some show ?thesis by blast
qed

section \<open>Who is behind a call\<close>

text \<open>The calls so far admitted a caller of this name on the MCP port.\<close>

definition admitted_as :: "(string \<Rightarrow> string) \<Rightarrow> verifier \<Rightarrow> (running \<times> port_label) list \<Rightarrow> string \<Rightarrow> bool" where
  "admitted_as sha v H name \<longleftrightarrow> (\<exists>u now wo header. (u, McpCall now wo header) \<in> set H \<and> prefix ''Bearer '' header
     \<and> token_holds sha v (rn_clients u) (trim_space (drop 6 header)) name False)"

definition attributed :: "(string \<Rightarrow> string) \<Rightarrow> verifier \<Rightarrow> (running \<times> port_label) list \<Rightarrow> running \<Rightarrow> bool" where
  "attributed sha v H s \<longleftrightarrow> cr_wf (rn_clients s)
     \<and> (\<forall>ctx\<in>set (rn_calls s). admitted_as sha v H (ctx_client_from ctx))
     \<and> (\<forall>rid r. st_requests (h_store (y_handler (rn_relay s))) rid = Some r \<longrightarrow> admitted_as sha v H (r_client r))"

lemma admitted_mono: "admitted_as sha v H name \<Longrightarrow> set H \<subseteq> set H' \<Longrightarrow> admitted_as sha v H' name"
  unfolding admitted_as_def by blast

lemma attributed_later: "attributed sha v H s \<Longrightarrow> set H \<subseteq> set H' \<Longrightarrow> attributed sha v H' s"
  unfolding attributed_def using admitted_mono by blast

lemma attributed_sys_step:
  assumes "attributed sha v H s" and "sys_step (rn_relay s) l y'" and "\<And>r. l = Submit r \<Longrightarrow> admitted_as sha v H (r_client r)"
  shows "attributed sha v H (s\<lparr>rn_relay := y'\<rparr>)"
  using assms(1,3) sys_step_client [OF assms(2)] by (fastforce simp: attributed_def)

lemma attributed_clients:
  "attributed sha v H s \<Longrightarrow> cr_wf r' \<Longrightarrow> attributed sha v H (s\<lparr>rn_clients := r'\<rparr>)"
  by (simp add: attributed_def)

lemma web_label_no_submit: "web_label w clk ctx c = Some l \<Longrightarrow> l \<noteq> Submit r"
  by (auto simp: web_label_def Let_def split: option.splits web_route.splits)

lemma attributed_step:
  assumes "port_step sha p s l s'" and "attributed sha (pt_mcp p) H s" and "vf_approver (pt_mcp p) = None"
  shows "attributed sha (pt_mcp p) (H @ [(s, l)]) s'"
proof -
  let ?v = "pt_mcp p" and ?H = "H @ [(s, l)]"
  have wf: "cr_wf (rn_clients s)" using assms(2) by (simp add: attributed_def)
  have H: "attributed sha ?v ?H s" by (rule attributed_later [OF assms(2)]) auto
  from assms(1) show ?thesis
  proof cases
    case (web_served c now wo ctx r' w clk k y')
    have "attributed sha ?v ?H (s\<lparr>rn_relay := y'\<rparr>)"
      by (rule attributed_sys_step [OF H web_served(6)]) (use web_label_no_submit [OF web_served(5)] in blast)
    then show ?thesis
      using attributed_clients [of sha ?v ?H "s\<lparr>rn_relay := y'\<rparr>" r'] web_entry_keeps [OF wf web_served(4)]
      by (simp add: web_served(2))
  next
    case (mcp_admitted now wo header ctx r')
    have h: "prefix ''Bearer '' header" "token_holds sha ?v (rn_clients s) (trim_space (drop 6 header)) (ctx_client_from ctx) (is_approver ctx)"
      using auth_middleware_admits [OF wf mcp_admitted(3)] by auto
    then have "\<not> is_approver ctx" using assms(3) by (auto simp: token_holds_def split: if_splits)
    then have "admitted_as sha ?v ?H (ctx_client_from ctx)" using h mcp_admitted(1) by (auto simp: admitted_as_def)
    then show ?thesis using H auth_middleware_keeps [OF wf mcp_admitted(3)] by (auto simp: attributed_def mcp_admitted(2))
  next
    case (mcp_step ctx k y')
    have "admitted_as sha ?v ?H (r_client r)" if "k = Submit r" for r
      using that mcp_step(3,4) H by (auto simp: attributed_def)
    then show ?thesis unfolding mcp_step(2) by (rule attributed_sys_step [OF H mcp_step(5)])
  next
    case (mcp_return ctx)
    then show ?thesis using H by (auto simp: attributed_def dest: notin_set_remove1 [THEN contrapos_pp])
  next
    case (inside k y')
    then show ?thesis using attributed_sys_step [OF H inside(4)] by (cases k) auto
  qed (use H wf web_entry_keeps [OF wf] auth_middleware_keeps [OF wf] in \<open>auto intro: attributed_clients\<close>)
qed

lemma attributed_trace:
  "exec_trace (port_step sha p) s tr z \<Longrightarrow> attributed sha (pt_mcp p) H s \<Longrightarrow> vf_approver (pt_mcp p) = None \<Longrightarrow>
     attributed sha (pt_mcp p) (H @ tr) z"
proof (induction arbitrary: H rule: exec_trace.induct)
  case (next_step s l s' tr t)
  from next_step.IH [OF attributed_step [OF next_step.hyps(1) next_step.prems] next_step.prems(2)] show ?case by simp
qed simp

text \<open>Only a submission, made by a call open on the MCP port, stores a request.\<close>

lemma sys_step_stores:
  "sys_step y l y' \<Longrightarrow> st_requests (h_store (y_handler y)) rid = None \<Longrightarrow>
     st_requests (h_store (y_handler y')) rid = Some r \<Longrightarrow> l = Submit r"
  using sys_step_client [of y l y' rid r] by auto

lemma port_step_stores:
  assumes "port_step sha p s l s'" and "st_requests (h_store (y_handler (rn_relay s))) rid = None"
    and "st_requests (h_store (y_handler (rn_relay s'))) rid = Some r"
  shows "\<exists>ctx\<in>set (rn_calls s). l = McpStep ctx (Submit r) \<and> r_client r = ctx_client_from ctx"
  using assms
proof cases
  case (web_served c now wo ctx r' w clk k y')
  then show ?thesis using sys_step_stores [OF web_served(6) assms(2)] web_label_no_submit [OF web_served(5)] assms(3) by auto
next
  case (mcp_step ctx k y')
  then show ?thesis using sys_step_stores [OF mcp_step(5) assms(2)] assms(3) by auto
next
  case (inside k y')
  then show ?thesis using sys_step_stores [OF inside(4) assms(2)] assms(3) by auto
qed (use assms in auto)

section \<open>The approver gets through\<close>

lemma advance_last:
  assumes "thread_step w clk t h = (h', new)"
  shows "sys_step \<lparr>y_handler = h, y_threads = ts @ [t]\<rparr> (Advance (length ts) w clk) \<lparr>y_handler = h', y_threads = ts @ new\<rparr>"
  using sys_step.advance [of "length ts" "ts @ [t]" w clk h h' new] assms by simp

lemma inside_advance:
  assumes "rn_relay s = \<lparr>y_handler = h, y_threads = ts @ [t]\<rparr>" and "thread_step w clk t h = (h', new)"
  shows "port_step sha p s (Inside (Advance (length ts) w clk)) (s\<lparr>rn_relay := \<lparr>y_handler = h', y_threads = ts @ new\<rparr>\<rparr>)"
  using port_step.inside [of sha "Advance (length ts) w clk" s "\<lparr>y_handler = h', y_threads = ts @ new\<rparr>" p]
    advance_last [OF assms(2), of ts] assms(1) by simp

text \<open>The thread an admitted approval starts reaches the execution in four of its own steps.\<close>

lemma approval_thread_runs:
  assumes relay: "rn_relay s = \<lparr>y_handler = h, y_threads = ts @ [AtCooldown ctx who rid gate]\<rparr>"
    and cd: "start_cooldown clk (h_cooldown h) = Inr cd"
    and r0: "st_requests (h_store h) rid = Some r0" "r_status r0 = StatusPending"
  shows "\<exists>tr z r. exec_trace (port_step sha p) s tr z \<and> map snd tr = replicate 4 (Inside (Advance (length ts) w clk))
     \<and> AtExecRun r \<in> set (y_threads (rn_relay z)) \<and> core r = core r0
     \<and> r_output_gated r = (r_output_gated r0 \<or> gate)"
proof -
  let ?l = "Inside (Advance (length ts) w clk)"
  let ?h1 = "h\<lparr>h_cooldown := cd\<rparr>"
  obtain r h2 where c: "approve_commit (clk 0) rid gate ?h1 = (Some r, h2)"
    and r: "core r = core r0" "r_output_gated r = (r_output_gated r0 \<or> gate)"
    using r0 by (simp add: approve_commit_def approve_def core_def Let_def)
  let ?h3 = "approve_finish (clk 0) ctx who rid r h2" and ?h4 = "execute_begin clk r (approve_finish (clk 0) ctx who rid r h2)"
  let ?s1 = "s\<lparr>rn_relay := \<lparr>y_handler = ?h1, y_threads = ts @ [AtCommit ctx who rid gate]\<rparr>\<rparr>"
  let ?s2 = "s\<lparr>rn_relay := \<lparr>y_handler = h2, y_threads = ts @ [AtApproved ctx who rid r]\<rparr>\<rparr>"
  let ?s3 = "s\<lparr>rn_relay := \<lparr>y_handler = ?h3, y_threads = ts @ [AtExecStart r]\<rparr>\<rparr>"
  let ?s4 = "s\<lparr>rn_relay := \<lparr>y_handler = ?h4, y_threads = ts @ [AtExecRun r]\<rparr>\<rparr>"
  note N = exec_trace.next_step [where step = "port_step sha p"]
  have 1: "port_step sha p s ?l ?s1" by (rule inside_advance [OF relay]) (simp add: cd)
  have 2: "port_step sha p ?s1 ?l ?s2"
    using inside_advance [of ?s1 ?h1 ts "AtCommit ctx who rid gate" w clk h2 "[AtApproved ctx who rid r]" sha p] c by simp
  have 3: "port_step sha p ?s2 ?l ?s3"
    using inside_advance [of ?s2 h2 ts "AtApproved ctx who rid r" w clk ?h3 "[AtExecStart r]" sha p] by simp
  have 4: "port_step sha p ?s3 ?l ?s4"
    using inside_advance [of ?s3 ?h3 ts "AtExecStart r" w clk ?h4 "[AtExecRun r]" sha p] by simp
  have "exec_trace (port_step sha p) s [(s, ?l), (?s1, ?l), (?s2, ?l), (?s3, ?l)] ?s4"
    by (rule N [OF 1], rule N [OF 2], rule N [OF 3], rule N [OF 4], rule exec_trace.stop)
  moreover have "map snd [(s, ?l), (?s1, ?l), (?s2, ?l), (?s3, ?l)] = replicate 4 ?l" by (simp add: numeral_eq_Suc)
  ultimately show ?thesis using r by fastforce
qed

lemma auth_middleware_approver:
  assumes "vf_approver v = Some d" and "presents sha d header"
  shows "auth_middleware (relay_check sha now wo v) header no_ctx r
     = (Inr (ctx_with_approver (ctx_with_client approver_client_name no_ctx)), r)"
proof -
  let ?t = "trim_space (drop 6 header)"
  have t: "prefix ''Bearer '' header \<and> ?t \<noteq> ''''" "vf_approver v = Some (sha ?t)"
    using assms by (auto simp: presents_def Let_def)
  then have "relay_check sha now wo v ?t r = (Some (approver_client_name, True), r)"
    by (simp add: relay_check_def verify_role_def Let_def)
  then show ?thesis unfolding auth_middleware_cases [OF refl] using t(1) by simp
qed

text \<open>The whitelist watcher's thread runs as well, and the run of \<open>demo_start\<close> goes on to execute its
  whitelisted request.\<close>

lemma auto_thread_runs:
  assumes relay: "rn_relay s = \<lparr>y_handler = h, y_threads = ts @ [AtAuto req]\<rparr>"
    and r0: "st_requests (h_store h) (r_id req) = Some r0" "r_status r0 = StatusPending" "r_id r0 = r_id req"
  shows "\<exists>tr z r h'. exec_trace (port_step sha p) s tr z \<and> map snd tr = replicate 3 (Inside (Advance (length ts) w clk))
     \<and> rn_relay z = \<lparr>y_handler = h', y_threads = ts @ [AtExecRun r]\<rparr> \<and> r_id r = r_id req"
proof -
  let ?l = "Inside (Advance (length ts) w clk)"
  obtain r h1 where c: "approve_commit (clk 0) (r_id req) False h = (Some r, h1)" and r: "r_id r = r_id req"
    using r0 by (simp add: approve_commit_def approve_def Let_def)
  let ?h2 = "auto_approve_finish (clk 0) r h1" and ?h3 = "execute_begin clk r (auto_approve_finish (clk 0) r h1)"
  let ?s1 = "s\<lparr>rn_relay := \<lparr>y_handler = h1, y_threads = ts @ [AtAutoApproved r]\<rparr>\<rparr>"
  let ?s2 = "s\<lparr>rn_relay := \<lparr>y_handler = ?h2, y_threads = ts @ [AtExecStart r]\<rparr>\<rparr>"
  let ?s3 = "s\<lparr>rn_relay := \<lparr>y_handler = ?h3, y_threads = ts @ [AtExecRun r]\<rparr>\<rparr>"
  note N = exec_trace.next_step [where step = "port_step sha p"]
  have 1: "port_step sha p s ?l ?s1" by (rule inside_advance [OF relay]) (simp add: c)
  have 2: "port_step sha p ?s1 ?l ?s2"
    using inside_advance [of ?s1 h1 ts "AtAutoApproved r" w clk ?h2 "[AtExecStart r]" sha p] by simp
  have 3: "port_step sha p ?s2 ?l ?s3"
    using inside_advance [of ?s2 ?h2 ts "AtExecStart r" w clk ?h3 "[AtExecRun r]" sha p] by simp
  have "exec_trace (port_step sha p) s [(s, ?l), (?s1, ?l), (?s2, ?l)] ?s3"
    by (rule N [OF 1], rule N [OF 2], rule N [OF 3], rule exec_trace.stop)
  moreover have "map snd [(s, ?l), (?s1, ?l), (?s2, ?l)] = replicate 3 ?l" by (simp add: numeral_eq_Suc)
  moreover have "rn_relay ?s3 = \<lparr>y_handler = ?h3, y_threads = ts @ [AtExecRun r]\<rparr>" by simp
  ultimately show ?thesis using r by blast
qed

lemma demo_executed:
  "\<exists>tr z. exec_trace (port_step demo_sha (sg_ports demo_serving)) (just_started demo_serving) tr z
     \<and> (\<exists>(u, l)\<in>set tr. runs_at u l = Some ''r1'')"
proof -
  let ?p = "sg_ports demo_serving" and ?h = "with_store (sg_handler demo_serving) (publish demo_submitted new_store)"
  obtain tr0 z0 where tr0: "exec_trace (port_step demo_sha ?p) (just_started demo_serving) tr0 z0"
    and z0: "rn_relay z0 = \<lparr>y_handler = ?h, y_threads = []\<rparr>" using demo_run by blast
  obtain wl where wl: "h_whitelist (sg_handler demo_serving) = Some wl" "wl_rules wl = [\<lparr>rl_command = ''df'', rl_args = [''-h'']\<rparr>]"
    using demo_serving(3) by blast
  obtain h1 where w: "watch_take demo_sha ?h = (Some demo_submitted, h1)" and h1: "st_requests (h_store h1) = st_requests (h_store ?h)"
    using demo_submitted_stored wl
    by (simp add: watch_take_def Let_def publish_def new_store_def chan_send_def store_get_def whitelist_match_def
        demo_submitted_def demo_request_def pending_request_def whitelist_key_def)
  let ?z1 = "z0\<lparr>rn_relay := \<lparr>y_handler = h1, y_threads = [] @ [AtAuto demo_submitted]\<rparr>\<rparr>"
  have "sys_step (rn_relay z0) (Watch demo_sha) (rn_relay ?z1)"
    using sys_step.watch [OF w, of "[]"] by (simp add: z0 option_list_def)
  then have "port_step demo_sha ?p z0 (Inside (Watch demo_sha)) ?z1" by (intro port_step.inside) simp_all
  note tr1 = exec_trace_snoc [where step = "port_step demo_sha ?p", OF tr0 this]
  have r: "r_id demo_submitted = ''r1''" "r_status demo_submitted = StatusPending"
    by (simp_all add: demo_submitted_def demo_request_def pending_request_def)
  obtain tr2 z2 r h2 where tr2: "exec_trace (port_step demo_sha ?p) ?z1 tr2 z2"
    and z2: "rn_relay z2 = \<lparr>y_handler = h2, y_threads = [] @ [AtExecRun r]\<rparr>" "r_id r = ''r1''"
    using auto_thread_runs [of ?z1 h1 "[]" demo_submitted demo_submitted demo_sha ?p demo_world "\<lambda>n. 9"] h1
      demo_submitted_stored r by auto
  obtain h3 new where st: "thread_step demo_world (\<lambda>n. 9) (AtExecRun r) h2 = (h3, new)" by (metis surj_pair)
  let ?l = "Inside (Advance 0 demo_world (\<lambda>n. 9))"
  have "port_step demo_sha ?p z2 ?l (z2\<lparr>rn_relay := \<lparr>y_handler = h3, y_threads = [] @ new\<rparr>\<rparr>)"
    using inside_advance [OF z2(1) st] by simp
  note tr3 = exec_trace_snoc [where step = "port_step demo_sha ?p", OF exec_trace_append [where step = "port_step demo_sha ?p", OF tr1 tr2] this]
  have "runs_at z2 ?l = Some ''r1''" using z2 by (simp add: runs_at_def runs_request_def)
  with tr3 show ?thesis by fastforce
qed

definition demo_ports :: ports where
  "demo_ports = \<lparr>pt_mcp = new_verifier demo_sha ''auth'',
     pt_web = with_approver_digest (demo_sha ''tok'') (new_verifier demo_sha ''auth''), pt_approver_required = True\<rparr>"

section \<open>Properties\<close>

text \<open>C2. The running relay is the interleaved system, behind its ports: from the start of main on,
  over every interleaving of requests to both ports, calls in progress, the watchers and the
  executions, what happens is an execution of the system from an initial state. In particular each
  request is executed at most once, whatever is called outside in a request's name stems from that
  one execution, and an approval in the audit log backs it.\<close>

theorem running_relay_executes_once:
  assumes "relay_main s = Serving g" and "exec_trace (port_step sha (sg_ports g)) (just_started g) tr z"
  shows "(\<exists>tr'. exec_trace sys_step \<lparr>y_handler = sg_handler g, y_threads = []\<rparr> tr' (rn_relay z))
     \<and> initial \<lparr>y_handler = sg_handler g, y_threads = []\<rparr>
     \<and> length (filter (\<lambda>(u, l). runs_at u l = Some rid) tr) \<le> 1
     \<and> (\<forall>c. (rid, c) \<in> set (h_calls (y_handler (rn_relay z))) \<longrightarrow>
          (\<exists>(u, l)\<in>set tr. runs_at u l = Some rid) \<and> backed (y_handler (rn_relay z)) rid)"
proof -
  note start = serving_relay_facts(1) [OF assms(1)]
  have relay: "rn_relay (just_started g) = \<lparr>y_handler = sg_handler g, y_threads = []\<rparr>" by (simp add: just_started_def)
  have inv: "sys_inv (rn_relay (just_started g))" unfolding relay by (rule sys_inv_initial [OF start])
  obtain tr' where tr': "exec_trace sys_step (rn_relay (just_started g)) tr' (rn_relay z)"
    using port_trace_system [OF assms(2)] by blast
  have "sys_inv (rn_relay z)" by (rule sys_inv_trace [OF tr' inv])
  then have "backed (y_handler (rn_relay z)) rid" if "(rid, c) \<in> set (h_calls (y_handler (rn_relay z)))" for c
    using that by (auto simp: sys_inv_def)
  moreover have "\<exists>(u, l)\<in>set tr. runs_at u l = Some rid" if "(rid, c) \<in> set (h_calls (y_handler (rn_relay z)))" for c
    using port_calls [OF assms(2) that] start by (simp add: relay initial_def)
  ultimately show ?thesis
    using start tr' port_runs.at_most_one_grant [OF guarded_port_trace [OF assms(2) inv], of rid] by (auto simp: relay)
qed

theorem running_relay_executes_once_witness:
  "\<exists>tr z. exec_trace (port_step demo_sha (sg_ports demo_serving)) (just_started demo_serving) tr z
     \<and> length (filter (\<lambda>(u, l). runs_at u l = Some ''r1'') tr) = 1"
proof -
  obtain tr z where tr: "exec_trace (port_step demo_sha (sg_ports demo_serving)) (just_started demo_serving) tr z"
    and some: "\<exists>(u, l)\<in>set tr. runs_at u l = Some ''r1''"
    using demo_executed by blast
  have "filter (\<lambda>(u, l). runs_at u l = Some ''r1'') tr \<noteq> []" using some by (auto simp: filter_empty_conv)
  then have "1 \<le> length (filter (\<lambda>(u, l). runs_at u l = Some ''r1'') tr)" by (simp add: Suc_le_eq)
  with running_relay_executes_once [OF demo_serving(1) tr, of "''r1''"] tr show ?thesis by (metis le_antisym)
qed

text \<open>C8. Whatever a message to the MCP port does is a sequence of steps the running relay allows its
  caller's open call: submit a fresh request of the caller's own, set a display command, withdraw a
  request, note an event that is no approval. The tools as written are therefore covered by every
  property of the running relay, with other steps in between or not.\<close>

theorem message_is_port_steps:
  assumes "ctx \<in> set (rn_calls s)" and "rn_relay s = \<lparr>y_handler = h, y_threads = ts\<rparr>" and "shares t h"
    and "st_requests (th_store t) (tw_id w) = None"
    and "t' = snd (snd (handle_message lib schemas decode decode_call w wakes ctx sid raw sv t))"
  shows "\<exists>tr. exec_trace (port_step sha p) s tr (s\<lparr>rn_relay := \<lparr>y_handler = with_tools t' h, y_threads = ts\<rparr>\<rparr>)
     \<and> (\<forall>(u, l)\<in>set tr. \<exists>k. l = McpStep ctx k \<and> agent_label (ctx_client_from ctx) k)
     \<and> shares t' (with_tools t' h)"
proof -
  have lift: "\<exists>tr'. exec_trace (port_step sha p) u tr' (u\<lparr>rn_relay := y'\<rparr>)
      \<and> (\<forall>(v, l)\<in>set tr'. \<exists>k. l = McpStep ctx k \<and> agent_label (ctx_client_from ctx) k)"
    if "exec_trace sys_step y tr y'" "list_all (\<lambda>(v, l). agent_label (ctx_client_from ctx) l) tr"
      "ctx \<in> set (rn_calls u)" "rn_relay u = y" for y tr y' u
    using that
  proof (induction arbitrary: u rule: exec_trace.induct)
    case (stop y)
    then have "u\<lparr>rn_relay := y\<rparr> = u" by simp
    then show ?case by (metis exec_trace.stop empty_iff list.set(1))
  next
    case (next_step y l y1 tr y')
    let ?u = "u\<lparr>rn_relay := y1\<rparr>"
    have "port_step sha p u (McpStep ctx l) ?u"
      by (rule port_step.mcp_step) (use next_step.hyps(1) next_step.prems in auto)
    note first = exec_trace.next_step [where step = "port_step sha p", OF this]
    from next_step.IH [of ?u] next_step.prems obtain tr' where
      "exec_trace (port_step sha p) ?u tr' (u\<lparr>rn_relay := y'\<rparr>)"
      "\<forall>(v, l)\<in>set tr'. \<exists>k. l = McpStep ctx k \<and> agent_label (ctx_client_from ctx) k" by auto
    with first [OF this(1)] next_step.prems(1) show ?case by fastforce
  qed
  from message_trace [OF assms(3-5), of ts] show ?thesis
    using lift [OF _ _ assms(1,2)] unfolding agent_trace_def by blast
qed

theorem message_is_port_steps_witness:
  "\<exists>tr. exec_trace (port_step demo_sha demo_ports)
       \<lparr>rn_relay = \<lparr>y_handler = demo_shared, y_threads = []\<rparr>, rn_clients = demo_clients, rn_calls = [ctx_with_client ''ci'' no_ctx]\<rparr> tr
       \<lparr>rn_relay = \<lparr>y_handler = with_tools demo_after demo_shared, y_threads = []\<rparr>, rn_clients = demo_clients,
        rn_calls = [ctx_with_client ''ci'' no_ctx]\<rparr>
     \<and> st_requests (h_store (with_tools demo_after demo_shared)) ''r1'' \<noteq> None"
proof -
  let ?s = "\<lparr>rn_relay = \<lparr>y_handler = demo_shared, y_threads = []\<rparr>, rn_clients = demo_clients, rn_calls = [ctx_with_client ''ci'' no_ctx]\<rparr>"
  have c: "ctx_with_client ''ci'' no_ctx \<in> set (rn_calls ?s)" and r: "rn_relay ?s = \<lparr>y_handler = demo_shared, y_threads = []\<rparr>"
    by simp_all
  from message_is_port_steps [OF c r demo_shares demo_fresh demo_after_def, of demo_sha demo_ports] demo_after_store(1)
  show ?thesis by (auto simp: with_tools_def)
qed

text \<open>C10. Every stored request carries its submitter's name. At any moment after start-up, the client
  a stored request names is one the MCP port admitted in an earlier call, by a token that stood for
  that client when the call was made; and the only steps that store a request are those of a call
  open on the MCP port, in its caller's name: no request to the web port, nothing the relay does by
  itself and no other call adds one.\<close>

theorem requests_carry_their_submitter:
  assumes "relay_main s = Serving g" and "exec_trace (port_step sha (sg_ports g)) (just_started g) tr z"
  shows "(\<forall>rid r. st_requests (h_store (y_handler (rn_relay z))) rid = Some r \<longrightarrow>
       (\<exists>u now wo header. (u, McpCall now wo header) \<in> set tr \<and> prefix ''Bearer '' header
          \<and> token_holds sha (pt_mcp (sg_ports g)) (rn_clients u) (trim_space (drop 6 header)) (r_client r) False))
     \<and> (\<forall>l z' rid r. port_step sha (sg_ports g) z l z' \<longrightarrow> st_requests (h_store (y_handler (rn_relay z))) rid = None
          \<longrightarrow> st_requests (h_store (y_handler (rn_relay z'))) rid = Some r
          \<longrightarrow> (\<exists>ctx\<in>set (rn_calls z). l = McpStep ctx (Submit r) \<and> r_client r = ctx_client_from ctx))"
proof -
  note start = serving_relay_facts [OF assms(1)]
  have "attributed sha (pt_mcp (sg_ports g)) [] (just_started g)"
    using start(1,3) by (simp add: attributed_def just_started_def initial_def new_store_def)
  from attributed_trace [OF assms(2) this start(6)] port_step_stores show ?thesis
    by (simp add: attributed_def admitted_as_def)
qed

theorem requests_carry_their_submitter_witness:
  "\<exists>tr z u now wo. exec_trace (port_step demo_sha (sg_ports demo_serving)) (just_started demo_serving) tr z
     \<and> st_requests (h_store (y_handler (rn_relay z))) ''r1'' = Some demo_submitted
     \<and> (\<exists>header. (u, McpCall now wo header) \<in> set tr
          \<and> token_holds demo_sha (pt_mcp (sg_ports demo_serving)) (rn_clients u) (trim_space (drop 6 header)) master_client_name False)"
proof -
  obtain u v z where tr: "exec_trace (port_step demo_sha (sg_ports demo_serving)) (just_started demo_serving)
       [(u, McpCall 5 WriteOK ''Bearer auth''), (v, McpStep (ctx_with_client master_client_name no_ctx) (Submit demo_submitted))] z"
    and r: "st_requests (h_store (y_handler (rn_relay z))) ''r1'' = Some demo_submitted"
    using demo_run demo_submitted_stored by auto
  have "r_client demo_submitted = master_client_name" by (simp add: demo_submitted_def)
  with requests_carry_their_submitter [OF demo_serving(1) tr, THEN conjunct1, rule_format, OF r] tr r show ?thesis
    by (metis (no_types))
qed

text \<open>C11. The approver gets through. A POST to a pending request's approve route with the approver's
  token, past the origin check and outside the cooldown, is admitted and starts a thread that reaches
  the execution of exactly the stored request in four steps of its own, in whatever state the rest of
  the relay is; nothing else has to happen.\<close>

theorem approver_gets_through:
  assumes q: "wc_request c = q" "wq_method q = ''POST''" "wq_path q \<noteq> ''/events''" "\<not> mux_redirects q"
      "mux_match register_routes (wq_path q) = Some ToAction"
      "split_on CHR ''/'' (trim_prefix (wq_path q) ''/api/requests/'') = [rid, act]" "act \<in> {''approve'', ''approve-gated''}"
      "csrf_allows (wq_method q) (wq_origin q) (wq_host q) (wq_url_host q)"
    and token: "vf_approver (pt_web p) = Some d" "presents sha d (wq_authorization q)"
    and relay: "rn_relay s = \<lparr>y_handler = h, y_threads = ts\<rparr>" "h_approver_required h"
    and cd: "start_cooldown clk (h_cooldown h) = Inr cd"
    and r0: "st_requests (h_store h) rid = Some r0" "r_status r0 = StatusPending"
  shows "\<exists>tr z r. exec_trace (port_step sha p) s ((s, WebCall now wo w clk c) # tr) z
     \<and> map snd tr = replicate 4 (Inside (Advance (length ts) w clk))
     \<and> AtExecRun r \<in> set (y_threads (rn_relay z)) \<and> core r = core r0
     \<and> r_output_gated r = (r_output_gated r0 \<or> act = ''approve-gated'')"
proof -
  let ?ctx = "ctx_with_approver (ctx_with_client approver_client_name no_ctx)"
  let ?ts = "ts @ [AtCooldown ?ctx approved_by_approver rid (act = ''approve-gated'')]"
  let ?s = "s\<lparr>rn_relay := \<lparr>y_handler = h, y_threads = ?ts\<rparr>\<rparr>"
  have entry: "web_entry (relay_check sha now wo (pt_web p)) q (rn_clients s) = (Inr ?ctx, rn_clients s)"
    using q(2,3,8) auth_middleware_approver [OF token] by (simp add: web_entry_def)
  have label: "web_label w clk ?ctx c = Some (HttpAction ?ctx ''POST'' (wq_path q) (wc_deny_reason c))"
    using q by (simp add: web_label_def Let_def)
  have acts: "act \<noteq> ''content''" "act \<noteq> ''release''" "act \<noteq> ''deny''" using q(7) by auto
  then have "parse_action ?ctx ''POST'' (wq_path q) h
      = Inr (Approve rid (act = ''approve-gated'') approved_by_approver r0)"
    using q(6,7) relay(2) r0 by (auto simp: parse_action_def authorize_decision_def is_approver_def ctx_with_approver_def store_get_def)
  from sys_step.http_accepted [OF this, of ts "wc_deny_reason c"]
  have "sys_step (rn_relay s) (HttpAction ?ctx ''POST'' (wq_path q) (wc_deny_reason c)) \<lparr>y_handler = h, y_threads = ?ts\<rparr>"
    by (simp add: relay(1))
  from port_step.web_served [where p = p and sha = sha and now = now and wo = wo and r' = "rn_clients s", OF _ _ label this] entry q(1,4)
  have first: "port_step sha p s (WebCall now wo w clk c) ?s" by simp
  obtain tr z r where "exec_trace (port_step sha p) ?s tr z" "map snd tr = replicate 4 (Inside (Advance (length ts) w clk))"
    "AtExecRun r \<in> set (y_threads (rn_relay z))" "core r = core r0" "r_output_gated r = (r_output_gated r0 \<or> act = ''approve-gated'')"
    using approval_thread_runs [of ?s h ts ?ctx approved_by_approver rid "act = ''approve-gated''" clk cd r0 sha p w] cd r0 by auto
  with exec_trace.next_step [where step = "port_step sha p", OF first] show ?thesis by blast
qed

definition demo_approval :: web_call where
  "demo_approval = \<lparr>wc_request = \<lparr>wq_method = ''POST'', wq_path = ''/api/requests/r1/approve'',
     wq_authorization = ''Bearer tok'', wq_origin = '''', wq_host = ''relay:8090'', wq_url_host = ''''\<rparr>,
     wc_deny_reason = '''', wc_turbo = (0, 0), wc_whitelist = None, wc_remove = None, wc_channel = 0\<rparr>"

lemma demo_approval_route:
  "\<not> mux_redirects (wc_request demo_approval)"
  "mux_match register_routes (wq_path (wc_request demo_approval)) = Some ToAction"
  by (simp_all add: demo_approval_def mux_redirects_def clean_url_path_def path_clean_def path_elems_def is_rooted_def
      mux_match_def register_routes_def subtree_of_def Let_def)

definition demo_waiting :: running where
  "demo_waiting = \<lparr>rn_relay = \<lparr>y_handler = demo_handler, y_threads = []\<rparr>, rn_clients = demo_clients, rn_calls = []\<rparr>"

theorem approver_gets_through_witness:
  "\<exists>tr z r. exec_trace (port_step demo_sha demo_ports) demo_waiting
       ((demo_waiting, WebCall 5 WriteOK demo_world (\<lambda>n. 9) demo_approval) # tr) z
     \<and> AtExecRun r \<in> set (y_threads (rn_relay z)) \<and> r_command r = ''df''"
proof -
  let ?q = "wc_request demo_approval"
  have q: "wq_method ?q = ''POST''" "wq_path ?q = ''/api/requests/r1/approve''" "wq_origin ?q = ''''"
    "wq_authorization ?q = ''Bearer tok''" by (simp_all add: demo_approval_def)
  have tok: "trim_space (drop 6 ''Bearer tok'') = ''tok''"
    using bearer_token [of "''tok''"] by (simp add: plain_bytes_def)
  have pres: "presents demo_sha (demo_sha ''tok'') (wq_authorization ?q)"
    unfolding q(4) presents_def Let_def tok by simp
  have csrf: "csrf_allows (wq_method ?q) (wq_origin ?q) (wq_host ?q) (wq_url_host ?q)" by (simp add: csrf_allows_def q)
  have v: "vf_approver (pt_web demo_ports) = Some (demo_sha ''tok'')" by (simp add: demo_ports_def with_approver_digest_def)
  have cd: "\<exists>cd. start_cooldown (\<lambda>n. 9) (h_cooldown demo_handler) = Inr cd"
    by (simp add: start_cooldown_def demo_handler_def new_handler_def active_cooldown_def turbo_active_def since_opt_def
        max_int64_def default_approval_cooldown_def second_def Let_def)
  obtain r0 where r0: "st_requests (h_store demo_handler) ''r1'' = Some r0" "r_status r0 = StatusPending" "r_command r0 = ''df''"
    by (simp add: demo_handler_def new_handler_def publish_def pending_request_def)
  have relay: "rn_relay demo_waiting = \<lparr>y_handler = demo_handler, y_threads = []\<rparr>" "h_approver_required demo_handler"
    by (simp_all add: demo_waiting_def demo_handler_def)
  from cd obtain cd where "start_cooldown (\<lambda>n. 9) (h_cooldown demo_handler) = Inr cd" ..
  from approver_gets_through [where act = "''approve''", OF refl q(1) _ demo_approval_route _ _ csrf v pres relay this r0(1,2)]
    demo_action q(2)
  obtain tr z r where "exec_trace (port_step demo_sha demo_ports) demo_waiting
       ((demo_waiting, WebCall 5 WriteOK demo_world (\<lambda>n. 9) demo_approval) # tr) z"
     "AtExecRun r \<in> set (y_threads (rn_relay z))" "core r = core r0" by auto metis
  moreover from this(3) have "r_command r = r_command r0" by (metis core_selectors(1))
  ultimately show ?thesis using r0(3) by metis
qed

text \<open>C40. A plaintext approver token with white space around it is accepted at start-up, and
  locks the gate: the web port trims every token it is sent, so no request is admitted as the
  approver unless another token has the same digest. Only a token that is white space altogether is
  refused.\<close>

theorem padded_approver_token_locks_the_gate:
  assumes "settings approver_token_var block = [tok]" and "settings approver_digest_var block = []"
    and "trim_space tok \<noteq> ''''" and "trim_space tok \<noteq> tok"
  shows "approver_digest_from_env sha block = Inr (Some (sha tok))
    \<and> (vf_approver v = Some (sha tok) \<and> cr_wf r \<and> web_entry (relay_check sha now wo v) q r = (Inr ctx, r') \<and> is_approver ctx
        \<longrightarrow> (\<exists>t. t \<noteq> tok \<and> sha t = sha tok))"
proof -
  have ne: "tok \<noteq> ''''" using assms(3) by auto
  then have "approver_digest_from_env sha block = Inr (Some (sha tok))"
    using assms(1-3) by (simp add: approver_digest_from_env_def read_approver_env_Inr [THEN iffD2] last_or_def usable_def)
  moreover have "\<exists>t. t \<noteq> tok \<and> sha t = sha tok"
    if v: "vf_approver v = Some (sha tok)" and "cr_wf r" "web_entry (relay_check sha now wo v) q r = (Inr ctx, r')" "is_approver ctx"
  proof -
    have "presents sha (sha tok) (wq_authorization q)" using web_entry_approver [OF that(2-4)] v by auto
    then have "sha (trim_space (drop 6 (wq_authorization q))) = sha tok" by (simp add: presents_def Let_def)
    moreover have "trim_space (drop 6 (wq_authorization q)) \<noteq> tok" using assms(4) by (metis trim_space_idem)
    ultimately show ?thesis by blast
  qed
  ultimately show ?thesis by blast
qed

theorem padded_approver_token_locks_the_gate_witness:
  "approver_digest_from_env (\<lambda>x. x) [''MHR_APPROVER_TOKEN= tok''] = Inr (Some '' tok'')
   \<and> \<not> (\<exists>now wo q ctx r'. web_entry (relay_check (\<lambda>x. x) now wo \<lparr>vf_master = None, vf_approver = Some '' tok''\<rparr>) q demo_clients = (Inr ctx, r')
        \<and> is_approver ctx)"
proof -
  have s: "settings approver_token_var [''MHR_APPROVER_TOKEN= tok''] = ['' tok'']"
    "settings approver_digest_var [''MHR_APPROVER_TOKEN= tok''] = []"
    by (simp_all add: settings_def approver_token_var_def approver_digest_var_def)
  have t: "trim_space '' tok'' = ''tok''"
    using trim_space_after_blank [of "''tok''"] by (simp add: plain_bytes_def)
  show ?thesis
    using padded_approver_token_locks_the_gate [OF s, of "\<lambda>x. x" "\<lparr>vf_master = None, vf_approver = Some '' tok''\<rparr>" demo_clients]
      demo_clients_wf t by auto
qed

end
