(* ===== verification/Lifecycle.thy ===== *)
theory Lifecycle
  imports Relay_System
begin

text \<open>
  The life of a request in the interleaved system: the status diagram of store/store.go as a
  relation, the thread that carries a decided request, and what ties the two together. Deny is the
  one operation that ignores the diagram, and the diagram says so.
\<close>

section \<open>The diagram\<close>

inductive status_edge :: "status \<Rightarrow> status \<Rightarrow> bool" where
  approved: "status_edge StatusPending StatusApproved"
| withdrawn: "status_edge StatusPending StatusWithdrawn"
| denied: "status_edge st StatusDenied"
| running: "st = StatusApproved \<or> st = StatusDenied \<Longrightarrow> status_edge st StatusRunning"
| finished: "st = StatusRunning \<or> st = StatusDenied \<Longrightarrow> st' = StatusComplete \<or> st' = StatusError \<Longrightarrow> status_edge st st'"

inductive_simps status_edge_simps [simp]:
  "status_edge StatusPending st" "status_edge StatusApproved st" "status_edge StatusRunning st"
  "status_edge StatusDenied st" "status_edge StatusComplete st" "status_edge StatusError st"
  "status_edge StatusWithdrawn st" "status_edge StatusTimeout st"

text \<open>The stage of the request a thread has in its hands, from its approval to its result.\<close>

fun stage :: "thread \<Rightarrow> (string \<times> status) option" where
  "stage (AtApproved ctx who rid r) = Some (r_id r, StatusApproved)"
| "stage (AtAutoApproved r) = Some (r_id r, StatusApproved)"
| "stage (AtExecStart r) = Some (r_id r, StatusApproved)"
| "stage (AtExecRun r) = Some (r_id r, StatusRunning)"
| "stage (AtExecEnd r res) = Some (r_id r, StatusRunning)"
| "stage _ = None"

definition stages :: "thread list \<Rightarrow> string \<Rightarrow> status list" where
  "stages ts rid = concat (map (\<lambda>t. case stage t of None \<Rightarrow> [] | Some (i, st) \<Rightarrow> if i = rid then [st] else []) ts)"

lemma stages_append [simp]: "stages (a @ b) rid = stages a rid @ stages b rid"
  by (simp add: stages_def)

lemma stages_Nil [simp]: "stages [] rid = []"
  by (simp add: stages_def)

lemma stages_one: "stages [t] rid = (case stage t of None \<Rightarrow> [] | Some (i, st) \<Rightarrow> if i = rid then [st] else [])"
  by (simp add: stages_def)

lemma stages_auto [simp]: "stages (map AtAuto rs) rid = []"
  by (induction rs) (simp_all add: stages_def)

lemma stages_action [simp]: "stages (action_threads ctx reason act) rid = []"
  by (cases act) (simp_all add: stages_def)

lemma stages_member: "stages ts rid = st # sts \<Longrightarrow> \<exists>i < length ts. stage (ts ! i) = Some (rid, st)"
proof (induction ts)
  case (Cons t ts)
  show ?case
  proof (cases "stage t = Some (rid, st)")
    case True
    then show ?thesis by (intro exI [of _ 0]) simp
  next
    case False
    then have "stages ts rid = st # sts"
      using Cons.prems by (auto simp: stages_def split: option.splits if_splits)
    then obtain i where "i < length ts" "stage (ts ! i) = Some (rid, st)" using Cons.IH by blast
    then show ?thesis by (intro exI [of _ "Suc i"]) simp
  qed
qed simp

section \<open>A request and its thread\<close>

text \<open>What a stored request and the threads that carry it may be together.\<close>

definition life_at :: "request option \<Rightarrow> status list \<Rightarrow> bool" where
  "life_at x sts \<longleftrightarrow>
     (case x of
        None \<Rightarrow> sts = []
      | Some r \<Rightarrow>
          (case r_status r of
             StatusApproved \<Rightarrow> sts = [StatusApproved]
           | StatusRunning \<Rightarrow> sts = [StatusRunning]
           | StatusDenied \<Rightarrow> sts = [] \<or> sts = [StatusApproved] \<or> sts = [StatusRunning]
           | StatusTimeout \<Rightarrow> False
           | StatusPending \<Rightarrow> sts = []
           | StatusWithdrawn \<Rightarrow> sts = []
           | StatusComplete \<Rightarrow> sts = [] \<and> r_result r \<noteq> None
           | StatusError \<Rightarrow> sts = [] \<and> r_result r \<noteq> None))"

definition moves :: "request option \<Rightarrow> request option \<Rightarrow> bool" where
  "moves x x' \<longleftrightarrow> (\<forall>r r'. x = Some r \<longrightarrow> x' = Some r' \<longrightarrow> r_status r' = r_status r \<or> status_edge (r_status r) (r_status r'))"

lemma moves_refl [simp]: "moves x x"
  by (simp add: moves_def)

lemma moves_None [simp]: "moves None x" "moves x None"
  by (simp_all add: moves_def)

lemma moves_Some [simp]:
  "moves (Some r) (Some r') \<longleftrightarrow> r_status r' = r_status r \<or> status_edge (r_status r) (r_status r')"
  by (simp add: moves_def)

lemma life_at_None [simp]: "life_at None sts \<longleftrightarrow> sts = []"
  by (simp add: life_at_def)

lemma life_at_same:
  "r_status r' = r_status r \<Longrightarrow> r_result r' = r_result r \<Longrightarrow> life_at (Some r') sts = life_at (Some r) sts"
  by (simp add: life_at_def split: status.split)

lemma one_in_the_middle:
  "a @ x # b = [y] \<longleftrightarrow> a = [] \<and> b = [] \<and> x = y"
  by (cases a) auto

text \<open>A step of the store and of the threads of one request that keeps the diagram.\<close>

definition lives :: "store \<Rightarrow> status list \<Rightarrow> store \<Rightarrow> status list \<Rightarrow> string \<Rightarrow> bool" where
  "lives s sts s' sts' rid \<longleftrightarrow> (life_at (st_requests s rid) sts \<longrightarrow>
     life_at (st_requests s' rid) sts' \<and> moves (st_requests s rid) (st_requests s' rid))"

lemma lives_same: "st_requests s' rid = st_requests s rid \<Longrightarrow> lives s sts s' sts rid"
  by (simp add: lives_def)

lemma lives_release: "lives s sts (snd (release_output k s)) sts rid"
  by (cases "rid = k")
    (auto simp: lives_same store_op_frame lives_def release_output_def life_at_same [of "r\<lparr>r_output_gated := False\<rparr>" r for r]
      split: option.split)

lemma lives_display: "lives s sts (snd (set_display_command k c s)) sts rid"
  by (cases "rid = k")
    (auto simp: lives_same store_op_frame lives_def set_display_command_def life_at_same [of "r\<lparr>r_display_command := c\<rparr>" r for r]
      split: option.split)

lemma lives_withdraw: "lives s sts (snd (withdraw now k reason s)) sts rid"
  by (cases "rid = k")
    (auto simp: lives_same store_op_frame lives_def withdraw_def life_at_def status_edge.withdrawn split: option.split)

lemma lives_deny: "lives s sts (snd (deny now k reason s)) sts rid"
  by (cases "rid = k")
    (auto simp: lives_same store_op_frame lives_def deny_def life_at_def status_edge.denied
      split: option.split status.splits)

lemma lives_running:
  "lives s (a @ (if k = rid then [StatusApproved] else []) @ b) (snd (set_status now k StatusRunning s))
     (a @ (if k = rid then [StatusRunning] else []) @ b) rid"
  by (cases "rid = k")
    (auto simp: lives_same store_op_frame lives_def set_status_def life_at_def one_in_the_middle status_edge.running
      split: option.split status.splits)

lemma lives_finish:
  assumes "st = StatusComplete \<or> st = StatusError"
  shows "lives s (a @ (if k = rid then [StatusRunning] else []) @ b) (snd (set_result k (Some res) st s)) (a @ b) rid"
  using assms
  by (cases "rid = k")
    (auto simp: lives_same store_op_frame lives_def set_result_def Let_def life_at_def one_in_the_middle status_edge.finished
      split: option.split status.splits)

lemma lives_approve:
  assumes "approve now k g s = (x, s')"
  shows "lives s (a @ b) s' (a @ (case x of None \<Rightarrow> [] | Some r \<Rightarrow> if k = rid then [StatusApproved] else []) @ b) rid"
proof (cases "rid = k")
  case True
  then show ?thesis
    using assms
    by (cases "st_requests s k"; cases x)
      (auto simp: lives_def approve_def life_at_def Let_def status_edge.approved split: if_splits status.splits)
next
  case False
  then have "st_requests s' rid = st_requests s rid" using store_op_frame(4) [of rid k now g s] assms by simp
  with False show ?thesis by (simp add: lives_same split: option.split)
qed

section \<open>One critical section\<close>

lemma final_status_cases: "final_status res = StatusComplete \<or> final_status res = StatusError"
  by (simp add: final_status_def)

lemma approval_lives:
  assumes c: "approve_commit now k g h = (x, h1)" and wf: "store_wf (h_store h)"
    and f: "\<And>r. stage (f r) = Some (r_id r, StatusApproved)"
  shows "lives (h_store h) (a @ b) (h_store h1) (a @ stages (map f (option_list x)) rid @ b) rid"
proof -
  have ap: "approve now k g (h_store h) = (x, h_store h1)"
    using approve_commit_fields [OF c] by (simp add: prod_eq_iff)
  show ?thesis
  proof (cases x)
    case None
    with lives_approve [OF ap, of a b rid] show ?thesis by (simp add: option_list_def)
  next
    case (Some r)
    then have "r_id r = k" using approve_commit_Some [OF c [unfolded Some] wf] by blast
    with lives_approve [OF ap, of a b rid] Some show ?thesis by (simp add: option_list_def stages_one f)
  qed
qed

lemma thread_step_approval:
  "thread_step w clk (AtCommit ctx who k g) h
     = (case approve_commit (clk 0) k g h of (x, h1) \<Rightarrow> (h1, map (AtApproved ctx who k) (option_list x)))"
  "thread_step w clk (AtAuto req) h
     = (case approve_commit (clk 0) (r_id req) False h of (x, h1) \<Rightarrow> (h1, map AtAutoApproved (option_list x)))"
  by (auto simp: option_list_def split: prod.split option.split)

lemma thread_step_lives:
  assumes "thread_step w clk t h = (h', new)" and "store_wf (h_store h)"
  shows "lives (h_store h) (a @ stages [t] rid @ b) (h_store h') (a @ stages new rid @ b) rid"
proof (cases t)
  case (AtCooldown ctx who k g)
  with assms show ?thesis
    by (cases "start_cooldown clk (h_cooldown h)") (auto simp: stages_one lives_same)
next
  case (AtCommit ctx who k g)
  with assms approval_lives [of "clk 0" k g h _ _ "AtApproved ctx who k" a b rid] show ?thesis
    by (auto simp: stages_one thread_step_approval simp del: thread_step.simps split: prod.splits)
next
  case (AtAuto req)
  with assms approval_lives [of "clk 0" "r_id req" False h _ _ AtAutoApproved a b rid] show ?thesis
    by (auto simp: stages_one thread_step_approval simp del: thread_step.simps split: prod.splits)
next
  case (AtApproved ctx who k r)
  with assms show ?thesis by (auto simp: stages_one lives_same)
next
  case (AtDeny ctx who reason k r)
  with assms show ?thesis by (auto simp: stages_one intro: lives_deny)
next
  case (AtRelease ctx who k)
  with assms show ?thesis by (auto simp: stages_one intro: lives_release)
next
  case (AtAutoApproved r)
  with assms show ?thesis by (auto simp: stages_one lives_same)
next
  case (AtExecStart r)
  with assms lives_running [of "h_store h" a "r_id r" rid b "clk 0"] show ?thesis by (auto simp: stages_one)
next
  case (AtExecRun r)
  then have "h_store h' = h_store h" "\<exists>res. new = [AtExecEnd r res]"
    using assms(1) execute_body_fields(1) [of w "clk 0" r h] by (auto split: prod.splits simp del: execute_body_fields)
  with AtExecRun show ?thesis by (auto simp: stages_one lives_same)
next
  case (AtExecEnd r res)
  with assms lives_finish [OF final_status_cases [of res], of "h_store h" a "r_id r" rid b res] show ?thesis
    by (auto simp: stages_one)
qed

section \<open>Every step of the relay\<close>

abbreviation requests_of :: "relay \<Rightarrow> string \<Rightarrow> request option" where
  "requests_of y \<equiv> st_requests (h_store (y_handler y))"

lemma watch_requests:
  "watch_take sha h = (found, h') \<Longrightarrow> st_requests (h_store h') = st_requests (h_store h)"
  "st_requests (h_store (watch_updates_turn h)) = st_requests (h_store h)"
  by (auto simp: watch_take_def watch_updates_turn_def Let_def split: list.splits option.splits prod.splits if_splits)

lemma split_at: "i < length ts \<Longrightarrow> stages ts rid = stages (take i ts) rid @ stages [ts ! i] rid @ stages (drop (Suc i) ts) rid"
  by (metis append_Cons append_Nil id_take_nth_drop stages_append)

lemma lives_submit:
  "st_requests s (r_id r) = None \<Longrightarrow> new_request r \<Longrightarrow> lives s sts (publish r s) sts rid"
  by (auto simp: lives_def publish_def life_at_def new_request_def)

lemma sys_step_lives:
  "sys_step y l y' \<Longrightarrow> sys_inv y \<Longrightarrow>
     lives (h_store (y_handler y)) (stages (y_threads y) rid) (h_store (y_handler y')) (stages (y_threads y') rid) rid"
proof (induction rule: sys_step.induct)
  case (advance i ts w clk h h' new)
  then have "store_wf (h_store h)" by (simp add: sys_inv_def)
  from thread_step_lives [OF advance.hyps(2) this, of "stages (take i ts) rid" rid "stages (drop (Suc i) ts) rid"]
  show ?case by (simp add: split_at [OF advance.hyps(1), of rid])
qed (auto simp: lives_same lives_submit lives_withdraw lives_display watch_requests)

definition life_inv :: "relay \<Rightarrow> bool" where
  "life_inv y \<longleftrightarrow> sys_inv y \<and> (\<forall>rid. life_at (requests_of y rid) (stages (y_threads y) rid))"

lemma life_inv_initial: "initial y \<Longrightarrow> life_inv y"
  using sys_inv_initial by (auto simp: life_inv_def initial_def new_store_def)

lemma life_inv_step: "life_inv y \<Longrightarrow> sys_step y l y' \<Longrightarrow> life_inv y'"
  using sys_step_lives sys_inv_step by (fastforce simp: life_inv_def lives_def)

lemma life_inv_trace: "exec_trace sys_step y tr z \<Longrightarrow> life_inv y \<Longrightarrow> life_inv z"
  by (erule exec_trace_invariant) (auto intro: life_inv_step)

lemma life_moves: "life_inv y \<Longrightarrow> sys_step y l y' \<Longrightarrow> moves (requests_of y rid) (requests_of y' rid)"
  using sys_step_lives [of y l y' rid] by (auto simp: life_inv_def lives_def)

section \<open>The work an approval leaves to do\<close>

fun steps_left :: "thread \<Rightarrow> nat" where
  "steps_left (AtApproved ctx who rid r) = 4"
| "steps_left (AtAutoApproved r) = 4"
| "steps_left (AtExecStart r) = 3"
| "steps_left (AtExecRun r) = 2"
| "steps_left (AtExecEnd r res) = 1"
| "steps_left _ = 0"

definition carries :: "thread \<Rightarrow> string \<Rightarrow> bool" where
  "carries t rid \<longleftrightarrow> (\<exists>st. stage t = Some (rid, st))"

definition work :: "thread list \<Rightarrow> string \<Rightarrow> nat" where
  "work ts rid = sum_list (map steps_left (filter (\<lambda>t. carries t rid) ts))"

lemma work_append [simp]: "work (a @ b) rid = work a rid + work b rid"
  by (simp add: work_def)

lemma work_Nil [simp]: "work [] rid = 0"
  by (simp add: work_def)

lemma work_Cons: "work (t # ts) rid = (if carries t rid then steps_left t else 0) + work ts rid"
  by (simp add: work_def)

lemma work_new [simp]: "work (map AtAuto rs) rid = 0" "work (action_threads ctx reason act) rid = 0"
  by (induction rs; cases act; simp add: work_Cons carries_def)+

lemma steps_left_pos: "carries t rid \<Longrightarrow> 0 < steps_left t \<and> steps_left t \<le> 4"
  by (cases t) (auto simp: carries_def)

lemma work_stages: "work ts rid = 0 \<longleftrightarrow> stages ts rid = []"
proof (induction ts)
  case (Cons t ts)
  then show ?case
    using steps_left_pos [of t rid] by (auto simp: work_Cons carries_def stages_def split: option.splits)
qed simp

lemma thread_step_work:
  assumes "thread_step w clk t h = (h', new)" and "store_wf (h_store h)" and "closed (h_store h) rid"
  shows "work [t] rid = work new rid + (if carries t rid then 1 else 0)"
proof (cases t)
  case (AtCooldown ctx who k g)
  with assms show ?thesis
    by (cases "start_cooldown clk (h_cooldown h)") (auto simp: work_Cons carries_def)
next
  case (AtCommit ctx who k g)
  with assms approve_commit_Some [of "clk 0" k g h _ h'] show ?thesis
    by (auto simp: work_Cons carries_def split: prod.splits option.splits)
next
  case (AtAuto req)
  with assms approve_commit_Some [of "clk 0" "r_id req" False h _ h'] show ?thesis
    by (auto simp: work_Cons carries_def split: prod.splits option.splits)
next
  case (AtExecRun r)
  with assms show ?thesis by (auto simp: work_Cons carries_def split: prod.splits)
qed (use assms in \<open>auto simp: work_Cons carries_def\<close>)

section \<open>Results\<close>

definition has_result :: "store \<Rightarrow> string \<Rightarrow> bool" where
  "has_result s rid \<longleftrightarrow> (\<exists>r. st_requests s rid = Some r \<and> r_result r \<noteq> None)"

lemma has_result_ops:
  "has_result s rid \<Longrightarrow> has_result (snd (set_status now k st s)) rid"
  "has_result s rid \<Longrightarrow> has_result (snd (deny now k reason s)) rid"
  "has_result s rid \<Longrightarrow> has_result (snd (approve now k g s)) rid"
  "has_result s rid \<Longrightarrow> has_result (snd (withdraw now k reason s)) rid"
  "has_result s rid \<Longrightarrow> has_result (snd (release_output k s)) rid"
  "has_result s rid \<Longrightarrow> has_result (snd (set_display_command k c s)) rid"
  "has_result s rid \<Longrightarrow> has_result (snd (set_result k (Some res) st s)) rid"
  "st_requests s (r_id r) = None \<Longrightarrow> has_result s rid \<Longrightarrow> has_result (publish r s) rid"
  by (auto simp: has_result_def store_op_defs publish_def Let_def split: option.split)

lemma has_result_set: "st_requests s rid \<noteq> None \<Longrightarrow> has_result (snd (set_result rid (Some res) st s)) rid"
  by (auto simp: has_result_def set_result_def Let_def)

lemma has_result_same: "st_requests s' = st_requests s \<Longrightarrow> has_result s rid \<Longrightarrow> has_result s' rid"
  by (simp add: has_result_def)

lemma thread_step_has_result:
  assumes "thread_step w clk t h = (h', new)" and "has_result (h_store h) rid"
  shows "has_result (h_store h') rid"
proof (cases t)
  case (AtCommit ctx who k g)
  with assms show ?thesis
    by (auto simp: has_result_ops split: prod.splits option.splits dest!: approve_commit_fields)
next
  case (AtAuto req)
  with assms show ?thesis
    by (auto simp: has_result_ops split: prod.splits option.splits dest!: approve_commit_fields)
next
  case (AtExecRun r)
  with assms execute_body_fields(1) [of w "clk 0" r h] show ?thesis
    by (auto split: prod.splits simp del: execute_body_fields)
qed (use assms in \<open>auto simp: has_result_ops split: sum.splits\<close>)

lemma thread_step_last:
  assumes "thread_step w clk t h = (h', new)" and "thread_ok h t" and "carries t rid" and "work new rid = 0"
  shows "has_result (h_store h') rid"
proof (cases t)
  case (AtExecEnd r res)
  with assms show ?thesis by (auto simp: carries_def decided_copy_def has_result_set)
qed (use assms in \<open>auto simp: carries_def work_Cons split: prod.splits\<close>)

section \<open>Finishing\<close>

definition works_on :: "string \<Rightarrow> relay \<Rightarrow> label \<Rightarrow> bool" where
  "works_on rid y l \<longleftrightarrow>
     (case l of Advance i w clk \<Rightarrow> i < length (y_threads y) \<and> carries (y_threads y ! i) rid | _ \<Rightarrow> False)"

text \<open>A request whose approval took effect: from then on it is under way or has its result.\<close>

definition under_way :: "string \<Rightarrow> relay \<Rightarrow> bool" where
  "under_way rid y \<longleftrightarrow> life_inv y \<and> closed (h_store (y_handler y)) rid
     \<and> (\<forall>r. requests_of y rid = Some r \<longrightarrow> r_status r \<noteq> StatusWithdrawn)
     \<and> (0 < work (y_threads y) rid \<or> has_result (h_store (y_handler y)) rid)"

lemma work_replace:
  "i < length ts \<Longrightarrow> work (take i ts @ new @ drop (Suc i) ts) rid + work [ts ! i] rid = work ts rid + work new rid"
  using arg_cong [OF id_take_nth_drop [of i ts], of "\<lambda>ts. work ts rid"] by (simp add: work_Cons)

lemma sys_step_work:
  "sys_step y l y' \<Longrightarrow> sys_inv y \<Longrightarrow> closed (h_store (y_handler y)) rid \<Longrightarrow>
     work (y_threads y) rid = work (y_threads y') rid + (if works_on rid y l then 1 else 0)"
proof (induction rule: sys_step.induct)
  case (advance i ts w clk h h' new)
  then have "work [ts ! i] rid = work new rid + (if carries (ts ! i) rid then 1 else 0)"
    by (intro thread_step_work) (auto simp: sys_inv_def)
  with work_replace [OF advance.hyps(1), of new rid] advance.hyps(1) show ?case by (simp add: works_on_def)
qed (simp_all add: works_on_def)

lemma sys_step_has_result:
  "sys_step y l y' \<Longrightarrow> sys_inv y \<Longrightarrow>
     has_result (h_store (y_handler y)) rid \<or> 0 < work (y_threads y) rid \<and> work (y_threads y') rid = 0 \<Longrightarrow>
     has_result (h_store (y_handler y')) rid"
proof (induction rule: sys_step.induct)
  case (advance i ts w clk h h' new)
  have wf: "store_wf (h_store h)" and ok: "thread_ok h (ts ! i)"
    using advance.prems(1) advance.hyps(1) by (auto simp: sys_inv_def)
  show ?case
  proof (cases "has_result (h_store h) rid")
    case True
    with thread_step_has_result [OF advance.hyps(2)] show ?thesis by simp
  next
    case False
    with advance.prems(2) work_replace [OF advance.hyps(1), of new rid]
    have "work new rid = 0" "0 < work [ts ! i] rid" by auto
    with thread_step_last [OF advance.hyps(2) ok] show ?thesis by (auto simp: work_Cons split: if_splits)
  qed
next
  case (watch sha h found h' ts)
  with watch_requests(1) [OF watch.hyps] show ?case by (auto simp: has_result_def)
qed (auto simp: has_result_ops intro: has_result_same [OF watch_requests(2)])

lemma under_way_step:
  assumes "sys_step y l y'" and "under_way rid y"
  shows "under_way rid y'"
proof -
  have life: "life_inv y" and cl: "closed (h_store (y_handler y)) rid" and inv: "sys_inv y"
    using assms(2) by (auto simp: under_way_def life_inv_def)
  have cl': "closed (h_store (y_handler y')) rid"
    using sys_step_evolves [OF assms(1)] cl by (simp add: store_evolves_def)
  have "r_status r' \<noteq> StatusWithdrawn" if "requests_of y' rid = Some r'" for r'
    using life_moves [OF life assms(1), of rid] cl that assms(2)
    by (auto simp: under_way_def closed_def elim: status_edge.cases)
  moreover have "0 < work (y_threads y') rid \<or> has_result (h_store (y_handler y')) rid"
  proof -
    have "0 < work (y_threads y) rid \<or> has_result (h_store (y_handler y)) rid"
      using assms(2) by (simp add: under_way_def)
    with sys_step_has_result [OF assms(1) inv, of rid] show ?thesis by (cases "work (y_threads y') rid") auto
  qed
  ultimately show ?thesis using life_inv_step [OF life assms(1)] cl' by (simp add: under_way_def)
qed

lemma under_way_trace:
  "exec_trace sys_step y tr z \<Longrightarrow> under_way rid y \<Longrightarrow>
     under_way rid z \<and> length (filter (\<lambda>(u, l). works_on rid u l) tr) + work (y_threads z) rid = work (y_threads y) rid"
proof (induction rule: exec_trace.induct)
  case (next_step s l s' tr t)
  have "sys_inv s" "closed (h_store (y_handler s)) rid"
    using next_step.prems by (simp_all add: under_way_def life_inv_def)
  from sys_step_work [OF next_step.hyps(1) this]
  have "work (y_threads s) rid = work (y_threads s') rid + (if works_on rid s l then 1 else 0)" .
  with next_step.IH [OF under_way_step [OF next_step.hyps(1) next_step.prems]] show ?case by simp
qed simp

lemma one_stage_work: "stages ts rid = [st] \<Longrightarrow> 0 < work ts rid \<and> work ts rid \<le> 4"
proof (induction ts)
  case (Cons t ts)
  show ?case
  proof (cases "carries t rid")
    case True
    with Cons.prems have "stages ts rid = []" by (auto simp: carries_def stages_def)
    with True steps_left_pos [OF True] show ?thesis by (simp add: work_Cons work_stages [symmetric])
  next
    case False
    with Cons.prems have "stages ts rid = [st]" by (auto simp: carries_def stages_def split: option.splits if_splits)
    with False Cons.IH show ?thesis by (simp add: work_Cons)
  qed
qed simp

lemma work_enabled:
  assumes "0 < work (y_threads y) rid"
  shows "\<exists>i. \<forall>w clk. works_on rid y (Advance i w clk) \<and> (\<exists>y'. sys_step y (Advance i w clk) y')"
proof -
  have "\<exists>t\<in>set (y_threads y). carries t rid"
    using assms by (induction "y_threads y" arbitrary: y)
      (metis list.set_intros work_Nil less_irrefl, metis filter_empty_conv list.simps(8) sum_list.Nil work_def less_irrefl)
  then obtain i where i: "i < length (y_threads y)" "carries (y_threads y ! i) rid" by (metis in_set_conv_nth)
  obtain h ts where y: "y = \<lparr>y_handler = h, y_threads = ts\<rparr>" by (cases y) auto
  have "\<exists>y'. sys_step y (Advance i w clk) y'" for w clk
    using sys_step.advance [of i ts w clk h] i(1) by (cases "thread_step w clk (ts ! i) h") (auto simp: y)
  with i show ?thesis by (auto simp: works_on_def)
qed

lemma approval_under_way:
  assumes "life_inv y" and "requests_of y rid = Some r" and "r_status r = StatusApproved \<or> r_status r = StatusRunning"
  shows "under_way rid y \<and> work (y_threads y) rid \<le> 4"
proof -
  have "life_at (Some r) (stages (y_threads y) rid)" using assms(1,2) by (auto simp: life_inv_def dest: spec [of _ rid])
  then have "stages (y_threads y) rid = [r_status r]" using assms(3) by (auto simp: life_at_def)
  from one_stage_work [OF this] assms show ?thesis by (auto simp: under_way_def closed_def)
qed

lemma nothing_left:
  assumes "under_way rid y" and "work (y_threads y) rid = 0"
  shows "\<exists>r. requests_of y rid = Some r \<and> r_result r \<noteq> None
     \<and> (r_status r = StatusComplete \<or> r_status r = StatusError \<or> r_status r = StatusDenied)"
proof -
  obtain r where r: "requests_of y rid = Some r" "r_result r \<noteq> None"
    using assms by (auto simp: under_way_def has_result_def)
  then have "life_at (Some r) []" using assms by (auto simp: under_way_def life_inv_def work_stages dest: spec [of _ rid])
  with r assms(1) show ?thesis
    by (cases "r_status r") (auto simp: life_at_def under_way_def closed_def)
qed

section \<open>Properties\<close>

text \<open>The execution of section "A concrete execution", up to the end of its thread.\<close>

definition demo_finished :: relay where
  "demo_finished = advance_sys 0 (advance_sys 0 demo_running)"

lemma demo_running_request:
  "\<exists>r. requests_of demo_running ''r1'' = Some r \<and> r_status r = StatusRunning"
  using demo_denied_state(3,4) by (auto simp: demo_running_def advance_sys_def set_status_def)

lemma demo_finished_run:
  "y_threads demo_finished = []"
  "exec_trace sys_step demo_running [(demo_running, demo_label 0), (advance_sys 0 demo_running, demo_label 0)] demo_finished"
proof -
  obtain r where r: "y_threads demo_running = [AtExecRun r]" using demo_running_state by blast
  obtain res where a: "y_threads (advance_sys 0 demo_running) = [AtExecEnd r res]"
    by (cases "execute_body demo_world 9 r (y_handler demo_running)") (simp add: advance_sys_def r)
  then show "y_threads demo_finished = []" by (simp add: demo_finished_def advance_sys_def)
  show "exec_trace sys_step demo_running [(demo_running, demo_label 0), (advance_sys 0 demo_running, demo_label 0)] demo_finished"
    using demo_running_runs(2) advance_sys_step [of 0 "advance_sys 0 demo_running"] a
    by (auto intro!: exec_trace.intros simp: demo_finished_def)
qed

lemma demo_to_running: "\<exists>tr. exec_trace sys_step demo_relay tr demo_running"
  using demo_to_denied exec_trace_append [OF _ demo_denied_to_running] by blast

text \<open>C5. The status diagram, under every interleaving: no stored request is ever timed out, one
  that is approved or running is carried by exactly one goroutine and that goroutine is at that very
  stage, one that is complete or failed has its result and nobody works on it, and each step of the
  relay leaves the status or moves it along an edge of the diagram.\<close>

theorem request_lifecycle:
  assumes "initial y" and "exec_trace sys_step y tr z" and "requests_of z rid = Some r"
  shows "r_status r \<noteq> StatusTimeout
       \<and> (r_status r = StatusApproved \<or> r_status r = StatusRunning \<longrightarrow> stages (y_threads z) rid = [r_status r])
       \<and> (r_status r = StatusComplete \<or> r_status r = StatusError \<longrightarrow> stages (y_threads z) rid = [] \<and> r_result r \<noteq> None)
       \<and> (\<forall>l z' r'. sys_step z l z' \<longrightarrow> requests_of z' rid = Some r' \<longrightarrow>
            r_status r' = r_status r \<or> status_edge (r_status r) (r_status r'))"
proof -
  have inv: "life_inv z" by (rule life_inv_trace [OF assms(2) life_inv_initial [OF assms(1)]])
  then have "life_at (Some r) (stages (y_threads z) rid)"
    using assms(3) by (auto simp: life_inv_def dest: spec [of _ rid])
  moreover have "r_status r' = r_status r \<or> status_edge (r_status r) (r_status r')"
    if "sys_step z l z'" and "requests_of z' rid = Some r'" for l z' r'
    using life_moves [OF inv that(1), of rid] assms(3) that(2) by simp
  ultimately show ?thesis by (auto simp: life_at_def)
qed

theorem request_lifecycle_witness:
  "\<exists>r. requests_of demo_running ''r1'' = Some r \<and> stages (y_threads demo_running) ''r1'' = [StatusRunning]"
proof -
  obtain tr r where "exec_trace sys_step demo_relay tr demo_running"
    and "requests_of demo_running ''r1'' = Some r" and "r_status r = StatusRunning"
    using demo_to_running demo_running_request by blast
  with request_lifecycle [OF demo_relay_initial this(1,2)] show ?thesis by auto
qed

text \<open>C6. What was approved finishes: from an approved or running request on, at most four steps of
  the relay work on it, whatever else happens in between, denials included; and at every moment
  either the goroutine that carries it can take its next step, whatever the world answers and the
  clock reads, or the request has its result.\<close>

theorem approved_request_finishes:
  assumes "initial y" and "exec_trace sys_step y tr z" and "requests_of z rid = Some r"
    and "r_status r = StatusApproved \<or> r_status r = StatusRunning" and "exec_trace sys_step z tr' z'"
  shows "length (filter (\<lambda>(u, l). works_on rid u l) tr') \<le> 4
       \<and> ((\<exists>i. \<forall>w clk. works_on rid z' (Advance i w clk) \<and> (\<exists>z''. sys_step z' (Advance i w clk) z''))
          \<or> (\<exists>r'. requests_of z' rid = Some r' \<and> r_result r' \<noteq> None
               \<and> (r_status r' = StatusComplete \<or> r_status r' = StatusError \<or> r_status r' = StatusDenied)))"
proof -
  have "life_inv z" by (rule life_inv_trace [OF assms(2) life_inv_initial [OF assms(1)]])
  note way = approval_under_way [OF this assms(3,4)]
  note left = under_way_trace [OF assms(5) conjunct1 [OF way]]
  show ?thesis
  proof (cases "work (y_threads z') rid = 0")
    case True
    with left way nothing_left [of rid z'] show ?thesis by auto
  next
    case False
    with left way work_enabled [of z' rid] show ?thesis by auto
  qed
qed

theorem approved_request_finishes_witness:
  "\<exists>r. requests_of demo_finished ''r1'' = Some r \<and> r_result r \<noteq> None"
proof -
  obtain tr r where "exec_trace sys_step demo_relay tr demo_running"
    and "requests_of demo_running ''r1'' = Some r" and "r_status r = StatusRunning"
    using demo_to_running demo_running_request by blast
  from approved_request_finishes [OF demo_relay_initial this(1,2) _ demo_finished_run(2)] this(3)
  show ?thesis by (auto simp: works_on_def demo_finished_run(1))
qed

section \<open>A denial that comes too late\<close>







end
