(* ===== verification/Spec2Isabelle.thy ===== *)
theory Spec2Isabelle
  imports Tool_Writes Tool_Schemas Port_Safety Lifecycle
begin

text \<open>
  Human Relay, a Go program, stands between AI agents and the machines they may not touch. An agent
  submits a request (a command, an HTTP call, a script, a file, a registry change) on the MCP port;
  a person approves or denies it on the web port; only then does the relay run it, and the agent reads
  the result. The theories model the whole server, from the first line of main to the commands it
  runs, and prove what that arrangement promises.

  \<^bold>\<open>The parts and how they meet.\<close> One process holds one request store, one audit log, two host
  registries, a whitelist and a registry of client tokens. Two listeners share them: the MCP port
  (JSON-RPC over an event stream, bearer token of a client or the shared token) and the web port
  (dashboard, request list, decisions, event stream; decisions need the approver token when one is
  configured). Two background loops watch the store: one approves what the whitelist holds, the other
  tells the dashboards. An approval starts an execution, which hands the request to the executor for
  its type and puts the result back. Everything goes on concurrently, under mutexes.

  \<^bold>\<open>Theories and sources.\<close> In dependency order; names in the theories are those of the code, in
  snake case.

  \<^item> Relay_Prelude, Go_Strings, Go_Base64, Go_Lib: no file of the program but what of Go and its
    library all files use. 64-bit integers on \<open>int\<close> with the wrap-around written out (\<open>wrap64\<close>,
    \<open>sat64\<close>, \<open>since_opt\<close>), strings as byte lists with the parts of strings, strconv and utf8 in use,
    buffered channels, maps as association lists in iteration order, sort.SliceStable, base64, JSON
    values and the record \<open>golib\<close> of library functions taken as arguments.
  \<^item> Decide_Once: executions of a labelled step relation and the contract "granted at most once"
    (locale \<open>decide_once\<close>), which the store, the interleaved system and the running relay provide.
  \<^item> Request_Store: store/store.go. \<open>request\<close>, \<open>result\<close>, \<open>store\<close> are its structs; Add, AddHTTP,
    AddHTTPForm, AddScript, AddScriptTyped, AddRegistryOp, AddWithStdin, Get, List, Approve, Deny,
    Withdraw, SetStatus, SetResult, ReleaseOutput and RedactGatedOutput are state transformers.
  \<^item> Registry: the contract of the three JSON-backed registries (locales \<open>registry\<close>,
    \<open>mutable_registry\<close>, \<open>persistent_registry\<close>) and the disk they persist to. Containers
    (containers/store.go), Machines (machines/store.go) and Auth interpret it.
  \<^item> Whitelist (whitelist/whitelist.go), Audit_Log (audit/audit.go).
  \<^item> Auth (auth/clients.go): client tokens, verifier, request context.
  \<^item> Executor, Http_Exec, Pipeline, Script: executor/executor.go, http.go, pipeline.go, script.go.
    What a process, the network or the disk does is an argument (\<open>os_env\<close>, \<open>fs_outcome\<close>); the calls
    made outside are part of the result, as values of \<open>call\<close>.
  \<^item> Registry_Ops, Web_Handler: web/handler.go. \<open>handler\<close> is the struct Handler with the state behind
    its pointers; each handler function is one definition, and each of its critical sections one too.
    Web_Safety proves what one undisturbed call does.
  \<^item> Relay_System: the same handler as threads that advance one critical section at a time (\<open>sys_step\<close>).
    Lifecycle: the status diagram of a request in that system, the work an approval leaves to do, and
    what a denial that comes too late does not undo.
  \<^item> Machine_Shell (mcp/machine_shell.go), Tool_Args, Tool_Commands, Tool_Files, Tools (mcp/tools.go),
    Submit_Wait (mcp/submit_wait.go), Mcp_Server (mcp/server.go, mcp/types.go), Tool_Schemas
    (ToolDefinitions): the MCP port. Tool_Outcome states the contract of all submitting tools
    (locale \<open>submitting_tools\<close>), Agent_System places the port's messages in the interleaved system,
    Tool_Safety, Tool_Writes and Mcp_Streams hold its properties.
  \<^item> Approver_Env (approver_env.go, reexec_unix.go, the helpers of main.go), Middleware
    (web/middleware.go, web/csp.go, with the verifier's contract as locale \<open>role_verifier\<close>), Startup
    (main of main.go, reexec_other.go), Relay_Ports (the two listeners of main.go and RegisterRoutes,
    as the step relation \<open>port_step\<close> over raw requests) and Port_Safety.

  \<^bold>\<open>State and time.\<close> Operations take the state and return it changed. A function that reads the clock
  takes its readings (\<open>clock\<close>, one per reading); drawn identifiers, random bytes, the outcome of a
  write and whatever else comes from outside are arguments, so a property holds for all of them.
  Errors are \<open>option\<close> or a sum with the error on the left. Timestamps and durations are nanoseconds.

  \<^bold>\<open>What is shown.\<close> Every property stands under its number in the theory named in brackets.

  \<^item> Of the running relay, from the start of main, over every interleaving (Relay_Ports, Port_Safety,
    Startup): each request is executed at most once and is backed by an approval in the audit log;
    without the approver's token nothing is approved by hand and only what the whitelist held at the
    start ever runs; every request carries the name its submitter's token stood for; the approver, in
    turn, gets through. Main builds the initial state these properties start from, keeps the credentials
    on their ports and the plaintext token out of every environment. A message to the MCP port is a
    sequence of agent steps of this relay.
  \<^item> Of the interleaved system (Relay_System, Lifecycle): what runs is what was submitted, a withdrawn
    request never runs, a denied one may; a request keeps to its status diagram and, once approved,
    has its result after at most four steps of its goroutine.
  \<^item> Of the web port (Web_Safety, Middleware, Auth, Approver_Env): who is admitted, what approvals and
    executions do on every branch, the spacing of approvals, the redaction of the list, the whitelist
    keys, the scrubbing of the environment.
  \<^item> Of the MCP port (Tool_Safety, Tool_Writes, Agent_System, Mcp_Streams, Tool_Schemas): a refused call
    changes nothing and an accepted one files exactly one pending request; the command lines are read by
    the far shell as they were meant, and a write reaches the machine, container or host it names with
    the content and path it names, streamed writes included; gated output never reaches an agent; held calls end; answers stay in
    their session; the schemas are what the handlers keep and the advertised names those dispatched.
  \<^item> Of the executors (Executor, Http_Exec, Pipeline, Script): what is started is what was approved,
    within the allowed directories, and the relay's own token does not leave with an HTTP request.
  \<^item> Beside them stand theorems about defects the model shows; the manifest's findings name them.

  \<^bold>\<open>Bounds and fuel.\<close> Recursion is structural or has a measure, with one device: a call that waits
  (\<open>get_result_loop\<close>, \<open>await_loop\<close>) consumes the list of its wake-ups and is \<open>None\<close> when the list ends
  before the call does. That is a call still held, not a failure, and the wake-ups are enough once the
  timer is among them (\<open>held_call_ends\<close>); the timer is never set beyond \<open>max_submit_wait\<close>
  (\<open>wait_bounded\<close>). A run of the relay is any finite trace. Channel buffers (100 for the store and a
  session, 50 for a dashboard), the captured output, the audit entry's 10 KiB, the display command's
  length, the scanner's mebibyte and the 30 minutes of a turbocharge are those of the code.

  \<^bold>\<open>Taken as arguments.\<close> SHA-256, \<^verbatim>\<open>%q\<close> and float formatting, time formatting, JSON text syntax
  (\<open>golib\<close>; no law is assumed of them except, where a theorem says so, the length of a digest), the
  operating system's processes, the network, ssh and what runs on the far side. http.ServeMux is modelled
  for the patterns in use and paths without percent escapes.

  \<^bold>\<open>Granularity.\<close> A mutex is the atomicity of a critical section, and a thread may be interrupted
  between any two steps of the model. Some steps merge neighbours: the status change, the audit entry
  and the broadcast with which an execution starts are one step (\<open>execute_begin\<close>), as are those with
  which it ends; what the process or the network does between them is one step. A message to the MCP
  port and its answer meet the same session table (\<open>handle_message\<close>); when the session closes during
  the call, \<open>message_answer\<close> is to be read on the smaller table. The environment a child process
  inherits is the relay's own, which the start-up theorems describe; it is not an argument of a process
  of \<open>os_env\<close>. The cap on waits binds the submitting calls; get_result takes its own timeout as given.

  \<^bold>\<open>Not modelled.\<close> The HTML templates and the dashboard's script; log output; formatting of error
  texts where only their kind matters to a caller; the bytes of an HTTP response beyond code, the headers
  listed and the body; graceful closing of files (main never returns); TLS, HTTP parsing and timeouts of
  net/http; integration/helpers.go, which starts the built binary for tests; file modes and symbolic
  links of the scripts directory. The poll interval of a held call has no counterpart in a model of
  wake-ups.
\<close>

end
